(* ===== verification/DmsPrelude.thy ===== *)
theory DmsPrelude
  imports Main "HOL-Library.Word" "HOL-Library.List_Lexorder" "HOL-Library.Char_ord"
    "HOL-Library.Option_ord"
begin

text \<open>
  Shared vocabulary of the development: the collections of rewrite rules the component
  proofs use, the names of the machine types, the remote objects the services exchange,
  generic lemmas, and the locale \<open>machine\<close> from which every component takes
  "an invariant of all operations holds in every reachable state".
\<close>

section \<open>Collections\<close>

named_theorems err_defs \<open>definitions of the numeric error codes\<close>
named_theorems op_defs \<open>definitions of the operations of the current component\<close>

section \<open>Machine types and remote objects\<close>

type_synonym int32 = "32 word"
type_synonym uint32 = "32 word"
type_synonym int64 = "64 word"
type_synonym u16string = "16 word list"

text \<open>
  A remote object (\<^verbatim>\<open>IRemoteObject\<close>) is known by its identity only. \<open>Proxy\<close> objects
  arrive through IPC, \<open>Local\<close> objects are created by the service itself (the wrapper
  stubs it hands to the ability manager). A \<^verbatim>\<open>sptr<IRemoteObject>\<close> is an optional
  object, \<open>None\<close> being \<^verbatim>\<open>nullptr\<close>.
\<close>

datatype robj = Proxy nat | Local nat

type_synonym ptr = "robj option"

abbreviation nullptr :: ptr where
  "nullptr \<equiv> None"

instantiation robj :: linorder
begin

definition less_eq_robj :: "robj \<Rightarrow> robj \<Rightarrow> bool" where
  "less_eq_robj a b =
     (case a of
        Proxy m \<Rightarrow> (case b of Proxy n \<Rightarrow> m \<le> n | Local n \<Rightarrow> True)
      | Local m \<Rightarrow> (case b of Proxy n \<Rightarrow> False | Local n \<Rightarrow> m \<le> n))"

definition less_robj :: "robj \<Rightarrow> robj \<Rightarrow> bool" where
  "less_robj a b = (a \<le> b \<and> \<not> b \<le> a)"

instance
  by standard (auto simp: less_eq_robj_def less_robj_def split: robj.splits)

end

section \<open>Generic lemmas\<close>

lemma filter_neq_idem [simp]: "filter (\<lambda>x. x \<noteq> a) (filter (\<lambda>x. x \<noteq> a) xs) = filter (\<lambda>x. x \<noteq> a) xs"
  by (induction xs) auto

lemma filter_neq_absent: "a \<notin> set xs \<Longrightarrow> filter (\<lambda>x. x \<noteq> a) xs = xs"
  by (induction xs) auto

lemma sint_less_32: "sint (w :: 32 word) < 2147483648"
  using sint_lt [of w] by simp

lemma sint_ge_32: "- 2147483648 \<le> sint (w :: 32 word)"
  using sint_ge [of w] by simp

lemma sint_succ_32:
  fixes w :: "32 word"
  assumes "sint w < 2147483647"
  shows "sint (w + 1) = sint w + 1"
proof -
  have "sint (w + 1) = (sint w + 1 + 2 ^ 31) mod 2 ^ 32 - 2 ^ 31"
    by (simp add: sint_word_ariths signed_take_bit_eq_take_bit_shift take_bit_eq_mod)
  moreover have "0 \<le> sint w + 1 + 2 ^ 31" using sint_ge_32 [of w] by simp
  moreover have "sint w + 1 + 2 ^ 31 < 2 ^ 32" using assms by simp
  ultimately show ?thesis by (simp add: mod_pos_pos_trivial)
qed

section \<open>Components as machines\<close>

text \<open>
  Every stateful component is presented as a step function over its requests (each
  request handler being one atomic step). \<open>run\<close> executes a sequence of requests.
\<close>

definition run :: "('s \<Rightarrow> 'e \<Rightarrow> 's) \<Rightarrow> 's \<Rightarrow> 'e list \<Rightarrow> 's" where
  "run step s es = foldl step s es"

lemma run_Nil [simp]: "run step s [] = s"
  by (simp add: run_def)

lemma run_Cons [simp]: "run step s (e # es) = run step (step s e) es"
  by (simp add: run_def)

lemma run_append [simp]: "run step s (es @ fs) = run step (run step s es) fs"
  by (simp add: run_def)

text \<open>Machines whose invariant relies on what the environment may send.\<close>

locale guarded_machine =
  fixes step :: "'s \<Rightarrow> 'e \<Rightarrow> 's"
    and inv :: "'s \<Rightarrow> bool"
    and allowed :: "'e \<Rightarrow> bool"
  assumes inv_allowed: "inv s \<Longrightarrow> allowed e \<Longrightarrow> inv (step s e)"
begin

lemma run_allowed_inv: "inv s \<Longrightarrow> list_all allowed es \<Longrightarrow> inv (run step s es)"
  by (induction es arbitrary: s) (auto intro: inv_allowed)

end

locale machine =
  fixes step :: "'s \<Rightarrow> 'e \<Rightarrow> 's"
    and init :: "'s \<Rightarrow> bool"
    and inv :: "'s \<Rightarrow> bool"
  assumes inv_init: "init s \<Longrightarrow> inv s"
    and inv_step: "inv s \<Longrightarrow> inv (step s e)"
begin

lemma run_inv: "inv s \<Longrightarrow> inv (run step s es)"
  by (induction es arbitrary: s) (auto intro: inv_step)

lemma reachable_inv: "init s \<Longrightarrow> inv (run step s es)"
  by (rule run_inv) (rule inv_init)

lemma run_invariant_of:
  assumes "\<And>s e. inv s \<Longrightarrow> P s \<Longrightarrow> P (step s e)" and "inv s" and "P s"
  shows "P (run step s es)"
  using assms(2,3) by (induction es arbitrary: s) (auto intro: assms(1) inv_step)

end

sublocale machine \<subseteq> guarded_machine step inv "\<lambda>e. True"
  by unfold_locales (rule inv_step)

end
