(* ===== verification/StdString.thy ===== *)
theory StdString
  imports DmsPrelude
begin

text \<open>
  The parts of \<^verbatim>\<open>std::string\<close> the services use: decimal printing (\<^verbatim>\<open>std::to_string\<close>),
  decimal parsing (\<^verbatim>\<open>std::stoi\<close>, which throws), search and splitting, and the ASCII
  literals of type \<^verbatim>\<open>std::u16string\<close>.
\<close>

section \<open>Decimal numbers\<close>

fun nat_to_string :: "nat \<Rightarrow> string" where
  "nat_to_string n =
     (if n < 10 then [char_of (48 + n)]
      else nat_to_string (n div 10) @ [char_of (48 + n mod 10)])"

declare nat_to_string.simps [simp del]

definition int_to_string :: "int \<Rightarrow> string" where
  "int_to_string i =
     (if i < 0 then CHR ''-'' # nat_to_string (nat (- i)) else nat_to_string (nat i))"

definition is_digit :: "char \<Rightarrow> bool" where
  "is_digit c = (48 \<le> (of_char c :: nat) \<and> (of_char c :: nat) \<le> 57)"

definition digit_val :: "char \<Rightarrow> nat" where
  "digit_val c = of_char c - 48"

definition digits_val :: "string \<Rightarrow> nat" where
  "digits_val ds = foldl (\<lambda>a c. 10 * a + digit_val c) 0 ds"

definition is_space :: "char \<Rightarrow> bool" where
  "is_space c = (c = CHR 0x20 \<or> (9 \<le> (of_char c :: nat) \<and> (of_char c :: nat) \<le> 13))"

text \<open>
  \<^verbatim>\<open>std::stoi\<close>: leading white space, an optional sign, then at least one digit; what
  follows the digits is ignored. \<open>None\<close> is the exception (no digits, or not an
  \<^verbatim>\<open>int\<close>).
\<close>

definition stoi :: "string \<Rightarrow> int option" where
  "stoi s =
     (let t = dropWhile is_space s;
          neg = (t \<noteq> [] \<and> hd t = CHR ''-'');
          u = (if t \<noteq> [] \<and> (hd t = CHR ''-'' \<or> hd t = CHR ''+'') then tl t else t);
          ds = takeWhile is_digit u;
          v = (if neg then - int (digits_val ds) else int (digits_val ds))
      in if ds = [] then None
         else if v < - (2 ^ 31) \<or> 2 ^ 31 \<le> v then None
         else Some v)"

lemma of_char_digit: "n < 10 \<Longrightarrow> (of_char (char_of (48 + n :: nat)) :: nat) = 48 + n"
  by (simp add: of_char_mod_256)

lemma is_digit_digit [simp]: "n < 10 \<Longrightarrow> is_digit (char_of (48 + n :: nat))"
  by (simp add: is_digit_def of_char_digit)

lemma digit_val_digit [simp]: "n < 10 \<Longrightarrow> digit_val (char_of (48 + n :: nat)) = n"
  by (simp add: digit_val_def of_char_digit)

lemma nat_to_string_digits: "c \<in> set (nat_to_string n) \<Longrightarrow> is_digit c"
proof (induction n rule: nat_to_string.induct)
  case (1 n)
  then show ?case by (subst (asm) nat_to_string.simps) (auto split: if_splits)
qed

lemma nat_to_string_nonempty [simp]: "nat_to_string n \<noteq> []"
  by (subst nat_to_string.simps) simp

lemma digits_val_snoc [simp]: "digits_val (ds @ [c]) = 10 * digits_val ds + digit_val c"
  by (simp add: digits_val_def)

lemma digits_val_to_string [simp]: "digits_val (nat_to_string n) = n"
proof (induction n rule: nat_to_string.induct)
  case (1 n)
  show ?case
  proof (cases "n < 10")
    case True
    then show ?thesis by (subst nat_to_string.simps) (simp add: digits_val_def)
  next
    case False
    with 1 show ?thesis by (subst nat_to_string.simps) simp
  qed
qed

lemma nat_to_string_inj [simp]: "nat_to_string m = nat_to_string n \<longleftrightarrow> m = n"
  by (metis digits_val_to_string)

lemma is_digit_not: "is_digit c \<Longrightarrow> c \<noteq> CHR ''-'' \<and> c \<noteq> CHR ''+'' \<and> c \<noteq> CHR ''_'' \<and> \<not> is_space c"
  by (auto simp: is_digit_def is_space_def)

lemma hd_nat_to_string: "is_digit (hd (nat_to_string n))"
  by (rule nat_to_string_digits [of _ n]) simp

lemma dropWhile_nat_to_string [simp]: "dropWhile is_space (nat_to_string n) = nat_to_string n"
proof (cases "nat_to_string n")
  case (Cons c cs)
  then have "is_digit c" using hd_nat_to_string [of n] by simp
  then show ?thesis using Cons is_digit_not by simp
qed simp

lemma takeWhile_nat_to_string [simp]: "takeWhile is_digit (nat_to_string n) = nat_to_string n"
  by (rule takeWhile_eq_all_conv [THEN iffD2]) (auto dest: nat_to_string_digits)

lemma hd_nat_to_string_sign [simp]:
  "hd (nat_to_string n) \<noteq> CHR ''-''" "hd (nat_to_string n) \<noteq> CHR ''+''"
  using hd_nat_to_string [of n] is_digit_not by blast+

lemma stoi_nat: "n < 2 ^ 31 \<Longrightarrow> stoi (nat_to_string n) = Some (int n)"
  by (simp add: stoi_def Let_def)

lemma minus_not_space [simp]: "\<not> is_space CHR ''-''"
  by (simp add: is_space_def)

lemma stoi_to_string:
  assumes "- (2 ^ 31) \<le> i" "i < 2 ^ 31"
  shows "stoi (int_to_string i) = Some i"
proof (cases "i < 0")
  case True
  with assms have "nat (- i) \<le> 2147483648" by simp
  with True show ?thesis by (simp add: int_to_string_def stoi_def Let_def)
next
  case False
  with assms show ?thesis by (simp add: int_to_string_def stoi_nat)
qed

lemma int_to_string_inj [simp]: "int_to_string i = int_to_string j \<longleftrightarrow> i = j"
proof
  assume eq: "int_to_string i = int_to_string j"
  have neq: "CHR ''-'' # ds \<noteq> nat_to_string n" for ds n
    by (metis hd_nat_to_string_sign(1) list.sel(1))
  show "i = j"
    using eq neq neq [symmetric] by (auto simp: int_to_string_def split: if_splits)
qed simp

lemma int_to_string_chars: "c \<in> set (int_to_string i) \<Longrightarrow> c = CHR ''-'' \<or> is_digit c"
  by (auto simp: int_to_string_def dest: nat_to_string_digits split: if_splits)

lemma int_to_string_nonempty [simp]: "int_to_string i \<noteq> []"
  by (simp add: int_to_string_def)

section \<open>Search\<close>

text \<open>\<open>s.find(c)\<close> for a character: the position, or \<open>None\<close> for \<^verbatim>\<open>npos\<close>.\<close>

fun find_char :: "char \<Rightarrow> string \<Rightarrow> nat option" where
  "find_char c [] = None"
| "find_char c (d # s) = (if d = c then Some 0 else map_option Suc (find_char c s))"

fun is_prefix_of :: "string \<Rightarrow> string \<Rightarrow> bool" where
  "is_prefix_of [] s = True"
| "is_prefix_of (c # p) [] = False"
| "is_prefix_of (c # p) (d # s) = (c = d \<and> is_prefix_of p s)"

text \<open>\<open>s.find(p) != npos\<close>.\<close>

fun contains_sub :: "string \<Rightarrow> string \<Rightarrow> bool" where
  "contains_sub p [] = (p = [])"
| "contains_sub p (d # s) = (is_prefix_of p (d # s) \<or> contains_sub p s)"

lemma find_char_append_absent:
  "c \<notin> set a \<Longrightarrow> find_char c (a @ c # b) = Some (length a)"
  by (induction a) auto

lemma find_char_None [simp]: "find_char c s = None \<longleftrightarrow> c \<notin> set s"
  by (induction s) auto

lemma is_prefix_of_append [simp]: "is_prefix_of p (p @ s)"
  by (induction p) auto

lemma contains_sub_prefix: "is_prefix_of p s \<Longrightarrow> contains_sub p s"
  by (cases s; cases p) auto

lemma contains_sub_append: "contains_sub p (a @ p @ b)"
  by (induction a) (auto intro: contains_sub_prefix)

section \<open>UTF-16 literals\<close>

definition u16 :: "string \<Rightarrow> u16string" where
  "u16 s = map (\<lambda>c. of_nat (of_char c)) s"

lemma of_char_bound: "(of_char c :: nat) < 256"
  by simp

lemma u16_inverse: "map (\<lambda>u. char_of (unat u)) (u16 t) = t"
proof (induction t)
  case (Cons c t)
  have "of_char c mod 65536 = (of_char c :: nat)"
    using of_char_bound [of c] by (intro mod_less) linarith
  then have "unat (of_nat (of_char c) :: 16 word) = of_char c"
    by (simp add: unat_of_nat)
  with Cons show ?case by (simp add: u16_def)
qed (simp add: u16_def)

end
