(* ===== verification/Parcel.thy ===== *)
theory Parcel
  imports StdString
begin

text \<open>
  Messages. The IPC library's \<^verbatim>\<open>MessageParcel\<close> is not part of this repository: a message is
  represented by the sequence of typed values its writer handed to the library, in order,
  and reading takes them from the front. Its byte encoding is not modelled. Whether the
  library accepts a write is a parameter (\<open>parcel_writer\<close>), and so are the string
  conversions of the utils library. A read that finds another value than it asks for, or
  none, fails, as the library's checked reads do; an unchecked read then yields 0 or the
  empty string.

  The \<^verbatim>\<open>PARCEL_WRITE_HELPER\<close> macros of \<^verbatim>\<open>services/base/include/parcel_helper.h\<close> write one
  value and leave the function when the write fails; a run of them is \<open>write_all\<close>.
\<close>

section \<open>Values and writing\<close>

datatype pval =
    PInt32 int
  | PUint32 nat
  | PInt64 int
  | PUint64 nat
  | PBool bool
  | PString string
  | PStrings "string list"
  | PString16 u16string
  | PString16s "u16string list"
  | PObject robj
  | PToken u16string
  | PNested "pval list"
  | PNull
  | PInt32s "int list"
  | PBytes "8 word list"
  | PFloat "32 word"

type_synonym parcel = "pval list"

type_synonym parcel_writer = "parcel \<Rightarrow> pval \<Rightarrow> bool"

fun write_all :: "parcel_writer \<Rightarrow> pval list \<Rightarrow> parcel \<Rightarrow> parcel option" where
  "write_all ok [] p = Some p"
| "write_all ok (v # vs) p = (if ok p v then write_all ok vs (p @ [v]) else None)"

text \<open>Writes whose results the code ignores: a refused value is missing in the message.\<close>

fun write_ignore :: "parcel_writer \<Rightarrow> pval list \<Rightarrow> parcel \<Rightarrow> parcel" where
  "write_ignore ok [] p = p"
| "write_ignore ok (v # vs) p = write_ignore ok vs (if ok p v then p @ [v] else p)"

lemma write_all_Some: "write_all ok vs p = Some q \<Longrightarrow> q = p @ vs"
  by (induction vs arbitrary: p) (fastforce split: if_splits)+

lemma write_all_ok [simp]: "(\<And>p v. ok p v) \<Longrightarrow> write_all ok vs p = Some (p @ vs)"
  by (induction vs arbitrary: p) auto

lemma write_ignore_ok [simp]: "(\<And>p v. ok p v) \<Longrightarrow> write_ignore ok vs p = p @ vs"
  by (induction vs arbitrary: p) auto

lemma write_all_append:
  "write_all ok (vs @ ws) p = Option.bind (write_all ok vs p) (write_all ok ws)"
  by (induction vs arbitrary: p) auto

section \<open>Reading\<close>

fun read_int32 :: "parcel \<Rightarrow> (int \<times> parcel) option" where
  "read_int32 (PInt32 i # p) = Some (i, p)"
| "read_int32 _ = None"

fun read_uint32 :: "parcel \<Rightarrow> (nat \<times> parcel) option" where
  "read_uint32 (PUint32 n # p) = Some (n, p)"
| "read_uint32 _ = None"

fun read_int64 :: "parcel \<Rightarrow> (int \<times> parcel) option" where
  "read_int64 (PInt64 i # p) = Some (i, p)"
| "read_int64 _ = None"

fun read_int32s :: "parcel \<Rightarrow> (int list \<times> parcel) option" where
  "read_int32s (PInt32s is # p) = Some (is, p)"
| "read_int32s _ = None"

fun read_bytes :: "parcel \<Rightarrow> (8 word list \<times> parcel) option" where
  "read_bytes (PBytes bs # p) = Some (bs, p)"
| "read_bytes _ = None"

fun read_float :: "parcel \<Rightarrow> (32 word \<times> parcel) option" where
  "read_float (PFloat f # p) = Some (f, p)"
| "read_float _ = None"

fun read_bool :: "parcel \<Rightarrow> (bool \<times> parcel) option" where
  "read_bool (PBool b # p) = Some (b, p)"
| "read_bool _ = None"

fun read_string :: "parcel \<Rightarrow> (string \<times> parcel) option" where
  "read_string (PString s # p) = Some (s, p)"
| "read_string _ = None"

fun read_strings :: "parcel \<Rightarrow> (string list \<times> parcel) option" where
  "read_strings (PStrings s # p) = Some (s, p)"
| "read_strings _ = None"

fun read_string16 :: "parcel \<Rightarrow> (u16string \<times> parcel) option" where
  "read_string16 (PString16 s # p) = Some (s, p)"
| "read_string16 _ = None"

fun read_string16s :: "parcel \<Rightarrow> (u16string list \<times> parcel) option" where
  "read_string16s (PString16s s # p) = Some (s, p)"
| "read_string16s _ = None"

fun read_object :: "parcel \<Rightarrow> (robj \<times> parcel) option" where
  "read_object (PObject x # p) = Some (x, p)"
| "read_object _ = None"

fun read_token :: "parcel \<Rightarrow> (u16string \<times> parcel) option" where
  "read_token (PToken t # p) = Some (t, p)"
| "read_token _ = None"

fun read_nested :: "parcel \<Rightarrow> (parcel \<times> parcel) option" where
  "read_nested (PNested q # p) = Some (q, p)"
| "read_nested _ = None"

text \<open>
  \<open>ReadParcelable\<close> and \<open>ReadRemoteObject\<close> yield a null pointer when there is no object,
  when a null one was written, and when the object does not unmarshal (\<open>u\<close>).
\<close>

fun write_parcelable :: "('a \<Rightarrow> parcel) \<Rightarrow> 'a option \<Rightarrow> pval" where
  "write_parcelable m None = PNull"
| "write_parcelable m (Some x) = PNested (m x)"

fun read_parcelable :: "(parcel \<Rightarrow> 'a option) \<Rightarrow> parcel \<Rightarrow> 'a option \<times> parcel" where
  "read_parcelable u (PNested q # p) = (u q, p)"
| "read_parcelable u (PNull # p) = (None, p)"
| "read_parcelable u p = (None, p)"

fun read_remote :: "parcel \<Rightarrow> ptr \<times> parcel" where
  "read_remote (PObject x # p) = (Some x, p)"
| "read_remote (PNull # p) = (None, p)"
| "read_remote p = (None, p)"

fun write_remote :: "ptr \<Rightarrow> pval" where
  "write_remote None = PNull"
| "write_remote (Some x) = PObject x"

lemma read_parcelable_write [simp]:
  "(\<And>x. u (m x) = Some x) \<Longrightarrow> read_parcelable u (write_parcelable m y # p) = (y, p)"
  by (cases y) simp_all

lemma read_remote_write [simp]: "read_remote (write_remote x # p) = (x, p)"
  by (cases x) simp_all

text \<open>An unchecked read: the default value when there is nothing to read.\<close>

definition read_or :: "'a \<Rightarrow> (parcel \<Rightarrow> ('a \<times> parcel) option) \<Rightarrow> parcel \<Rightarrow> 'a \<times> parcel" where
  "read_or d r p = (case r p of Some x \<Rightarrow> x | None \<Rightarrow> (d, p))"

text \<open>\<open>VALUE_NULL\<close> and \<open>VALUE_OBJECT\<close>, which announce an optional value.\<close>

definition VALUE_NULL :: int where "VALUE_NULL = - 1"

definition VALUE_OBJECT :: int where "VALUE_OBJECT = 1"

end
