(* ===== verification/ContinuationData.thy ===== *)
theory ContinuationData
  imports Parcel "HOL-Library.Monad_Syntax"
begin

text \<open>
  The values the continuation manager exchanges with applications
  (\<^verbatim>\<open>dtbabilitymgr/src/continuationManager/\<close>: \<^verbatim>\<open>continuation_result.cpp\<close>,
  \<^verbatim>\<open>continuation_extra_params.cpp\<close>, \<^verbatim>\<open>connect_status_info.cpp\<close>) with their marshalling and
  unmarshalling, and the round trips. \<open>to16\<close> and \<open>to8\<close> are the string conversions
  \<^verbatim>\<open>Str8ToStr16\<close> and \<^verbatim>\<open>Str16ToStr8\<close> of the utils library.
\<close>

section \<open>Data\<close>

record ConnectStatusInfo =
  status_deviceId :: string
  status_connectStatus :: int

record ContinuationResult =
  res_deviceId :: string
  res_deviceType :: string
  res_deviceName :: string

record ContinuationExtraParams =
  extra_deviceTypeVec :: "string list"
  extra_targetBundle :: string
  extra_description :: string
  extra_filter :: string
  extra_continuationMode :: int
  extra_authInfo :: string

definition COLLABORATION_SINGLE :: int where "COLLABORATION_SINGLE = 0"
definition COLLABORATION_MUTIPLE :: int where "COLLABORATION_MUTIPLE = 1"

definition IDLE :: int where "IDLE = 0"
definition CONNECTING :: int where "CONNECTING = 1"
definition CONNECTED :: int where "CONNECTED = 2"
definition DISCONNECTING :: int where "DISCONNECTING = 3"

section \<open>Continuation results\<close>

definition result_Marshalling ::
  "parcel_writer \<Rightarrow> (string \<Rightarrow> u16string) \<Rightarrow> ContinuationResult \<Rightarrow> parcel \<Rightarrow> parcel" where
  "result_Marshalling ok to16 r p =
     write_ignore ok [PString16 (to16 (res_deviceId r)), PString16 (to16 (res_deviceType r)),
       PString16 (to16 (res_deviceName r))] p"

definition result_ReadFromParcel ::
  "(u16string \<Rightarrow> string) \<Rightarrow> parcel \<Rightarrow> ContinuationResult" where
  "result_ReadFromParcel to8 p =
     (let (i, p1) = read_or [] read_string16 p;
          (t, p2) = read_or [] read_string16 p1;
          (n, p3) = read_or [] read_string16 p2
      in \<lparr>res_deviceId = to8 i, res_deviceType = to8 t, res_deviceName = to8 n\<rparr>)"

fun write_results ::
  "parcel_writer \<Rightarrow> (string \<Rightarrow> u16string) \<Rightarrow> ContinuationResult list \<Rightarrow> parcel \<Rightarrow> parcel option" where
  "write_results ok to16 [] p = Some p"
| "write_results ok to16 (r # rs) p =
     do { p' \<leftarrow> write_all ok [PNested (result_Marshalling ok to16 r [])] p;
          write_results ok to16 rs p' }"

definition WriteContinuationResultsToParcel ::
  "parcel_writer \<Rightarrow> (string \<Rightarrow> u16string) \<Rightarrow> ContinuationResult list \<Rightarrow> parcel \<Rightarrow> parcel option" where
  "WriteContinuationResultsToParcel ok to16 rs p =
     (let size = length rs
      in if size = 0 then write_all ok [PInt32 VALUE_NULL] p
         else do { p1 \<leftarrow> write_all ok [PInt32 VALUE_OBJECT, PInt32 (sint (of_nat size :: int32))] p;
                   write_results ok to16 rs p1 })"

fun read_results ::
  "(u16string \<Rightarrow> string) \<Rightarrow> nat \<Rightarrow> parcel \<Rightarrow> (ContinuationResult list \<times> parcel) option" where
  "read_results to8 0 p = Some ([], p)"
| "read_results to8 (Suc n) p =
     do { (q, p') \<leftarrow> read_nested p;
          (rs, p'') \<leftarrow> read_results to8 n p';
          Some (result_ReadFromParcel to8 q # rs, p'') }"

text \<open>
  \<open>readable\<close> is \<^verbatim>\<open>GetReadableBytes\<close> of the library, the bytes still unread; the length
  is read unchecked.
\<close>

definition ReadContinuationResultsFromParcel ::
  "(u16string \<Rightarrow> string) \<Rightarrow> (parcel \<Rightarrow> nat) \<Rightarrow> parcel \<Rightarrow> (ContinuationResult list \<times> parcel) option" where
  "ReadContinuationResultsFromParcel to8 readable p =
     (let (empty, p1) = read_or 0 read_int32 p
      in if empty = VALUE_OBJECT then
           (let (len, p2) = read_or 0 read_int32 p1
            in if len < 0 then None
               else if readable p2 < nat len then None
               else read_results to8 (nat len) p2)
         else Some ([], p1))"

section \<open>Extra parameters\<close>

definition Str8VecToStr16Vec :: "(string \<Rightarrow> u16string) \<Rightarrow> string list \<Rightarrow> u16string list" where
  "Str8VecToStr16Vec to16 ss = map to16 ss"

definition Str16VecToStr8Vec :: "(u16string \<Rightarrow> string) \<Rightarrow> u16string list \<Rightarrow> string list" where
  "Str16VecToStr8Vec to8 ss = map to8 ss"

definition extra_Marshalling ::
  "parcel_writer \<Rightarrow> (string \<Rightarrow> u16string) \<Rightarrow> ContinuationExtraParams \<Rightarrow> parcel \<Rightarrow> parcel" where
  "extra_Marshalling ok to16 x p =
     write_ignore ok [PString16s (Str8VecToStr16Vec to16 (extra_deviceTypeVec x)),
       PString16 (to16 (extra_targetBundle x)), PString16 (to16 (extra_description x)),
       PString16 (to16 (extra_filter x)), PInt32 (extra_continuationMode x),
       PString16 (to16 (extra_authInfo x))] p"

definition extra_ReadFromParcel ::
  "(u16string \<Rightarrow> string) \<Rightarrow> parcel \<Rightarrow> ContinuationExtraParams option" where
  "extra_ReadFromParcel to8 p =
     (case read_string16s p of
        None \<Rightarrow> None
      | Some (types, p1) \<Rightarrow>
          (let (bundle, p2) = read_or [] read_string16 p1;
               (descr, p3) = read_or [] read_string16 p2;
               (flt, p4) = read_or [] read_string16 p3;
               (mode, p5) = read_or 0 read_int32 p4;
               (auth, p6) = read_or [] read_string16 p5
           in Some \<lparr>extra_deviceTypeVec = Str16VecToStr8Vec to8 types, extra_targetBundle = to8 bundle,
                extra_description = to8 descr, extra_filter = to8 flt, extra_continuationMode = mode,
                extra_authInfo = to8 auth\<rparr>))"

section \<open>Round trips\<close>

named_theorems data_defs

lemmas data_def_bundle [data_defs] = result_Marshalling_def result_ReadFromParcel_def
  Str8VecToStr16Vec_def Str16VecToStr8Vec_def extra_Marshalling_def extra_ReadFromParcel_def
  VALUE_NULL_def VALUE_OBJECT_def read_or_def

lemma result_roundtrip:
  assumes "\<And>p v. ok p v" and "\<And>s. to8 (to16 s) = s"
  shows "result_ReadFromParcel to8 (result_Marshalling ok to16 r []) = r"
  using assms by (simp add: data_defs del: write_ignore.simps)

lemma extra_roundtrip:
  assumes "\<And>p v. ok p v" and "\<And>s. to8 (to16 s) = s"
  shows "extra_ReadFromParcel to8 (extra_Marshalling ok to16 x []) = Some x"
  using assms by (simp add: data_defs comp_def del: write_ignore.simps)

lemma write_results_ok:
  assumes "\<And>p v. ok p v"
  shows "write_results ok to16 rs p = Some (p @ map (\<lambda>r. PNested (result_Marshalling ok to16 r [])) rs)"
  using assms by (induction rs arbitrary: p) auto

lemma read_results_ok:
  assumes "\<And>p v. ok p v" and "\<And>s. to8 (to16 s) = s"
  shows "read_results to8 (length rs)
    (map (\<lambda>r. PNested (result_Marshalling ok to16 r [])) rs @ p) = Some (rs, p)"
  using assms by (induction rs) (auto simp: result_roundtrip)

lemma sint_of_nat_32: "n < 2147483648 \<Longrightarrow> sint (of_nat n :: int32) = int n"
  by (simp add: signed_of_nat signed_take_bit_int_eq_self)

end
