(* ===== verification/StdMap.thy ===== *)
theory StdMap
  imports DmsPrelude
begin

text \<open>
  The associative containers of the C++ standard library as the services use them. A
  \<^verbatim>\<open>std::map\<close> is the list of its entries in key order, which is the order a range-for
  over it visits; a \<^verbatim>\<open>std::set\<close> is the list of its elements in order. The locale
  \<open>keyed_store\<close> is the contract the components rely on; it is interpreted on the model.
\<close>

section \<open>The contract\<close>

locale keyed_store =
  fixes find :: "'k \<Rightarrow> 'm \<Rightarrow> 'v option"
    and put :: "'k \<Rightarrow> 'v \<Rightarrow> 'm \<Rightarrow> 'm"
    and erase :: "'k \<Rightarrow> 'm \<Rightarrow> 'm"
    and invar :: "'m \<Rightarrow> bool"
  assumes find_put: "find k' (put k v m) = (if k' = k then Some v else find k' m)"
    and find_erase: "find k' (erase k m) = (if k' = k then None else find k' m)"
    and invar_put: "invar m \<Longrightarrow> invar (put k v m)"
    and invar_erase: "invar m \<Longrightarrow> invar (erase k m)"
begin

definition emplace :: "'k \<Rightarrow> 'v \<Rightarrow> 'm \<Rightarrow> 'm" where
  "emplace k v m = (case find k m of None \<Rightarrow> put k v m | Some _ \<Rightarrow> m)"

definition keys :: "'m \<Rightarrow> 'k set" where
  "keys m = {k. find k m \<noteq> None}"

lemma find_emplace:
  "find k' (emplace k v m) = (if k' = k \<and> find k m = None then Some v else find k' m)"
  by (auto simp: emplace_def find_put split: option.splits)

lemma invar_emplace: "invar m \<Longrightarrow> invar (emplace k v m)"
  by (auto simp: emplace_def invar_put split: option.splits)

lemma keys_put: "keys (put k v m) = insert k (keys m)"
  by (auto simp: keys_def find_put split: if_splits)

lemma keys_erase: "keys (erase k m) = keys m - {k}"
  by (auto simp: keys_def find_erase split: if_splits)

lemma keys_emplace: "keys (emplace k v m) = insert k (keys m)"
  by (auto simp: keys_def find_emplace split: if_splits)

lemma put_then_erase_find: "find k (erase k (put k v m)) = None"
  by (simp add: find_erase)

end

section \<open>Ordered maps\<close>

type_synonym ('k, 'v) stdmap = "('k \<times> 'v) list"

definition map_find :: "'k \<Rightarrow> ('k, 'v) stdmap \<Rightarrow> 'v option" where
  "map_find k m = map_of m k"

definition map_erase :: "'k \<Rightarrow> ('k, 'v) stdmap \<Rightarrow> ('k, 'v) stdmap" where
  "map_erase k m = filter (\<lambda>(k', v). k' \<noteq> k) m"

text \<open>\<open>m[k] = v\<close>: overwrite, or insert at the key's place in the order.\<close>

fun map_put :: "'k::linorder \<Rightarrow> 'v \<Rightarrow> ('k, 'v) stdmap \<Rightarrow> ('k, 'v) stdmap" where
  "map_put k v [] = [(k, v)]"
| "map_put k v ((k', v') # m) =
     (if k < k' then (k, v) # map_erase k ((k', v') # m)
      else if k = k' then (k, v) # map_erase k m
      else (k', v') # map_put k v m)"

text \<open>\<open>m.emplace(k, v)\<close>: insert unless the key is present.\<close>

definition map_emplace :: "'k::linorder \<Rightarrow> 'v \<Rightarrow> ('k, 'v) stdmap \<Rightarrow> ('k, 'v) stdmap" where
  "map_emplace k v m = (case map_find k m of None \<Rightarrow> map_put k v m | Some _ \<Rightarrow> m)"

definition map_keys :: "('k, 'v) stdmap \<Rightarrow> 'k set" where
  "map_keys m = fst ` set m"

definition map_ok :: "('k::linorder, 'v) stdmap \<Rightarrow> bool" where
  "map_ok m = sorted_wrt (<) (map fst m)"

lemma map_find_Nil [simp]: "map_find k [] = None"
  by (simp add: map_find_def)

lemma map_find_Cons [simp]:
  "map_find k ((k', v) # m) = (if k = k' then Some v else map_find k m)"
  by (simp add: map_find_def)

lemma map_erase_Nil [simp]: "map_erase k [] = []"
  by (simp add: map_erase_def)

lemma map_erase_Cons [simp]:
  "map_erase k ((k', v) # m) = (if k' = k then map_erase k m else (k', v) # map_erase k m)"
  by (simp add: map_erase_def)

lemma map_find_erase [simp]:
  "map_find k' (map_erase k m) = (if k' = k then None else map_find k' m)"
  by (induction m) auto

lemma map_find_put [simp]:
  "map_find k' (map_put k v m) = (if k' = k then Some v else map_find k' m)"
  by (induction m) auto

lemma set_map_erase [simp]: "set (map_erase k m) = {e \<in> set m. fst e \<noteq> k}"
  by (auto simp: map_erase_def)

lemma set_map_put [simp]: "set (map_put k v m) = insert (k, v) {e \<in> set m. fst e \<noteq> k}"
  by (induction m) (auto split: if_splits)

lemma map_put_nonempty [simp]: "map_put k v m \<noteq> []"
  by (cases m) (auto split: if_splits)

lemma map_ok_Nil [simp]: "map_ok []"
  by (simp add: map_ok_def)

lemma map_ok_Cons:
  "map_ok ((k, v) # m) = ((\<forall>k' \<in> map_keys m. k < k') \<and> map_ok m)"
  by (auto simp: map_ok_def map_keys_def)

lemma map_ok_Cons_absent:
  "map_ok ((k, v) # m) = (k \<notin> map_keys m \<and> (\<forall>k' \<in> map_keys m. k < k') \<and> map_ok m)"
  by (auto simp: map_ok_Cons)

lemma map_keys_simps [simp]:
  "map_keys [] = {}" "map_keys ((k, v) # m) = insert k (map_keys m)"
  by (auto simp: map_keys_def)

lemma map_keys_erase [simp]: "map_keys (map_erase k m) = map_keys m - {k}"
  by (force simp: map_keys_def map_erase_def)

lemma map_keys_put [simp]: "map_keys (map_put k v m) = insert k (map_keys m)"
  by (induction m) (auto split: if_splits)

lemma map_ok_erase [simp]: "map_ok m \<Longrightarrow> map_ok (map_erase k m)"
  by (induction m) (auto simp: map_ok_Cons)

lemma map_ok_put [simp]: "map_ok m \<Longrightarrow> map_ok (map_put k v m)"
proof (induction m)
  case (Cons e m)
  obtain k0 v0 where e: "e = (k0, v0)" by (cases e)
  from Cons e have "map_ok m" "map_ok (map_put k v m)" "\<forall>k' \<in> map_keys m. k0 < k'"
    by (auto simp: map_ok_Cons)
  note facts = this
  show ?case
  proof (cases k k0 rule: linorder_cases)
    case less
    with facts have "\<forall>k' \<in> map_keys m. k < k'" by (meson less_trans)
    with less facts show ?thesis by (simp add: e map_ok_Cons)
  next
    case equal
    with facts show ?thesis by (simp add: e map_ok_Cons)
  next
    case greater
    with facts show ?thesis by (auto simp: e map_ok_Cons)
  qed
qed (simp add: map_ok_Cons)

lemma map_find_None_iff [simp]: "map_find k m = None \<longleftrightarrow> k \<notin> map_keys m"
  by (induction m) (auto split: if_splits)

lemma map_find_absent [simp]: "k \<notin> map_keys m \<Longrightarrow> map_find k m = None"
  by simp

lemma map_find_Some_key: "map_find k m = Some v \<Longrightarrow> k \<in> map_keys m"
  by (metis map_find_None_iff option.distinct(1))

lemma map_key_find: "k \<in> map_keys m \<Longrightarrow> \<exists>v. map_find k m = Some v"
  by (metis map_find_None_iff option.exhaust)

lemma map_find_Some_mem: "map_find k m = Some v \<Longrightarrow> (k, v) \<in> set m"
  by (simp add: map_find_def map_of_SomeD)

lemma map_ok_distinct: "map_ok m \<Longrightarrow> distinct (map fst m)"
  by (auto simp: map_ok_def strict_sorted_iff)

lemma map_mem_find: "map_ok m \<Longrightarrow> (k, v) \<in> set m \<Longrightarrow> map_find k m = Some v"
  by (simp add: map_find_def map_ok_distinct)

lemma map_erase_absent [simp]: "k \<notin> map_keys m \<Longrightarrow> map_erase k m = m"
  by (induction m) auto

interpretation smap: keyed_store map_find map_put map_erase map_ok
  by unfold_locales auto

lemma map_emplace_eq: "map_emplace = smap.emplace"
  by (intro ext) (simp add: map_emplace_def smap.emplace_def)

lemma map_find_emplace [simp]:
  "map_find k' (map_emplace k v m) = (if k' = k \<and> k \<notin> map_keys m then Some v else map_find k' m)"
  unfolding map_emplace_eq by (simp add: smap.find_emplace)

lemma map_ok_emplace [simp]: "map_ok m \<Longrightarrow> map_ok (map_emplace k v m)"
  unfolding map_emplace_eq by (rule smap.invar_emplace)

lemma map_keys_emplace [simp]: "map_keys (map_emplace k v m) = insert k (map_keys m)"
  by (auto simp: map_emplace_def dest: map_find_Some_key split: option.splits)

text \<open>Loops that erase while they iterate keep a filter of the entries.\<close>

lemma map_ok_filter [simp]: "map_ok m \<Longrightarrow> map_ok (filter P m)"
  by (induction m) (auto simp: map_ok_Cons map_keys_def)

lemma map_keys_filter: "map_keys (filter P m) \<subseteq> map_keys m"
  by (auto simp: map_keys_def)

lemma map_find_filter:
  assumes "map_ok m"
  shows "map_find k (filter P m) =
    (case map_find k m of None \<Rightarrow> None | Some v \<Rightarrow> if P (k, v) then Some v else None)"
  using assms
proof (induction m)
  case (Cons e m)
  obtain k0 v0 where e: "e = (k0, v0)" by (cases e)
  have k0: "k0 \<notin> map_keys m" using Cons.prems by (auto simp: e map_ok_Cons)
  then have "map_find k0 m = None" "map_find k0 (filter P m) = None"
    using map_keys_filter [of P m] by auto
  with Cons show ?case by (simp add: e map_ok_Cons)
qed simp

text \<open>Replacing the values of a map in place keeps keys and order.\<close>

lemma map_ok_map_values [simp]: "map_ok (map (\<lambda>(k, v). (k, f k v)) m) = map_ok m"
  by (simp add: map_ok_def case_prod_unfold comp_def)

section \<open>Ordered sets\<close>

definition set_emplace :: "'a::linorder \<Rightarrow> 'a list \<Rightarrow> 'a list" where
  "set_emplace x xs = (if x \<in> set xs then xs else insort x xs)"

definition set_erase :: "'a \<Rightarrow> 'a list \<Rightarrow> 'a list" where
  "set_erase x xs = filter (\<lambda>y. y \<noteq> x) xs"

definition set_ok :: "'a::linorder list \<Rightarrow> bool" where
  "set_ok xs = sorted_wrt (<) xs"

lemma set_set_emplace [simp]: "set (set_emplace x xs) = insert x (set xs)"
  by (auto simp: set_emplace_def set_insort_key)

lemma set_set_erase [simp]: "set (set_erase x xs) = set xs - {x}"
  by (auto simp: set_erase_def)

lemma set_ok_Nil [simp]: "set_ok []"
  by (simp add: set_ok_def)

lemma set_ok_emplace [simp]: "set_ok xs \<Longrightarrow> set_ok (set_emplace x xs)"
  by (auto simp: set_ok_def set_emplace_def strict_sorted_iff distinct_insort sorted_insort)

lemma set_ok_erase [simp]: "set_ok xs \<Longrightarrow> set_ok (set_erase x xs)"
  by (simp add: set_ok_def set_erase_def sorted_wrt_filter)

lemma set_emplace_nonempty [simp]: "set_emplace x xs \<noteq> []"
  by (metis insert_not_empty list.set(1) set_set_emplace)

lemma set_erase_absent [simp]: "x \<notin> set xs \<Longrightarrow> set_erase x xs = xs"
  by (simp add: set_erase_def filter_neq_absent)

end
