(* ===== verification/ErrorCodes.thy ===== *)
theory ErrorCodes
  imports DmsPrelude
begin

text \<open>
  The result codes of the services, an \<^verbatim>\<open>enum\<close> of
  \<^verbatim>\<open>services/base/include/dtbschedmgr_log.h\<close>: the enumerators the modelled operations
  return or compare with. Codes travel as \<^verbatim>\<open>int32_t\<close> next to the codes of other services,
  and no arithmetic is done on them, so a result is an \<open>int\<close>. The base value
  \<^verbatim>\<open>DMS_SERVICE_ERR_OFFSET\<close> is computed by a macro of another repository; the value here
  is the one the header states in the comment of the first enumerator. The success codes
  \<^verbatim>\<open>ERR_OK\<close> and \<^verbatim>\<open>ERR_NONE\<close> are both 0. The error codes of the IPC library are
  parameters (fields of the environment of \<^verbatim>\<open>DmsTypes\<close>).
\<close>

abbreviation ERR_OK :: int where
  "ERR_OK \<equiv> 0"

abbreviation ERR_NONE :: int where
  "ERR_NONE \<equiv> 0"

definition INVALID_PARAMETERS_ERR :: int where
  [err_defs]: "INVALID_PARAMETERS_ERR = 29360128"

definition NO_CONNECT_CALLBACK_ERR :: int where
  [err_defs]: "NO_CONNECT_CALLBACK_ERR = 29360130"

definition INVALID_REMOTE_PARAMETERS_ERR :: int where
  [err_defs]: "INVALID_REMOTE_PARAMETERS_ERR = 29360131"

definition REMOTE_DEVICE_BIND_ABILITY_ERR :: int where
  [err_defs]: "REMOTE_DEVICE_BIND_ABILITY_ERR = 29360132"

definition DMS_WRITE_FILE_FAILED_ERR :: int where
  [err_defs]: "DMS_WRITE_FILE_FAILED_ERR = 29360141"

definition DEVICE_OFFLINE_ERR :: int where
  [err_defs]: "DEVICE_OFFLINE_ERR = 29360142"

definition GET_LOCAL_DEVICE_ERR :: int where
  [err_defs]: "GET_LOCAL_DEVICE_ERR = 29360144"

definition NOTIFYCOMPLETECONTINUATION_FAILED :: int where
  [err_defs]: "NOTIFYCOMPLETECONTINUATION_FAILED = 29360152"

definition CONTINUE_ABILITY_TIMEOUT_ERR :: int where
  [err_defs]: "CONTINUE_ABILITY_TIMEOUT_ERR = 29360153"

definition DMS_PERMISSION_DENIED :: int where
  [err_defs]: "DMS_PERMISSION_DENIED = 29360157"

definition BIND_ABILITY_UID_INVALID_ERR :: int where
  [err_defs]: "BIND_ABILITY_UID_INVALID_ERR = 29360159"

definition BIND_ABILITY_LEAK_ERR :: int where
  [err_defs]: "BIND_ABILITY_LEAK_ERR = 29360160"

definition GET_REMOTE_DMS_FAIL :: int where
  [err_defs]: "GET_REMOTE_DMS_FAIL = 29360174"

definition DMS_ACCOUNT_ACCESS_PERMISSION_DENIED :: int where
  [err_defs]: "DMS_ACCOUNT_ACCESS_PERMISSION_DENIED = 29360175"

definition DMS_COMPONENT_ACCESS_PERMISSION_DENIED :: int where
  [err_defs]: "DMS_COMPONENT_ACCESS_PERMISSION_DENIED = 29360176"

definition CALL_PERMISSION_DENIED :: int where
  [err_defs]: "CALL_PERMISSION_DENIED = 29360201"

definition CONTINUE_REMOTE_UNINSTALLED_SUPPORT_FREEINSTALL :: int where
  [err_defs]: "CONTINUE_REMOTE_UNINSTALLED_SUPPORT_FREEINSTALL = 29360202"

definition CONTINUE_REMOTE_UNINSTALLED_UNSUPPORT_FREEINSTALL :: int where
  [err_defs]: "CONTINUE_REMOTE_UNINSTALLED_UNSUPPORT_FREEINSTALL = 29360203"

definition CONTINUE_FREE_INSTALL_FAILED :: int where
  [err_defs]: "CONTINUE_FREE_INSTALL_FAILED = 29360205"

definition CONTINUE_REMOTE_UNINSTALLED_CANNOT_FREEINSTALL :: int where
  [err_defs]: "CONTINUE_REMOTE_UNINSTALLED_CANNOT_FREEINSTALL = 29360206"

definition REGISTER_EXCEED_MAX_TIMES :: int where
  [err_defs]: "REGISTER_EXCEED_MAX_TIMES = 29360207"

definition TOKEN_HAS_NOT_REGISTERED :: int where
  [err_defs]: "TOKEN_HAS_NOT_REGISTERED = 29360208"

definition CALLBACK_HAS_REGISTERED :: int where
  [err_defs]: "CALLBACK_HAS_REGISTERED = 29360209"

definition CALLBACK_HAS_NOT_REGISTERED :: int where
  [err_defs]: "CALLBACK_HAS_NOT_REGISTERED = 29360210"

definition CONNECT_ABILITY_FAILED :: int where
  [err_defs]: "CONNECT_ABILITY_FAILED = 29360211"

definition DISCONNECT_ABILITY_FAILED :: int where
  [err_defs]: "DISCONNECT_ABILITY_FAILED = 29360212"

definition PANEL_NAME_NOT_CONFIGURED :: int where
  [err_defs]: "PANEL_NAME_NOT_CONFIGURED = 29360213"

definition UNKNOWN_CALLBACK_TYPE :: int where
  [err_defs]: "UNKNOWN_CALLBACK_TYPE = 29360214"

definition INVALID_CONNECT_STATUS :: int where
  [err_defs]: "INVALID_CONNECT_STATUS = 29360215"

definition INVALID_CONTINUATION_MODE :: int where
  [err_defs]: "INVALID_CONTINUATION_MODE = 29360216"

definition dms_errors :: "int list" where
  "dms_errors = [INVALID_PARAMETERS_ERR,
     NO_CONNECT_CALLBACK_ERR,
     INVALID_REMOTE_PARAMETERS_ERR,
     REMOTE_DEVICE_BIND_ABILITY_ERR,
     DMS_WRITE_FILE_FAILED_ERR,
     DEVICE_OFFLINE_ERR,
     GET_LOCAL_DEVICE_ERR,
     NOTIFYCOMPLETECONTINUATION_FAILED,
     CONTINUE_ABILITY_TIMEOUT_ERR,
     DMS_PERMISSION_DENIED,
     BIND_ABILITY_UID_INVALID_ERR,
     BIND_ABILITY_LEAK_ERR,
     GET_REMOTE_DMS_FAIL,
     DMS_ACCOUNT_ACCESS_PERMISSION_DENIED,
     DMS_COMPONENT_ACCESS_PERMISSION_DENIED,
     CALL_PERMISSION_DENIED,
     CONTINUE_REMOTE_UNINSTALLED_SUPPORT_FREEINSTALL,
     CONTINUE_REMOTE_UNINSTALLED_UNSUPPORT_FREEINSTALL,
     CONTINUE_FREE_INSTALL_FAILED,
     CONTINUE_REMOTE_UNINSTALLED_CANNOT_FREEINSTALL,
     REGISTER_EXCEED_MAX_TIMES,
     TOKEN_HAS_NOT_REGISTERED,
     CALLBACK_HAS_REGISTERED,
     CALLBACK_HAS_NOT_REGISTERED,
     CONNECT_ABILITY_FAILED,
     DISCONNECT_ABILITY_FAILED,
     PANEL_NAME_NOT_CONFIGURED,
     UNKNOWN_CALLBACK_TYPE,
     INVALID_CONNECT_STATUS,
     INVALID_CONTINUATION_MODE]"

lemma dms_errors_distinct: "distinct dms_errors"
  by (simp add: dms_errors_def err_defs)

lemma dms_errors_not_ok: "ERR_OK \<notin> set dms_errors"
  by (simp add: dms_errors_def err_defs)

lemma dms_errors_range: "list_all (\<lambda>e. 29360128 \<le> e \<and> e \<le> 29360216) dms_errors"
  by (simp add: dms_errors_def err_defs)

end
