(* ===== verification/AbilityManager.thy ===== *)
theory AbilityManager
  imports ContinuationData StdMap ErrorCodes
begin

text \<open>
  The continuation manager: the system ability
  \<^verbatim>\<open>dtbabilitymgr/src/distributed_ability_manager_service.cpp\<close> with the notifier table of
  \<^verbatim>\<open>notifier_info.cpp\<close> and the notifier proxy of \<^verbatim>\<open>device_selection_notifier_proxy.cpp\<close>.
  Each public operation and each task it posts to \<open>continuationHandler\<close> is one
  definition, on the state \<open>dams\<close>. Calls that leave the process are appended to
  \<open>dams_trace\<close>; their results are functions of the trace so far, in \<open>dams_env\<close>.
  An operation whose code may dereference a null pointer returns \<open>None\<close> when it does.
  The lock scopes of the code make each of these operations one step.
\<close>

section \<open>State, tasks and effects\<close>

record NotifierInfo =
  notifierMap :: "(string, ptr) stdmap"
  connectStatusInfo :: "ConnectStatusInfo option"

datatype dams_task =
    TaskDisconnect
  | TaskDeviceConnect ptr "ContinuationResult list"
  | TaskDeviceDisconnect ptr "string list"
  | TaskStartDeviceManager int "ContinuationExtraParams option"
  | TaskUpdateConnectStatus int string int
  | TaskNotifierDied ptr

datatype dams_effect =
    DnetworkInit
  | DeviceStorageInit
  | SetParameter string string
  | CreateHandler
  | Publish
  | DlOpen string
  | DlSym string
  | DlClose
  | ImplOnStart
  | ImplRequest nat parcel
  | ImplDeviceOnline string
  | ImplDeviceOffline string
  | ImplConnectAbility int "ContinuationExtraParams option"
  | ImplDisconnectAbility
  | AddDeath robj
  | RemoveDeath robj
  | Post dams_task
  | Send robj nat parcel

type_synonym dams_history = "dams_effect list"

record dams_env =
  param_value :: "dams_history \<Rightarrow> string"
  dl_open_ok :: "dams_history \<Rightarrow> bool"
  dl_sym_ok :: "dams_history \<Rightarrow> string \<Rightarrow> bool"
  impl_request :: "dams_history \<Rightarrow> nat \<Rightarrow> parcel \<Rightarrow> int \<times> parcel"
  impl_connect :: "dams_history \<Rightarrow> int"
  impl_disconnect :: "dams_history \<Rightarrow> int"
  post_ok :: "dams_history \<Rightarrow> bool"
  can_write :: parcel_writer
  to_str16 :: "string \<Rightarrow> u16string"
  to_str8 :: "u16string \<Rightarrow> string"
  ipc_null_object :: int
  ipc_flatten_object :: int

record dams =
  isLoaded :: bool
  token_counter :: int32
  tokenMap :: "(nat, int list) stdmap"
  callbackMap :: "(int, NotifierInfo option) stdmap"
  notifierDeathRecipient :: bool
  appProxy :: ptr
  continuationHandler :: bool
  tasks :: "dams_task list"
  next_obj :: nat
  dams_trace :: dams_history

definition initial_dams :: dams where
  "initial_dams = \<lparr>isLoaded = False, token_counter = 0, tokenMap = [], callbackMap = [],
     notifierDeathRecipient = False, appProxy = nullptr, continuationHandler = False,
     tasks = [], next_obj = 0, dams_trace = []\<rparr>"

definition emit :: "dams_effect list \<Rightarrow> dams \<Rightarrow> dams" where
  "emit es s = s\<lparr>dams_trace := dams_trace s @ es\<rparr>"

definition MAX_TOKEN_NUM :: int where "MAX_TOKEN_NUM = 100000000"
definition MAX_REGISTER_NUM :: nat where "MAX_REGISTER_NUM = 600"
definition START_DEVICE_MANAGER_CODE :: nat where "START_DEVICE_MANAGER_CODE = 1"
definition UPDATE_CONNECT_STATUS_CODE :: nat where "UPDATE_CONNECT_STATUS_CODE = 2"
definition TOKEN_KEY :: string where "TOKEN_KEY = ''distributedsched.continuationmanager.token''"
definition HIPLAY_PANEL_INTERFACE_TOKEN :: u16string where
  "HIPLAY_PANEL_INTERFACE_TOKEN = u16 ''ohos.hiplay.panel''"
definition DEVICE_SELECTION_NOTIFIER_INTERFACE_TOKEN :: u16string where
  "DEVICE_SELECTION_NOTIFIER_INTERFACE_TOKEN = u16 ''OHOS.DistributedSchedule.IDeviceSelectionNotifier''"
definition EVENT_CONNECT :: string where "EVENT_CONNECT = ''deviceConnect''"
definition EVENT_DISCONNECT :: string where "EVENT_DISCONNECT = ''deviceDisconnect''"
definition EVENT_DEVICE_CONNECT :: nat where "EVENT_DEVICE_CONNECT = 1"
definition EVENT_DEVICE_DISCONNECT :: nat where "EVENT_DEVICE_DISCONNECT = 2"

section \<open>Notifier tables\<close>

definition GetNotifier :: "NotifierInfo \<Rightarrow> string \<Rightarrow> ptr" where
  "GetNotifier i cbType =
     (case map_find cbType (notifierMap i) of None \<Rightarrow> nullptr | Some n \<Rightarrow> n)"

definition SetNotifier :: "string \<Rightarrow> ptr \<Rightarrow> NotifierInfo \<Rightarrow> NotifierInfo" where
  "SetNotifier cbType n i = i\<lparr>notifierMap := map_put cbType n (notifierMap i)\<rparr>"

definition DeleteNotifier :: "string \<Rightarrow> NotifierInfo \<Rightarrow> NotifierInfo" where
  "DeleteNotifier cbType i = i\<lparr>notifierMap := map_erase cbType (notifierMap i)\<rparr>"

definition QueryNotifier :: "NotifierInfo \<Rightarrow> ptr \<Rightarrow> bool" where
  "QueryNotifier i n = list_ex (\<lambda>(k, m). m = n) (notifierMap i)"

definition IsNotifierMapEmpty :: "NotifierInfo \<Rightarrow> bool" where
  "IsNotifierMapEmpty i = (notifierMap i = [])"

text \<open>The objects a loop over the table calls; \<open>None\<close> if one of them is null.\<close>

fun table_objects :: "(string, ptr) stdmap \<Rightarrow> robj list option" where
  "table_objects [] = Some []"
| "table_objects ((k, None) # m) = None"
| "table_objects ((k, Some x) # m) = map_option ((#) x) (table_objects m)"

text \<open>\<open>RemoveDeathRecipient\<close> with the default \<^verbatim>\<open>cbType\<close>, and with a given one.\<close>

definition RemoveDeathRecipient :: "NotifierInfo \<Rightarrow> string \<Rightarrow> dams_effect list option" where
  "RemoveDeathRecipient i cbType =
     (if cbType = [] then map_option (map RemoveDeath) (table_objects (notifierMap i))
      else (case map_find cbType (notifierMap i) of
              None \<Rightarrow> Some []
            | Some None \<Rightarrow> None
            | Some (Some x) \<Rightarrow> Some [RemoveDeath x]))"

definition SetConnectStatusInfo :: "ConnectStatusInfo \<Rightarrow> NotifierInfo \<Rightarrow> NotifierInfo" where
  "SetConnectStatusInfo c i = i\<lparr>connectStatusInfo := Some c\<rparr>"

section \<open>The implementation library\<close>

text \<open>\<open>InitFunc\<close> looks the five entry points up and stops at the first that is missing.\<close>

fun lookup_all :: "dams_env \<Rightarrow> string list \<Rightarrow> dams \<Rightarrow> bool \<times> dams" where
  "lookup_all env [] s = (True, s)"
| "lookup_all env (f # fs) s =
     (let found = dl_sym_ok env (dams_trace s) f; s' = emit [DlSym f] s
      in if found then lookup_all env fs s' else (False, s'))"

definition InitFunc :: "dams_env \<Rightarrow> dams \<Rightarrow> bool \<times> dams" where
  "InitFunc env s =
     lookup_all env [''OnRemoteRequest'', ''DeviceOnlineNotify'', ''DeviceOfflineNotify'',
       ''ConnectAbility'', ''DisconnectAbility''] s"

definition InitDmsImplFunc :: "dams_env \<Rightarrow> dams \<Rightarrow> bool \<times> dams" where
  "InitDmsImplFunc env s =
     (if isLoaded s then (True, s)
      else
        let opened = dl_open_ok env (dams_trace s);
            s1 = emit [DlOpen ''libdistributedschedsvr.z.so''] s
        in if \<not> opened then (False, s1)
           else
             let (ok, s2) = InitFunc env s1
             in if \<not> ok then (False, emit [DlClose] s2)
                else
                  let found = dl_sym_ok env (dams_trace s2) ''OnStart'';
                      s3 = emit [DlSym ''OnStart''] s2
                  in if \<not> found then (False, emit [DlClose] s3)
                     else (True, (emit [ImplOnStart] s3)\<lparr>isLoaded := True\<rparr>))"

definition SendRequestToImpl :: "dams_env \<Rightarrow> nat \<Rightarrow> parcel \<Rightarrow> dams \<Rightarrow> int \<times> parcel \<times> dams" where
  "SendRequestToImpl env code data s =
     (let (ok, s1) = InitDmsImplFunc env s
      in if ok then
           (let (r, reply) = impl_request env (dams_trace s1) code data
            in (r, reply, emit [ImplRequest code data] s1))
         else (INVALID_PARAMETERS_ERR, [], s1))"

definition DeviceOnlineNotify :: "dams_env \<Rightarrow> string \<Rightarrow> dams \<Rightarrow> dams" where
  "DeviceOnlineNotify env dev s =
     (let (ok, s1) = InitDmsImplFunc env s
      in if ok then emit [ImplDeviceOnline dev] s1 else s1)"

definition DeviceOfflineNotify :: "dams_env \<Rightarrow> string \<Rightarrow> dams \<Rightarrow> dams" where
  "DeviceOfflineNotify env dev s =
     (let (ok, s1) = InitDmsImplFunc env s
      in if ok then emit [ImplDeviceOffline dev] s1 else s1)"

definition ConnectAbility ::
  "dams_env \<Rightarrow> int \<Rightarrow> ContinuationExtraParams option \<Rightarrow> dams \<Rightarrow> int \<times> dams" where
  "ConnectAbility env token x s =
     (let (ok, s1) = InitDmsImplFunc env s
      in if ok then (impl_connect env (dams_trace s1), emit [ImplConnectAbility token x] s1)
         else (INVALID_PARAMETERS_ERR, s1))"

definition DisconnectAbility :: "dams_env \<Rightarrow> dams \<Rightarrow> int \<times> dams" where
  "DisconnectAbility env s =
     (let (ok, s1) = InitDmsImplFunc env s
      in if ok then (impl_disconnect env (dams_trace s1), emit [ImplDisconnectAbility] s1)
         else (INVALID_PARAMETERS_ERR, s1))"

section \<open>Start\<close>

text \<open>
  \<open>OnStart\<close>: \<open>None\<close> is the exception \<^verbatim>\<open>std::stoi\<close> throws on a stored token that is not
  a number.
\<close>

definition OnStart :: "dams_env \<Rightarrow> dams \<Rightarrow> dams option" where
  "OnStart env s =
     (let s1 = emit [DnetworkInit, DeviceStorageInit] s;
          tokenStr = param_value env (dams_trace s1)
      in do { s2 \<leftarrow> (if tokenStr \<noteq> []
                     then map_option (\<lambda>t. s1\<lparr>token_counter := of_int t\<rparr>) (stoi tokenStr)
                     else Some s1);
              let s3 = s2\<lparr>notifierDeathRecipient := True\<rparr>;
              let s4 = (if continuationHandler s3 then s3
                        else (emit [CreateHandler] s3)\<lparr>continuationHandler := True\<rparr>);
              Some (emit [Publish] s4) })"

end
