(* ===== verification/AbilityManagerOps.thy ===== *)
theory AbilityManagerOps
  imports AbilityManager
begin

text \<open>
  The operations of the continuation manager: the requests applications send through the
  stub, the callbacks of the device panel, the death notice of a notifier, and the tasks
  these post. \<open>acc\<close> is the access token of the calling process
  (\<^verbatim>\<open>IPCSkeleton::GetCallingTokenID\<close>).
\<close>

section \<open>Checks\<close>

definition IsExceededRegisterMaxNum :: "nat \<Rightarrow> dams \<Rightarrow> bool" where
  "IsExceededRegisterMaxNum acc s =
     (case map_find acc (tokenMap s) of
        None \<Rightarrow> False
      | Some ts \<Rightarrow> MAX_REGISTER_NUM \<le> length ts)"

definition IsContinuationModeValid :: "int \<Rightarrow> bool" where
  "IsContinuationModeValid mode = (\<not> (mode < COLLABORATION_SINGLE \<or> COLLABORATION_MUTIPLE < mode))"

definition IsConnectStatusValid :: "int \<Rightarrow> bool" where
  "IsConnectStatusValid st = (\<not> (st < IDLE \<or> DISCONNECTING < st))"

definition IsTokenRegistered :: "nat \<Rightarrow> int \<Rightarrow> dams \<Rightarrow> bool" where
  "IsTokenRegistered acc token s =
     (case map_find acc (tokenMap s) of
        None \<Rightarrow> False
      | Some ts \<Rightarrow> list_ex (\<lambda>t. t = token) ts)"

definition IsNotifierRegistered :: "int \<Rightarrow> dams \<Rightarrow> bool" where
  "IsNotifierRegistered token s =
     (case map_find token (callbackMap s) of
        None \<Rightarrow> False
      | Some None \<Rightarrow> False
      | Some (Some i) \<Rightarrow> True)"

definition IsNotifierRegisteredLocked :: "int \<Rightarrow> string \<Rightarrow> dams \<Rightarrow> bool" where
  "IsNotifierRegisteredLocked token cbType s =
     (case map_find token (callbackMap s) of
        Some (Some i) \<Rightarrow> GetNotifier i cbType \<noteq> nullptr
      | _ \<Rightarrow> False)"

definition mode_invalid :: "ContinuationExtraParams option \<Rightarrow> bool" where
  "mode_invalid x =
     (case x of None \<Rightarrow> False | Some e \<Rightarrow> \<not> IsContinuationModeValid (extra_continuationMode e))"

section \<open>Posting\<close>

definition PostTask :: "dams_env \<Rightarrow> dams_task \<Rightarrow> dams \<Rightarrow> bool \<times> dams" where
  "PostTask env t s =
     (let ok = post_ok env (dams_trace s); s1 = emit [Post t] s
      in if ok then (True, s1\<lparr>tasks := tasks s1 @ [t]\<rparr>) else (False, s1))"

definition post_to_handler :: "dams_env \<Rightarrow> dams_task \<Rightarrow> dams \<Rightarrow> bool \<times> dams" where
  "post_to_handler env t s = (if \<not> continuationHandler s then (False, s) else PostTask env t s)"

definition HandleDisconnectAbility :: "dams_env \<Rightarrow> dams \<Rightarrow> bool \<times> dams" where
  "HandleDisconnectAbility env s = post_to_handler env TaskDisconnect s"

definition HandleDeviceConnect ::
  "dams_env \<Rightarrow> ptr \<Rightarrow> ContinuationResult list \<Rightarrow> dams \<Rightarrow> bool \<times> dams" where
  "HandleDeviceConnect env n rs s = post_to_handler env (TaskDeviceConnect n rs) s"

definition HandleDeviceDisconnect :: "dams_env \<Rightarrow> ptr \<Rightarrow> string list \<Rightarrow> dams \<Rightarrow> bool \<times> dams" where
  "HandleDeviceDisconnect env n ids s = post_to_handler env (TaskDeviceDisconnect n ids) s"

definition HandleStartDeviceManager ::
  "dams_env \<Rightarrow> int \<Rightarrow> ContinuationExtraParams option \<Rightarrow> dams \<Rightarrow> dams" where
  "HandleStartDeviceManager env token x s =
     snd (post_to_handler env (TaskStartDeviceManager token x) s)"

definition HandleUpdateConnectStatus :: "dams_env \<Rightarrow> int \<Rightarrow> string \<Rightarrow> int \<Rightarrow> dams \<Rightarrow> dams" where
  "HandleUpdateConnectStatus env token dev st s =
     snd (post_to_handler env (TaskUpdateConnectStatus token dev st) s)"

definition HandleNotifierDied :: "dams_env \<Rightarrow> ptr \<Rightarrow> dams \<Rightarrow> dams" where
  "HandleNotifierDied env n s = snd (post_to_handler env (TaskNotifierDied n) s)"

section \<open>Tokens\<close>

definition next_token :: "int32 \<Rightarrow> int32" where
  "next_token t = (let t' = t + 1 in if MAX_TOKEN_NUM < sint t' then 1 else t')"

definition Register ::
  "dams_env \<Rightarrow> nat \<Rightarrow> ContinuationExtraParams option \<Rightarrow> dams \<Rightarrow> int \<times> int option \<times> dams" where
  "Register env acc x s =
     (if mode_invalid x then (INVALID_CONTINUATION_MODE, None, s)
      else if IsExceededRegisterMaxNum acc s then (REGISTER_EXCEED_MAX_TIMES, None, s)
      else
        let t = next_token (token_counter s);
            tToken = sint t;
            s1 = emit [SetParameter TOKEN_KEY (int_to_string tToken)] (s\<lparr>token_counter := t\<rparr>);
            old = (case map_find acc (tokenMap s1) of None \<Rightarrow> [] | Some ts \<Rightarrow> ts);
            s2 = s1\<lparr>tokenMap := map_put acc (old @ [tToken]) (tokenMap s1)\<rparr>
        in (ERR_OK, Some tToken, s2))"

text \<open>
  The loop over \<open>tokenMap\<close>: it removes the token from each list and leaves at the first
  list this empties.
\<close>

fun erase_token :: "int \<Rightarrow> (nat, int list) stdmap \<Rightarrow> (nat, int list) stdmap" where
  "erase_token token [] = []"
| "erase_token token ((a, ts) # m) =
     (let ts' = filter (\<lambda>n. n \<noteq> token) ts
      in if ts' = [] then m else (a, ts') # erase_token token m)"

text \<open>The callback-map part of \<open>Unregister\<close> and of the death task.\<close>

definition remove_callbacks :: "int \<Rightarrow> dams \<Rightarrow> dams option" where
  "remove_callbacks token s =
     (case map_find token (callbackMap s) of
        Some (Some i) \<Rightarrow>
          do { es \<leftarrow> RemoveDeathRecipient i [];
               Some ((emit es s)\<lparr>callbackMap := map_erase token (callbackMap s)\<rparr>) }
      | _ \<Rightarrow> Some s)"

definition Unregister :: "dams_env \<Rightarrow> nat \<Rightarrow> int \<Rightarrow> dams \<Rightarrow> (int \<times> dams) option" where
  "Unregister env acc token s =
     (if \<not> IsTokenRegistered acc token s then Some (TOKEN_HAS_NOT_REGISTERED, s)
      else do { s1 \<leftarrow> remove_callbacks token s;
                let s2 = s1\<lparr>tokenMap := erase_token token (tokenMap s1)\<rparr>;
                Some (ERR_OK, snd (HandleDisconnectAbility env s2)) })"

section \<open>Callbacks\<close>

definition RegisterDeviceSelectionCallback ::
  "dams_env \<Rightarrow> nat \<Rightarrow> int \<Rightarrow> string \<Rightarrow> ptr \<Rightarrow> dams \<Rightarrow> (int \<times> dams) option" where
  "RegisterDeviceSelectionCallback env acc token cbType notifier s =
     (if cbType \<noteq> EVENT_CONNECT \<and> cbType \<noteq> EVENT_DISCONNECT then Some (UNKNOWN_CALLBACK_TYPE, s)
      else if \<not> IsTokenRegistered acc token s then Some (TOKEN_HAS_NOT_REGISTERED, s)
      else if IsNotifierRegisteredLocked token cbType s then Some (CALLBACK_HAS_REGISTERED, s)
      else (case map_find token (callbackMap s) of
              Some None \<Rightarrow> Some (ipc_null_object env, s)
            | Some (Some i) \<Rightarrow>
                Some (ERR_OK, s\<lparr>callbackMap :=
                  map_put token (Some (SetNotifier cbType notifier i)) (callbackMap s)\<rparr>)
            | None \<Rightarrow>
                (let i = SetNotifier cbType notifier \<lparr>notifierMap = [], connectStatusInfo = None\<rparr>;
                     s1 = s\<lparr>callbackMap := map_put token (Some i) (callbackMap s)\<rparr>
                 in (case notifier of
                       None \<Rightarrow> None
                     | Some n \<Rightarrow> Some (ERR_OK, emit [AddDeath n] s1)))))"

definition UnregisterDeviceSelectionCallback ::
  "dams_env \<Rightarrow> nat \<Rightarrow> int \<Rightarrow> string \<Rightarrow> dams \<Rightarrow> (int \<times> dams) option" where
  "UnregisterDeviceSelectionCallback env acc token cbType s =
     (if cbType \<noteq> EVENT_CONNECT \<and> cbType \<noteq> EVENT_DISCONNECT then Some (UNKNOWN_CALLBACK_TYPE, s)
      else if \<not> IsTokenRegistered acc token s then Some (TOKEN_HAS_NOT_REGISTERED, s)
      else if \<not> IsNotifierRegisteredLocked token cbType s then Some (CALLBACK_HAS_NOT_REGISTERED, s)
      else (case map_find token (callbackMap s) of
              None \<Rightarrow> Some (ERR_OK, s)
            | Some None \<Rightarrow> None
            | Some (Some i) \<Rightarrow>
                do { es \<leftarrow> RemoveDeathRecipient i cbType;
                     let i' = DeleteNotifier cbType i;
                     let m = (if IsNotifierMapEmpty i' then map_erase token (callbackMap s)
                              else map_put token (Some i') (callbackMap s));
                     Some (ERR_OK, (emit es s)\<lparr>callbackMap := m\<rparr>) }))"

definition UpdateConnectStatus ::
  "dams_env \<Rightarrow> nat \<Rightarrow> int \<Rightarrow> string \<Rightarrow> int \<Rightarrow> dams \<Rightarrow> int \<times> dams" where
  "UpdateConnectStatus env acc token dev st s =
     (if dev = [] then (ipc_null_object env, s)
      else if \<not> IsConnectStatusValid st then (INVALID_CONNECT_STATUS, s)
      else if \<not> IsTokenRegistered acc token s then (TOKEN_HAS_NOT_REGISTERED, s)
      else (case map_find token (callbackMap s) of
              Some (Some i) \<Rightarrow>
                (let c = \<lparr>status_deviceId = dev, status_connectStatus = st\<rparr>;
                     s1 = s\<lparr>callbackMap :=
                            map_put token (Some (SetConnectStatusInfo c i)) (callbackMap s)\<rparr>
                 in (ERR_OK, if appProxy s1 \<noteq> nullptr
                             then HandleUpdateConnectStatus env token dev st s1 else s1))
            | _ \<Rightarrow> (CALLBACK_HAS_NOT_REGISTERED, s)))"

section \<open>The device panel\<close>

definition StartDeviceManager ::
  "dams_env \<Rightarrow> nat \<Rightarrow> int \<Rightarrow> ContinuationExtraParams option \<Rightarrow> dams \<Rightarrow> int \<times> dams" where
  "StartDeviceManager env acc token x s =
     (if mode_invalid x then (INVALID_CONTINUATION_MODE, s)
      else if \<not> IsTokenRegistered acc token s then (TOKEN_HAS_NOT_REGISTERED, s)
      else if \<not> IsNotifierRegistered token s then (CALLBACK_HAS_NOT_REGISTERED, s)
      else if appProxy s \<noteq> nullptr then (ERR_OK, HandleStartDeviceManager env token x s)
      else
        let (errCode, s1) = ConnectAbility env token x s
        in if errCode \<noteq> ERR_OK then (CONNECT_ABILITY_FAILED, s1) else (ERR_OK, s1))"

definition ScheduleStartDeviceManager ::
  "dams_env \<Rightarrow> ptr \<Rightarrow> int \<Rightarrow> ContinuationExtraParams option \<Rightarrow> dams \<Rightarrow> dams" where
  "ScheduleStartDeviceManager env proxy token x s =
     (let s1 = s\<lparr>appProxy := proxy\<rparr>
      in if appProxy s1 = nullptr then s1 else HandleStartDeviceManager env token x s1)"

definition registered_notifier :: "int \<Rightarrow> string \<Rightarrow> dams \<Rightarrow> ptr" where
  "registered_notifier token cbType s =
     (case map_find token (callbackMap s) of
        Some (Some i) \<Rightarrow> GetNotifier i cbType
      | _ \<Rightarrow> nullptr)"

definition OnDeviceConnect ::
  "dams_env \<Rightarrow> int \<Rightarrow> ContinuationResult list \<Rightarrow> dams \<Rightarrow> int \<times> dams" where
  "OnDeviceConnect env token rs s =
     (let (ok, s1) = HandleDisconnectAbility env s
      in if \<not> ok then (DISCONNECT_ABILITY_FAILED, s1)
         else if \<not> IsNotifierRegisteredLocked token EVENT_CONNECT s1
         then (CALLBACK_HAS_NOT_REGISTERED, s1)
         else
           let (ok', s2) = HandleDeviceConnect env (registered_notifier token EVENT_CONNECT s1) rs s1
           in if \<not> ok' then (INVALID_PARAMETERS_ERR, s2) else (ERR_OK, s2))"

definition OnDeviceDisconnect :: "dams_env \<Rightarrow> int \<Rightarrow> string list \<Rightarrow> dams \<Rightarrow> int \<times> dams" where
  "OnDeviceDisconnect env token ids s =
     (let (ok, s1) = HandleDisconnectAbility env s
      in if \<not> ok then (DISCONNECT_ABILITY_FAILED, s1)
         else if \<not> IsNotifierRegisteredLocked token EVENT_DISCONNECT s1
         then (CALLBACK_HAS_NOT_REGISTERED, s1)
         else
           let (ok', s2) =
             HandleDeviceDisconnect env (registered_notifier token EVENT_DISCONNECT s1) ids s1
           in if \<not> ok' then (INVALID_PARAMETERS_ERR, s2) else (ERR_OK, s2))"

definition OnDeviceCancel :: "dams_env \<Rightarrow> dams \<Rightarrow> int \<times> dams" where
  "OnDeviceCancel env s =
     (let (ok, s1) = HandleDisconnectAbility env s
      in if \<not> ok then (DISCONNECT_ABILITY_FAILED, s1) else (ERR_OK, s1))"

definition ProcessNotifierDied :: "dams_env \<Rightarrow> ptr \<Rightarrow> dams \<Rightarrow> dams" where
  "ProcessNotifierDied env n s = (if n = nullptr then s else HandleNotifierDied env n s)"

text \<open>\<open>NotifierDeathRecipient::OnRemoteDied\<close>; \<open>remote\<close> is the promoted weak reference.\<close>

definition OnRemoteDied :: "dams_env \<Rightarrow> bool \<Rightarrow> ptr \<Rightarrow> dams \<Rightarrow> dams" where
  "OnRemoteDied env dmsNotifier remote s =
     (if \<not> dmsNotifier then s else ProcessNotifierDied env remote s)"

end
