(* ===== verification/AbilityManagerRun.thy ===== *)
theory AbilityManagerRun
  imports AbilityManagerOps
begin

text \<open>
  The tasks of \<open>continuationHandler\<close>, run one at a time in posting order, and the
  continuation manager as a machine: a request is a call of a public operation, or
  "run the next task". The stub admits no null notifier
  (\<^verbatim>\<open>RegisterDeviceSelectionCallbackInner\<close>), so a registration request carries an object.
\<close>

section \<open>Tasks\<close>

definition run_Disconnect :: "dams_env \<Rightarrow> dams \<Rightarrow> dams" where
  "run_Disconnect env s = snd (DisconnectAbility env s)"

text \<open>
  \<open>DeviceSelectionNotifierProxy\<close>. A request through a proxy of a null object would
  dereference it; the tasks are only posted with a registered notifier.
\<close>

definition proxy_OnDeviceConnect ::
  "dams_env \<Rightarrow> ptr \<Rightarrow> ContinuationResult list \<Rightarrow> dams \<Rightarrow> dams option" where
  "proxy_OnDeviceConnect env n rs s =
     (case do { p \<leftarrow> write_all (can_write env) [PToken DEVICE_SELECTION_NOTIFIER_INTERFACE_TOKEN] [];
                WriteContinuationResultsToParcel (can_write env) (to_str16 env) rs p } of
        None \<Rightarrow> Some s
      | Some data \<Rightarrow>
          (case n of None \<Rightarrow> None | Some x \<Rightarrow> Some (emit [Send x EVENT_DEVICE_CONNECT data] s)))"

definition proxy_OnDeviceDisconnect :: "dams_env \<Rightarrow> ptr \<Rightarrow> string list \<Rightarrow> dams \<Rightarrow> dams option" where
  "proxy_OnDeviceDisconnect env n ids s =
     (case write_all (can_write env)
             [PToken DEVICE_SELECTION_NOTIFIER_INTERFACE_TOKEN, PStrings ids] [] of
        None \<Rightarrow> Some s
      | Some data \<Rightarrow>
          (case n of None \<Rightarrow> None | Some x \<Rightarrow> Some (emit [Send x EVENT_DEVICE_DISCONNECT data] s)))"

definition extra_values :: "dams_env \<Rightarrow> ContinuationExtraParams option \<Rightarrow> pval list" where
  "extra_values env x =
     (case x of
        None \<Rightarrow> [PInt32 VALUE_NULL]
      | Some e \<Rightarrow> [PInt32 VALUE_OBJECT, PNested (extra_Marshalling (can_write env) (to_str16 env) e [])])"

definition status_values :: "dams_env \<Rightarrow> int \<Rightarrow> dams \<Rightarrow> pval list" where
  "status_values env token s =
     (case map_find token (callbackMap s) of
        Some (Some i) \<Rightarrow>
          (case connectStatusInfo i of
             None \<Rightarrow> [PInt32 VALUE_NULL]
           | Some c \<Rightarrow> [PInt32 VALUE_OBJECT, PString16 (to_str16 env (status_deviceId c)),
                        PInt32 (status_connectStatus c)])
      | _ \<Rightarrow> [PInt32 VALUE_NULL])"

definition run_StartDeviceManager ::
  "dams_env \<Rightarrow> int \<Rightarrow> ContinuationExtraParams option \<Rightarrow> dams \<Rightarrow> dams option" where
  "run_StartDeviceManager env token x s =
     (case write_all (can_write env)
             ([PToken HIPLAY_PANEL_INTERFACE_TOKEN, PInt32 token] @ extra_values env x) [] of
        None \<Rightarrow> Some s
      | Some p1 \<Rightarrow>
          (let callback = Local (next_obj s); s1 = s\<lparr>next_obj := Suc (next_obj s)\<rparr>
           in (case write_all (can_write env) (PObject callback # status_values env token s1) p1 of
                 None \<Rightarrow> Some s1
               | Some data \<Rightarrow>
                   (case appProxy s1 of
                      None \<Rightarrow> None
                    | Some a \<Rightarrow> Some (emit [Send a START_DEVICE_MANAGER_CODE data] s1)))))"

definition run_UpdateConnectStatus :: "dams_env \<Rightarrow> int \<Rightarrow> string \<Rightarrow> int \<Rightarrow> dams \<Rightarrow> dams option" where
  "run_UpdateConnectStatus env token dev st s =
     (case write_all (can_write env) [PToken HIPLAY_PANEL_INTERFACE_TOKEN, PInt32 token,
             PString16 (to_str16 env dev), PInt32 st] [] of
        None \<Rightarrow> Some s
      | Some data \<Rightarrow>
          (case appProxy s of
             None \<Rightarrow> None
           | Some a \<Rightarrow> Some (emit [Send a UPDATE_CONNECT_STATUS_CODE data] s)))"

fun query_token :: "(int, NotifierInfo option) stdmap \<Rightarrow> ptr \<Rightarrow> int option" where
  "query_token [] n = None"
| "query_token ((t, None) # m) n = None"
| "query_token ((t, Some i) # m) n = (if QueryNotifier i n then Some t else query_token m n)"

definition QueryTokenByNotifier :: "ptr \<Rightarrow> dams \<Rightarrow> int option" where
  "QueryTokenByNotifier n s = query_token (callbackMap s) n"

definition run_NotifierDied :: "dams_env \<Rightarrow> ptr \<Rightarrow> dams \<Rightarrow> dams option" where
  "run_NotifierDied env n s =
     (case QueryTokenByNotifier n s of
        None \<Rightarrow> Some s
      | Some token \<Rightarrow>
          do { s1 \<leftarrow> remove_callbacks token s;
               let s2 = s1\<lparr>tokenMap := erase_token token (tokenMap s1)\<rparr>;
               Some (snd (HandleDisconnectAbility env s2)) })"

definition run_task :: "dams_env \<Rightarrow> dams_task \<Rightarrow> dams \<Rightarrow> dams option" where
  "run_task env t s =
     (case t of
        TaskDisconnect \<Rightarrow> Some (run_Disconnect env s)
      | TaskDeviceConnect n rs \<Rightarrow> proxy_OnDeviceConnect env n rs s
      | TaskDeviceDisconnect n ids \<Rightarrow> proxy_OnDeviceDisconnect env n ids s
      | TaskStartDeviceManager token x \<Rightarrow> run_StartDeviceManager env token x s
      | TaskUpdateConnectStatus token dev st \<Rightarrow> run_UpdateConnectStatus env token dev st s
      | TaskNotifierDied n \<Rightarrow> run_NotifierDied env n s)"

definition run_next :: "dams_env \<Rightarrow> dams \<Rightarrow> dams option" where
  "run_next env s =
     (case tasks s of [] \<Rightarrow> Some s | t # ts \<Rightarrow> run_task env t (s\<lparr>tasks := ts\<rparr>))"

section \<open>The machine\<close>

datatype dams_req =
    ReqOnStart
  | ReqRegister nat "ContinuationExtraParams option"
  | ReqUnregister nat int
  | ReqRegisterCallback nat int string robj
  | ReqUnregisterCallback nat int string
  | ReqUpdateConnectStatus nat int string int
  | ReqStartDeviceManager nat int "ContinuationExtraParams option"
  | ReqSchedule ptr int "ContinuationExtraParams option"
  | ReqDeviceConnect int "ContinuationResult list"
  | ReqDeviceDisconnect int "string list"
  | ReqDeviceCancel
  | ReqNotifierDied ptr
  | ReqOnline string
  | ReqOffline string
  | ReqImpl nat parcel
  | ReqRunTask

definition dams_exec :: "dams_env \<Rightarrow> dams_req \<Rightarrow> dams \<Rightarrow> dams option" where
  "dams_exec env r s =
     (case r of
        ReqOnStart \<Rightarrow> OnStart env s
      | ReqRegister acc x \<Rightarrow> Some (snd (snd (Register env acc x s)))
      | ReqUnregister acc t \<Rightarrow> map_option snd (Unregister env acc t s)
      | ReqRegisterCallback acc t c n \<Rightarrow>
          map_option snd (RegisterDeviceSelectionCallback env acc t c (Some n) s)
      | ReqUnregisterCallback acc t c \<Rightarrow>
          map_option snd (UnregisterDeviceSelectionCallback env acc t c s)
      | ReqUpdateConnectStatus acc t d st \<Rightarrow> Some (snd (UpdateConnectStatus env acc t d st s))
      | ReqStartDeviceManager acc t x \<Rightarrow> Some (snd (StartDeviceManager env acc t x s))
      | ReqSchedule p t x \<Rightarrow> Some (ScheduleStartDeviceManager env p t x s)
      | ReqDeviceConnect t rs \<Rightarrow> Some (snd (OnDeviceConnect env t rs s))
      | ReqDeviceDisconnect t ids \<Rightarrow> Some (snd (OnDeviceDisconnect env t ids s))
      | ReqDeviceCancel \<Rightarrow> Some (snd (OnDeviceCancel env s))
      | ReqNotifierDied n \<Rightarrow> Some (ProcessNotifierDied env n s)
      | ReqOnline d \<Rightarrow> Some (DeviceOnlineNotify env d s)
      | ReqOffline d \<Rightarrow> Some (DeviceOfflineNotify env d s)
      | ReqImpl c p \<Rightarrow> Some (snd (snd (SendRequestToImpl env c p s)))
      | ReqRunTask \<Rightarrow> run_next env s)"

text \<open>A dead process (\<open>None\<close>) stays dead.\<close>

definition dams_step :: "dams_env \<Rightarrow> dams option \<Rightarrow> dams_req \<Rightarrow> dams option" where
  "dams_step env so r = Option.bind so (dams_exec env r)"

end
