(* ===== verification/AbilityManagerInv.thy ===== *)
theory AbilityManagerInv
  imports AbilityManagerRun
begin

text \<open>
  The invariant of the continuation manager and its preservation by every operation: the
  tables are well formed, no caller holds more than \<open>MAX_REGISTER_NUM\<close> tokens, only
  registered tokens have notifiers, and queued notifications go to real objects.
\<close>

definition tokens_inv :: "(nat, int list) stdmap \<Rightarrow> bool" where
  "tokens_inv m =
     (map_ok m \<and> (\<forall>(a, ts) \<in> set m. ts \<noteq> [] \<and> length ts \<le> MAX_REGISTER_NUM))"

definition registered_tokens :: "(nat, int list) stdmap \<Rightarrow> int set" where
  "registered_tokens m = (\<Union>(a, ts) \<in> set m. set ts)"

definition info_ok :: "NotifierInfo \<Rightarrow> bool" where
  "info_ok i =
     (map_ok (notifierMap i) \<and> notifierMap i \<noteq> [] \<and>
      (\<forall>(c, n) \<in> set (notifierMap i). c \<in> {EVENT_CONNECT, EVENT_DISCONNECT} \<and> n \<noteq> nullptr))"

definition callbacks_inv :: "(int, NotifierInfo option) stdmap \<Rightarrow> bool" where
  "callbacks_inv m = (map_ok m \<and> (\<forall>(t, v) \<in> set m. \<exists>i. v = Some i \<and> info_ok i))"

definition task_ok :: "dams_task \<Rightarrow> bool" where
  "task_ok t =
     (case t of
        TaskDeviceConnect n rs \<Rightarrow> n \<noteq> nullptr
      | TaskDeviceDisconnect n ids \<Rightarrow> n \<noteq> nullptr
      | _ \<Rightarrow> True)"

definition dams_inv :: "dams \<Rightarrow> bool" where
  "dams_inv s =
     (tokens_inv (tokenMap s) \<and> callbacks_inv (callbackMap s) \<and>
      map_keys (callbackMap s) \<subseteq> registered_tokens (tokenMap s) \<and> list_all task_ok (tasks s))"

section \<open>Tables\<close>

lemma tokens_inv_Nil [simp]: "tokens_inv []"
  by (simp add: tokens_inv_def)

lemma callbacks_inv_Nil [simp]: "callbacks_inv []"
  by (simp add: callbacks_inv_def)

lemma tokens_inv_Cons:
  "tokens_inv ((a, ts) # m) =
     ((\<forall>b \<in> map_keys m. a < b) \<and> ts \<noteq> [] \<and> length ts \<le> MAX_REGISTER_NUM \<and> tokens_inv m)"
  by (auto simp: tokens_inv_def map_ok_Cons)

lemma registered_tokens_Cons [simp]:
  "registered_tokens ((a, ts) # m) = set ts \<union> registered_tokens m"
  by (auto simp: registered_tokens_def)

lemma registered_tokens_Nil [simp]: "registered_tokens [] = {}"
  by (simp add: registered_tokens_def)

lemma erase_token_keys: "map_keys (erase_token t m) \<subseteq> map_keys m"
  by (induction t m rule: erase_token.induct) (auto simp: Let_def)

lemma erase_token_inv [simp]: "tokens_inv m \<Longrightarrow> tokens_inv (erase_token t m)"
proof (induction t m rule: erase_token.induct)
  case (2 t a ts m)
  then show ?case
    using erase_token_keys [of t m] le_trans [OF length_filter_le [of "\<lambda>n. n \<noteq> t" ts]]
    by (auto simp: Let_def tokens_inv_Cons)
qed simp

lemma erase_token_registered:
  "registered_tokens m - {t} \<subseteq> registered_tokens (erase_token t m)"
  by (induction t m rule: erase_token.induct) (auto simp: Let_def filter_empty_conv)

lemma callbacks_inv_find:
  "callbacks_inv m \<Longrightarrow> map_find t m = Some v \<Longrightarrow> \<exists>i. v = Some i \<and> info_ok i"
  unfolding callbacks_inv_def by (fastforce dest: map_find_Some_mem)

lemma callbacks_inv_put:
  "callbacks_inv m \<Longrightarrow> info_ok i \<Longrightarrow> callbacks_inv (map_put t (Some i) m)"
  by (auto simp: callbacks_inv_def)

lemma callbacks_inv_erase: "callbacks_inv m \<Longrightarrow> callbacks_inv (map_erase t m)"
  by (auto simp: callbacks_inv_def)

lemma info_ok_set:
  "map_ok (notifierMap i) \<Longrightarrow>
   \<forall>(c, n) \<in> set (notifierMap i). c \<in> {EVENT_CONNECT, EVENT_DISCONNECT} \<and> n \<noteq> nullptr \<Longrightarrow>
   c \<in> {EVENT_CONNECT, EVENT_DISCONNECT} \<Longrightarrow> info_ok (SetNotifier c (Some n) i)"
  by (auto simp: info_ok_def SetNotifier_def)

lemma info_ok_status [simp]: "info_ok (SetConnectStatusInfo c i) = info_ok i"
  by (simp add: info_ok_def SetConnectStatusInfo_def)

lemma info_ok_delete:
  "info_ok i \<Longrightarrow> \<not> IsNotifierMapEmpty (DeleteNotifier c i) \<Longrightarrow> info_ok (DeleteNotifier c i)"
  by (auto simp: info_ok_def DeleteNotifier_def IsNotifierMapEmpty_def)

lemma table_objects_ok:
  "\<forall>(c, n) \<in> set m. n \<noteq> nullptr \<Longrightarrow> \<exists>os. table_objects m = Some os"
  by (induction m rule: table_objects.induct) auto

lemma RemoveDeathRecipient_ok:
  assumes "info_ok i"
  shows "\<exists>es. RemoveDeathRecipient i c = Some es"
proof -
  have nn: "\<forall>(c, n) \<in> set (notifierMap i). n \<noteq> nullptr"
    using assms by (auto simp: info_ok_def)
  from table_objects_ok [OF this] obtain os where "table_objects (notifierMap i) = Some os" by blast
  moreover have "map_find c (notifierMap i) \<noteq> Some None"
    using nn by (auto dest: map_find_Some_mem)
  ultimately show ?thesis
    by (auto simp: RemoveDeathRecipient_def split: option.splits)
qed

section \<open>Effects and posting\<close>

lemma emit_simps [simp]:
  "tokenMap (emit es s) = tokenMap s" "callbackMap (emit es s) = callbackMap s"
  "tasks (emit es s) = tasks s" "appProxy (emit es s) = appProxy s"
  "token_counter (emit es s) = token_counter s" "isLoaded (emit es s) = isLoaded s"
  "continuationHandler (emit es s) = continuationHandler s" "next_obj (emit es s) = next_obj s"
  "notifierDeathRecipient (emit es s) = notifierDeathRecipient s"
  "dams_trace (emit es s) = dams_trace s @ es"
  by (simp_all add: emit_def)

lemma dams_inv_emit [simp]: "dams_inv (emit es s) = dams_inv s"
  by (simp add: dams_inv_def)

lemma dams_inv_irrelevant [simp]:
  "dams_inv (s\<lparr>isLoaded := a\<rparr>) = dams_inv s" "dams_inv (s\<lparr>appProxy := b\<rparr>) = dams_inv s"
  "dams_inv (s\<lparr>next_obj := c\<rparr>) = dams_inv s" "dams_inv (s\<lparr>token_counter := d\<rparr>) = dams_inv s"
  "dams_inv (s\<lparr>continuationHandler := e\<rparr>) = dams_inv s"
  "dams_inv (s\<lparr>notifierDeathRecipient := f\<rparr>) = dams_inv s"
  by (simp_all add: dams_inv_def)

lemma post_inv:
  "dams_inv s \<Longrightarrow> task_ok t \<Longrightarrow> post_to_handler env t s = (ok, s') \<Longrightarrow> dams_inv s'"
  by (auto simp: post_to_handler_def PostTask_def Let_def dams_inv_def split: if_splits)

lemma post_frame:
  assumes "post_to_handler env t s = (ok, s')"
  shows "tokenMap s' = tokenMap s" "callbackMap s' = callbackMap s" "appProxy s' = appProxy s"
    "token_counter s' = token_counter s" "ok \<Longrightarrow> tasks s' = tasks s @ [t]"
    "\<not> ok \<Longrightarrow> tasks s' = tasks s"
  using assms by (auto simp: post_to_handler_def PostTask_def Let_def split: if_splits)

lemmas handle_defs = HandleDisconnectAbility_def HandleDeviceConnect_def HandleDeviceDisconnect_def
  HandleStartDeviceManager_def HandleUpdateConnectStatus_def HandleNotifierDied_def

lemma snd_post_inv: "dams_inv s \<Longrightarrow> task_ok t \<Longrightarrow> dams_inv (snd (post_to_handler env t s))"
  by (metis post_inv prod.collapse)

lemma lookup_all_inv: "dams_inv (snd (lookup_all env fs s)) = dams_inv s"
  by (induction env fs s rule: lookup_all.induct) (auto simp: Let_def)

lemma InitDmsImplFunc_inv: "InitDmsImplFunc env s = (ok, s') \<Longrightarrow> dams_inv s' = dams_inv s"
  using lookup_all_inv [of env _ "emit [DlOpen ''libdistributedschedsvr.z.so''] s"]
  by (auto simp: InitDmsImplFunc_def InitFunc_def Let_def split: if_splits prod.splits)

lemma impl_calls_inv [simp]:
  "dams_inv (snd (snd (SendRequestToImpl env code data s))) = dams_inv s"
  "dams_inv (DeviceOnlineNotify env dev s) = dams_inv s"
  "dams_inv (DeviceOfflineNotify env dev s) = dams_inv s"
  "dams_inv (snd (ConnectAbility env token x s)) = dams_inv s"
  "dams_inv (snd (DisconnectAbility env s)) = dams_inv s"
  by (auto simp: SendRequestToImpl_def DeviceOnlineNotify_def DeviceOfflineNotify_def
      ConnectAbility_def DisconnectAbility_def Let_def InitDmsImplFunc_inv split: prod.splits)

section \<open>Operations\<close>

lemma OnStart_inv: "dams_inv s \<Longrightarrow> OnStart env s = Some s' \<Longrightarrow> dams_inv s'"
  by (auto simp: OnStart_def Let_def split: if_splits Option.bind_splits)

lemma tokens_inv_put:
  "tokens_inv m \<Longrightarrow> ts \<noteq> [] \<Longrightarrow> length ts \<le> MAX_REGISTER_NUM \<Longrightarrow> tokens_inv (map_put a ts m)"
  by (auto simp: tokens_inv_def)

lemma registered_tokens_iff:
  "map_ok m \<Longrightarrow> t \<in> registered_tokens m \<longleftrightarrow> (\<exists>a ts. map_find a m = Some ts \<and> t \<in> set ts)"
  by (auto simp: registered_tokens_def dest: map_find_Some_mem map_mem_find)

lemma registered_tokens_add:
  assumes "map_ok m"
  shows "registered_tokens
      (map_put a ((case map_find a m of None \<Rightarrow> [] | Some ts \<Rightarrow> ts) @ [t]) m) =
    insert t (registered_tokens m)"
  using assms by (auto simp: registered_tokens_iff split: option.splits if_splits)
    (metis map_find_Some_key option.sel)+

lemma Register_inv:
  assumes "dams_inv s"
  shows "dams_inv (snd (snd (Register env acc x s)))"
proof -
  let ?old = "case map_find acc (tokenMap s) of None \<Rightarrow> [] | Some ts \<Rightarrow> ts"
  have ok: "map_ok (tokenMap s)" using assms by (simp add: dams_inv_def tokens_inv_def)
  have "length ?old < MAX_REGISTER_NUM" if "\<not> IsExceededRegisterMaxNum acc s"
    using that by (auto simp: IsExceededRegisterMaxNum_def MAX_REGISTER_NUM_def dest: map_find_Some_key
        split: option.splits)
  then have "tokens_inv (map_put acc (?old @ [t]) (tokenMap s))"
    if "\<not> IsExceededRegisterMaxNum acc s" for t
    using that assms by (intro tokens_inv_put) (auto simp: dams_inv_def)
  with assms registered_tokens_add [OF ok, of acc] show ?thesis
    by (auto simp: Register_def Let_def dams_inv_def simp del: append_Cons split del: option.splits)
qed

text \<open>Removing a token's notifiers and then the token keeps the invariant and never fails.\<close>

definition drop_token :: "int \<Rightarrow> dams \<Rightarrow> dams option" where
  "drop_token token s =
     map_option (\<lambda>s1. s1\<lparr>tokenMap := erase_token token (tokenMap s1)\<rparr>) (remove_callbacks token s)"

lemma drop_token_ok:
  assumes "dams_inv s"
  shows "\<exists>s'. drop_token token s = Some s' \<and> dams_inv s' \<and>
    callbackMap s' = map_erase token (callbackMap s) \<and>
    tokenMap s' = erase_token token (tokenMap s) \<and> tasks s' = tasks s \<and> appProxy s' = appProxy s"
proof (cases "map_find token (callbackMap s)")
  case None
  then have "token \<notin> map_keys (callbackMap s)" by simp
  moreover have "registered_tokens (tokenMap s) - {token} \<subseteq> registered_tokens (erase_token token (tokenMap s))"
    by (rule erase_token_registered)
  ultimately show ?thesis using assms
    by (auto simp: drop_token_def remove_callbacks_def dams_inv_def)
next
  case (Some v)
  have inv: "callbacks_inv (callbackMap s)" "tokens_inv (tokenMap s)" "list_all task_ok (tasks s)"
    "map_keys (callbackMap s) \<subseteq> registered_tokens (tokenMap s)"
    using assms by (auto simp: dams_inv_def)
  from callbacks_inv_find [OF inv(1) Some] obtain i where v: "v = Some i" and i: "info_ok i" by blast
  from RemoveDeathRecipient_ok [OF i] obtain es where "RemoveDeathRecipient i [] = Some es" by blast
  then have "drop_token token s =
      Some ((emit es s)\<lparr>callbackMap := map_erase token (callbackMap s),
              tokenMap := erase_token token (tokenMap s)\<rparr>)"
    using Some v by (simp add: drop_token_def remove_callbacks_def)
  moreover have "map_keys (map_erase token (callbackMap s))
      \<subseteq> registered_tokens (erase_token token (tokenMap s))"
    using inv(4) erase_token_registered [of "tokenMap s" token] by auto
  ultimately show ?thesis using inv by (simp add: dams_inv_def callbacks_inv_erase)
qed

lemma Unregister_eq:
  "Unregister env acc token s =
     (if \<not> IsTokenRegistered acc token s then Some (TOKEN_HAS_NOT_REGISTERED, s)
      else map_option (\<lambda>s2. (ERR_OK, snd (HandleDisconnectAbility env s2))) (drop_token token s))"
  by (cases "remove_callbacks token s") (simp_all add: Unregister_def drop_token_def Let_def)

lemma run_NotifierDied_eq:
  "run_NotifierDied env n s =
     (case QueryTokenByNotifier n s of
        None \<Rightarrow> Some s
      | Some token \<Rightarrow> map_option (\<lambda>s2. snd (HandleDisconnectAbility env s2)) (drop_token token s))"
proof (cases "QueryTokenByNotifier n s")
  case (Some token)
  then show ?thesis
    by (cases "remove_callbacks token s") (simp_all add: run_NotifierDied_def drop_token_def Let_def)
qed (simp add: run_NotifierDied_def)

lemma HandleDisconnectAbility_inv: "dams_inv s \<Longrightarrow> dams_inv (snd (HandleDisconnectAbility env s))"
  by (simp add: handle_defs snd_post_inv task_ok_def)

lemma Unregister_ok:
  assumes "dams_inv s"
  shows "\<exists>r s'. Unregister env acc token s = Some (r, s') \<and> dams_inv s'"
proof -
  from drop_token_ok [OF assms, of token] obtain s2 where "drop_token token s = Some s2" "dams_inv s2"
    by blast
  with assms show ?thesis by (auto simp: Unregister_eq HandleDisconnectAbility_inv)
qed

lemma run_NotifierDied_ok:
  assumes "dams_inv s"
  shows "\<exists>s'. run_NotifierDied env n s = Some s' \<and> dams_inv s'"
proof (cases "QueryTokenByNotifier n s")
  case (Some token)
  from drop_token_ok [OF assms, of token] obtain s2 where "drop_token token s = Some s2" "dams_inv s2"
    by blast
  with Some show ?thesis by (simp add: run_NotifierDied_eq HandleDisconnectAbility_inv)
qed (simp add: run_NotifierDied_eq assms)

lemma IsTokenRegistered_registered:
  assumes "dams_inv s" "IsTokenRegistered acc token s"
  shows "token \<in> registered_tokens (tokenMap s)"
proof -
  have "map_ok (tokenMap s)" using assms(1) by (simp add: dams_inv_def tokens_inv_def)
  with assms(2) show ?thesis
    by (auto simp: IsTokenRegistered_def registered_tokens_iff list_ex_iff split: option.splits)
qed

lemma RegisterDeviceSelectionCallback_ok:
  assumes "dams_inv s"
  shows "\<exists>r s'. RegisterDeviceSelectionCallback env acc token cbType (Some n) s = Some (r, s') \<and>
    dams_inv s'"
proof (cases "cbType \<in> {EVENT_CONNECT, EVENT_DISCONNECT} \<and> IsTokenRegistered acc token s \<and>
    \<not> IsNotifierRegisteredLocked token cbType s")
  case True
  have cb: "callbacks_inv (callbackMap s)" using assms by (simp add: dams_inv_def)
  have tok: "token \<in> registered_tokens (tokenMap s)"
    using IsTokenRegistered_registered assms True by blast
  show ?thesis
  proof (cases "map_find token (callbackMap s)")
    case None
    let ?i = "SetNotifier cbType (Some n) \<lparr>notifierMap = [], connectStatusInfo = None\<rparr>"
    have "info_ok ?i" using True by (intro info_ok_set) auto
    then show ?thesis using True None assms tok cb
      by (auto simp: RegisterDeviceSelectionCallback_def Let_def dams_inv_def callbacks_inv_put)
  next
    case (Some v)
    with callbacks_inv_find [OF cb] obtain i where i: "v = Some i" "info_ok i" by blast
    then have "info_ok (SetNotifier cbType (Some n) i)"
      using True by (intro info_ok_set) (auto simp: info_ok_def)
    then show ?thesis using True Some assms tok cb i
      by (auto simp: RegisterDeviceSelectionCallback_def dams_inv_def callbacks_inv_put)
  qed
qed (use assms in \<open>auto simp: RegisterDeviceSelectionCallback_def\<close>)

lemma UnregisterDeviceSelectionCallback_ok:
  assumes "dams_inv s"
  shows "\<exists>r s'. UnregisterDeviceSelectionCallback env acc token cbType s = Some (r, s') \<and> dams_inv s'"
proof (cases "cbType \<in> {EVENT_CONNECT, EVENT_DISCONNECT} \<and> IsTokenRegistered acc token s \<and>
    IsNotifierRegisteredLocked token cbType s")
  case True
  have cb: "callbacks_inv (callbackMap s)" "map_keys (callbackMap s) \<subseteq> registered_tokens (tokenMap s)"
    using assms by (auto simp: dams_inv_def)
  obtain i where i: "map_find token (callbackMap s) = Some (Some i)"
    using True by (auto simp: IsNotifierRegisteredLocked_def split: option.splits)
  then have ok: "info_ok i" using callbacks_inv_find [OF cb(1)] by blast
  from RemoveDeathRecipient_ok [OF this] obtain es where es: "RemoveDeathRecipient i cbType = Some es"
    by blast
  have tok: "token \<in> registered_tokens (tokenMap s)"
    using IsTokenRegistered_registered assms True by blast
  show ?thesis using True i es assms tok cb ok
    by (auto simp: UnregisterDeviceSelectionCallback_def Let_def dams_inv_def info_ok_delete
        callbacks_inv_put callbacks_inv_erase)
qed (use assms in \<open>auto simp: UnregisterDeviceSelectionCallback_def\<close>)

lemma UpdateConnectStatus_inv:
  assumes "dams_inv s"
  shows "dams_inv (snd (UpdateConnectStatus env acc token dev st s))"
proof -
  have upd: "dams_inv (s\<lparr>callbackMap := map_put token (Some (SetConnectStatusInfo c i)) (callbackMap s)\<rparr>)"
    if "IsTokenRegistered acc token s" "map_find token (callbackMap s) = Some (Some i)" for c i
  proof -
    have "callbacks_inv (callbackMap s)" using assms by (simp add: dams_inv_def)
    from callbacks_inv_find [OF this that(2)] have "info_ok i" by auto
    with IsTokenRegistered_registered [OF assms that(1)] assms show ?thesis
      by (auto simp: dams_inv_def callbacks_inv_put)
  qed
  with assms show ?thesis
    by (auto simp: UpdateConnectStatus_def Let_def handle_defs task_ok_def
        intro!: snd_post_inv split: option.splits)
qed

lemma StartDeviceManager_inv: "dams_inv s \<Longrightarrow> dams_inv (snd (StartDeviceManager env acc token x s))"
  using impl_calls_inv(4) [of env token x s]
  by (auto simp: StartDeviceManager_def handle_defs task_ok_def simp del: impl_calls_inv(4)
      intro!: snd_post_inv split: prod.splits)

lemma ScheduleStartDeviceManager_inv:
  "dams_inv s \<Longrightarrow> dams_inv (ScheduleStartDeviceManager env p token x s)"
  by (simp add: ScheduleStartDeviceManager_def Let_def handle_defs task_ok_def snd_post_inv)

lemma registered_notifier_nonnull:
  "IsNotifierRegisteredLocked token cbType s \<Longrightarrow> registered_notifier token cbType s \<noteq> nullptr"
  by (auto simp: IsNotifierRegisteredLocked_def registered_notifier_def dest: map_find_Some_key
      split: option.splits)

lemma HandleDevice_inv:
  "dams_inv s \<Longrightarrow> n \<noteq> nullptr \<Longrightarrow> HandleDeviceConnect env n rs s = (ok, s') \<Longrightarrow> dams_inv s'"
  "dams_inv s \<Longrightarrow> n \<noteq> nullptr \<Longrightarrow> HandleDeviceDisconnect env n ids s = (ok, s') \<Longrightarrow> dams_inv s'"
  unfolding HandleDeviceConnect_def HandleDeviceDisconnect_def
  by (erule post_inv [rotated 2], simp, simp add: task_ok_def)+

lemma panel_callbacks_inv:
  assumes "dams_inv s"
  shows "dams_inv (snd (OnDeviceConnect env token rs s))"
    "dams_inv (snd (OnDeviceDisconnect env token ids s))"
    "dams_inv (snd (OnDeviceCancel env s))"
proof -
  obtain ok s1 where s1: "HandleDisconnectAbility env s = (ok, s1)" by fastforce
  then have "dams_inv s1" using HandleDisconnectAbility_inv [OF assms, of env] by simp
  then show "dams_inv (snd (OnDeviceConnect env token rs s))"
    "dams_inv (snd (OnDeviceDisconnect env token ids s))"
    "dams_inv (snd (OnDeviceCancel env s))"
    using s1
    by (auto simp: OnDeviceConnect_def OnDeviceDisconnect_def OnDeviceCancel_def
        split: prod.splits intro: HandleDevice_inv [OF _ registered_notifier_nonnull])
qed

lemma ProcessNotifierDied_inv: "dams_inv s \<Longrightarrow> dams_inv (ProcessNotifierDied env n s)"
  by (simp add: ProcessNotifierDied_def handle_defs task_ok_def snd_post_inv)

lemma proxy_calls_inv:
  "dams_inv s \<Longrightarrow> proxy_OnDeviceConnect env n rs s = Some s' \<Longrightarrow> dams_inv s'"
  "dams_inv s \<Longrightarrow> proxy_OnDeviceDisconnect env n ids s = Some s' \<Longrightarrow> dams_inv s'"
  "dams_inv s \<Longrightarrow> run_StartDeviceManager env token x s = Some s' \<Longrightarrow> dams_inv s'"
  "dams_inv s \<Longrightarrow> run_UpdateConnectStatus env token dev st s = Some s' \<Longrightarrow> dams_inv s'"
  by (auto simp: proxy_OnDeviceConnect_def proxy_OnDeviceDisconnect_def run_StartDeviceManager_def
      run_UpdateConnectStatus_def Let_def split: option.splits)

lemma run_NotifierDied_inv:
  "dams_inv s \<Longrightarrow> run_NotifierDied env n s = Some s' \<Longrightarrow> dams_inv s'"
  using run_NotifierDied_ok [of s env n] by auto

lemma run_next_inv: "dams_inv s \<Longrightarrow> run_next env s = Some s' \<Longrightarrow> dams_inv s'"
proof -
  assume inv: "dams_inv s" and run: "run_next env s = Some s'"
  show "dams_inv s'"
  proof (cases "tasks s")
    case (Cons t ts)
    let ?s = "s\<lparr>tasks := ts\<rparr>"
    have "dams_inv ?s" using inv Cons by (simp add: dams_inv_def)
    moreover have "run_task env t ?s = Some s'" using run Cons by (simp add: run_next_def)
    ultimately show ?thesis
      by (cases t) (force simp: run_task_def run_Disconnect_def
          intro: proxy_calls_inv run_NotifierDied_inv)+
  qed (use inv run in \<open>simp add: run_next_def\<close>)
qed

lemma dams_exec_inv:
  assumes "dams_inv s" and "dams_exec env r s = Some s'"
  shows "dams_inv s'"
proof (cases r)
  case ReqOnStart
  with assms show ?thesis by (auto simp: dams_exec_def intro: OnStart_inv)
next
  case (ReqUnregister acc t)
  with assms Unregister_ok [OF assms(1), of env acc t] show ?thesis by (auto simp: dams_exec_def)
next
  case (ReqRegisterCallback acc t c n)
  with assms RegisterDeviceSelectionCallback_ok [OF assms(1), of env acc t c n] show ?thesis
    by (auto simp: dams_exec_def)
next
  case (ReqUnregisterCallback acc t c)
  with assms UnregisterDeviceSelectionCallback_ok [OF assms(1), of env acc t c] show ?thesis
    by (auto simp: dams_exec_def)
next
  case ReqRunTask
  with assms show ?thesis by (auto simp: dams_exec_def intro: run_next_inv)
qed (use assms in \<open>auto simp: dams_exec_def Register_inv UpdateConnectStatus_inv
       StartDeviceManager_inv ScheduleStartDeviceManager_inv panel_callbacks_inv
       ProcessNotifierDied_inv\<close>)

end
