(* ===== verification/AbilityManagerProps.thy ===== *)
theory AbilityManagerProps
  imports AbilityManagerInv
begin

text \<open>
  What the continuation manager guarantees: the reachable states, the only ways the process
  can die, the token numbering, and the effect of registering and unregistering. The
  interpretation of \<open>machine\<close> turns the preservation lemmas into facts about all runs.
\<close>

section \<open>Runs\<close>

definition alive_inv :: "dams option \<Rightarrow> bool" where
  "alive_inv so = (case so of None \<Rightarrow> True | Some s \<Rightarrow> dams_inv s)"

lemma initial_dams_inv [simp]: "dams_inv initial_dams"
  by (simp add: dams_inv_def initial_dams_def)

interpretation dams_m: machine "dams_step env" "\<lambda>so. so = Some initial_dams" alive_inv
proof unfold_locales
  show "alive_inv (dams_step env so r)" if "alive_inv so" for so r
    using that dams_exec_inv
    by (auto simp: alive_inv_def dams_step_def split: option.splits bind_splits)
qed (simp add: alive_inv_def)

text \<open>An environment in which every call succeeds.\<close>

definition demo_env :: dams_env where
  "demo_env = \<lparr>param_value = (\<lambda>h. ''0''), dl_open_ok = (\<lambda>h. True), dl_sym_ok = (\<lambda>h f. True),
     impl_request = (\<lambda>h c p. (0, [])), impl_connect = (\<lambda>h. 0), impl_disconnect = (\<lambda>h. 0),
     post_ok = (\<lambda>h. True), can_write = (\<lambda>p v. True), to_str16 = u16,
     to_str8 = (\<lambda>s. map (\<lambda>w. char_of (unat w)) s), ipc_null_object = 1, ipc_flatten_object = 2\<rparr>"

definition demo_run :: "dams_req list" where
  "demo_run = [ReqOnStart, ReqRegister 7 None, ReqRegisterCallback 7 1 EVENT_CONNECT (Proxy 4),
     ReqSchedule (Some (Proxy 9)) 1 None]"


lemma demo_run_result:
  "run (dams_step demo_env) (Some initial_dams) demo_run \<noteq> None"
  by code_simp


section \<open>The ways to die\<close>

lemma run_task_None:
  assumes "dams_inv s" "task_ok t" "run_task env t s = None"
  shows "appProxy s = nullptr \<and>
    ((\<exists>token x. t = TaskStartDeviceManager token x) \<or> (\<exists>token dev st. t = TaskUpdateConnectStatus token dev st))"
proof (cases t)
  case (TaskNotifierDied n)
  with assms run_NotifierDied_ok [OF assms(1), of env n] show ?thesis by (auto simp: run_task_def)
qed (use assms in \<open>auto simp: run_task_def task_ok_def proxy_OnDeviceConnect_def
      proxy_OnDeviceDisconnect_def run_StartDeviceManager_def run_UpdateConnectStatus_def Let_def
      split: option.splits\<close>)


definition panel_gone_run :: "dams_req list" where
  "panel_gone_run = demo_run @ [ReqUpdateConnectStatus 7 1 ''d'' 2, ReqSchedule None 1 None]"

lemma panel_gone_alive: "run (dams_step demo_env) (Some initial_dams) panel_gone_run \<noteq> None"
  by code_simp

lemma panel_gone_dead: "run (dams_step demo_env) (Some initial_dams) (panel_gone_run @ [ReqRunTask]) = None"
  by code_simp


text \<open>
  The second way to die happens in a run of ordinary requests: the panel is connected,
  an application updates a status, the panel disconnects (\<open>OnAbilityDisconnectDone\<close>
  resets the proxy), and the queued task then sends through the null proxy.
\<close>

lemma dams_panel_reset_kills:
  "run (dams_step demo_env) (Some initial_dams)
     [ReqOnStart, ReqRegister 7 None, ReqRegisterCallback 7 1 EVENT_CONNECT (Proxy 4),
      ReqSchedule (Some (Proxy 9)) 1 None, ReqRunTask,
      ReqUpdateConnectStatus 7 1 ''device'' CONNECTED, ReqSchedule None 1 None, ReqRunTask] = None"
  by code_simp

section \<open>Token numbers\<close>

lemma next_token_sint:
  assumes "0 \<le> sint c" "sint c \<le> MAX_TOKEN_NUM"
  shows "sint (next_token c) = sint c mod MAX_TOKEN_NUM + 1"
proof -
  have "sint (c + 1) = sint c + 1"
    using assms by (intro sint_succ_32) (simp add: MAX_TOKEN_NUM_def)
  moreover have "sint c mod 100000000 = (if sint c = 100000000 then 0 else sint c)"
    using assms by (auto simp: MAX_TOKEN_NUM_def)
  ultimately show ?thesis using assms
    by (auto simp: next_token_def Let_def MAX_TOKEN_NUM_def)
qed

lemma next_token_iterate:
  assumes "0 \<le> sint c" "sint c \<le> MAX_TOKEN_NUM"
  shows "sint ((next_token ^^ Suc k) c) = (sint c + int k) mod MAX_TOKEN_NUM + 1"
proof (induction k)
  case 0
  show ?case using next_token_sint [OF assms] by simp
next
  case (Suc k)
  let ?t = "(next_token ^^ Suc k) c"
  have r: "0 \<le> sint ?t" "sint ?t \<le> MAX_TOKEN_NUM"
    using Suc.IH pos_mod_bound [of MAX_TOKEN_NUM "sint c + int k"]
      pos_mod_sign [of MAX_TOKEN_NUM "sint c + int k"] by (auto simp: MAX_TOKEN_NUM_def)
  have "sint ((next_token ^^ Suc (Suc k)) c) = sint ?t mod MAX_TOKEN_NUM + 1"
    using next_token_sint [OF r] by simp
  also have "\<dots> = (sint c + int (Suc k)) mod MAX_TOKEN_NUM + 1"
    unfolding Suc.IH by (simp add: mod_simps algebra_simps)
  finally show ?case .
qed

text \<open>
  C35: the tokens of up to 100000000 consecutive registrations are distinct and lie between
  1 and 100000000, from any counter in that range: the wrap-around never repeats a token
  before all others were given out.
\<close>

theorem tokens_distinct:
  assumes "0 \<le> sint c" "sint c \<le> MAX_TOKEN_NUM" "i < j" "int j < MAX_TOKEN_NUM"
  shows "sint ((next_token ^^ Suc i) c) \<noteq> sint ((next_token ^^ Suc j) c) \<and>
    1 \<le> sint ((next_token ^^ Suc i) c) \<and> sint ((next_token ^^ Suc i) c) \<le> MAX_TOKEN_NUM"
proof -
  have "(sint c + int i) mod MAX_TOKEN_NUM \<noteq> (sint c + int j) mod MAX_TOKEN_NUM"
  proof
    assume "(sint c + int i) mod MAX_TOKEN_NUM = (sint c + int j) mod MAX_TOKEN_NUM"
    then have "MAX_TOKEN_NUM dvd (sint c + int j) - (sint c + int i)"
      by (metis mod_eq_dvd_iff)
    then have "MAX_TOKEN_NUM dvd int j - int i" by simp
    then show False using assms zdvd_imp_le [of MAX_TOKEN_NUM "int j - int i"] by simp
  qed
  moreover have "0 \<le> (sint c + int i) mod MAX_TOKEN_NUM \<and> (sint c + int i) mod MAX_TOKEN_NUM < MAX_TOKEN_NUM"
    by (simp add: MAX_TOKEN_NUM_def)
  ultimately show ?thesis unfolding next_token_iterate [OF assms(1,2)] by simp
qed

theorem tokens_distinct_witness:
  "sint ((next_token ^^ Suc 0) 99999999) \<noteq> sint ((next_token ^^ Suc 1) 99999999)"
  using tokens_distinct [of 99999999 0 1] by (simp add: MAX_TOKEN_NUM_def)

section \<open>Registrations as a relation\<close>

text \<open>
  The abstract contract of the token table: a set of (caller, token) pairs, to which
  \<open>Register\<close> adds one pair and from which \<open>Unregister\<close> takes the token away.
\<close>

definition abs_tokens :: "dams \<Rightarrow> (nat \<times> int) set" where
  "abs_tokens s = {(a, t). \<exists>ts. map_find a (tokenMap s) = Some ts \<and> t \<in> set ts}"

lemma IsTokenRegistered_abs: "IsTokenRegistered acc t s \<longleftrightarrow> (acc, t) \<in> abs_tokens s"
  by (auto simp: IsTokenRegistered_def abs_tokens_def list_ex_iff dest: map_find_Some_key
      split: option.splits)

lemma map_find_erase_token_id:
  "t \<notin> registered_tokens m \<Longrightarrow> \<forall>(a, ts) \<in> set m. ts \<noteq> [] \<Longrightarrow> erase_token t m = m"
proof (induction t m rule: erase_token.induct)
  case (2 t a ts m)
  then have "filter (\<lambda>n. n \<noteq> t) ts = ts" by (intro filter_neq_absent) auto
  with 2 show ?case by simp
qed simp

lemma erase_token_single:
  assumes "tokens_inv m" "map_find acc m = Some ts0"
    and "\<And>b ts. map_find b m = Some ts \<Longrightarrow> t \<in> set ts \<Longrightarrow> b = acc"
  shows "map_find a (erase_token t m) =
    (if a = acc then (if filter (\<lambda>n. n \<noteq> t) ts0 = [] then None else Some (filter (\<lambda>n. n \<noteq> t) ts0))
     else map_find a m)"
  using assms
proof (induction t m arbitrary: ts0 rule: erase_token.induct)
  case (2 t b ts m)
  have m: "tokens_inv m" "b \<notin> map_keys m" "ts \<noteq> []" "map_ok m"
    using 2(2) by (auto simp: tokens_inv_def map_ok_Cons)
  have sub: "b' = acc" if "map_find b' m = Some ts'" "t \<in> set ts'" for b' ts'
  proof -
    have "b' \<noteq> b" using that(1) m(2) by (auto dest: map_find_Some_key)
    with 2(4) [of b' ts'] that show ?thesis by simp
  qed
  show ?case
  proof (cases "b = acc")
    case True
    have "t \<notin> registered_tokens m"
      using sub True m by (auto simp: registered_tokens_iff dest: map_find_Some_key)
    moreover have "\<forall>(a, ts) \<in> set m. ts \<noteq> []" using m(1) by (auto simp: tokens_inv_def)
    ultimately have "erase_token t m = m" by (rule map_find_erase_token_id)
    with True 2(3) m(2) show ?thesis by (auto simp: Let_def)
  next
    case False
    with 2(4) [of b ts] have t: "t \<notin> set ts" by auto
    then have f: "filter (\<lambda>n. n \<noteq> t) ts = ts" by (rule filter_neq_absent)
    have "map_find acc m = Some ts0" using 2(3) False by simp
    have "filter (\<lambda>n. n \<noteq> t) ts \<noteq> []" using f m(3) by simp
    from 2(1) [OF refl this m(1) \<open>map_find acc m = Some ts0\<close> sub] this f m(2) False
    show ?thesis by (auto simp: Let_def simp del: map_find_None_iff)
  qed
qed simp

text \<open>
  C19: registering refines adding a pair (caller, new token); unregistering a token that
  belongs to the caller alone refines removing it, takes its notifiers away, and leaves
  every other token and notifier as it was. The early \<^verbatim>\<open>break\<close> of the loop is harmless
  under that condition.
\<close>

theorem token_table_refines:
  assumes "dams_inv s" and "(acc, t) \<in> abs_tokens s"
    and "\<And>b. (b, t) \<in> abs_tokens s \<Longrightarrow> b = acc"
  shows "\<exists>s'. Unregister env acc t s = Some (ERR_OK, s') \<and>
    abs_tokens s' = abs_tokens s - {(acc, t)} \<and> callbackMap s' = map_erase t (callbackMap s)"
proof -
  obtain ts0 where ts0: "map_find acc (tokenMap s) = Some ts0" "t \<in> set ts0"
    using assms(2) by (auto simp: abs_tokens_def)
  have inv: "tokens_inv (tokenMap s)" using assms(1) by (simp add: dams_inv_def)
  have one: "b = acc" if "map_find b (tokenMap s) = Some ts" "t \<in> set ts" for b ts
    using assms(3) that by (auto simp: abs_tokens_def)
  note find = erase_token_single [OF inv ts0(1) one]
  obtain s1 where s1: "drop_token t s = Some s1" "callbackMap s1 = map_erase t (callbackMap s)"
    "tokenMap s1 = erase_token t (tokenMap s)"
    using drop_token_ok [OF assms(1), of t] by blast
  obtain ok s2 where post: "HandleDisconnectAbility env s1 = (ok, s2)" by fastforce
  then have frame: "tokenMap s2 = tokenMap s1" "callbackMap s2 = callbackMap s1"
    using post_frame [of env TaskDisconnect s1 ok s2] by (simp_all add: HandleDisconnectAbility_def)
  have "(a, u) \<in> abs_tokens s2 \<longleftrightarrow> (a, u) \<in> abs_tokens s - {(acc, t)}" for a u
    using ts0(1) one unfolding abs_tokens_def frame s1(3)
    by (cases "a = acc") (auto simp: find filter_empty_conv)
  then have "abs_tokens s2 = abs_tokens s - {(acc, t)}" by auto
  moreover have "Unregister env acc t s = Some (ERR_OK, s2)"
    using assms(2) s1(1) post by (simp add: Unregister_eq IsTokenRegistered_abs)
  ultimately show ?thesis using frame(2) s1(2) by auto
qed

lemma Register_abs:
  "Register env acc x s = (ERR_OK, Some t, s') \<Longrightarrow> abs_tokens s' = insert (acc, t) (abs_tokens s)"
  by (auto simp: Register_def Let_def abs_tokens_def err_defs split: if_splits option.splits)

definition two_callers :: dams where
  "two_callers = initial_dams\<lparr>continuationHandler := True, token_counter := 3,
     tokenMap := [(7, [1, 3]), (8, [2])],
     callbackMap := [(2, Some \<lparr>notifierMap = [(EVENT_CONNECT, Some (Proxy 4))], connectStatusInfo = None\<rparr>)]\<rparr>"

lemma two_callers_inv: "dams_inv two_callers"
  by (simp add: two_callers_def initial_dams_def dams_inv_def tokens_inv_def callbacks_inv_def
      map_ok_Cons info_ok_def MAX_REGISTER_NUM_def)

lemma two_callers_abs: "abs_tokens two_callers = {(7, 1), (7, 3), (8, 2)}"
  by (auto simp: two_callers_def abs_tokens_def split: if_splits)

theorem token_table_refines_witness:
  "\<exists>s'. Unregister demo_env 8 2 two_callers = Some (ERR_OK, s') \<and>
     abs_tokens s' = {(7, 1), (7, 3), (8, 2)} - {(8, 2)}"
proof -
  have h: "(8, 2) \<in> abs_tokens two_callers" by (simp add: two_callers_abs)
  have o: "b = 8" if "(b, 2) \<in> abs_tokens two_callers" for b
    using that by (simp add: two_callers_abs)
  from token_table_refines [OF two_callers_inv h o, of demo_env] show ?thesis
    unfolding two_callers_abs by blast
qed

section \<open>Callbacks\<close>

lemma IsNotifierRegisteredLocked_put:
  "IsNotifierRegisteredLocked token c (s\<lparr>callbackMap := map_put token (Some i) m\<rparr>) \<longleftrightarrow>
   GetNotifier i c \<noteq> nullptr"
  by (simp add: IsNotifierRegisteredLocked_def)

lemma GetNotifier_Set [simp]:
  "GetNotifier (SetNotifier c n i) c' = (if c' = c then n else GetNotifier i c')"
  by (simp add: GetNotifier_def SetNotifier_def)

lemma callback_registered:
  assumes "dams_inv s" and "cbType \<in> {EVENT_CONNECT, EVENT_DISCONNECT}"
    and "(acc, token) \<in> abs_tokens s" and "registered_notifier token cbType s = nullptr"
  shows "\<exists>s'. RegisterDeviceSelectionCallback env acc token cbType (Some n) s = Some (ERR_OK, s') \<and>
    (\<forall>c. registered_notifier token c s' =
       (if c = cbType then Some n else registered_notifier token c s)) \<and>
    dams_trace s' = dams_trace s @ (if IsNotifierRegistered token s then [] else [AddDeath n])"
proof -
  have cb: "callbacks_inv (callbackMap s)" using assms(1) by (simp add: dams_inv_def)
  have reg: "IsTokenRegistered acc token s" using assms(3) by (simp add: IsTokenRegistered_abs)
  show ?thesis
  proof (cases "map_find token (callbackMap s)")
    case None
    then show ?thesis using assms(2) reg
      by (auto simp: RegisterDeviceSelectionCallback_def IsNotifierRegisteredLocked_def Let_def
          IsNotifierRegistered_def registered_notifier_def GetNotifier_def SetNotifier_def)
  next
    case (Some v)
    with callbacks_inv_find [OF cb] obtain i where "v = Some i" by blast
    with Some assms(2,4) reg show ?thesis
      by (auto simp: RegisterDeviceSelectionCallback_def IsNotifierRegisteredLocked_def
          IsNotifierRegistered_def registered_notifier_def)
  qed
qed

text \<open>
  a callback registration with a valid type succeeds when the caller holds the
  token and has no notifier of that type yet. It stores the notifier under that type and
  keeps the other one; the death recipient is attached when the token had no notifier at
  all, and only then: the process that registers the second notifier of a token is never
  watched.
\<close>

lemma register_callback_effect:
  assumes "dams_inv s" and "cbType \<in> {EVENT_CONNECT, EVENT_DISCONNECT}"
    and "(acc, token) \<in> abs_tokens s" and "registered_notifier token cbType s = nullptr"
  shows "\<exists>s'. RegisterDeviceSelectionCallback env acc token cbType (Some n) s = Some (ERR_OK, s') \<and>
    (\<forall>c. registered_notifier token c s' =
       (if c = cbType then Some n else registered_notifier token c s)) \<and>
    dams_trace s' = dams_trace s @ (if IsNotifierRegistered token s then [] else [AddDeath n])"
  using assms by (rule callback_registered)

lemma register_callback_sample:
  "\<exists>s'. RegisterDeviceSelectionCallback demo_env 8 2 EVENT_DISCONNECT (Some (Proxy 5)) two_callers =
      Some (ERR_OK, s') \<and> dams_trace s' = dams_trace two_callers"
proof -
  have "(8, 2) \<in> abs_tokens two_callers" by (simp add: two_callers_abs)
  moreover have "registered_notifier 2 EVENT_DISCONNECT two_callers = nullptr"
    "IsNotifierRegistered 2 two_callers"
    by (simp_all add: registered_notifier_def two_callers_def GetNotifier_def EVENT_CONNECT_def
        EVENT_DISCONNECT_def IsNotifierRegistered_def)
  ultimately show ?thesis
    using register_callback_effect [OF two_callers_inv, of EVENT_DISCONNECT 8 2 demo_env "Proxy 5"] by auto
qed

end
