(* ===== verification/AbilityManagerIpc.thy ===== *)
theory AbilityManagerIpc
  imports AbilityManagerProps
begin

text \<open>
  The IPC layer of the continuation manager: the stub that decodes requests
  (\<^verbatim>\<open>distributed_ability_manager_stub.cpp\<close>), the proxy that encodes them in the client
  (\<^verbatim>\<open>distributed_ability_manager_proxy.cpp\<close>), the stub the device panel calls back
  (\<^verbatim>\<open>app_device_callback_stub.cpp\<close>) and the receiving side of a notifier
  (\<^verbatim>\<open>device_selection_notifier_stub.cpp\<close>). A \<open>transport\<close> carries a request to a stub;
  composing a proxy with the stub gives back the operation.
\<close>

section \<open>Codes\<close>

definition REGISTER :: nat where "REGISTER = 500"
definition UNREGISTER :: nat where "UNREGISTER = 501"
definition REGISTER_DEVICE_SELECTION_CALLBACK :: nat where "REGISTER_DEVICE_SELECTION_CALLBACK = 502"
definition UNREGISTER_DEVICE_SELECTION_CALLBACK :: nat where "UNREGISTER_DEVICE_SELECTION_CALLBACK = 503"
definition UPDATE_CONNECT_STATUS :: nat where "UPDATE_CONNECT_STATUS = 504"
definition START_DEVICE_MANAGER :: nat where "START_DEVICE_MANAGER = 505"
definition DMS_STUB_INTERFACE_TOKEN :: u16string where
  "DMS_STUB_INTERFACE_TOKEN = u16 ''ohos.distributedschedule.accessToken''"
definition DMS_PROXY_INTERFACE_TOKEN :: u16string where
  "DMS_PROXY_INTERFACE_TOKEN = u16 ''ohos.distributedschedule.accessToken''"

lemmas code_defs = REGISTER_def UNREGISTER_def REGISTER_DEVICE_SELECTION_CALLBACK_def
  UNREGISTER_DEVICE_SELECTION_CALLBACK_def UPDATE_CONNECT_STATUS_def START_DEVICE_MANAGER_def

section \<open>The stub\<close>

type_synonym 's reply = "(int \<times> parcel \<times> 's) option"

text \<open>\<open>PARCEL_WRITE_HELPER\<close> on the reply, then \<^verbatim>\<open>ERR_NONE\<close>.\<close>

definition write_reply :: "dams_env \<Rightarrow> pval list \<Rightarrow> 's \<Rightarrow> 's reply" where
  "write_reply env vs s =
     (case write_all (can_write env) vs [] of
        None \<Rightarrow> Some (ipc_flatten_object env, [], s)
      | Some p \<Rightarrow> Some (ERR_NONE, p, s))"

definition fail_reply :: "int \<Rightarrow> 's \<Rightarrow> 's reply" where
  "fail_reply e s = Some (e, [], s)"

text \<open>
  The optional extra parameters: a flag, then an object when the flag says so. The inner
  \<open>None\<close> is an object that does not unmarshal.
\<close>

definition read_extra :: "dams_env \<Rightarrow> int \<Rightarrow> parcel \<Rightarrow> ContinuationExtraParams option option" where
  "read_extra env flag p =
     (if flag = VALUE_OBJECT then
        (case read_nested p of
           None \<Rightarrow> None
         | Some (q, p') \<Rightarrow> map_option Some (extra_ReadFromParcel (to_str8 env) q))
      else Some None)"

definition RegisterInner :: "dams_env \<Rightarrow> nat \<Rightarrow> parcel \<Rightarrow> dams \<Rightarrow> dams reply" where
  "RegisterInner env acc data s =
     (case read_int32 data of
        None \<Rightarrow> fail_reply (ipc_flatten_object env) s
      | Some (flag, p1) \<Rightarrow>
          (case read_extra env flag p1 of
             None \<Rightarrow> fail_reply (ipc_null_object env) s
           | Some x \<Rightarrow>
               (let (result, out, s') = Register env acc x s;
                    token = (case out of None \<Rightarrow> - 1 | Some t \<Rightarrow> t)
                in write_reply env [PInt32 result, PInt32 token] s')))"

definition UnregisterInner :: "dams_env \<Rightarrow> nat \<Rightarrow> parcel \<Rightarrow> dams \<Rightarrow> dams reply" where
  "UnregisterInner env acc data s =
     (case read_int32 data of
        None \<Rightarrow> fail_reply (ipc_flatten_object env) s
      | Some (token, p1) \<Rightarrow>
          do { (result, s') \<leftarrow> Unregister env acc token s;
               write_reply env [PInt32 result] s' })"

definition RegisterDeviceSelectionCallbackInner ::
  "dams_env \<Rightarrow> nat \<Rightarrow> parcel \<Rightarrow> dams \<Rightarrow> dams reply" where
  "RegisterDeviceSelectionCallbackInner env acc data s =
     (case read_int32 data of
        None \<Rightarrow> fail_reply (ipc_flatten_object env) s
      | Some (token, p1) \<Rightarrow>
          (case read_string p1 of
             None \<Rightarrow> fail_reply (ipc_flatten_object env) s
           | Some (cbType, p2) \<Rightarrow>
               if cbType = [] then fail_reply (ipc_null_object env) s
               else (case read_object p2 of
                       None \<Rightarrow> fail_reply (ipc_null_object env) s
                     | Some (notifier, p3) \<Rightarrow>
                         do { (result, s') \<leftarrow>
                                RegisterDeviceSelectionCallback env acc token cbType (Some notifier) s;
                              write_reply env [PInt32 result] s' })))"

definition UnregisterDeviceSelectionCallbackInner ::
  "dams_env \<Rightarrow> nat \<Rightarrow> parcel \<Rightarrow> dams \<Rightarrow> dams reply" where
  "UnregisterDeviceSelectionCallbackInner env acc data s =
     (case read_int32 data of
        None \<Rightarrow> fail_reply (ipc_flatten_object env) s
      | Some (token, p1) \<Rightarrow>
          (case read_string p1 of
             None \<Rightarrow> fail_reply (ipc_flatten_object env) s
           | Some (cbType, p2) \<Rightarrow>
               if cbType = [] then fail_reply (ipc_null_object env) s
               else do { (result, s') \<leftarrow> UnregisterDeviceSelectionCallback env acc token cbType s;
                         write_reply env [PInt32 result] s' }))"

definition UpdateConnectStatusInner :: "dams_env \<Rightarrow> nat \<Rightarrow> parcel \<Rightarrow> dams \<Rightarrow> dams reply" where
  "UpdateConnectStatusInner env acc data s =
     (case read_int32 data of
        None \<Rightarrow> fail_reply (ipc_flatten_object env) s
      | Some (token, p1) \<Rightarrow>
          (case read_string p1 of
             None \<Rightarrow> fail_reply (ipc_flatten_object env) s
           | Some (dev, p2) \<Rightarrow>
               (let (st, p3) = read_or 0 read_int32 p2;
                    (result, s') = UpdateConnectStatus env acc token dev st s
                in write_reply env [PInt32 result] s')))"

definition StartDeviceManagerInner :: "dams_env \<Rightarrow> nat \<Rightarrow> parcel \<Rightarrow> dams \<Rightarrow> dams reply" where
  "StartDeviceManagerInner env acc data s =
     (case read_int32 data of
        None \<Rightarrow> fail_reply (ipc_flatten_object env) s
      | Some (token, p1) \<Rightarrow>
          (case read_int32 p1 of
             None \<Rightarrow> fail_reply (ipc_flatten_object env) s
           | Some (flag, p2) \<Rightarrow>
               (case read_extra env flag p2 of
                  None \<Rightarrow> fail_reply (ipc_null_object env) s
                | Some x \<Rightarrow>
                    (let (result, s') = StartDeviceManager env acc token x s
                     in write_reply env [PInt32 result] s'))))"

type_synonym inner = "dams_env \<Rightarrow> nat \<Rightarrow> parcel \<Rightarrow> dams \<Rightarrow> dams reply"

text \<open>The table of the constructor; a code outside it goes to the implementation library.\<close>

definition funcsMap :: "(nat \<times> inner) list" where
  "funcsMap = [(REGISTER, RegisterInner), (UNREGISTER, UnregisterInner),
     (REGISTER_DEVICE_SELECTION_CALLBACK, RegisterDeviceSelectionCallbackInner),
     (UNREGISTER_DEVICE_SELECTION_CALLBACK, UnregisterDeviceSelectionCallbackInner),
     (UPDATE_CONNECT_STATUS, UpdateConnectStatusInner),
     (START_DEVICE_MANAGER, StartDeviceManagerInner)]"

text \<open>\<open>ReadInterfaceToken\<close> yields the empty token when there is none.\<close>

definition OnRemoteRequest :: "dams_env \<Rightarrow> nat \<Rightarrow> nat \<Rightarrow> parcel \<Rightarrow> dams \<Rightarrow> dams reply" where
  "OnRemoteRequest env acc code data s =
     (case map_of funcsMap code of
        Some func \<Rightarrow>
          (let (interfaceToken, p) = read_or [] read_token data
           in if interfaceToken \<noteq> DMS_STUB_INTERFACE_TOKEN
              then fail_reply DMS_PERMISSION_DENIED s
              else func env acc p s)
      | None \<Rightarrow> Some (SendRequestToImpl env code data s))"

section \<open>The proxy\<close>

type_synonym 's transport = "nat \<Rightarrow> parcel \<Rightarrow> 's \<Rightarrow> 's reply"

text \<open>
  Sending the values: \<^verbatim>\<open>PARCEL_TRANSACT_SYNC_RET_INT\<close> returns the transport error, or the
  first integer of the reply.
\<close>

definition transact :: "dams_env \<Rightarrow> 's transport \<Rightarrow> bool \<Rightarrow> nat \<Rightarrow> pval list \<Rightarrow> 's \<Rightarrow> (int \<times> 's) option" where
  "transact env send remote code vs s =
     (if \<not> remote then Some (ipc_null_object env, s)
      else (case write_all (can_write env) (PToken DMS_PROXY_INTERFACE_TOKEN # vs) [] of
              None \<Rightarrow> Some (ipc_flatten_object env, s)
            | Some data \<Rightarrow>
                do { (err, reply, s') \<leftarrow> send code data s;
                     Some (if err \<noteq> ERR_NONE then err else fst (read_or 0 read_int32 reply), s') }))"

definition proxy_Register ::
  "dams_env \<Rightarrow> 's transport \<Rightarrow> bool \<Rightarrow> ContinuationExtraParams option \<Rightarrow> 's \<Rightarrow> (int \<times> int option \<times> 's) option" where
  "proxy_Register env send remote x s =
     (if \<not> remote then Some (ipc_null_object env, None, s)
      else (case write_all (can_write env) (PToken DMS_PROXY_INTERFACE_TOKEN # extra_values env x) [] of
              None \<Rightarrow> Some (ipc_flatten_object env, None, s)
            | Some data \<Rightarrow>
                do { (err, reply, s') \<leftarrow> send REGISTER data s;
                     Some (if err \<noteq> ERR_NONE then (err, None, s')
                           else (let (result, p1) = read_or 0 read_int32 reply
                                 in if result \<noteq> ERR_NONE then (result, None, s')
                                    else (case read_int32 p1 of
                                            None \<Rightarrow> (ipc_flatten_object env, None, s')
                                          | Some (token, p2) \<Rightarrow> (ERR_NONE, Some token, s')))) }))"

definition proxy_Unregister :: "dams_env \<Rightarrow> 's transport \<Rightarrow> bool \<Rightarrow> int \<Rightarrow> 's \<Rightarrow> (int \<times> 's) option" where
  "proxy_Unregister env send remote token s = transact env send remote UNREGISTER [PInt32 token] s"

definition proxy_RegisterDeviceSelectionCallback ::
  "dams_env \<Rightarrow> 's transport \<Rightarrow> bool \<Rightarrow> int \<Rightarrow> string \<Rightarrow> ptr \<Rightarrow> 's \<Rightarrow> (int \<times> 's) option" where
  "proxy_RegisterDeviceSelectionCallback env send remote token cbType notifier s =
     (if cbType = [] then Some (ipc_null_object env, s)
      else (case notifier of
              None \<Rightarrow> Some (ipc_null_object env, s)
            | Some n \<Rightarrow> transact env send remote REGISTER_DEVICE_SELECTION_CALLBACK
                [PInt32 token, PString cbType, PObject n] s))"

definition proxy_UnregisterDeviceSelectionCallback ::
  "dams_env \<Rightarrow> 's transport \<Rightarrow> bool \<Rightarrow> int \<Rightarrow> string \<Rightarrow> 's \<Rightarrow> (int \<times> 's) option" where
  "proxy_UnregisterDeviceSelectionCallback env send remote token cbType s =
     (if cbType = [] then Some (ipc_null_object env, s)
      else transact env send remote UNREGISTER_DEVICE_SELECTION_CALLBACK [PInt32 token, PString cbType] s)"

definition proxy_UpdateConnectStatus ::
  "dams_env \<Rightarrow> 's transport \<Rightarrow> bool \<Rightarrow> int \<Rightarrow> string \<Rightarrow> int \<Rightarrow> 's \<Rightarrow> (int \<times> 's) option" where
  "proxy_UpdateConnectStatus env send remote token dev st s =
     transact env send remote UPDATE_CONNECT_STATUS [PInt32 token, PString dev, PInt32 st] s"

definition proxy_StartDeviceManager ::
  "dams_env \<Rightarrow> 's transport \<Rightarrow> bool \<Rightarrow> int \<Rightarrow> ContinuationExtraParams option \<Rightarrow> 's \<Rightarrow> (int \<times> 's) option" where
  "proxy_StartDeviceManager env send remote token x s =
     transact env send remote START_DEVICE_MANAGER (PInt32 token # extra_values env x) s"

section \<open>The panel's callback stub\<close>

definition EVENT_DEVICE_CANCEL :: nat where "EVENT_DEVICE_CANCEL = 3"

definition APP_DEVICE_CALLBACK_DESCRIPTOR :: u16string where
  "APP_DEVICE_CALLBACK_DESCRIPTOR = u16 ''OHOS.DistributedSchedule.IAppDeviceCallback''"

text \<open>
  \<open>readable\<close> is \<^verbatim>\<open>GetReadableBytes\<close>, \<open>invalid_state\<close> the library's
  \<^verbatim>\<open>ERR_INVALID_STATE\<close>, and \<open>unknown\<close> the result of the base class for other codes. The
  result of the operation is the result of the request; nothing is replied.
\<close>

definition app_OnRemoteRequest ::
  "dams_env \<Rightarrow> int \<Rightarrow> (parcel \<Rightarrow> nat) \<Rightarrow> (nat \<Rightarrow> int) \<Rightarrow> bool \<Rightarrow> nat \<Rightarrow> parcel \<Rightarrow> dams \<Rightarrow> int \<times> dams" where
  "app_OnRemoteRequest env invalid_state readable unknown dmsNotifier code data s =
     (let (remoteDescriptor, p) = read_or [] read_token data
      in if remoteDescriptor \<noteq> APP_DEVICE_CALLBACK_DESCRIPTOR then (invalid_state, s)
         else if code = EVENT_DEVICE_CONNECT then
           (case read_int32 p of
              None \<Rightarrow> (ipc_flatten_object env, s)
            | Some (token, p1) \<Rightarrow>
                (case ReadContinuationResultsFromParcel (to_str8 env) readable p1 of
                   None \<Rightarrow> (ipc_flatten_object env, s)
                 | Some (rs, p2) \<Rightarrow>
                     if \<not> dmsNotifier then (ipc_null_object env, s)
                     else OnDeviceConnect env token rs s))
         else if code = EVENT_DEVICE_DISCONNECT then
           (case read_int32 p of
              None \<Rightarrow> (ipc_flatten_object env, s)
            | Some (token, p1) \<Rightarrow>
                (case read_string16s p1 of
                   None \<Rightarrow> (ipc_flatten_object env, s)
                 | Some (ids, p2) \<Rightarrow>
                     if \<not> dmsNotifier then (ipc_null_object env, s)
                     else OnDeviceDisconnect env token (Str16VecToStr8Vec (to_str8 env) ids) s))
         else if code = EVENT_DEVICE_CANCEL then
           (if \<not> dmsNotifier then (ipc_null_object env, s) else OnDeviceCancel env s)
         else (unknown code, s))"

section \<open>The notifier's stub, in the application\<close>

datatype selection_event = DeviceConnected "ContinuationResult list" | DeviceDisconnected "string list"

definition DEVICE_SELECTION_NOTIFIER_DESCRIPTOR :: u16string where
  "DEVICE_SELECTION_NOTIFIER_DESCRIPTOR = u16 ''OHOS.DistributedSchedule.IDeviceSelectionNotifier''"

definition notifier_OnRemoteRequest ::
  "dams_env \<Rightarrow> int \<Rightarrow> (parcel \<Rightarrow> nat) \<Rightarrow> (nat \<Rightarrow> int) \<Rightarrow> nat \<Rightarrow> parcel \<Rightarrow> int \<times> selection_event option" where
  "notifier_OnRemoteRequest env invalid_value readable unknown code data =
     (let (remoteDescriptor, p) = read_or [] read_token data
      in if remoteDescriptor \<noteq> DEVICE_SELECTION_NOTIFIER_DESCRIPTOR then (invalid_value, None)
         else if code = EVENT_DEVICE_CONNECT then
           (case ReadContinuationResultsFromParcel (to_str8 env) readable p of
              None \<Rightarrow> (ipc_flatten_object env, None)
            | Some (rs, p1) \<Rightarrow> (ERR_OK, Some (DeviceConnected rs)))
         else if code = EVENT_DEVICE_DISCONNECT then
           (case read_strings p of
              None \<Rightarrow> (ipc_flatten_object env, None)
            | Some (ids, p1) \<Rightarrow> (ERR_OK, Some (DeviceDisconnected ids)))
         else (unknown code, None))"

section \<open>Proxy and stub agree\<close>

definition good_ipc :: "dams_env \<Rightarrow> bool" where
  "good_ipc env = ((\<forall>p v. can_write env p v) \<and> (\<forall>t. to_str8 env (to_str16 env t) = t))"

lemma tokens_equal: "DMS_STUB_INTERFACE_TOKEN = DMS_PROXY_INTERFACE_TOKEN"
  by (simp add: DMS_STUB_INTERFACE_TOKEN_def DMS_PROXY_INTERFACE_TOKEN_def)

lemma dispatch:
  "map_of funcsMap code = Some func \<Longrightarrow>
   OnRemoteRequest env acc code (PToken DMS_PROXY_INTERFACE_TOKEN # vs) s = func env acc vs s"
  by (simp add: OnRemoteRequest_def read_or_def tokens_equal)

lemma funcsMap_lookup [simp]:
  "map_of funcsMap REGISTER = Some RegisterInner"
  "map_of funcsMap UNREGISTER = Some UnregisterInner"
  "map_of funcsMap REGISTER_DEVICE_SELECTION_CALLBACK = Some RegisterDeviceSelectionCallbackInner"
  "map_of funcsMap UNREGISTER_DEVICE_SELECTION_CALLBACK = Some UnregisterDeviceSelectionCallbackInner"
  "map_of funcsMap UPDATE_CONNECT_STATUS = Some UpdateConnectStatusInner"
  "map_of funcsMap START_DEVICE_MANAGER = Some StartDeviceManagerInner"
  by (simp_all add: funcsMap_def code_defs)

lemma good_can_write [simp]: "good_ipc env \<Longrightarrow> can_write env p v"
  by (simp add: good_ipc_def)

lemma write_all_good: "good_ipc env \<Longrightarrow> write_all (can_write env) vs p = Some (p @ vs)"
  by (simp add: good_ipc_def)

lemma write_reply_good: "good_ipc env \<Longrightarrow> write_reply env vs s = Some (ERR_NONE, vs, s)"
  by (simp add: write_reply_def write_all_good)

lemma read_extra_good:
  assumes "good_ipc env"
  shows "\<exists>flag rest. extra_values env x = PInt32 flag # rest \<and> read_extra env flag rest = Some x"
proof (cases x)
  case (Some e)
  have "extra_ReadFromParcel (to_str8 env) (extra_Marshalling (can_write env) (to_str16 env) e []) = Some e"
    using assms by (intro extra_roundtrip) (simp_all add: good_ipc_def)
  with Some show ?thesis by (simp add: extra_values_def read_extra_def)
qed (simp add: extra_values_def read_extra_def VALUE_NULL_def VALUE_OBJECT_def)

lemmas ipc_simps = transact_def dispatch write_all_good write_reply_good read_or_def

lemma Register_fail_token: "Register env acc x s = (r, out, s') \<Longrightarrow> (out = None) = (r \<noteq> ERR_OK)"
  by (auto simp: Register_def Let_def err_defs split: if_splits)

lemma proxy_Register_agrees:
  assumes "good_ipc env"
  shows "proxy_Register env (OnRemoteRequest env acc) True x s = Some (Register env acc x s)"
proof -
  obtain flag rest where x: "extra_values env x = PInt32 flag # rest" "read_extra env flag rest = Some x"
    using read_extra_good [OF assms] by blast
  obtain r out s' where reg: "Register env acc x s = (r, out, s')" by (cases "Register env acc x s")
  from Register_fail_token [OF reg] show ?thesis
    using assms x reg by (auto simp: proxy_Register_def RegisterInner_def ipc_simps)
qed

lemma proxy_StartDeviceManager_agrees:
  assumes "good_ipc env"
  shows "proxy_StartDeviceManager env (OnRemoteRequest env acc) True token x s =
    Some (StartDeviceManager env acc token x s)"
proof -
  obtain flag rest where x: "extra_values env x = PInt32 flag # rest" "read_extra env flag rest = Some x"
    using read_extra_good [OF assms] by blast
  then show ?thesis using assms
    by (simp add: proxy_StartDeviceManager_def StartDeviceManagerInner_def ipc_simps split_beta)
qed

lemma bind_result: "Option.bind m (\<lambda>(r, s'). Some (r, s')) = m"
  by (cases m) auto

lemma proxy_simple_agree:
  assumes "good_ipc env"
  shows "proxy_Unregister env (OnRemoteRequest env acc) True token s = Unregister env acc token s"
    "proxy_UpdateConnectStatus env (OnRemoteRequest env acc) True token dev st s =
       Some (UpdateConnectStatus env acc token dev st s)"
    "cbType \<noteq> [] \<Longrightarrow> proxy_RegisterDeviceSelectionCallback env (OnRemoteRequest env acc) True token cbType
       (Some n) s = RegisterDeviceSelectionCallback env acc token cbType (Some n) s"
    "cbType \<noteq> [] \<Longrightarrow> proxy_UnregisterDeviceSelectionCallback env (OnRemoteRequest env acc) True token
       cbType s = UnregisterDeviceSelectionCallback env acc token cbType s"
  using assms
  by (simp_all add: proxy_Unregister_def UnregisterInner_def proxy_UpdateConnectStatus_def
      UpdateConnectStatusInner_def proxy_RegisterDeviceSelectionCallback_def
      RegisterDeviceSelectionCallbackInner_def proxy_UnregisterDeviceSelectionCallback_def
      UnregisterDeviceSelectionCallbackInner_def ipc_simps split_beta bind_result)

text \<open>
  C20: a call through the client proxy and the service stub is the operation itself: the
  codes, the order and types of the values and the interface tokens of both sides agree,
  so the client sees exactly the operation's result, token and state change. The library
  is assumed to accept the writes and to invert its own string conversion.
\<close>

theorem proxy_stub_agree:
  assumes "good_ipc env" and "cbType \<noteq> []"
  shows "proxy_Register env (OnRemoteRequest env acc) True x s = Some (Register env acc x s) \<and>
    proxy_Unregister env (OnRemoteRequest env acc) True token s = Unregister env acc token s \<and>
    proxy_RegisterDeviceSelectionCallback env (OnRemoteRequest env acc) True token cbType (Some n) s =
      RegisterDeviceSelectionCallback env acc token cbType (Some n) s \<and>
    proxy_UnregisterDeviceSelectionCallback env (OnRemoteRequest env acc) True token cbType s =
      UnregisterDeviceSelectionCallback env acc token cbType s \<and>
    proxy_UpdateConnectStatus env (OnRemoteRequest env acc) True token dev st s =
      Some (UpdateConnectStatus env acc token dev st s) \<and>
    proxy_StartDeviceManager env (OnRemoteRequest env acc) True token x s =
      Some (StartDeviceManager env acc token x s)"
  using assms by (simp add: proxy_Register_agrees proxy_simple_agree proxy_StartDeviceManager_agrees)

text \<open>The identity on 16-bit units is enough for an inverse of the conversion.\<close>

definition ipc_env :: dams_env where
  "ipc_env = demo_env\<lparr>to_str16 := u16, to_str8 := (\<lambda>w. map (\<lambda>u. char_of (unat u)) w)\<rparr>"

lemma ipc_env_good: "good_ipc ipc_env"
  by (simp add: good_ipc_def ipc_env_def demo_env_def u16_inverse)

theorem proxy_stub_agree_witness:
  "proxy_Unregister ipc_env (OnRemoteRequest ipc_env 8) True 2 two_callers = Unregister ipc_env 8 2 two_callers"
  using proxy_stub_agree [OF ipc_env_good, of EVENT_CONNECT 8 None two_callers 2]
  by (simp add: EVENT_CONNECT_def)

section \<open>Delivery of a selection\<close>

lemma results_roundtrip:
  assumes "good_ipc env" "length rs < 2147483648" "\<And>p. length p \<le> readable p"
  shows "\<exists>vs. WriteContinuationResultsToParcel (can_write env) (to_str16 env) rs p = Some (p @ vs) \<and>
    ReadContinuationResultsFromParcel (to_str8 env) readable vs = Some (rs, [])"
proof (cases "rs = []")
  case True
  then show ?thesis using assms(1)
    by (simp add: WriteContinuationResultsToParcel_def ReadContinuationResultsFromParcel_def
        read_or_def VALUE_NULL_def VALUE_OBJECT_def)
next
  case False
  let ?body = "map (\<lambda>r. PNested (result_Marshalling (can_write env) (to_str16 env) r [])) rs"
  have conv: "\<And>p v. can_write env p v" "\<And>t. to_str8 env (to_str16 env t) = t"
    using assms(1) by (simp_all add: good_ipc_def)
  have "WriteContinuationResultsToParcel (can_write env) (to_str16 env) rs p =
      Some (p @ PInt32 VALUE_OBJECT # PInt32 (int (length rs)) # ?body)"
    using False assms(1,2) write_results_ok [where ok = "can_write env", OF conv(1)]
    by (simp add: WriteContinuationResultsToParcel_def sint_of_nat_32)
  moreover have "read_results (to_str8 env) (length rs) ?body = Some (rs, [])"
    using read_results_ok [where ok = "can_write env" and p = "[]" and rs = rs, OF conv] by simp
  moreover have "\<not> readable ?body < length rs"
    using assms(3) [of ?body] by simp
  ultimately show ?thesis
    by (simp add: ReadContinuationResultsFromParcel_def read_or_def VALUE_OBJECT_def)
qed

text \<open>
  The device list the panel selected is sent unchanged: the task sends exactly one request to
  the registered notifier, and the notifier's stub decodes it to the same devices, in order.
\<close>

lemma selection_sent:
  assumes "good_ipc env" and "length rs < 2147483648" and "\<And>p. length p \<le> readable p"
  shows "\<exists>data. run_task env (TaskDeviceConnect (Some n) rs) s =
      Some (emit [Send n EVENT_DEVICE_CONNECT data] s) \<and>
    notifier_OnRemoteRequest env iv readable unknown EVENT_DEVICE_CONNECT data =
      (ERR_OK, Some (DeviceConnected rs))"
proof -
  obtain vs where vs:
    "WriteContinuationResultsToParcel (can_write env) (to_str16 env) rs
       [PToken DEVICE_SELECTION_NOTIFIER_INTERFACE_TOKEN] =
       Some ([PToken DEVICE_SELECTION_NOTIFIER_INTERFACE_TOKEN] @ vs)"
    "ReadContinuationResultsFromParcel (to_str8 env) readable vs = Some (rs, [])"
    using results_roundtrip [OF assms, where p = "[PToken DEVICE_SELECTION_NOTIFIER_INTERFACE_TOKEN]"]
    by blast
  then show ?thesis using assms(1)
    by (intro exI [of _ "PToken DEVICE_SELECTION_NOTIFIER_INTERFACE_TOKEN # vs"])
      (simp add: run_task_def proxy_OnDeviceConnect_def notifier_OnRemoteRequest_def read_or_def
        DEVICE_SELECTION_NOTIFIER_INTERFACE_TOKEN_def DEVICE_SELECTION_NOTIFIER_DESCRIPTOR_def)
qed

end
