(* ===== verification/DmsTypes.thy ===== *)
theory DmsTypes
  imports Parcel StdMap ErrorCodes
begin

text \<open>
  The data of the distributed scheduler and its environment. \<open>Want\<close>, \<open>ElementName\<close>,
  \<open>AbilityInfo\<close> and \<open>BundleInfo\<close> belong to other repositories: they are records of the
  parts the services read and write. Calls that leave the process are \<open>ext\<close> values
  appended to a history; the answers of other services are functions of that history, the
  fields of \<open>env\<close>. The fields of \<open>env\<close> are arbitrary functions, so what is proved holds
  for any behaviour of those services.
\<close>

section \<open>Wants and abilities\<close>

record ElementName =
  el_deviceId :: string
  el_bundleName :: string
  el_abilityName :: string
  el_moduleName :: string

datatype want_param = WInt int | WBool bool | WString string | WStrings "string list"

record Want =
  want_element :: ElementName
  want_flags :: uint32
  want_params :: "(string, want_param) stdmap"

definition GetIntParam :: "Want \<Rightarrow> string \<Rightarrow> int \<Rightarrow> int" where
  "GetIntParam w k d = (case map_find k (want_params w) of Some (WInt i) \<Rightarrow> i | _ \<Rightarrow> d)"

definition GetBoolParam :: "Want \<Rightarrow> string \<Rightarrow> bool \<Rightarrow> bool" where
  "GetBoolParam w k d = (case map_find k (want_params w) of Some (WBool b) \<Rightarrow> b | _ \<Rightarrow> d)"

definition GetStringParam :: "Want \<Rightarrow> string \<Rightarrow> string" where
  "GetStringParam w k = (case map_find k (want_params w) of Some (WString s) \<Rightarrow> s | _ \<Rightarrow> [])"

definition GetStringArrayParam :: "Want \<Rightarrow> string \<Rightarrow> string list" where
  "GetStringArrayParam w k = (case map_find k (want_params w) of Some (WStrings ss) \<Rightarrow> ss | _ \<Rightarrow> [])"

definition SetParam :: "string \<Rightarrow> want_param \<Rightarrow> Want \<Rightarrow> Want" where
  "SetParam k v w = w\<lparr>want_params := map_put k v (want_params w)\<rparr>"

definition RemoveParam :: "string \<Rightarrow> Want \<Rightarrow> Want" where
  "RemoveParam k w = w\<lparr>want_params := map_erase k (want_params w)\<rparr>"

datatype ability_type = AbilityUnknown | AbilityPage | AbilityService | AbilityData | AbilityExtension

record AbilityInfo =
  ai_bundleName :: string
  ai_name :: string
  ai_visible :: bool
  ai_type :: ability_type
  ai_permissions :: "string list"

record ExtensionAbilityInfo =
  ext_bundleName :: string
  ext_name :: string
  ext_visible :: bool
  ext_permissions :: "string list"

record BundleInfo =
  bi_versionCode :: nat
  bi_entryInstallationFree :: bool

section \<open>Callers and accounts\<close>

definition CALLER_TYPE_NONE :: int where "CALLER_TYPE_NONE = 0"
definition CALLER_TYPE_HARMONY :: int where "CALLER_TYPE_HARMONY = 1"

text \<open>
  The JSON object the code keeps beside these fields only repeats some of them for the
  messages between devices.
\<close>

record CallerInfo =
  uid :: int
  pid :: int
  callerType :: int
  sourceDeviceId :: string
  duid :: int
  callerAppId :: string
  bundleNames :: "string list"
  dmsVersion :: int
  accessToken :: nat

definition default_CallerInfo :: CallerInfo where
  "default_CallerInfo = \<lparr>uid = - 1, pid = - 1, callerType = CALLER_TYPE_NONE, sourceDeviceId = [],
     duid = - 1, callerAppId = [], bundleNames = [], dmsVersion = - 1, accessToken = 0\<rparr>"

definition SAME_ACCOUNT_TYPE :: int where "SAME_ACCOUNT_TYPE = 0"
definition DIFF_ACCOUNT_TYPE :: int where "DIFF_ACCOUNT_TYPE = 1"

record AccountInfo =
  accountType :: int
  groupIdList :: "string list"

definition default_AccountInfo :: AccountInfo where
  "default_AccountInfo = \<lparr>accountType = DIFF_ACCOUNT_TYPE, groupIdList = []\<rparr>"

record GroupInfo =
  groupName :: string
  groupId :: string
  groupOwner :: string
  groupType :: int
  groupVisibility :: int

record FreeInstallInfo =
  fi_want :: Want
  fi_requestCode :: int
  fi_callerInfo :: CallerInfo
  fi_accountInfo :: AccountInfo

section \<open>Calls\<close>

text \<open>Requests to the scheduler of another device.\<close>

datatype rpc =
    RpcStartAbility Want int CallerInfo AccountInfo
  | RpcContinueMission string string int ptr "(string, want_param) stdmap"
  | RpcContinuationResult int bool
  | RpcConnectAbility Want robj CallerInfo AccountInfo
  | RpcDisconnectAbility robj int string
  | RpcProcessDied CallerInfo
  | RpcStartByCall Want robj CallerInfo AccountInfo
  | RpcRelease robj ElementName CallerInfo
  | RpcStartFreeInstall FreeInstallInfo int
  | RpcCompleteFreeInstall int int
  | RpcSendResult Want int CallerInfo AccountInfo int

text \<open>Requests to the ability manager of this device.\<close>

datatype ams =
    AmsConnect
  | AmsConnectAbility Want robj int
  | AmsDisconnectAbility robj
  | AmsReleaseAbility robj ElementName
  | AmsStartAbilityByCall Want robj
  | AmsStartAbility Want ptr int int
  | AmsSendResult int int Want
  | AmsContinueAbility string int nat
  | AmsCleanMission int
  | AmsNotifyContinuationResult int int
  | AmsFreeInstall Want robj int int

text \<open>The death recipients the services attach to the objects they hold.\<close>

datatype recipient = ConnectRecipient | CallerRecipient | LocalCallerRecipient

text \<open>Timer events of the two timeout handlers.\<close>

datatype timer = ContinuationTimer | CallbackTimer

datatype ext =
    Rpc string rpc
  | Ams ams
  | BmsCheckInstall Want int int
  | SendObject robj nat parcel
  | AddDeathRecipient robj recipient
  | RemoveDeathRecipientFrom robj recipient
  | SendEvent timer int int
  | RemoveEvent timer int
  | PostReport string
  | SaveToFd int string

type_synonym hist = "ext list"

text \<open>The fields of one component report, as the JSON object the service builds.\<close>

record ComponentReport =
  rep_pid :: "int option"
  rep_uid :: int
  rep_bundleName :: string
  rep_componentType :: int
  rep_deviceType :: int
  rep_changeType :: "int option"

text \<open>
  The extra information of a message between devices, as the JSON library reads it:
  discarded, or a value where \<^verbatim>\<open>json[key]\<close> converted to an integer yields its number, or
  throws (\<open>None\<close>), and \<^verbatim>\<open>contains\<close> says whether the key is there.
\<close>

datatype extra_json = ExtraDiscarded | ExtraJson "string \<Rightarrow> int option" "string \<Rightarrow> bool"

record env =
  local_device :: "hist \<Rightarrow> string option"
  remote_dms :: "hist \<Rightarrow> string \<Rightarrow> bool"
  rpc_result :: "hist \<Rightarrow> string \<Rightarrow> rpc \<Rightarrow> int"
  rpc_elapsed :: "hist \<Rightarrow> int"
  ams_result :: "hist \<Rightarrow> ams \<Rightarrow> int"
  mission_want :: "hist \<Rightarrow> int \<Rightarrow> Want option"
  active_accounts :: "hist \<Rightarrow> int \<times> int list"
  bms_available :: "hist \<Rightarrow> bool"
  bms_bundles_for_uid :: "hist \<Rightarrow> int \<Rightarrow> string list option"
  bms_app_id :: "hist \<Rightarrow> string \<Rightarrow> int \<Rightarrow> string"
  bms_uid :: "hist \<Rightarrow> string \<Rightarrow> int \<Rightarrow> int"
  bms_ability :: "hist \<Rightarrow> Want \<Rightarrow> int \<Rightarrow> AbilityInfo option"
  bms_extensions :: "hist \<Rightarrow> Want \<Rightarrow> int \<Rightarrow> ExtensionAbilityInfo list"
  bms_bundle_info :: "hist \<Rightarrow> string \<Rightarrow> int \<Rightarrow> BundleInfo option"
  bms_distributed_version :: "hist \<Rightarrow> string \<Rightarrow> string \<Rightarrow> nat option"
  bms_can_install :: "hist \<Rightarrow> bool"
  udid_of_network :: "hist \<Rightarrow> string \<Rightarrow> string"
  hichain_ready :: "hist \<Rightarrow> bool"
  hichain_groups :: "hist \<Rightarrow> string \<Rightarrow> string \<Rightarrow> string option"
  hichain_access :: "hist \<Rightarrow> string \<Rightarrow> string \<Rightarrow> int"
  parse_groups :: "string \<Rightarrow> GroupInfo list option"
  native_process :: "hist \<Rightarrow> nat \<Rightarrow> int \<times> string"
  token_is_native :: "hist \<Rightarrow> nat \<Rightarrow> bool"
  token_granted :: "hist \<Rightarrow> nat \<Rightarrow> string \<Rightarrow> bool"
  alloc_local_token :: "hist \<Rightarrow> string \<Rightarrow> nat \<Rightarrow> nat"
  send_object_result :: "hist \<Rightarrow> robj \<Rightarrow> nat \<Rightarrow> parcel \<Rightarrow> int"
  send_event_ok :: "hist \<Rightarrow> bool"
  post_report_ok :: "hist \<Rightarrow> bool"
  save_fd_ok :: "hist \<Rightarrow> bool"
  calling_uid :: "hist \<Rightarrow> int"
  local_calling :: "hist \<Rightarrow> bool"
  writable :: parcel_writer
  str16 :: "string \<Rightarrow> u16string"
  str8 :: "u16string \<Rightarrow> string"
  json_dump :: "ComponentReport \<Rightarrow> string"
  marshal_want :: "Want \<Rightarrow> parcel"
  marshal_element :: "ElementName \<Rightarrow> parcel"
  same_element :: "ElementName \<Rightarrow> ElementName \<Rightarrow> bool"
  err_null_object :: int
  err_object_null :: int
  err_flatten_object :: int
  flag_continuation :: uint32
  flag_install_on_demand :: uint32
  free_install_timeout :: int
  on_disconnect_done :: nat
  identical_account_group :: int
  peer_to_peer_group :: int
  param_for_result :: string
  unmarshal_want :: "parcel \<Rightarrow> Want option"
  unmarshal_element :: "parcel \<Rightarrow> ElementName option"
  marshal_params :: "(string, want_param) stdmap \<Rightarrow> parcel"
  unmarshal_params :: "parcel \<Rightarrow> (string, want_param) stdmap option"
  marshal_ability :: parcel
  unmarshal_ability :: "parcel \<Rightarrow> (string \<times> string) option"
  readable_bytes :: "parcel \<Rightarrow> nat"
  parse_extra :: "string \<Rightarrow> extra_json"
  dump_extra :: "(string \<times> int) list \<Rightarrow> string"
  dump_null :: string
  tick_count :: "hist \<Rightarrow> int"
  calling_pid :: "hist \<Rightarrow> int"
  calling_token :: "hist \<Rightarrow> nat"
  err_invalid_value :: int
  base_request :: "nat \<Rightarrow> parcel \<Rightarrow> int \<times> parcel"

section \<open>A sample environment\<close>

text \<open>
  A concrete environment for the examples: the local device is \<open>A\<close>, every other service
  is reachable and answers with success.
\<close>

definition sample_ability :: AbilityInfo where
  "sample_ability = \<lparr>ai_bundleName = ''b'', ai_name = ''a'', ai_visible = True,
     ai_type = AbilityPage, ai_permissions = []\<rparr>"

definition sample_env :: env where
  "sample_env = \<lparr>local_device = (\<lambda>h. Some ''A''), remote_dms = (\<lambda>h d. True),
     rpc_result = (\<lambda>h d r. 0), rpc_elapsed = (\<lambda>h. 0), ams_result = (\<lambda>h a. 0),
     mission_want = (\<lambda>h m. None), active_accounts = (\<lambda>h. (0, [100])),
     bms_available = (\<lambda>h. True), bms_bundles_for_uid = (\<lambda>h u. Some [''b'']),
     bms_app_id = (\<lambda>h b i. ''app''), bms_uid = (\<lambda>h b i. 5),
     bms_ability = (\<lambda>h w i. Some sample_ability), bms_extensions = (\<lambda>h w i. []),
     bms_bundle_info = (\<lambda>h b i. None), bms_distributed_version = (\<lambda>h d b. Some 1),
     bms_can_install = (\<lambda>h. True), udid_of_network = (\<lambda>h d. d), hichain_ready = (\<lambda>h. True),
     hichain_groups = (\<lambda>h u b. Some ''g''), hichain_access = (\<lambda>h g b. 0),
     parse_groups = (\<lambda>s. Some [\<lparr>groupName = s, groupId = s, groupOwner = [], groupType = 1,
       groupVisibility = 0\<rparr>]),
     native_process = (\<lambda>h t. (0, ''foundation'')), token_is_native = (\<lambda>h t. True),
     token_granted = (\<lambda>h t p. True), alloc_local_token = (\<lambda>h d t. 1),
     send_object_result = (\<lambda>h x c p. 0), send_event_ok = (\<lambda>h. True), post_report_ok = (\<lambda>h. True),
     save_fd_ok = (\<lambda>h. True), calling_uid = (\<lambda>h. 5), local_calling = (\<lambda>h. False),
     writable = (\<lambda>p v. True), str16 = u16, str8 = (\<lambda>w. map (\<lambda>u. char_of (unat u)) w),
     json_dump = (\<lambda>r. rep_bundleName r), marshal_want = (\<lambda>w. []), marshal_element = (\<lambda>e. []),
     same_element = (\<lambda>a b. a = b), err_null_object = 1, err_object_null = 2,
     err_flatten_object = 3, flag_continuation = 8, flag_install_on_demand = 2048,
     free_install_timeout = 4, on_disconnect_done = 2, identical_account_group = 1,
     peer_to_peer_group = 256, param_for_result = ''ohos.extra.param.key.forResult'',
     unmarshal_want = (\<lambda>p. None), unmarshal_element = (\<lambda>p. None), marshal_params = (\<lambda>m. []),
     unmarshal_params = (\<lambda>p. None), marshal_ability = [], unmarshal_ability = (\<lambda>p. Some ([], [])),
     readable_bytes = length, parse_extra = (\<lambda>s. ExtraDiscarded), dump_extra = (\<lambda>m. []),
     dump_null = ''null'', tick_count = (\<lambda>h. int (length h)), calling_pid = (\<lambda>h. 7),
     calling_token = (\<lambda>h. 9), err_invalid_value = 22, base_request = (\<lambda>c p. (305, []))\<rparr>"

end
