(* ===== verification/Permission.thy ===== *)
theory Permission
  imports DmsTypes
begin

text \<open>
  Who may start what from where: the bundle queries of
  \<^verbatim>\<open>dtbschedmgr/src/bundle/bundle_manager_internal.cpp\<close>, the checks of
  \<^verbatim>\<open>distributed_sched_permission.cpp\<close> and the device-group calls of
  \<^verbatim>\<open>distributed_sched_adapter.cpp\<close> they use. All are queries: they change no state of the
  services, so they are functions of the environment and the history \<open>h\<close>.
\<close>

section \<open>Bundle queries\<close>

definition active_id :: "env \<Rightarrow> hist \<Rightarrow> int option" where
  "active_id env h =
     (let (ret, ids) = active_accounts env h
      in if ret \<noteq> ERR_OK \<or> ids = [] then None else Some (hd ids))"

definition GetAppIdOfBundle :: "env \<Rightarrow> hist \<Rightarrow> string \<Rightarrow> string option" where
  "GetAppIdOfBundle env h bundle =
     (if \<not> bms_available env h then None
      else map_option (bms_app_id env h bundle) (active_id env h))"

definition GetBundleNameListFromBms :: "env \<Rightarrow> hist \<Rightarrow> int \<Rightarrow> string list option" where
  "GetBundleNameListFromBms env h callingUid =
     (if \<not> bms_available env h then None else bms_bundles_for_uid env h callingUid)"

definition GetU16BundleNameListFromBms :: "env \<Rightarrow> hist \<Rightarrow> int \<Rightarrow> u16string list option" where
  "GetU16BundleNameListFromBms env h callingUid =
     map_option (map (str16 env)) (GetBundleNameListFromBms env h callingUid)"

definition GetCallerAppIdFromBms :: "env \<Rightarrow> hist \<Rightarrow> int \<Rightarrow> string option" where
  "GetCallerAppIdFromBms env h callingUid =
     (case GetBundleNameListFromBms env h callingUid of
        None \<Rightarrow> None
      | Some [] \<Rightarrow> None
      | Some (b # bs) \<Rightarrow> GetAppIdOfBundle env h b)"

definition QueryAbilityInfo :: "env \<Rightarrow> hist \<Rightarrow> Want \<Rightarrow> AbilityInfo option" where
  "QueryAbilityInfo env h want =
     (case active_id env h of
        None \<Rightarrow> None
      | Some i \<Rightarrow> if \<not> bms_available env h then None else bms_ability env h want i)"

definition QueryExtensionAbilityInfo :: "env \<Rightarrow> hist \<Rightarrow> Want \<Rightarrow> ExtensionAbilityInfo option" where
  "QueryExtensionAbilityInfo env h want =
     (case active_id env h of
        None \<Rightarrow> None
      | Some i \<Rightarrow>
          if \<not> bms_available env h then None
          else (case bms_extensions env h want i of
                  [] \<Rightarrow> None
                | e # es \<Rightarrow> if ext_bundleName e = [] \<or> ext_name e = [] then None else Some e))"

text \<open>Only four fields are copied; the type of the target keeps its initial value.\<close>

definition InitAbilityInfoFromExtension :: "ExtensionAbilityInfo \<Rightarrow> AbilityInfo \<Rightarrow> AbilityInfo" where
  "InitAbilityInfoFromExtension e a =
     a\<lparr>ai_bundleName := ext_bundleName e, ai_name := ext_name e,
       ai_permissions := ext_permissions e, ai_visible := ext_visible e\<rparr>"

definition IsSameAppId :: "env \<Rightarrow> hist \<Rightarrow> string \<Rightarrow> string \<Rightarrow> bool" where
  "IsSameAppId env h appId targetBundleName =
     (if targetBundleName = [] \<or> appId = [] then False
      else (case GetAppIdOfBundle env h targetBundleName of
              None \<Rightarrow> False
            | Some calleeAppId \<Rightarrow> appId = calleeAppId))"

definition GetLocalBundleInfo :: "env \<Rightarrow> hist \<Rightarrow> string \<Rightarrow> int + BundleInfo" where
  "GetLocalBundleInfo env h bundle =
     (if \<not> bms_available env h then Inl INVALID_PARAMETERS_ERR
      else (case active_id env h of
              None \<Rightarrow> Inl INVALID_PARAMETERS_ERR
            | Some i \<Rightarrow>
                (case bms_bundle_info env h bundle i of
                   None \<Rightarrow> Inl INVALID_PARAMETERS_ERR
                 | Some b \<Rightarrow> Inr b)))"

text \<open>The result is the version of the remote bundle, or why it cannot be used.\<close>

definition CheckRemoteBundleInfoForContinuation :: "env \<Rightarrow> hist \<Rightarrow> string \<Rightarrow> string \<Rightarrow> int + nat" where
  "CheckRemoteBundleInfoForContinuation env h dstDeviceId bundle =
     (if bundle = [] then Inl INVALID_PARAMETERS_ERR
      else if \<not> bms_available env h then Inl INVALID_PARAMETERS_ERR
      else (case bms_distributed_version env h dstDeviceId bundle of
              Some v \<Rightarrow> Inr v
            | None \<Rightarrow>
                (case GetLocalBundleInfo env h bundle of
                   Inl e \<Rightarrow> Inl INVALID_PARAMETERS_ERR
                 | Inr b \<Rightarrow>
                     if bi_entryInstallationFree b then Inl CONTINUE_REMOTE_UNINSTALLED_SUPPORT_FREEINSTALL
                     else Inl CONTINUE_REMOTE_UNINSTALLED_UNSUPPORT_FREEINSTALL)))"

text \<open>
  The install check is a request to the bundle manager, so it is an effect as well; the
  want it sends carries the four names only.
\<close>

definition CheckIfRemoteCanInstall :: "env \<Rightarrow> hist \<Rightarrow> Want \<Rightarrow> int \<Rightarrow> bool \<times> hist" where
  "CheckIfRemoteCanInstall env h want missionId =
     (let e = want_element want
      in if el_bundleName e = [] \<or> el_moduleName e = [] \<or> el_abilityName e = [] \<or> el_deviceId e = []
         then (False, h)
         else if \<not> bms_available env h then (False, h)
         else (case active_id env h of
                 None \<Rightarrow> (False, h)
               | Some i \<Rightarrow>
                   (let newWant = \<lparr>want_element = e, want_flags = 0, want_params = []\<rparr>
                    in (bms_can_install env h, h @ [BmsCheckInstall newWant missionId i]))))"

definition GetUidFromBms :: "env \<Rightarrow> hist \<Rightarrow> string \<Rightarrow> int" where
  "GetUidFromBms env h bundle =
     (if \<not> bms_available env h then - 1
      else (case active_id env h of None \<Rightarrow> - 1 | Some i \<Rightarrow> bms_uid env h bundle i))"

section \<open>Device groups\<close>

definition CheckAccessToGroup :: "env \<Rightarrow> hist \<Rightarrow> string \<Rightarrow> string \<Rightarrow> bool" where
  "CheckAccessToGroup env h gid bundle =
     (if \<not> hichain_ready env h then False else hichain_access env h gid bundle = ERR_OK)"

definition GetRelatedGroupsString :: "env \<Rightarrow> hist \<Rightarrow> string \<Rightarrow> string \<Rightarrow> string option" where
  "GetRelatedGroupsString env h udid bundle =
     (if \<not> hichain_ready env h then None else hichain_groups env h udid bundle)"

definition ParseGroupInfos :: "env \<Rightarrow> string \<Rightarrow> GroupInfo list option" where
  "ParseGroupInfos env s =
     (case parse_groups env s of
        None \<Rightarrow> None
      | Some gs \<Rightarrow> if gs = [] then None else Some gs)"

fun add_groups :: "env \<Rightarrow> GroupInfo list \<Rightarrow> AccountInfo \<Rightarrow> AccountInfo" where
  "add_groups env [] a = a"
| "add_groups env (g # gs) a =
     (if groupType g \<noteq> identical_account_group env \<and> groupType g \<noteq> peer_to_peer_group env
      then add_groups env gs a
      else
        let a1 = a\<lparr>groupIdList := groupIdList a @ [groupId g]\<rparr>;
            a2 = (if groupType g = identical_account_group env \<and> accountType a1 \<noteq> SAME_ACCOUNT_TYPE
                  then a1\<lparr>accountType := SAME_ACCOUNT_TYPE\<rparr> else a1)
        in add_groups env gs a2)"

fun collect_groups :: "env \<Rightarrow> hist \<Rightarrow> string \<Rightarrow> string list \<Rightarrow> AccountInfo \<Rightarrow> AccountInfo" where
  "collect_groups env h udid [] a = a"
| "collect_groups env h udid (b # bs) a =
     (case GetRelatedGroupsString env h udid b of
        None \<Rightarrow> collect_groups env h udid bs a
      | Some s \<Rightarrow>
          (case ParseGroupInfos env s of
             None \<Rightarrow> collect_groups env h udid bs a
           | Some gs \<Rightarrow> collect_groups env h udid bs (add_groups env gs a)))"

definition GetRelatedGroups :: "env \<Rightarrow> hist \<Rightarrow> string \<Rightarrow> string list \<Rightarrow> AccountInfo \<Rightarrow> bool \<times> AccountInfo" where
  "GetRelatedGroups env h udid bs a =
     (let a' = collect_groups env h udid bs a in (groupIdList a' \<noteq> [], a'))"

definition GetAccountInfo :: "env \<Rightarrow> hist \<Rightarrow> string \<Rightarrow> CallerInfo \<Rightarrow> int \<times> AccountInfo" where
  "GetAccountInfo env h remoteNetworkId caller =
     (if remoteNetworkId = [] then (err_null_object env, default_AccountInfo)
      else
        let udid = udid_of_network env h remoteNetworkId
        in if udid = [] then (err_null_object env, default_AccountInfo)
           else
             let (ok, a) = GetRelatedGroups env h udid (bundleNames caller) default_AccountInfo
             in if \<not> ok then (INVALID_PARAMETERS_ERR, a) else (ERR_OK, a))"

section \<open>Permission checks\<close>

definition DMS_MISSION_ID :: string where "DMS_MISSION_ID = ''dmsMissionId''"
definition DEFAULT_DMS_MISSION_ID :: int where "DEFAULT_DMS_MISSION_ID = - 1"
definition FOUNDATION_PROCESS_NAME :: string where "FOUNDATION_PROCESS_NAME = ''foundation''"

definition default_AbilityInfo :: AbilityInfo where
  "default_AbilityInfo = \<lparr>ai_bundleName = [], ai_name = [], ai_visible = False,
     ai_type = AbilityUnknown, ai_permissions = []\<rparr>"

definition GetTargetAbility :: "env \<Rightarrow> hist \<Rightarrow> Want \<Rightarrow> bool \<Rightarrow> AbilityInfo option" where
  "GetTargetAbility env h want needQueryExtension =
     (case QueryAbilityInfo env h want of
        Some a \<Rightarrow>
          if GetIntParam want DMS_MISSION_ID DEFAULT_DMS_MISSION_ID \<noteq> DEFAULT_DMS_MISSION_ID \<and>
             (ai_type a = AbilityService \<or> ai_type a = AbilityExtension)
          then None else Some a
      | None \<Rightarrow>
          if needQueryExtension then
            map_option (\<lambda>e. InitAbilityInfoFromExtension e default_AbilityInfo)
              (QueryExtensionAbilityInfo env h want)
          else None)"

definition CheckAccountAccessPermission :: "env \<Rightarrow> hist \<Rightarrow> AccountInfo \<Rightarrow> string \<Rightarrow> bool" where
  "CheckAccountAccessPermission env h a targetBundleName =
     (if accountType a = SAME_ACCOUNT_TYPE then True
      else if targetBundleName = [] \<or> groupIdList a = [] then False
      else list_ex (\<lambda>g. CheckAccessToGroup env h g targetBundleName) (groupIdList a))"

definition CheckComponentAccessPermission ::
  "env \<Rightarrow> hist \<Rightarrow> AbilityInfo \<Rightarrow> CallerInfo \<Rightarrow> Want \<Rightarrow> bool" where
  "CheckComponentAccessPermission env h target caller want =
     (if \<not> ai_visible target then False
      else if and (want_flags want) (flag_continuation env) \<noteq> 0 \<and>
              \<not> IsSameAppId env h (callerAppId caller) (ai_bundleName target) then False
      else True)"

definition CheckCustomPermission :: "env \<Rightarrow> hist \<Rightarrow> AbilityInfo \<Rightarrow> CallerInfo \<Rightarrow> bool" where
  "CheckCustomPermission env h target caller =
     (if ai_permissions target = [] then True
      else if accessToken caller = 0 then False
      else
        let dAccessToken = alloc_local_token env h (sourceDeviceId caller) (accessToken caller)
        in if dAccessToken = 0 then False
           else list_all (\<lambda>p. p = [] \<or> token_granted env h dAccessToken p) (ai_permissions target))"

definition CheckDPermission ::
  "env \<Rightarrow> hist \<Rightarrow> Want \<Rightarrow> CallerInfo \<Rightarrow> AccountInfo \<Rightarrow> string \<Rightarrow> bool \<Rightarrow> int" where
  "CheckDPermission env h want caller a localDeviceId needQueryExtension =
     (if localDeviceId = [] then INVALID_PARAMETERS_ERR
      else (case GetTargetAbility env h want needQueryExtension of
              None \<Rightarrow> INVALID_PARAMETERS_ERR
            | Some target \<Rightarrow>
                if \<not> CheckAccountAccessPermission env h a (ai_bundleName target)
                then DMS_ACCOUNT_ACCESS_PERMISSION_DENIED
                else if \<not> CheckComponentAccessPermission env h target caller want
                then DMS_COMPONENT_ACCESS_PERMISSION_DENIED
                else if \<not> CheckCustomPermission env h target caller
                then DMS_COMPONENT_ACCESS_PERMISSION_DENIED
                else ERR_OK))"

definition CheckGetCallerPermission ::
  "env \<Rightarrow> hist \<Rightarrow> Want \<Rightarrow> CallerInfo \<Rightarrow> AccountInfo \<Rightarrow> string \<Rightarrow> int" where
  "CheckGetCallerPermission env h want caller a localDeviceId =
     (let result = CheckDPermission env h want caller a localDeviceId False
      in if result \<noteq> ERR_OK then result
         else (case GetAppIdOfBundle env h (el_bundleName (want_element want)) of
                 None \<Rightarrow> CALL_PERMISSION_DENIED
               | Some appId \<Rightarrow> if appId \<noteq> callerAppId caller then CALL_PERMISSION_DENIED else ERR_OK))"

definition IsFoundationCall :: "env \<Rightarrow> hist \<Rightarrow> nat \<Rightarrow> bool" where
  "IsFoundationCall env h token =
     (let (result, process) = native_process env h token
      in result = ERR_OK \<and> process = FOUNDATION_PROCESS_NAME)"

definition IsNativeCall :: "env \<Rightarrow> hist \<Rightarrow> nat \<Rightarrow> bool" where
  "IsNativeCall env h token = token_is_native env h token"

definition VerifyPermission :: "env \<Rightarrow> hist \<Rightarrow> nat \<Rightarrow> string \<Rightarrow> bool" where
  "VerifyPermission env h token permission = token_granted env h token permission"

definition CheckPermission :: "env \<Rightarrow> hist \<Rightarrow> nat \<Rightarrow> string \<Rightarrow> int" where
  "CheckPermission env h token permission =
     (if IsNativeCall env h token then ERR_OK
      else if VerifyPermission env h token permission then ERR_OK
      else DMS_PERMISSION_DENIED)"

section \<open>The loops as one comprehension\<close>

definition groups_of_bundle :: "env \<Rightarrow> hist \<Rightarrow> string \<Rightarrow> string \<Rightarrow> GroupInfo list" where
  "groups_of_bundle env h udid b =
     (case Option.bind (GetRelatedGroupsString env h udid b) (ParseGroupInfos env) of
        None \<Rightarrow> []
      | Some gs \<Rightarrow> gs)"

definition trusted :: "env \<Rightarrow> GroupInfo \<Rightarrow> bool" where
  "trusted env g = (groupType g \<in> {identical_account_group env, peer_to_peer_group env})"

definition trusted_groups :: "env \<Rightarrow> hist \<Rightarrow> string \<Rightarrow> string list \<Rightarrow> GroupInfo list" where
  "trusted_groups env h udid bs = filter (trusted env) (concat (map (groups_of_bundle env h udid) bs))"

definition account_of :: "env \<Rightarrow> GroupInfo list \<Rightarrow> AccountInfo \<Rightarrow> AccountInfo" where
  "account_of env gs a =
     \<lparr>accountType =
        (if \<exists>g \<in> set gs. groupType g = identical_account_group env then SAME_ACCOUNT_TYPE
         else accountType a),
      groupIdList = groupIdList a @ map groupId gs\<rparr>"

lemma account_of_append: "account_of env (gs @ hs) a = account_of env hs (account_of env gs a)"
  by (auto simp: account_of_def)

lemma account_of_Nil [simp]: "account_of env [] a = a"
  by (simp add: account_of_def)

lemma add_groups_Cons:
  "add_groups env (g # gs) a =
     add_groups env gs (if trusted env g then account_of env [g] a else a)"
  by (cases a; cases "groupType g = identical_account_group env"; cases "accountType a = SAME_ACCOUNT_TYPE")
    (simp_all add: trusted_def account_of_def Let_def)

lemma add_groups_account: "add_groups env gs a = account_of env (filter (trusted env) gs) a"
  by (induction gs arbitrary: a)
    (simp_all add: add_groups_Cons account_of_append [of env "[_]", symmetric] del: add_groups.simps(2))

lemma collect_groups_Cons:
  "collect_groups env h udid (b # bs) a =
     collect_groups env h udid bs (add_groups env (groups_of_bundle env h udid b) a)"
  by (simp add: groups_of_bundle_def split: option.split bind_splits)

lemma collect_groups_account:
  "collect_groups env h udid bs a = account_of env (trusted_groups env h udid bs) a"
  by (induction bs arbitrary: a)
    (simp_all add: trusted_groups_def collect_groups_Cons add_groups_account account_of_append
      del: collect_groups.simps(2))

text \<open>
  The group loops compute, in order, exactly the identifiers of the identical-account
  and point-to-point groups the device shares with any bundle of the caller; the account
  counts as the same account exactly when one of them is an identical-account group, and
  the check fails exactly when there is no such group at all.
\<close>

lemma account_groups_spec:
  "GetRelatedGroups env h udid bs default_AccountInfo =
     (let gs = trusted_groups env h udid bs
      in (gs \<noteq> [],
          \<lparr>accountType = (if \<exists>g \<in> set gs. groupType g = identical_account_group env
                          then SAME_ACCOUNT_TYPE else DIFF_ACCOUNT_TYPE),
           groupIdList = map groupId gs\<rparr>))"
  by (simp add: GetRelatedGroups_def collect_groups_account account_of_def default_AccountInfo_def Let_def)

section \<open>What the permission check grants\<close>

text \<open>The declarative reading: a visible target the caller's account and tokens may reach.\<close>

definition may_start ::
  "env \<Rightarrow> hist \<Rightarrow> Want \<Rightarrow> CallerInfo \<Rightarrow> AccountInfo \<Rightarrow> AbilityInfo \<Rightarrow> bool" where
  "may_start env h want caller a target =
     (ai_visible target \<and>
      (accountType a = SAME_ACCOUNT_TYPE \<or>
       ai_bundleName target \<noteq> [] \<and>
       (\<exists>g \<in> set (groupIdList a). CheckAccessToGroup env h g (ai_bundleName target))) \<and>
      (and (want_flags want) (flag_continuation env) \<noteq> 0 \<longrightarrow>
       IsSameAppId env h (callerAppId caller) (ai_bundleName target)) \<and>
      (ai_permissions target \<noteq> [] \<longrightarrow>
       accessToken caller \<noteq> 0 \<and>
       alloc_local_token env h (sourceDeviceId caller) (accessToken caller) \<noteq> 0 \<and>
       (\<forall>p \<in> set (ai_permissions target). p \<noteq> [] \<longrightarrow>
          token_granted env h (alloc_local_token env h (sourceDeviceId caller) (accessToken caller)) p)))"

text \<open>
  C17: the distributed permission check grants a start exactly when the local device is
  known, the target exists and is visible, the account check passes (same account, or
  access through one of the shared groups), a migration stays within one application, and
  the caller's token holds every permission the target demands.
\<close>

theorem dpermission_granted_iff:
  "CheckDPermission env h want caller a localDeviceId ext = ERR_OK \<longleftrightarrow>
     localDeviceId \<noteq> [] \<and>
     (\<exists>target. GetTargetAbility env h want ext = Some target \<and> may_start env h want caller a target)"
  by (auto simp: CheckDPermission_def may_start_def CheckAccountAccessPermission_def
      CheckComponentAccessPermission_def CheckCustomPermission_def err_defs list_ex_iff list_all_iff
      Let_def split: option.splits)

lemma dpermission_range:
  "CheckDPermission env h want caller a dev ext \<in>
     {ERR_OK, INVALID_PARAMETERS_ERR, DMS_ACCOUNT_ACCESS_PERMISSION_DENIED,
      DMS_COMPONENT_ACCESS_PERMISSION_DENIED}"
  by (auto simp: CheckDPermission_def split: option.splits)

end
