(* ===== verification/Continuation.thy ===== *)
theory Continuation
  imports Permission "HOL-Library.Monad_Syntax"
begin

text \<open>
  The table of running continuations, \<^verbatim>\<open>DSchedContinuation\<close> of
  \<^verbatim>\<open>dtbschedmgr/src/distributed_sched_continuation.cpp\<close>: per mission the callback of the
  mission center, the target device and the free-install flag, and a timer per mission.
  Timers and messages are effects on the history; an operation maps (history, table) to its
  result and the new pair.
\<close>

section \<open>State\<close>

record DSchedContinuation =
  contHandler :: bool
  currSessionId :: int32
  continuationMap :: "(int, robj) stdmap"
  contCallbackMap :: "(int, robj) stdmap"
  freeInstall :: "(int, bool) stdmap"
  continuationDevices :: "(int, string) stdmap"

definition CONTINUATION_DELAY_TIME :: int where "CONTINUATION_DELAY_TIME = 20000"
definition NAPI_MISSION_CENTER_INTERFACE_TOKEN :: u16string where
  "NAPI_MISSION_CENTER_INTERFACE_TOKEN = u16 ''ohos.DistributedSchedule.IMissionCallback''"
definition NOTIFY_MISSION_CENTER_RESULT :: nat where "NOTIFY_MISSION_CENTER_RESULT = 4"

definition new_continuation :: DSchedContinuation where
  "new_continuation = \<lparr>contHandler = False, currSessionId = 1, continuationMap = [],
     contCallbackMap = [], freeInstall = [], continuationDevices = []\<rparr>"

definition cont_Init :: "DSchedContinuation \<Rightarrow> DSchedContinuation" where
  "cont_Init c = c\<lparr>contHandler := True\<rparr>"

section \<open>Ability tokens\<close>

definition PushAbilityToken ::
  "env \<Rightarrow> int \<Rightarrow> ptr \<Rightarrow> hist \<Rightarrow> DSchedContinuation \<Rightarrow> bool \<times> hist \<times> DSchedContinuation" where
  "PushAbilityToken env sessionId abilityToken h c =
     (case abilityToken of
        None \<Rightarrow> (False, h, c)
      | Some tok \<Rightarrow>
          if sessionId \<le> 0 then (False, h, c)
          else if \<not> contHandler c then (False, h, c)
          else
            let ret = send_event_ok env h;
                h1 = h @ [SendEvent ContinuationTimer sessionId CONTINUATION_DELAY_TIME]
            in if \<not> ret then (False, h1, c)
               else if map_find sessionId (continuationMap c) \<noteq> None then (False, h1, c)
               else (True, h1, c\<lparr>continuationMap := map_emplace sessionId tok (continuationMap c)\<rparr>))"

definition PopAbilityToken ::
  "int \<Rightarrow> hist \<Rightarrow> DSchedContinuation \<Rightarrow> ptr \<times> hist \<times> DSchedContinuation" where
  "PopAbilityToken sessionId h c =
     (if sessionId \<le> 0 then (nullptr, h, c)
      else (case map_find sessionId (continuationMap c) of
              None \<Rightarrow> (nullptr, h, c)
            | Some tok \<Rightarrow>
                (Some tok,
                 if contHandler c then h @ [RemoveEvent ContinuationTimer sessionId] else h,
                 c\<lparr>continuationMap := map_erase sessionId (continuationMap c)\<rparr>)))"

definition GenerateSessionId :: "DSchedContinuation \<Rightarrow> int \<times> DSchedContinuation" where
  "GenerateSessionId c =
     (let currValue = currSessionId c;
          next = currSessionId c + 1
      in (sint currValue, c\<lparr>currSessionId := if sint next \<le> 0 then 1 else next\<rparr>))"

section \<open>Timers\<close>

definition SetTimeOut :: "int \<Rightarrow> int \<Rightarrow> hist \<Rightarrow> DSchedContinuation \<Rightarrow> hist" where
  "SetTimeOut missionId timeout h c =
     (if \<not> contHandler c then h else h @ [SendEvent ContinuationTimer missionId timeout])"

definition RemoveTimeOut :: "int \<Rightarrow> hist \<Rightarrow> DSchedContinuation \<Rightarrow> hist" where
  "RemoveTimeOut missionId h c =
     (if \<not> contHandler c then h else h @ [RemoveEvent ContinuationTimer missionId])"

text \<open>
  \<open>ProcessEvent\<close>: the mission for which the timeout callback runs, if any. The event id
  is an unsigned 32-bit number, read as a signed one.
\<close>

definition cont_ProcessEvent :: "uint32 \<Rightarrow> int option" where
  "cont_ProcessEvent eventId = (let sessionId = sint eventId in if sessionId \<le> 0 then None else Some sessionId)"

section \<open>Missions\<close>

definition IsFreeInstall :: "int \<Rightarrow> DSchedContinuation \<Rightarrow> bool" where
  "IsFreeInstall missionId c =
     (case map_find missionId (freeInstall c) of Some b \<Rightarrow> b | None \<Rightarrow> False)"

definition IsInContinuationProgress :: "int \<Rightarrow> DSchedContinuation \<Rightarrow> bool" where
  "IsInContinuationProgress missionId c = (map_find missionId (contCallbackMap c) \<noteq> None)"

definition GetTargetDevice :: "int \<Rightarrow> DSchedContinuation \<Rightarrow> string" where
  "GetTargetDevice missionId c =
     (case map_find missionId (continuationDevices c) of Some d \<Rightarrow> d | None \<Rightarrow> [])"

definition cont_PushCallback ::
  "int \<Rightarrow> ptr \<Rightarrow> string \<Rightarrow> bool \<Rightarrow> DSchedContinuation \<Rightarrow> bool \<times> DSchedContinuation" where
  "cont_PushCallback missionId callback deviceId isFreeInstall c =
     (case callback of
        None \<Rightarrow> (False, c)
      | Some cb \<Rightarrow>
          if \<not> contHandler c then (False, c)
          else if map_find missionId (contCallbackMap c) \<noteq> None then (False, c)
          else
            let c1 = c\<lparr>contCallbackMap := map_emplace missionId cb (contCallbackMap c),
                       continuationDevices := map_emplace missionId deviceId (continuationDevices c)\<rparr>
            in (True, if isFreeInstall
                      then c1\<lparr>freeInstall := map_put missionId isFreeInstall (freeInstall c1)\<rparr>
                      else c1))"

definition cont_PopCallback :: "int \<Rightarrow> DSchedContinuation \<Rightarrow> ptr \<times> DSchedContinuation" where
  "cont_PopCallback missionId c =
     (case map_find missionId (contCallbackMap c) of
        None \<Rightarrow> (nullptr, c)
      | Some callback \<Rightarrow>
          (Some callback,
           c\<lparr>continuationDevices := map_erase missionId (continuationDevices c),
             freeInstall := map_erase missionId (freeInstall c),
             contCallbackMap := map_erase missionId (contCallbackMap c)\<rparr>))"

definition NotifyMissionCenterResult ::
  "env \<Rightarrow> int \<Rightarrow> int \<Rightarrow> hist \<Rightarrow> DSchedContinuation \<Rightarrow> int \<times> hist \<times> DSchedContinuation" where
  "NotifyMissionCenterResult env missionId isSuccess h c =
     (let (callback, c1) = cont_PopCallback missionId c;
          h1 = RemoveTimeOut missionId h c1
      in (case callback of
            None \<Rightarrow> (INVALID_PARAMETERS_ERR, h1, c1)
          | Some cb \<Rightarrow>
              (case write_all (writable env)
                      [PToken NAPI_MISSION_CENTER_INTERFACE_TOKEN, PInt32 isSuccess] [] of
                 None \<Rightarrow> (INVALID_PARAMETERS_ERR, h1, c1)
               | Some data \<Rightarrow>
                   (send_object_result env h1 cb NOTIFY_MISSION_CENTER_RESULT data,
                    h1 @ [SendObject cb NOTIFY_MISSION_CENTER_RESULT data], c1))))"

section \<open>Invariant\<close>

text \<open>
  The three tables have the same missions, but for the free-install table, which is a part
  of them; the session counter is positive.
\<close>

definition cont_inv :: "DSchedContinuation \<Rightarrow> bool" where
  "cont_inv c =
     (map_ok (contCallbackMap c) \<and> map_ok (continuationDevices c) \<and> map_ok (freeInstall c) \<and>
      map_ok (continuationMap c) \<and>
      map_keys (continuationDevices c) = map_keys (contCallbackMap c) \<and>
      map_keys (freeInstall c) \<subseteq> map_keys (contCallbackMap c) \<and> 0 < sint (currSessionId c))"

datatype cont_req =
    CPushToken int ptr
  | CPopToken int
  | CGenerate
  | CSetTimeOut int int
  | CRemoveTimeOut int
  | CPush int ptr string bool
  | CPop int
  | CNotify int int

definition cont_step :: "env \<Rightarrow> hist \<times> DSchedContinuation \<Rightarrow> cont_req \<Rightarrow> hist \<times> DSchedContinuation" where
  "cont_step env hc r =
     (let (h, c) = hc
      in (case r of
            CPushToken i t \<Rightarrow> snd (PushAbilityToken env i t h c)
          | CPopToken i \<Rightarrow> snd (PopAbilityToken i h c)
          | CGenerate \<Rightarrow> (h, snd (GenerateSessionId c))
          | CSetTimeOut m t \<Rightarrow> (SetTimeOut m t h c, c)
          | CRemoveTimeOut m \<Rightarrow> (RemoveTimeOut m h c, c)
          | CPush m cb d f \<Rightarrow> (h, snd (cont_PushCallback m cb d f c))
          | CPop m \<Rightarrow> (h, snd (cont_PopCallback m c))
          | CNotify m r \<Rightarrow> snd (NotifyMissionCenterResult env m r h c)))"

lemma cont_PushCallback_inv: "cont_inv c \<Longrightarrow> cont_inv (snd (cont_PushCallback m cb d f c))"
  by (auto simp: cont_PushCallback_def cont_inv_def Let_def split: option.splits)

lemma cont_PopCallback_inv: "cont_inv c \<Longrightarrow> cont_inv (snd (cont_PopCallback m c))"
  by (auto simp: cont_PopCallback_def cont_inv_def split: option.splits)

lemma NotifyMissionCenterResult_state:
  "snd (snd (NotifyMissionCenterResult env m r h c)) = snd (cont_PopCallback m c)"
  by (simp add: NotifyMissionCenterResult_def Let_def split: prod.split option.split)

lemma GenerateSessionId_inv:
  assumes "cont_inv c"
  shows "cont_inv (snd (GenerateSessionId c))"
proof -
  have "0 < sint (if sint (currSessionId c + 1) \<le> 0 then 1 else currSessionId c + 1)" by simp
  with assms show ?thesis by (simp add: GenerateSessionId_def Let_def cont_inv_def)
qed

lemma token_ops_inv:
  "cont_inv c \<Longrightarrow> cont_inv (snd (snd (PushAbilityToken env i t h c)))"
  "cont_inv c \<Longrightarrow> cont_inv (snd (snd (PopAbilityToken i h c)))"
  by (auto simp: PushAbilityToken_def PopAbilityToken_def cont_inv_def Let_def split: option.splits)

lemma cont_step_inv: "cont_inv (snd hc) \<Longrightarrow> cont_inv (snd (cont_step env hc r))"
  by (cases hc; cases r)
    (auto simp: cont_step_def cont_PushCallback_inv cont_PopCallback_inv GenerateSessionId_inv
      NotifyMissionCenterResult_state token_ops_inv)

interpretation cont_m: machine "cont_step env" "\<lambda>hc. snd hc = cont_Init new_continuation" "\<lambda>hc. cont_inv (snd hc)"
proof unfold_locales
  show "cont_inv (snd (cont_step env hc r))" if "cont_inv (snd hc)" for hc r
    using that by (rule cont_step_inv)
qed (simp add: cont_inv_def cont_Init_def new_continuation_def)

section \<open>One result per continuation\<close>

text \<open>A step that ends the continuation of mission \<open>m\<close>.\<close>

definition ends_mission :: "int \<Rightarrow> cont_req \<Rightarrow> bool" where
  "ends_mission m r = (case r of CPop m' \<Rightarrow> m' = m | CNotify m' x \<Rightarrow> m' = m | _ \<Rightarrow> False)"

lemma pop_other: "m' \<noteq> m \<Longrightarrow>
    map_find m (contCallbackMap (snd (cont_PopCallback m' c))) = map_find m (contCallbackMap c)"
  by (simp add: cont_PopCallback_def split: option.split)

lemma token_ops_frame [simp]:
  "contCallbackMap (snd (snd (PushAbilityToken env i t h c))) = contCallbackMap c"
  "contCallbackMap (snd (snd (PopAbilityToken i h c))) = contCallbackMap c"
  "contCallbackMap (snd (GenerateSessionId c)) = contCallbackMap c"
  by (auto simp: PushAbilityToken_def PopAbilityToken_def GenerateSessionId_def Let_def split: option.splits)

lemma push_keeps:
  "map_find m (contCallbackMap c) = Some cb \<Longrightarrow>
   map_find m (contCallbackMap (snd (cont_PushCallback m' cb' d f c))) = Some cb"
  by (auto simp: cont_PushCallback_def Let_def dest: map_find_Some_key split: option.split)

lemma step_keeps_callback:
  assumes "map_find m (contCallbackMap (snd hc)) = Some cb" "\<not> ends_mission m r"
  shows "map_find m (contCallbackMap (snd (cont_step env hc r))) = Some cb"
  using assms
  by (cases hc; cases r)
    (auto simp: cont_step_def ends_mission_def NotifyMissionCenterResult_state push_keeps pop_other)

lemma run_keeps_callback:
  assumes "map_find m (contCallbackMap (snd hc)) = Some cb" "list_all (\<lambda>r. \<not> ends_mission m r) rs"
  shows "map_find m (contCallbackMap (snd (run (cont_step env) hc rs))) = Some cb"
  using assms by (induction rs arbitrary: hc) (auto simp: step_keeps_callback)

text \<open>
  Between the registration of a continuation and its end, no other request (a second
  registration of the mission, any other mission, session numbers, timers) changes who is
  to be told. The first result then goes to the registered callback in exactly one
  message, and after it the mission is free again: a second result finds nobody.
\<close>

lemma continuation_notified_once:
  assumes "cont_PushCallback m (Some cb) d f c = (True, c0)"
    and "list_all (\<lambda>r. \<not> ends_mission m r) rs"
    and "run (cont_step env) (h0, c0) rs = (h1, c1)" and "\<And>p v. writable env p v"
    and "NotifyMissionCenterResult env m code h1 c1 = (result, h2, c2)"
  shows "(\<exists>timer. h2 = h1 @ timer @ [SendObject cb NOTIFY_MISSION_CENTER_RESULT
        [PToken NAPI_MISSION_CENTER_INTERFACE_TOKEN, PInt32 code]] \<and>
      set timer \<subseteq> {RemoveEvent ContinuationTimer m}) \<and>
    \<not> IsInContinuationProgress m c2 \<and>
    fst (NotifyMissionCenterResult env m code' h2 c2) = INVALID_PARAMETERS_ERR"
proof -
  have "map_find m (contCallbackMap c0) = Some cb"
    using assms(1) by (auto simp: cont_PushCallback_def Let_def split: if_splits option.splits)
  with run_keeps_callback [of m "(h0, c0)" cb rs env] assms(2,3)
  have cb: "map_find m (contCallbackMap c1) = Some cb" by simp
  have c2: "c2 = snd (cont_PopCallback m c1)"
    using NotifyMissionCenterResult_state [of env m code h1 c1] assms(5) by simp
  then have gone: "map_find m (contCallbackMap c2) = None" using cb by (simp add: cont_PopCallback_def)
  have "h2 = RemoveTimeOut m h1 c2 @ [SendObject cb NOTIFY_MISSION_CENTER_RESULT
      [PToken NAPI_MISSION_CENTER_INTERFACE_TOKEN, PInt32 code]]"
    using assms(4,5) cb by (auto simp: NotifyMissionCenterResult_def cont_PopCallback_def Let_def)
  moreover have "\<exists>timer. RemoveTimeOut m h1 c2 = h1 @ timer \<and> set timer \<subseteq> {RemoveEvent ContinuationTimer m}"
    by (auto simp: RemoveTimeOut_def)
  moreover have "fst (NotifyMissionCenterResult env m code' h2 c2) = INVALID_PARAMETERS_ERR"
    using gone by (simp add: NotifyMissionCenterResult_def cont_PopCallback_def Let_def)
  ultimately show ?thesis using gone by (auto simp: IsInContinuationProgress_def)
qed

end
