(* ===== verification/CallbackTask.thy ===== *)
theory CallbackTask
  imports Continuation
begin

text \<open>
  The table of running free installs, \<^verbatim>\<open>DmsCallbackTask\<close> of
  \<^verbatim>\<open>dtbschedmgr/src/dms_callback_task.cpp\<close>, with \<open>NotifyFreeInstallResult\<close> of
  \<^verbatim>\<open>distributed_sched_service.cpp\<close>, through which it tells the caller. Task ids are 64-bit
  and may wrap; the table is ordered by id.
\<close>

section \<open>State\<close>

datatype LaunchType = FREEINSTALL_START | FREEINSTALL_CONTINUE

record CallbackTaskItem =
  item_callback :: ptr
  item_taskId :: int
  item_launchType :: LaunchType
  item_deviceId :: string
  item_want :: Want

definition default_Want :: Want where
  "default_Want = \<lparr>want_element = \<lparr>el_deviceId = [], el_bundleName = [], el_abilityName = [],
     el_moduleName = []\<rparr>, want_flags = 0, want_params = []\<rparr>"

definition default_item :: CallbackTaskItem where
  "default_item = \<lparr>item_callback = nullptr, item_taskId = - 1, item_launchType = FREEINSTALL_START,
     item_deviceId = [], item_want = default_Want\<rparr>"

record DmsCallbackTask =
  taskHandler :: bool
  currTaskId :: int64
  taskCallbackMap :: "(int, CallbackTaskItem) stdmap"
  continuationMissionMap :: "(int, int) stdmap"

definition new_callback_task :: DmsCallbackTask where
  "new_callback_task = \<lparr>taskHandler = False, currTaskId = 1, taskCallbackMap = [],
     continuationMissionMap = []\<rparr>"

definition task_Init :: "DmsCallbackTask \<Rightarrow> DmsCallbackTask" where
  "task_Init t = t\<lparr>taskHandler := True\<rparr>"

definition CALLBACK_DELAY_TIME :: int where "CALLBACK_DELAY_TIME = 30000"
definition ATOMIC_SERVICE_STATUS_CALLBACK_TOKEN :: u16string where
  "ATOMIC_SERVICE_STATUS_CALLBACK_TOKEN = u16 ''ohos.aafwk.IAtomicServiceStatusCallback''"
definition IASS_CALLBACK_ON_REMOTE_FREE_INSTALL_DONE :: nat where
  "IASS_CALLBACK_ON_REMOTE_FREE_INSTALL_DONE = 1"

section \<open>Operations\<close>

definition GenerateTaskId :: "DmsCallbackTask \<Rightarrow> int \<times> DmsCallbackTask" where
  "GenerateTaskId t =
     (let currValue = currTaskId t; next = currTaskId t + 1
      in (sint currValue, t\<lparr>currTaskId := if sint next \<le> 0 then 1 else next\<rparr>))"

definition task_PushCallback ::
  "env \<Rightarrow> int \<Rightarrow> ptr \<Rightarrow> string \<Rightarrow> LaunchType \<Rightarrow> Want \<Rightarrow> hist \<Rightarrow> DmsCallbackTask \<Rightarrow>
   int \<times> hist \<times> DmsCallbackTask" where
  "task_PushCallback env taskId callback deviceId launchType want h t =
     (if taskId \<le> 0 then (INVALID_PARAMETERS_ERR, h, t)
      else if launchType = FREEINSTALL_START \<and> callback = nullptr then (INVALID_PARAMETERS_ERR, h, t)
      else if \<not> taskHandler t then (INVALID_PARAMETERS_ERR, h, t)
      else if map_find taskId (taskCallbackMap t) \<noteq> None then (INVALID_PARAMETERS_ERR, h, t)
      else
        let ret = send_event_ok env h;
            h1 = h @ [SendEvent CallbackTimer taskId CALLBACK_DELAY_TIME]
        in if \<not> ret then (INVALID_PARAMETERS_ERR, h1, t)
           else
             let item = \<lparr>item_callback = callback, item_taskId = taskId,
                   item_launchType = launchType, item_deviceId = deviceId, item_want = want\<rparr>
             in (ERR_OK, h1, t\<lparr>taskCallbackMap := map_emplace taskId item (taskCallbackMap t)\<rparr>))"

definition task_PopCallback ::
  "int \<Rightarrow> hist \<Rightarrow> DmsCallbackTask \<Rightarrow> CallbackTaskItem \<times> hist \<times> DmsCallbackTask" where
  "task_PopCallback taskId h t =
     (case map_find taskId (taskCallbackMap t) of
        None \<Rightarrow> (default_item, h, t)
      | Some item \<Rightarrow>
          (item, if taskHandler t then h @ [RemoveEvent CallbackTimer taskId] else h,
           t\<lparr>taskCallbackMap := map_erase taskId (taskCallbackMap t)\<rparr>))"

definition PopContinuationMissionMap :: "int \<Rightarrow> DmsCallbackTask \<Rightarrow> DmsCallbackTask" where
  "PopContinuationMissionMap taskId t =
     t\<lparr>continuationMissionMap := map_erase taskId (continuationMissionMap t)\<rparr>"

text \<open>The error code comes back as if it were a mission id.\<close>

definition GetContinuaionMissionId :: "int \<Rightarrow> DmsCallbackTask \<Rightarrow> int" where
  "GetContinuaionMissionId taskId t =
     (if taskId \<le> 0 then INVALID_PARAMETERS_ERR
      else (case map_find taskId (continuationMissionMap t) of
              None \<Rightarrow> INVALID_PARAMETERS_ERR
            | Some m \<Rightarrow> m))"

definition SetContinuationMissionMap :: "int \<Rightarrow> int \<Rightarrow> DmsCallbackTask \<Rightarrow> DmsCallbackTask" where
  "SetContinuationMissionMap taskId missionId t =
     (if taskId \<le> 0 \<or> missionId \<le> 0 then t
      else if map_find taskId (continuationMissionMap t) \<noteq> None then t
      else t\<lparr>continuationMissionMap := map_put taskId missionId (continuationMissionMap t)\<rparr>)"

definition GetLaunchType :: "int \<Rightarrow> DmsCallbackTask \<Rightarrow> LaunchType" where
  "GetLaunchType taskId t =
     (if taskId \<le> 0 then FREEINSTALL_START
      else (case map_find taskId (taskCallbackMap t) of
              None \<Rightarrow> FREEINSTALL_START
            | Some item \<Rightarrow> item_launchType item))"

definition free_install_message :: "env \<Rightarrow> CallbackTaskItem \<Rightarrow> int \<Rightarrow> pval list" where
  "free_install_message env item resultCode =
     [PToken ATOMIC_SERVICE_STATUS_CALLBACK_TOKEN, PInt32 resultCode,
      PNested (marshal_want env (item_want item)), PInt32 0]"

definition NotifyFreeInstallResult :: "env \<Rightarrow> CallbackTaskItem \<Rightarrow> int \<Rightarrow> hist \<Rightarrow> int \<times> hist" where
  "NotifyFreeInstallResult env item resultCode h =
     (case item_callback item of
        None \<Rightarrow> (INVALID_REMOTE_PARAMETERS_ERR, h)
      | Some cb \<Rightarrow>
          (case write_all (writable env) (free_install_message env item resultCode) [] of
             None \<Rightarrow> (INVALID_REMOTE_PARAMETERS_ERR, h)
           | Some data \<Rightarrow>
               (send_object_result env h cb IASS_CALLBACK_ON_REMOTE_FREE_INSTALL_DONE data,
                h @ [SendObject cb IASS_CALLBACK_ON_REMOTE_FREE_INSTALL_DONE data])))"

text \<open>The loop of \<open>NotifyDeviceOffline\<close> over the tasks.\<close>

fun offline_loop ::
  "env \<Rightarrow> bool \<Rightarrow> string \<Rightarrow> (int, CallbackTaskItem) stdmap \<Rightarrow> hist \<Rightarrow> hist \<times> (int, CallbackTaskItem) stdmap" where
  "offline_loop env handler deviceId [] h = (h, [])"
| "offline_loop env handler deviceId ((k, item) # m) h =
     (if item_deviceId item = deviceId then
        (let h1 = (if handler then h @ [RemoveEvent CallbackTimer (item_taskId item)] else h);
             h2 = snd (NotifyFreeInstallResult env item DEVICE_OFFLINE_ERR h1)
         in offline_loop env handler deviceId m h2)
      else
        (let (h1, m1) = offline_loop env handler deviceId m h in (h1, (k, item) # m1)))"

definition task_NotifyDeviceOffline ::
  "env \<Rightarrow> string \<Rightarrow> hist \<Rightarrow> DmsCallbackTask \<Rightarrow> hist \<times> DmsCallbackTask" where
  "task_NotifyDeviceOffline env deviceId h t =
     (let (h1, m) = offline_loop env (taskHandler t) deviceId (taskCallbackMap t) h
      in (h1, t\<lparr>taskCallbackMap := m\<rparr>))"

definition task_ProcessEvent :: "int \<Rightarrow> int option" where
  "task_ProcessEvent eventId = (if eventId \<le> 0 then None else Some eventId)"

section \<open>Invariant\<close>

definition task_inv :: "DmsCallbackTask \<Rightarrow> bool" where
  "task_inv t =
     (map_ok (taskCallbackMap t) \<and> 0 < sint (currTaskId t) \<and>
      (\<forall>(k, item) \<in> set (taskCallbackMap t).
         item_taskId item = k \<and> 0 < k \<and>
         (item_launchType item = FREEINSTALL_START \<longrightarrow> item_callback item \<noteq> nullptr)))"

lemma task_PushCallback_inv: "task_inv t \<Longrightarrow> task_inv (snd (snd (task_PushCallback env i cb d l w h t)))"
  by (auto simp: task_PushCallback_def task_inv_def Let_def map_emplace_def split: option.splits)

lemma task_PopCallback_inv: "task_inv t \<Longrightarrow> task_inv (snd (snd (task_PopCallback i h t)))"
  by (auto simp: task_PopCallback_def task_inv_def split: option.split)

lemma GenerateTaskId_inv: "task_inv t \<Longrightarrow> task_inv (snd (GenerateTaskId t))"
  by (simp add: GenerateTaskId_def Let_def task_inv_def)

lemma offline_loop_filter:
  "snd (offline_loop env handler d m h) = filter (\<lambda>(k, item). item_deviceId item \<noteq> d) m"
  by (induction env handler d m h rule: offline_loop.induct) (auto simp: Let_def split_beta)

lemma task_NotifyDeviceOffline_map:
  "snd (task_NotifyDeviceOffline env d h t) =
     t\<lparr>taskCallbackMap := filter (\<lambda>(k, item). item_deviceId item \<noteq> d) (taskCallbackMap t)\<rparr>"
  by (simp add: task_NotifyDeviceOffline_def split_beta offline_loop_filter)

lemma task_NotifyDeviceOffline_inv: "task_inv t \<Longrightarrow> task_inv (snd (task_NotifyDeviceOffline env d h t))"
  by (auto simp: task_NotifyDeviceOffline_map task_inv_def)

datatype task_req =
    TGenerate
  | TPush int ptr string LaunchType Want
  | TPop int
  | TSetMission int int
  | TPopMission int
  | TOffline string

definition task_step :: "env \<Rightarrow> hist \<times> DmsCallbackTask \<Rightarrow> task_req \<Rightarrow> hist \<times> DmsCallbackTask" where
  "task_step env ht r =
     (let (h, t) = ht
      in (case r of
            TGenerate \<Rightarrow> (h, snd (GenerateTaskId t))
          | TPush i cb d l w \<Rightarrow> snd (task_PushCallback env i cb d l w h t)
          | TPop i \<Rightarrow> snd (task_PopCallback i h t)
          | TSetMission i m \<Rightarrow> (h, SetContinuationMissionMap i m t)
          | TPopMission i \<Rightarrow> (h, PopContinuationMissionMap i t)
          | TOffline d \<Rightarrow> task_NotifyDeviceOffline env d h t))"

lemma mission_ops_inv:
  "task_inv t \<Longrightarrow> task_inv (SetContinuationMissionMap i m t)"
  "task_inv t \<Longrightarrow> task_inv (PopContinuationMissionMap i t)"
  by (simp_all add: SetContinuationMissionMap_def PopContinuationMissionMap_def task_inv_def)

lemma task_step_inv: "task_inv (snd ht) \<Longrightarrow> task_inv (snd (task_step env ht r))"
  by (cases ht; cases r)
    (auto simp: task_step_def GenerateTaskId_inv task_PushCallback_inv task_PopCallback_inv
      mission_ops_inv task_NotifyDeviceOffline_inv)

interpretation task_m: machine "task_step env" "\<lambda>ht. snd ht = task_Init new_callback_task" "\<lambda>ht. task_inv (snd ht)"
proof unfold_locales
  show "task_inv (snd (task_step env ht r))" if "task_inv (snd ht)" for ht r
    using that by (rule task_step_inv)
qed (simp add: task_inv_def task_Init_def new_callback_task_def)

section \<open>Devices that go away\<close>

fun is_send :: "ext \<Rightarrow> bool" where
  "is_send (SendObject x c p) = True"
| "is_send _ = False"

text \<open>The messages owed to the waiting callers of a device, in task order.\<close>

definition offline_messages :: "env \<Rightarrow> string \<Rightarrow> (int, CallbackTaskItem) stdmap \<Rightarrow> hist" where
  "offline_messages env d m =
     concat (map (\<lambda>(k, item).
       if item_deviceId item = d then
         (case item_callback item of
            None \<Rightarrow> []
          | Some cb \<Rightarrow> [SendObject cb IASS_CALLBACK_ON_REMOTE_FREE_INSTALL_DONE
                         (free_install_message env item DEVICE_OFFLINE_ERR)])
       else []) m)"

lemma NotifyFreeInstallResult_sends:
  assumes "\<And>p v. writable env p v"
  shows "snd (NotifyFreeInstallResult env item code h) = h @
    (case item_callback item of
       None \<Rightarrow> []
     | Some cb \<Rightarrow> [SendObject cb IASS_CALLBACK_ON_REMOTE_FREE_INSTALL_DONE (free_install_message env item code)])"
  using assms by (simp add: NotifyFreeInstallResult_def split: option.split)

lemma offline_loop_sends:
  assumes "\<And>p v. writable env p v"
  shows "\<exists>es. fst (offline_loop env handler d m h) = h @ es \<and> filter is_send es = offline_messages env d m"
proof (induction m arbitrary: h)
  case Nil
  show ?case by (simp add: offline_messages_def)
next
  case (Cons e m)
  obtain k item where e: "e = (k, item)" by (cases e)
  show ?case
  proof (cases "item_deviceId item = d")
    case False
    from Cons.IH [of h] False show ?thesis by (auto simp: e offline_messages_def split_beta)
  next
    case True
    let ?t = "if handler then [RemoveEvent CallbackTimer (item_taskId item)] else []"
    let ?msg = "case item_callback item of None \<Rightarrow> []
      | Some cb \<Rightarrow> [SendObject cb IASS_CALLBACK_ON_REMOTE_FREE_INSTALL_DONE
          (free_install_message env item DEVICE_OFFLINE_ERR)]"
    obtain es where es: "fst (offline_loop env handler d m (h @ ?t @ ?msg)) = h @ ?t @ ?msg @ es"
      "filter is_send es = offline_messages env d m"
      using Cons.IH [of "h @ ?t @ ?msg"] by auto
    have "fst (offline_loop env handler d (e # m) h) = h @ (?t @ ?msg @ es)"
      using es(1) True by (cases handler) (simp_all add: e NotifyFreeInstallResult_sends [OF assms])
    moreover have "filter is_send (?t @ ?msg @ es) = offline_messages env d (e # m)"
      using es(2) True by (simp add: e offline_messages_def split: option.split)
    ultimately show ?thesis by blast
  qed
qed

text \<open>
  When a device goes offline, every caller waiting for a free install on it is told
  so in exactly one message, in the order of the task ids; its tasks and only its tasks
  leave the table. The mission of a continuation among them stays in
  \<open>continuationMissionMap\<close>, and since such a task may have no callback, nobody is told.
\<close>

lemma offline_tasks_told:
  assumes "\<And>p v. writable env p v" and "task_NotifyDeviceOffline env d h t = (h', t')"
  shows "(\<exists>es. h' = h @ es \<and> filter is_send es = offline_messages env d (taskCallbackMap t)) \<and>
    taskCallbackMap t' = filter (\<lambda>(k, item). item_deviceId item \<noteq> d) (taskCallbackMap t) \<and>
    continuationMissionMap t' = continuationMissionMap t"
proof -
  have "h' = fst (offline_loop env (taskHandler t) d (taskCallbackMap t) h)"
    using assms(2) by (auto simp: task_NotifyDeviceOffline_def split_beta)
  moreover have "t' = t\<lparr>taskCallbackMap := filter (\<lambda>(k, item). item_deviceId item \<noteq> d) (taskCallbackMap t)\<rparr>"
    using task_NotifyDeviceOffline_map [of env d h t] assms(2) by simp
  ultimately show ?thesis using offline_loop_sends [OF assms(1)] by simp
qed

definition one_continuation :: DmsCallbackTask where
  "one_continuation = (task_Init new_callback_task)\<lparr>
     taskCallbackMap := [(1, \<lparr>item_callback = nullptr, item_taskId = 1,
       item_launchType = FREEINSTALL_CONTINUE, item_deviceId = ''B'', item_want = default_Want\<rparr>)],
     continuationMissionMap := [(1, 7)]\<rparr>"

lemma offline_tasks_told_sample:
  "\<exists>es. fst (task_NotifyDeviceOffline sample_env ''B'' [] one_continuation) = es \<and> filter is_send es = [] \<and>
     continuationMissionMap (snd (task_NotifyDeviceOffline sample_env ''B'' [] one_continuation)) = [(1, 7)]"
proof -
  have w: "writable sample_env p v" for p v by (simp add: sample_env_def)
  obtain h' t' where r: "task_NotifyDeviceOffline sample_env ''B'' [] one_continuation = (h', t')"
    by fastforce
  from offline_tasks_told [OF w r] r show ?thesis
    by (auto simp: offline_messages_def one_continuation_def)
qed

end
