(* ===== verification/SchedState.thy ===== *)
theory SchedState
  imports CallbackTask
begin

text \<open>
  The state of the scheduler service (\<^verbatim>\<open>dtbschedmgr/src/distributed_sched_service.cpp\<close>,
  \<^verbatim>\<open>include/distributed_sched_service.h\<close>) and the helpers its operations share: the calls
  to the ability manager of \<^verbatim>\<open>distributed_sched_adapter.cpp\<close>, device checks, sessions, and
  the component reports.

  Objects that key a table are never null (the operations refuse null objects first), so
  the keys are objects and the null tests on keys in the loops are always true.
\<close>

section \<open>Sessions and connections\<close>

datatype TargetComponent = HARMONY_COMPONENT

record ConnectAbilitySession =
  ses_sourceDeviceId :: string
  ses_destinationDeviceId :: string
  ses_elementsList :: "ElementName list"
  ses_callerInfo :: CallerInfo
  ses_targetComponent :: TargetComponent

record ConnectInfo =
  ci_callerInfo :: CallerInfo
  ci_callbackWrapper :: robj
  ci_element :: ElementName

definition new_session :: "string \<Rightarrow> string \<Rightarrow> CallerInfo \<Rightarrow> TargetComponent \<Rightarrow> ConnectAbilitySession" where
  "new_session src dst caller tc =
     \<lparr>ses_sourceDeviceId = src, ses_destinationDeviceId = dst, ses_elementsList = [],
      ses_callerInfo = caller, ses_targetComponent = tc\<rparr>"

definition AddElement :: "env \<Rightarrow> ElementName \<Rightarrow> ConnectAbilitySession \<Rightarrow> ConnectAbilitySession" where
  "AddElement env element s =
     (if list_ex (\<lambda>e. same_element env e element) (ses_elementsList s) then s
      else s\<lparr>ses_elementsList := ses_elementsList s @ [element]\<rparr>)"

definition IsSameCaller :: "CallerInfo \<Rightarrow> ConnectAbilitySession \<Rightarrow> bool" where
  "IsSameCaller caller s =
     (uid caller = uid (ses_callerInfo s) \<and> pid caller = pid (ses_callerInfo s) \<and>
      sourceDeviceId caller = sourceDeviceId (ses_callerInfo s) \<and>
      callerType caller = callerType (ses_callerInfo s))"

text \<open>
  The loop that finds the session of a device and adds the element to it, or appends a new
  session; shared by the connect and the call side.
\<close>

fun add_to_sessions ::
  "env \<Rightarrow> string \<Rightarrow> string \<Rightarrow> ElementName \<Rightarrow> CallerInfo \<Rightarrow> TargetComponent \<Rightarrow>
   ConnectAbilitySession list \<Rightarrow> ConnectAbilitySession list" where
  "add_to_sessions env src dst element caller tc [] =
     [AddElement env element (new_session src dst caller tc)]"
| "add_to_sessions env src dst element caller tc (s # ss) =
     (if dst = ses_destinationDeviceId s then AddElement env element s # ss
      else s # add_to_sessions env src dst element caller tc ss)"

text \<open>\<open>std::find_if\<close> for the session of a device, and the list without it.\<close>

fun take_session ::
  "string \<Rightarrow> ConnectAbilitySession list \<Rightarrow> ConnectAbilitySession option \<times> ConnectAbilitySession list" where
  "take_session dev [] = (None, [])"
| "take_session dev (s # ss) =
     (if ses_destinationDeviceId s = dev then (Some s, ss)
      else (let (r, rest) = take_session dev ss in (r, s # rest)))"

section \<open>State\<close>

type_synonym connect_map = "(robj, ConnectAbilitySession list) stdmap"

record sched =
  dschedContinuation :: "DSchedContinuation option"
  dmsCallbackTask :: "DmsCallbackTask option"
  distributedConnectAbilityMap :: connect_map
  connectAbilityMap :: "(robj, ConnectInfo) stdmap"
  trackingUidMap :: "(int, uint32) stdmap"
  calleeMap :: "(robj, ConnectInfo) stdmap"
  callerMap :: connect_map
  distributedComponentListener :: ptr
  componentChangeHandler :: bool
  componentTasks :: "string list"
  panelConnect :: ptr
  local_count :: nat
  history :: hist

definition initial_sched :: sched where
  "initial_sched = \<lparr>dschedContinuation = None, dmsCallbackTask = None,
     distributedConnectAbilityMap = [], connectAbilityMap = [], trackingUidMap = [],
     calleeMap = [], callerMap = [], distributedComponentListener = nullptr,
     componentChangeHandler = False, componentTasks = [], panelConnect = nullptr,
     local_count = 0, history = []\<rparr>"

definition log_ext :: "ext list \<Rightarrow> sched \<Rightarrow> sched" where
  "log_ext es s = s\<lparr>history := history s @ es\<rparr>"

text \<open>\<^verbatim>\<open>new\<close> of a local stub.\<close>

definition new_local :: "sched \<Rightarrow> robj \<times> sched" where
  "new_local s = (Local (local_count s), s\<lparr>local_count := Suc (local_count s)\<rparr>)"

section \<open>Calls with a result\<close>

definition call_rpc :: "env \<Rightarrow> string \<Rightarrow> rpc \<Rightarrow> sched \<Rightarrow> int \<times> sched" where
  "call_rpc env dev r s = (rpc_result env (history s) dev r, log_ext [Rpc dev r] s)"

definition call_ams :: "env \<Rightarrow> ams \<Rightarrow> sched \<Rightarrow> int \<times> sched" where
  "call_ams env a s = (ams_result env (history s) a, log_ext [Ams a] s)"

section \<open>The adapter\<close>

definition adapter_ConnectAbility :: "env \<Rightarrow> Want \<Rightarrow> robj \<Rightarrow> sched \<Rightarrow> int \<times> sched" where
  "adapter_ConnectAbility env want connect s =
     (let (errCode, s1) = call_ams env AmsConnect s
      in if errCode \<noteq> ERR_OK then (errCode, s1)
         else (case active_id env (history s1) of
                 None \<Rightarrow> (INVALID_PARAMETERS_ERR, s1)
               | Some i \<Rightarrow> call_ams env (AmsConnectAbility want connect i) s1))"

definition adapter_DisconnectAbility :: "env \<Rightarrow> robj \<Rightarrow> sched \<Rightarrow> int \<times> sched" where
  "adapter_DisconnectAbility env connect s =
     (let (errCode, s1) = call_ams env AmsConnect s
      in if errCode \<noteq> ERR_OK then (errCode, s1)
         else call_ams env (AmsDisconnectAbility connect) s1)"

definition adapter_ReleaseAbility :: "env \<Rightarrow> robj \<Rightarrow> ElementName \<Rightarrow> sched \<Rightarrow> int \<times> sched" where
  "adapter_ReleaseAbility env connect element s =
     (let (errCode, s1) = call_ams env AmsConnect s
      in if errCode \<noteq> ERR_OK then (errCode, s1)
         else
           let elementWithoutDeviceId = \<lparr>el_deviceId = [], el_bundleName = el_bundleName element,
                 el_abilityName = el_abilityName element, el_moduleName = []\<rparr>
           in call_ams env (AmsReleaseAbility connect elementWithoutDeviceId) s1)"

definition adapter_StartAbilityByCall :: "env \<Rightarrow> Want \<Rightarrow> robj \<Rightarrow> sched \<Rightarrow> int \<times> sched" where
  "adapter_StartAbilityByCall env want connect s =
     (let (errCode, s1) = call_ams env AmsConnect s
      in if errCode \<noteq> ERR_OK then (errCode, s1)
         else call_ams env (AmsStartAbilityByCall want connect) s1)"

section \<open>Devices\<close>

text \<open>\<open>GetRemoteDms\<close>: whether the scheduler of the device can be reached.\<close>

definition GetRemoteDms :: "env \<Rightarrow> string \<Rightarrow> sched \<Rightarrow> bool" where
  "GetRemoteDms env dev s = (if dev = [] then False else remote_dms env (history s) dev)"

definition GetLocalDeviceId :: "env \<Rightarrow> sched \<Rightarrow> string option" where
  "GetLocalDeviceId env s = local_device env (history s)"

definition CheckDeviceId :: "string \<Rightarrow> string \<Rightarrow> bool" where
  "CheckDeviceId localDeviceId remoteDeviceId =
     (\<not> (localDeviceId = [] \<or> remoteDeviceId = [] \<or> localDeviceId = remoteDeviceId))"

definition CheckDeviceIdFromRemote :: "string \<Rightarrow> string \<Rightarrow> string \<Rightarrow> bool" where
  "CheckDeviceIdFromRemote localDeviceId destinationDeviceId source =
     (if localDeviceId = [] \<or> destinationDeviceId = [] \<or> source = [] then False
      else if localDeviceId \<noteq> destinationDeviceId then False
      else if source = destinationDeviceId \<or> source = localDeviceId then False
      else True)"

section \<open>Component reports\<close>

definition DISTRIBUTED_COMPONENT_ADD :: int where "DISTRIBUTED_COMPONENT_ADD = 1"
definition DISTRIBUTED_COMPONENT_REMOVE :: int where "DISTRIBUTED_COMPONENT_REMOVE = 2"
definition CALLER :: int where "CALLER = 0"
definition CALLEE :: int where "CALLEE = 1"
definition CONNECT :: int where "CONNECT = 0"
definition CALL :: int where "CALL = 1"
definition REPORT_DISTRIBUTED_COMPONENT_CHANGE_CODE :: nat where
  "REPORT_DISTRIBUTED_COMPONENT_CHANGE_CODE = 1"
definition COMPONENT_CHANGE_INTERFACE_TOKEN :: u16string where
  "COMPONENT_CHANGE_INTERFACE_TOKEN = u16 ''ohos.rms.DistributedComponent''"

definition HandleDistributedComponentChange :: "env \<Rightarrow> string \<Rightarrow> sched \<Rightarrow> bool \<times> sched" where
  "HandleDistributedComponentChange env info s =
     (if \<not> componentChangeHandler s then (False, s)
      else
        let ok = post_report_ok env (history s); s1 = log_ext [PostReport info] s
        in if \<not> ok then (False, s1) else (True, s1\<lparr>componentTasks := componentTasks s1 @ [info]\<rparr>))"

text \<open>The posted task: it tells the listener, if there is one when it runs.\<close>

definition run_component_task :: "env \<Rightarrow> sched \<Rightarrow> sched" where
  "run_component_task env s =
     (case componentTasks s of
        [] \<Rightarrow> s
      | info # ts \<Rightarrow>
          (let s1 = s\<lparr>componentTasks := ts\<rparr>
           in (case distributedComponentListener s1 of
                 None \<Rightarrow> s1
               | Some l \<Rightarrow>
                   (case write_all (writable env)
                           [PToken COMPONENT_CHANGE_INTERFACE_TOKEN, PString info] [] of
                      None \<Rightarrow> s1
                    | Some data \<Rightarrow>
                        log_ext [SendObject l REPORT_DISTRIBUTED_COMPONENT_CHANGE_CODE data] s1))))"

definition first_bundle :: "CallerInfo \<Rightarrow> string" where
  "first_bundle c = (if bundleNames c = [] then [] else hd (bundleNames c))"

definition caller_report :: "CallerInfo \<Rightarrow> int option \<Rightarrow> int \<Rightarrow> int \<Rightarrow> ComponentReport" where
  "caller_report c change component device =
     \<lparr>rep_pid = Some (pid c), rep_uid = uid c, rep_bundleName = first_bundle c,
      rep_componentType = component, rep_deviceType = device, rep_changeType = change\<rparr>"

definition callee_report :: "env \<Rightarrow> hist \<Rightarrow> ConnectInfo \<Rightarrow> int option \<Rightarrow> int \<Rightarrow> int \<Rightarrow> ComponentReport" where
  "callee_report env h i change component device =
     \<lparr>rep_pid = None, rep_uid = GetUidFromBms env h (el_bundleName (ci_element i)),
      rep_bundleName = el_bundleName (ci_element i), rep_componentType = component,
      rep_deviceType = device, rep_changeType = change\<rparr>"

definition ReportCaller :: "env \<Rightarrow> CallerInfo \<Rightarrow> int \<Rightarrow> int \<Rightarrow> int \<Rightarrow> sched \<Rightarrow> sched" where
  "ReportCaller env c change component device s =
     (if distributedComponentListener s = nullptr then s
      else snd (HandleDistributedComponentChange env
             (json_dump env (caller_report c (Some change) component device)) s))"

definition ReportCallee :: "env \<Rightarrow> ConnectInfo \<Rightarrow> int \<Rightarrow> int \<Rightarrow> int \<Rightarrow> sched \<Rightarrow> sched" where
  "ReportCallee env i change component device s =
     (if distributedComponentListener s = nullptr then s
      else snd (HandleDistributedComponentChange env
             (json_dump env (callee_report env (history s) i (Some change) component device)) s))"

definition RegisterDistributedComponentListener :: "ptr \<Rightarrow> sched \<Rightarrow> int \<times> sched" where
  "RegisterDistributedComponentListener callback s =
     (if callback = nullptr then (INVALID_PARAMETERS_ERR, s)
      else (ERR_OK, s\<lparr>distributedComponentListener := callback\<rparr>))"

fun caller_components :: "env \<Rightarrow> int \<Rightarrow> connect_map \<Rightarrow> string list" where
  "caller_components env component [] = []"
| "caller_components env component ((k, []) # m) = caller_components env component m"
| "caller_components env component ((k, s # ss) # m) =
     json_dump env (caller_report (ses_callerInfo s) None component CALLER) #
     caller_components env component m"

definition callee_components :: "env \<Rightarrow> hist \<Rightarrow> int \<Rightarrow> (robj, ConnectInfo) stdmap \<Rightarrow> string list" where
  "callee_components env h component m =
     map (\<lambda>(k, i). json_dump env (callee_report env h i None component CALLEE)) m"

definition GetConnectComponentList :: "env \<Rightarrow> sched \<Rightarrow> string list \<Rightarrow> string list" where
  "GetConnectComponentList env s acc =
     acc @ caller_components env CONNECT (distributedConnectAbilityMap s) @
     callee_components env (history s) CONNECT (connectAbilityMap s)"

definition GetCallComponentList :: "env \<Rightarrow> sched \<Rightarrow> string list \<Rightarrow> string list" where
  "GetCallComponentList env s acc =
     acc @ caller_components env CALL (callerMap s) @
     callee_components env (history s) CALL (calleeMap s)"

definition GetDistributedComponentList :: "env \<Rightarrow> sched \<Rightarrow> int \<times> string list" where
  "GetDistributedComponentList env s =
     (ERR_OK, GetCallComponentList env s (GetConnectComponentList env s []))"

end
