(* ===== verification/SchedConnect.thy ===== *)
theory SchedConnect
  imports SchedState
begin

text \<open>
  The connect manager: abilities of other devices that local applications are connected to
  (\<open>distributedConnectAbilityMap\<close>, with the number of connections per user in
  \<open>trackingUidMap\<close>) and local abilities that other devices are connected to
  (\<open>connectAbilityMap\<close>). Operations of
  \<^verbatim>\<open>dtbschedmgr/src/distributed_sched_service.cpp\<close>.
\<close>

definition BIND_CONNECT_RETRY_TIMES :: nat where "BIND_CONNECT_RETRY_TIMES = 3"
definition BIND_CONNECT_TIMEOUT :: int where "BIND_CONNECT_TIMEOUT = 500"
definition MAX_DISTRIBUTED_CONNECT_NUM :: uint32 where "MAX_DISTRIBUTED_CONNECT_NUM = 600"
definition INVALID_CALLER_UID :: int where "INVALID_CALLER_UID = - 1"
definition CONNECTION_CALLBACK_INTERFACE_TOKEN :: u16string where
  "CONNECTION_CALLBACK_INTERFACE_TOKEN = u16 ''ohos.abilityshell.DistributedConnection''"

section \<open>Counting connections\<close>

definition CheckDistributedConnectLocked :: "CallerInfo \<Rightarrow> sched \<Rightarrow> int" where
  "CheckDistributedConnectLocked caller s =
     (if uid caller < 0 then BIND_ABILITY_UID_INVALID_ERR
      else (case map_find (uid caller) (trackingUidMap s) of
              Some n \<Rightarrow> if MAX_DISTRIBUTED_CONNECT_NUM \<le> n then BIND_ABILITY_LEAK_ERR else ERR_OK
            | None \<Rightarrow> ERR_OK))"

definition DecreaseConnectLocked :: "int \<Rightarrow> sched \<Rightarrow> sched" where
  "DecreaseConnectLocked u s =
     (if u < 0 then s
      else (case map_find u (trackingUidMap s) of
              None \<Rightarrow> s
            | Some conns \<Rightarrow>
                (let conns' = (if 0 < conns then conns - 1 else conns)
                 in s\<lparr>trackingUidMap :=
                   (if conns' = 0 then map_erase u (trackingUidMap s)
                    else map_put u conns' (trackingUidMap s))\<rparr>)))"

definition GetUidLocked :: "ConnectAbilitySession list \<Rightarrow> int" where
  "GetUidLocked ss = (if ss \<noteq> [] then uid (ses_callerInfo (hd ss)) else INVALID_CALLER_UID)"

definition count_up :: "int \<Rightarrow> (int, uint32) stdmap \<Rightarrow> (int, uint32) stdmap" where
  "count_up u m = map_put u ((case map_find u m of None \<Rightarrow> 0 | Some n \<Rightarrow> n) + 1) m"

definition RemoteConnectAbilityMappingLocked ::
  "env \<Rightarrow> ptr \<Rightarrow> string \<Rightarrow> string \<Rightarrow> ElementName \<Rightarrow> CallerInfo \<Rightarrow> TargetComponent \<Rightarrow> sched \<Rightarrow> sched" where
  "RemoteConnectAbilityMappingLocked env connect localDeviceId remoteDeviceId element caller tc s =
     (case connect of
        None \<Rightarrow> s
      | Some c \<Rightarrow>
          (let s1 = (case map_find c (distributedConnectAbilityMap s) of
                       Some _ \<Rightarrow> s
                     | None \<Rightarrow>
                         ReportCaller env caller DISTRIBUTED_COMPONENT_ADD CONNECT CALLER
                           (log_ext [AddDeathRecipient c ConnectRecipient]
                             (s\<lparr>trackingUidMap := count_up (uid caller) (trackingUidMap s)\<rparr>)));
               sessions = (case map_find c (distributedConnectAbilityMap s1) of None \<Rightarrow> [] | Some ss \<Rightarrow> ss)
           in s1\<lparr>distributedConnectAbilityMap :=
                  map_put c (add_to_sessions env localDeviceId remoteDeviceId element caller tc sessions)
                    (distributedConnectAbilityMap s1)\<rparr>))"

section \<open>Connecting\<close>

text \<open>The retry loop: \<open>n\<close> is the number of attempts left, \<open>result\<close> the last result.\<close>

fun connect_loop ::
  "env \<Rightarrow> nat \<Rightarrow> int \<Rightarrow> Want \<Rightarrow> robj \<Rightarrow> CallerInfo \<Rightarrow> AccountInfo \<Rightarrow> string \<Rightarrow> sched \<Rightarrow> int \<times> sched" where
  "connect_loop env 0 result want c caller account dev s = (result, s)"
| "connect_loop env (Suc n) result want c caller account dev s =
     (let (result', s1) = call_rpc env dev (RpcConnectAbility want c caller account) s
      in if result' = ERR_OK then
           (result', RemoteConnectAbilityMappingLocked env (Some c) (sourceDeviceId caller) dev
                      (want_element want) caller HARMONY_COMPONENT s1)
         else if result' = INVALID_REMOTE_PARAMETERS_ERR \<or> result' = REMOTE_DEVICE_BIND_ABILITY_ERR
         then (result', s1)
         else if BIND_CONNECT_TIMEOUT < rpc_elapsed env (history s1) then (result', s1)
         else connect_loop env n result' want c caller account dev s1)"

definition TryConnectRemoteAbility ::
  "env \<Rightarrow> Want \<Rightarrow> ptr \<Rightarrow> CallerInfo \<Rightarrow> sched \<Rightarrow> int \<times> sched" where
  "TryConnectRemoteAbility env want connect caller s =
     (let dev = el_deviceId (want_element want)
      in if \<not> GetRemoteDms env dev s then (INVALID_PARAMETERS_ERR, s)
         else (case connect of
                 None \<Rightarrow> (INVALID_PARAMETERS_ERR, s)
               | Some c \<Rightarrow>
                   (let (ret, account) = GetAccountInfo env (history s) dev caller
                    in if ret \<noteq> ERR_OK then (ret, s)
                       else connect_loop env BIND_CONNECT_RETRY_TIMES REMOTE_DEVICE_BIND_ABILITY_ERR
                              want c caller account dev s)))"

text \<open>Filling in the application and bundles of a caller, as several operations do.\<close>

definition caller_with_bundles :: "env \<Rightarrow> hist \<Rightarrow> CallerInfo \<Rightarrow> CallerInfo option" where
  "caller_with_bundles env h caller =
     (case GetCallerAppIdFromBms env h (uid caller) of
        None \<Rightarrow> None
      | Some a \<Rightarrow>
          (case GetBundleNameListFromBms env h (uid caller) of
             None \<Rightarrow> None
           | Some bs \<Rightarrow> Some (caller\<lparr>callerAppId := a, bundleNames := bs\<rparr>)))"

definition ConnectRemoteAbility ::
  "env \<Rightarrow> Want \<Rightarrow> ptr \<Rightarrow> int \<Rightarrow> int \<Rightarrow> nat \<Rightarrow> sched \<Rightarrow> int \<times> sched" where
  "ConnectRemoteAbility env want connect callerUid callerPid token s =
     (case GetLocalDeviceId env s of
        None \<Rightarrow> (INVALID_PARAMETERS_ERR, s)
      | Some localDeviceId \<Rightarrow>
          if \<not> CheckDeviceId localDeviceId (el_deviceId (want_element want))
          then (INVALID_PARAMETERS_ERR, s)
          else
            let caller = default_CallerInfo\<lparr>uid := callerUid, pid := callerPid,
                  callerType := CALLER_TYPE_HARMONY, sourceDeviceId := localDeviceId,
                  accessToken := token\<rparr>;
                checkResult = CheckDistributedConnectLocked caller s
            in if checkResult \<noteq> ERR_OK then (checkResult, s)
               else (case caller_with_bundles env (history s) caller of
                       None \<Rightarrow> (INVALID_PARAMETERS_ERR, s)
                     | Some caller' \<Rightarrow> TryConnectRemoteAbility env want connect caller' s))"

text \<open>
  A connect request of another device. \<open>None\<close>: the iterator \<^verbatim>\<open>itConnect\<close> is only assigned
  for harmony callers, but compared for all of them.
\<close>

definition ConnectAbilityFromRemote ::
  "env \<Rightarrow> Want \<Rightarrow> ptr \<Rightarrow> CallerInfo \<Rightarrow> AccountInfo \<Rightarrow> sched \<Rightarrow> (int \<times> sched) option" where
  "ConnectAbilityFromRemote env want connect caller account s =
     (case connect of
        None \<Rightarrow> Some (INVALID_REMOTE_PARAMETERS_ERR, s)
      | Some c \<Rightarrow>
          (case GetLocalDeviceId env s of
             None \<Rightarrow> Some (INVALID_REMOTE_PARAMETERS_ERR, s)
           | Some localDeviceId \<Rightarrow>
               if \<not> CheckDeviceIdFromRemote localDeviceId (el_deviceId (want_element want)) (sourceDeviceId caller)
               then Some (INVALID_REMOTE_PARAMETERS_ERR, s)
               else
                 let result = CheckDPermission env (history s) want caller account localDeviceId True
                 in if result \<noteq> ERR_OK then Some (result, s)
                    else
                      let harmony = (callerType caller = CALLER_TYPE_HARMONY);
                          itConnect = map_find c (connectAbilityMap s);
                          (callbackWrapper, s1) =
                            (if harmony then
                               (case itConnect of
                                  Some info \<Rightarrow> (ci_callbackWrapper info, s)
                                | None \<Rightarrow> new_local s)
                             else (c, s));
                          (errCode, s2) = adapter_ConnectAbility env want callbackWrapper s1
                      in if errCode \<noteq> ERR_OK then Some (errCode, s2)
                         else if \<not> harmony then None
                         else if itConnect = None then
                           (let info = \<lparr>ci_callerInfo = caller, ci_callbackWrapper = callbackWrapper,
                                  ci_element = want_element want\<rparr>;
                                s3 = ReportCallee env info DISTRIBUTED_COMPONENT_ADD CONNECT CALLEE s2
                            in Some (errCode, s3\<lparr>connectAbilityMap :=
                                 map_emplace c info (connectAbilityMap s3)\<rparr>))
                         else Some (errCode, s2)))"

section \<open>Disconnecting\<close>

definition DisconnectEachRemoteAbilityLocked ::
  "env \<Rightarrow> string \<Rightarrow> string \<Rightarrow> robj \<Rightarrow> sched \<Rightarrow> int \<times> sched" where
  "DisconnectEachRemoteAbilityLocked env localDeviceId remoteDeviceId c s =
     (if \<not> GetRemoteDms env remoteDeviceId s then (INVALID_PARAMETERS_ERR, s)
      else call_rpc env remoteDeviceId
             (RpcDisconnectAbility c (calling_uid env (history s)) localDeviceId) s)"

fun disconnect_sessions :: "env \<Rightarrow> robj \<Rightarrow> ConnectAbilitySession list \<Rightarrow> sched \<Rightarrow> sched" where
  "disconnect_sessions env c [] s = s"
| "disconnect_sessions env c (x # xs) s =
     disconnect_sessions env c xs
       (if ses_targetComponent x = HARMONY_COMPONENT then
          snd (DisconnectEachRemoteAbilityLocked env (ses_sourceDeviceId x) (ses_destinationDeviceId x) c s)
        else s)"

definition DisconnectRemoteAbility :: "env \<Rightarrow> ptr \<Rightarrow> sched \<Rightarrow> int \<times> sched" where
  "DisconnectRemoteAbility env connect s =
     (case connect of
        None \<Rightarrow> (INVALID_PARAMETERS_ERR, s)
      | Some c \<Rightarrow>
          (case map_find c (distributedConnectAbilityMap s) of
             None \<Rightarrow> (NO_CONNECT_CALLBACK_ERR, s)
           | Some ss \<Rightarrow>
               (let s1 = DecreaseConnectLocked (GetUidLocked ss) s;
                    s2 = log_ext [RemoveDeathRecipientFrom c ConnectRecipient] s1;
                    s3 = (if ss \<noteq> [] then
                            ReportCaller env (ses_callerInfo (hd ss)) DISTRIBUTED_COMPONENT_REMOVE CONNECT CALLER s2
                          else s2);
                    s4 = s3\<lparr>distributedConnectAbilityMap := map_erase c (distributedConnectAbilityMap s3)\<rparr>
                in if ss \<noteq> [] then (ERR_OK, disconnect_sessions env c ss s4)
                   else (NO_CONNECT_CALLBACK_ERR, s4))))"

definition DisconnectAbilityFromRemote :: "env \<Rightarrow> ptr \<Rightarrow> string \<Rightarrow> sched \<Rightarrow> int \<times> sched" where
  "DisconnectAbilityFromRemote env connect source s =
     (case connect of
        None \<Rightarrow> (INVALID_REMOTE_PARAMETERS_ERR, s)
      | Some c \<Rightarrow>
          (case GetLocalDeviceId env s of
             None \<Rightarrow> (INVALID_REMOTE_PARAMETERS_ERR, s)
           | Some localDeviceId \<Rightarrow>
               if localDeviceId = [] \<or> source = [] \<or> localDeviceId = source
               then (INVALID_REMOTE_PARAMETERS_ERR, s)
               else (case map_find c (connectAbilityMap s) of
                       Some info \<Rightarrow>
                         (let s1 = ReportCallee env info DISTRIBUTED_COMPONENT_REMOVE CONNECT CALLEE s;
                              s2 = s1\<lparr>connectAbilityMap := map_erase c (connectAbilityMap s1)\<rparr>
                          in adapter_DisconnectAbility env (ci_callbackWrapper info) s2)
                     | None \<Rightarrow>
                         if \<not> local_calling env (history s) then (INVALID_REMOTE_PARAMETERS_ERR, s)
                         else adapter_DisconnectAbility env c s)))"

text \<open>The loop of \<open>NotifyProcessDiedFromRemote\<close>: the connections left, the last error.\<close>

definition same_process :: "CallerInfo \<Rightarrow> ConnectInfo \<Rightarrow> bool" where
  "same_process caller info =
     (sourceDeviceId caller = sourceDeviceId (ci_callerInfo info) \<and>
      uid caller = uid (ci_callerInfo info) \<and> pid caller = pid (ci_callerInfo info) \<and>
      callerType caller = callerType (ci_callerInfo info))"

fun died_loop ::
  "env \<Rightarrow> CallerInfo \<Rightarrow> (robj, ConnectInfo) stdmap \<Rightarrow> int \<Rightarrow> sched \<Rightarrow> (robj, ConnectInfo) stdmap \<times> int \<times> sched" where
  "died_loop env caller [] errCode s = ([], errCode, s)"
| "died_loop env caller ((c, info) # m) errCode s =
     (if same_process caller info then
        (let (ret, s1) = adapter_DisconnectAbility env (ci_callbackWrapper info) s;
             errCode' = (if ret \<noteq> ERR_OK then ret else errCode);
             s2 = ReportCallee env info DISTRIBUTED_COMPONENT_REMOVE CONNECT CALLEE s1
         in died_loop env caller m errCode' s2)
      else
        (let (m', e, s') = died_loop env caller m errCode s in ((c, info) # m', e, s')))"

definition NotifyProcessDiedFromRemote :: "env \<Rightarrow> CallerInfo \<Rightarrow> sched \<Rightarrow> int \<times> sched" where
  "NotifyProcessDiedFromRemote env caller s =
     (let (m, errCode, s1) = died_loop env caller (connectAbilityMap s) ERR_OK s
      in (errCode, s1\<lparr>connectAbilityMap := m\<rparr>))"

section \<open>Devices that go offline\<close>

definition NotifyApp :: "env \<Rightarrow> ptr \<Rightarrow> ElementName \<Rightarrow> int \<Rightarrow> sched \<Rightarrow> int \<times> sched" where
  "NotifyApp env connect element errCode s =
     (case connect of
        None \<Rightarrow> (err_object_null env, s)
      | Some c \<Rightarrow>
          (case write_all (writable env) [PToken CONNECTION_CALLBACK_INTERFACE_TOKEN,
                  PNested (marshal_element env element), PInt32 errCode] [] of
             None \<Rightarrow> (err_flatten_object env, s)
           | Some data \<Rightarrow>
               (send_object_result env (history s) c (on_disconnect_done env) data,
                log_ext [SendObject c (on_disconnect_done env) data] s)))"

fun NotifyDeviceOfflineToAppLocked :: "env \<Rightarrow> robj \<Rightarrow> ElementName list \<Rightarrow> sched \<Rightarrow> sched" where
  "NotifyDeviceOfflineToAppLocked env c [] s = s"
| "NotifyDeviceOfflineToAppLocked env c (e # es) s =
     NotifyDeviceOfflineToAppLocked env c es (snd (NotifyApp env (Some c) e DEVICE_OFFLINE_ERR s))"

fun offline_connects :: "env \<Rightarrow> string \<Rightarrow> connect_map \<Rightarrow> sched \<Rightarrow> connect_map \<times> sched" where
  "offline_connects env dev [] s = ([], s)"
| "offline_connects env dev ((c, ss) # m) s =
     (let u = GetUidLocked ss;
          (itSession, rest) = take_session dev ss;
          s1 = (case itSession of
                  None \<Rightarrow> s
                | Some x \<Rightarrow> NotifyDeviceOfflineToAppLocked env c (ses_elementsList x) s);
          caller = (case itSession of None \<Rightarrow> default_CallerInfo | Some x \<Rightarrow> ses_callerInfo x)
      in if rest = [] then
           (let s2 = log_ext [RemoveDeathRecipientFrom c ConnectRecipient] s1;
                s3 = DecreaseConnectLocked u s2;
                s4 = ReportCaller env caller DISTRIBUTED_COMPONENT_REMOVE CONNECT CALLER s3
            in offline_connects env dev m s4)
         else
           (let (m', s') = offline_connects env dev m s1 in ((c, rest) # m', s')))"

fun offline_callees ::
  "env \<Rightarrow> string \<Rightarrow> (robj, ConnectInfo) stdmap \<Rightarrow> sched \<Rightarrow> (robj, ConnectInfo) stdmap \<times> sched" where
  "offline_callees env dev [] s = ([], s)"
| "offline_callees env dev ((c, info) # m) s =
     (if dev = sourceDeviceId (ci_callerInfo info) then
        (let s1 = snd (adapter_DisconnectAbility env (ci_callbackWrapper info) s);
             s2 = ReportCallee env info DISTRIBUTED_COMPONENT_REMOVE CONNECT CALLEE s1
         in offline_callees env dev m s2)
      else (let (m', s') = offline_callees env dev m s in ((c, info) # m', s')))"

section \<open>Applications that die\<close>

datatype ProcessDiedNotifyInfo = DiedInfo string CallerInfo TargetComponent

fun component_number :: "TargetComponent \<Rightarrow> int" where
  "component_number HARMONY_COMPONENT = 0"

text \<open>The devices to notify, in the order found, each device and component once.\<close>

fun collect_notify ::
  "CallerInfo \<Rightarrow> ConnectAbilitySession list \<Rightarrow> string list \<times> ProcessDiedNotifyInfo list \<Rightarrow>
   string list \<times> ProcessDiedNotifyInfo list" where
  "collect_notify caller [] acc = acc"
| "collect_notify caller (x # xs) (processed, notify) =
     (let dev = ses_destinationDeviceId x;
          tc = ses_targetComponent x;
          key = dev @ int_to_string (component_number tc)
      in if key \<in> set processed then collect_notify caller xs (processed, notify)
         else collect_notify caller xs
                (set_emplace key processed, notify @ [DiedInfo dev caller tc]))"

fun died_connects ::
  "env \<Rightarrow> CallerInfo \<Rightarrow> connect_map \<Rightarrow> string list \<times> ProcessDiedNotifyInfo list \<Rightarrow> sched \<Rightarrow>
   connect_map \<times> (string list \<times> ProcessDiedNotifyInfo list) \<times> sched" where
  "died_connects env caller [] acc s = ([], acc, s)"
| "died_connects env caller ((c, ss) # m) acc s =
     (if ss \<noteq> [] \<and> IsSameCaller caller (hd ss) then
        (let acc' = collect_notify caller ss acc;
             s1 = DecreaseConnectLocked (uid caller) s;
             s2 = log_ext [RemoveDeathRecipientFrom c ConnectRecipient] s1;
             s3 = ReportCaller env caller DISTRIBUTED_COMPONENT_REMOVE CONNECT CALLER s2
         in died_connects env caller m acc' s3)
      else (let (m', acc', s') = died_connects env caller m acc s in ((c, ss) # m', acc', s')))"

definition NotifyProcessDied :: "env \<Rightarrow> ProcessDiedNotifyInfo \<Rightarrow> sched \<Rightarrow> sched" where
  "NotifyProcessDied env info s =
     (case info of
        DiedInfo dev caller tc \<Rightarrow>
          if tc \<noteq> HARMONY_COMPONENT then s
          else if \<not> GetRemoteDms env dev s then s
          else snd (call_rpc env dev (RpcProcessDied caller) s))"

definition NotifyProcessDiedAll :: "env \<Rightarrow> ProcessDiedNotifyInfo list \<Rightarrow> sched \<Rightarrow> sched" where
  "NotifyProcessDiedAll env notifyList s = foldl (\<lambda>s i. NotifyProcessDied env i s) s notifyList"

definition ProcessConnectDied :: "env \<Rightarrow> ptr \<Rightarrow> sched \<Rightarrow> sched" where
  "ProcessConnectDied env connect s =
     (case connect of
        None \<Rightarrow> s
      | Some c \<Rightarrow>
          (case map_find c (distributedConnectAbilityMap s) of
             None \<Rightarrow> s
           | Some [] \<Rightarrow> s
           | Some (x # xs) \<Rightarrow>
               (let (m, (processed, notifyList), s1) =
                      died_connects env (ses_callerInfo x) (distributedConnectAbilityMap s) ([], []) s
                in NotifyProcessDiedAll env notifyList (s1\<lparr>distributedConnectAbilityMap := m\<rparr>))))"

end
