(* ===== verification/SchedCall.thy ===== *)
theory SchedCall
  imports SchedConnect
begin

text \<open>
  The call side: abilities of other devices that local applications call (\<open>callerMap\<close>) and
  local abilities called from other devices (\<open>calleeMap\<close>), and the handling of a device
  that goes offline, which spans all tables. Operations of
  \<^verbatim>\<open>dtbschedmgr/src/distributed_sched_service.cpp\<close>.
\<close>

section \<open>The caller's device\<close>

definition SaveCallerComponent :: "env \<Rightarrow> Want \<Rightarrow> robj \<Rightarrow> CallerInfo \<Rightarrow> sched \<Rightarrow> sched" where
  "SaveCallerComponent env want c caller s =
     (let s1 = (case map_find c (callerMap s) of
                  Some _ \<Rightarrow> s
                | None \<Rightarrow> ReportCaller env caller DISTRIBUTED_COMPONENT_ADD CALL CALLER
                            (log_ext [AddDeathRecipient c LocalCallerRecipient] s));
          sessions = (case map_find c (callerMap s1) of None \<Rightarrow> [] | Some ss \<Rightarrow> ss)
      in s1\<lparr>callerMap :=
             map_put c (add_to_sessions env (sourceDeviceId caller) (el_deviceId (want_element want))
                          (want_element want) caller HARMONY_COMPONENT sessions) (callerMap s1)\<rparr>)"

definition RemoveCallerComponent :: "env \<Rightarrow> robj \<Rightarrow> sched \<Rightarrow> sched" where
  "RemoveCallerComponent env c s =
     (case map_find c (callerMap s) of
        None \<Rightarrow> s
      | Some ss \<Rightarrow>
          (let s1 = log_ext [RemoveDeathRecipientFrom c LocalCallerRecipient] s;
               s2 = (if ss \<noteq> [] then
                       ReportCaller env (ses_callerInfo (hd ss)) DISTRIBUTED_COMPONENT_REMOVE CALL CALLER s1
                     else s1)
           in s2\<lparr>callerMap := map_erase c (callerMap s2)\<rparr>))"

definition HandleLocalCallerDied :: "env \<Rightarrow> robj \<Rightarrow> sched \<Rightarrow> sched" where
  "HandleLocalCallerDied env c s =
     (case map_find c (callerMap s) of
        None \<Rightarrow> s
      | Some ss \<Rightarrow>
          (let s1 = (if ss \<noteq> [] then
                       ReportCaller env (ses_callerInfo (hd ss)) DISTRIBUTED_COMPONENT_REMOVE CALL CALLER s
                     else s)
           in s1\<lparr>callerMap := map_erase c (callerMap s1)\<rparr>))"

definition TryStartRemoteAbilityByCall :: "env \<Rightarrow> Want \<Rightarrow> robj \<Rightarrow> CallerInfo \<Rightarrow> sched \<Rightarrow> int \<times> sched" where
  "TryStartRemoteAbilityByCall env want c caller s =
     (let dev = el_deviceId (want_element want)
      in if \<not> GetRemoteDms env dev s then (INVALID_PARAMETERS_ERR, s)
         else
           let (ret, account) = GetAccountInfo env (history s) dev caller
           in if ret \<noteq> ERR_OK then (ret, s)
              else
                let (result, s1) = call_rpc env dev (RpcStartByCall want c caller account) s
                in if result = ERR_OK then (result, SaveCallerComponent env want c caller s1)
                   else (result, s1))"

definition StartRemoteAbilityByCall ::
  "env \<Rightarrow> Want \<Rightarrow> ptr \<Rightarrow> int \<Rightarrow> int \<Rightarrow> nat \<Rightarrow> sched \<Rightarrow> int \<times> sched" where
  "StartRemoteAbilityByCall env want connect callerUid callerPid token s =
     (case connect of
        None \<Rightarrow> (INVALID_PARAMETERS_ERR, s)
      | Some c \<Rightarrow>
          (case GetLocalDeviceId env s of
             None \<Rightarrow> (INVALID_PARAMETERS_ERR, s)
           | Some localDeviceId \<Rightarrow>
               if \<not> CheckDeviceId localDeviceId (el_deviceId (want_element want))
               then (INVALID_PARAMETERS_ERR, s)
               else
                 let caller = default_CallerInfo\<lparr>uid := callerUid, pid := callerPid,
                       sourceDeviceId := localDeviceId, accessToken := token\<rparr>
                 in (case caller_with_bundles env (history s) caller of
                       None \<Rightarrow> (INVALID_PARAMETERS_ERR, s)
                     | Some caller' \<Rightarrow> TryStartRemoteAbilityByCall env want c caller' s)))"

definition ReleaseRemoteAbility :: "env \<Rightarrow> ptr \<Rightarrow> ElementName \<Rightarrow> sched \<Rightarrow> int \<times> sched" where
  "ReleaseRemoteAbility env connect element s =
     (case connect of
        None \<Rightarrow> (INVALID_PARAMETERS_ERR, s)
      | Some c \<Rightarrow>
          if el_deviceId element = [] then (INVALID_PARAMETERS_ERR, s)
          else if \<not> GetRemoteDms env (el_deviceId element) s then (INVALID_PARAMETERS_ERR, s)
          else (case GetLocalDeviceId env s of
                  None \<Rightarrow> (INVALID_PARAMETERS_ERR, s)
                | Some localDeviceId \<Rightarrow>
                    (let caller = default_CallerInfo\<lparr>sourceDeviceId := localDeviceId\<rparr>;
                         (result, s1) = call_rpc env (el_deviceId element) (RpcRelease c element caller) s
                     in if result = ERR_OK then (result, RemoveCallerComponent env c s1)
                        else (result, s1))))"

section \<open>The callee's device\<close>

definition StartAbilityByCallFromRemote ::
  "env \<Rightarrow> Want \<Rightarrow> ptr \<Rightarrow> CallerInfo \<Rightarrow> AccountInfo \<Rightarrow> sched \<Rightarrow> int \<times> sched" where
  "StartAbilityByCallFromRemote env want connect caller account s =
     (case connect of
        None \<Rightarrow> (INVALID_REMOTE_PARAMETERS_ERR, s)
      | Some c \<Rightarrow>
          (case GetLocalDeviceId env s of
             None \<Rightarrow> (INVALID_REMOTE_PARAMETERS_ERR, s)
           | Some localDeviceId \<Rightarrow>
               if \<not> CheckDeviceIdFromRemote localDeviceId (el_deviceId (want_element want)) (sourceDeviceId caller)
               then (INVALID_REMOTE_PARAMETERS_ERR, s)
               else
                 let result = CheckGetCallerPermission env (history s) want caller account localDeviceId
                 in if result \<noteq> ERR_OK then (result, s)
                    else
                      let (callbackWrapper, s1) =
                            (case map_find c (calleeMap s) of
                               Some info \<Rightarrow> (ci_callbackWrapper info, s)
                             | None \<Rightarrow> new_local s);
                          (errCode, s2) = adapter_StartAbilityByCall env want callbackWrapper s1
                      in if errCode \<noteq> ERR_OK then (errCode, s2)
                         else
                           let info = \<lparr>ci_callerInfo = caller, ci_callbackWrapper = callbackWrapper,
                                 ci_element = want_element want\<rparr>;
                               s3 = ReportCallee env info DISTRIBUTED_COMPONENT_ADD CALL CALLEE s2;
                               s4 = s3\<lparr>calleeMap := map_emplace c info (calleeMap s3)\<rparr>
                           in (errCode, log_ext [AddDeathRecipient c CallerRecipient] s4)))"

definition ReleaseAbilityFromRemote ::
  "env \<Rightarrow> ptr \<Rightarrow> ElementName \<Rightarrow> CallerInfo \<Rightarrow> sched \<Rightarrow> int \<times> sched" where
  "ReleaseAbilityFromRemote env connect element caller s =
     (case connect of
        None \<Rightarrow> (INVALID_REMOTE_PARAMETERS_ERR, s)
      | Some c \<Rightarrow>
          (case GetLocalDeviceId env s of
             None \<Rightarrow> (INVALID_REMOTE_PARAMETERS_ERR, s)
           | Some localDeviceId \<Rightarrow>
               if localDeviceId = [] \<or> sourceDeviceId caller = [] \<or> localDeviceId = sourceDeviceId caller
               then (INVALID_REMOTE_PARAMETERS_ERR, s)
               else (case map_find c (calleeMap s) of
                       None \<Rightarrow> (INVALID_REMOTE_PARAMETERS_ERR, s)
                     | Some info \<Rightarrow>
                         (let s1 = ReportCallee env info DISTRIBUTED_COMPONENT_REMOVE CALL CALLEE s;
                              s2 = s1\<lparr>calleeMap := map_erase c (calleeMap s1)\<rparr>;
                              s3 = log_ext [RemoveDeathRecipientFrom c CallerRecipient] s2
                          in adapter_ReleaseAbility env (ci_callbackWrapper info) element s3))))"

definition empty_element :: ElementName where
  "empty_element = \<lparr>el_deviceId = [], el_bundleName = [], el_abilityName = [], el_moduleName = []\<rparr>"

definition ProcessCallerDied :: "env \<Rightarrow> ptr \<Rightarrow> int \<Rightarrow> sched \<Rightarrow> sched" where
  "ProcessCallerDied env connect deviceType s =
     (case connect of
        None \<Rightarrow> s
      | Some c \<Rightarrow>
          if deviceType = CALLER then HandleLocalCallerDied env c s
          else
            let (callbackWrapper, element, s1) =
              (case map_find c (calleeMap s) of
                 Some info \<Rightarrow>
                   (let s' = ReportCallee env info DISTRIBUTED_COMPONENT_REMOVE CALL CALLEE s
                    in (ci_callbackWrapper info, ci_element info,
                        s'\<lparr>calleeMap := map_erase c (calleeMap s')\<rparr>))
               | None \<Rightarrow> (c, empty_element, s))
            in snd (adapter_ReleaseAbility env callbackWrapper element s1))"

definition ProcessCalleeDied :: "env \<Rightarrow> ptr \<Rightarrow> sched \<Rightarrow> sched" where
  "ProcessCalleeDied env connect s =
     (case connect of
        None \<Rightarrow> s
      | Some c \<Rightarrow>
          (case map_find c (calleeMap s) of
             None \<Rightarrow> s
           | Some info \<Rightarrow>
               (let s1 = ReportCallee env info DISTRIBUTED_COMPONENT_REMOVE CALL CALLEE s
                in s1\<lparr>calleeMap := map_erase c (calleeMap s1)\<rparr>)))"

section \<open>Devices that go offline\<close>

fun offline_callers :: "env \<Rightarrow> string \<Rightarrow> connect_map \<Rightarrow> sched \<Rightarrow> connect_map \<times> sched" where
  "offline_callers env dev [] s = ([], s)"
| "offline_callers env dev ((c, ss) # m) s =
     (let (itSession, rest) = take_session dev ss;
          caller = (case itSession of None \<Rightarrow> default_CallerInfo | Some x \<Rightarrow> ses_callerInfo x)
      in if rest = [] then
           (let s1 = log_ext [RemoveDeathRecipientFrom c LocalCallerRecipient] s;
                s2 = ReportCaller env caller DISTRIBUTED_COMPONENT_REMOVE CALL CALLER s1
            in offline_callers env dev m s2)
         else
           (let (m', s') = offline_callers env dev m s in ((c, rest) # m', s')))"

definition ProcessCalleeOffline :: "env \<Rightarrow> string \<Rightarrow> sched \<Rightarrow> sched" where
  "ProcessCalleeOffline env dev s =
     (let (m, s1) = offline_callers env dev (callerMap s) s in s1\<lparr>callerMap := m\<rparr>)"

definition ProcessFreeInstallOffline :: "env \<Rightarrow> string \<Rightarrow> sched \<Rightarrow> sched" where
  "ProcessFreeInstallOffline env dev s =
     (case dmsCallbackTask s of
        None \<Rightarrow> s
      | Some t \<Rightarrow>
          (let (h, t') = task_NotifyDeviceOffline env dev (history s) t
           in s\<lparr>history := h, dmsCallbackTask := Some t'\<rparr>))"

definition ProcessDeviceOffline :: "env \<Rightarrow> string \<Rightarrow> sched \<Rightarrow> sched" where
  "ProcessDeviceOffline env dev s =
     (case GetLocalDeviceId env s of
        None \<Rightarrow> s
      | Some localDeviceId \<Rightarrow>
          if \<not> CheckDeviceId localDeviceId dev then s
          else
            let (m, s1) = offline_connects env dev (distributedConnectAbilityMap s) s;
                s2 = s1\<lparr>distributedConnectAbilityMap := m\<rparr>;
                (m', s3) = offline_callees env dev (connectAbilityMap s2) s2;
                s4 = s3\<lparr>connectAbilityMap := m'\<rparr>
            in ProcessFreeInstallOffline env dev (ProcessCalleeOffline env dev s4))"

end
