(* ===== verification/SchedInv.thy ===== *)
theory SchedInv
  imports SchedCall
begin

text \<open>
  The lemma library of the connect and call managers: which operations leave which tables
  alone, the loops over the tables as maps and filters, and the invariant that ties the
  connection counter of each user to the connection table.
\<close>

section \<open>Frames\<close>

lemma log_ext_frame [simp]:
  "distributedConnectAbilityMap (log_ext es s) = distributedConnectAbilityMap s"
  "connectAbilityMap (log_ext es s) = connectAbilityMap s"
  "trackingUidMap (log_ext es s) = trackingUidMap s"
  "calleeMap (log_ext es s) = calleeMap s" "callerMap (log_ext es s) = callerMap s"
  "dschedContinuation (log_ext es s) = dschedContinuation s"
  "dmsCallbackTask (log_ext es s) = dmsCallbackTask s"
  "distributedComponentListener (log_ext es s) = distributedComponentListener s"
  "componentTasks (log_ext es s) = componentTasks s"
  "componentChangeHandler (log_ext es s) = componentChangeHandler s"
  "local_count (log_ext es s) = local_count s" "panelConnect (log_ext es s) = panelConnect s"
  "history (log_ext es s) = history s @ es"
  by (simp_all add: log_ext_def)

lemma HandleDistributedComponentChange_frame [simp]:
  "distributedConnectAbilityMap (snd (HandleDistributedComponentChange env i s)) = distributedConnectAbilityMap s"
  "connectAbilityMap (snd (HandleDistributedComponentChange env i s)) = connectAbilityMap s"
  "trackingUidMap (snd (HandleDistributedComponentChange env i s)) = trackingUidMap s"
  "calleeMap (snd (HandleDistributedComponentChange env i s)) = calleeMap s"
  "callerMap (snd (HandleDistributedComponentChange env i s)) = callerMap s"
  "dschedContinuation (snd (HandleDistributedComponentChange env i s)) = dschedContinuation s"
  "dmsCallbackTask (snd (HandleDistributedComponentChange env i s)) = dmsCallbackTask s"
  "distributedComponentListener (snd (HandleDistributedComponentChange env i s)) = distributedComponentListener s"
  "local_count (snd (HandleDistributedComponentChange env i s)) = local_count s"
  by (simp_all add: HandleDistributedComponentChange_def Let_def)

lemma ReportCaller_frame [simp]:
  "distributedConnectAbilityMap (ReportCaller env c ch co de s) = distributedConnectAbilityMap s"
  "connectAbilityMap (ReportCaller env c ch co de s) = connectAbilityMap s"
  "trackingUidMap (ReportCaller env c ch co de s) = trackingUidMap s"
  "calleeMap (ReportCaller env c ch co de s) = calleeMap s"
  "callerMap (ReportCaller env c ch co de s) = callerMap s"
  "dschedContinuation (ReportCaller env c ch co de s) = dschedContinuation s"
  "dmsCallbackTask (ReportCaller env c ch co de s) = dmsCallbackTask s"
  "distributedComponentListener (ReportCaller env c ch co de s) = distributedComponentListener s"
  "local_count (ReportCaller env c ch co de s) = local_count s"
  by (simp_all add: ReportCaller_def)

lemma ReportCallee_frame [simp]:
  "distributedConnectAbilityMap (ReportCallee env i ch co de s) = distributedConnectAbilityMap s"
  "connectAbilityMap (ReportCallee env i ch co de s) = connectAbilityMap s"
  "trackingUidMap (ReportCallee env i ch co de s) = trackingUidMap s"
  "calleeMap (ReportCallee env i ch co de s) = calleeMap s"
  "callerMap (ReportCallee env i ch co de s) = callerMap s"
  "dschedContinuation (ReportCallee env i ch co de s) = dschedContinuation s"
  "dmsCallbackTask (ReportCallee env i ch co de s) = dmsCallbackTask s"
  "distributedComponentListener (ReportCallee env i ch co de s) = distributedComponentListener s"
  "local_count (ReportCallee env i ch co de s) = local_count s"
  by (simp_all add: ReportCallee_def)

text \<open>Calls only extend the history.\<close>

lemma call_eq:
  "call_rpc env d r s = (rpc_result env (history s) d r, log_ext [Rpc d r] s)"
  "call_ams env a s = (ams_result env (history s) a, log_ext [Ams a] s)"
  by (simp_all add: call_rpc_def call_ams_def)

definition only_logs :: "sched \<Rightarrow> sched \<Rightarrow> bool" where
  "only_logs s s' = (\<exists>es. s' = log_ext es s)"

lemma log_ext_append [simp]: "log_ext fs (log_ext es s) = log_ext (es @ fs) s"
  by (simp add: log_ext_def)

lemma log_ext_Nil [simp]: "log_ext [] s = s"
  by (simp add: log_ext_def)

lemma only_logs_refl [simp]: "only_logs s s"
  by (metis only_logs_def log_ext_Nil)

lemma only_logs_log [simp]: "only_logs s (log_ext es s)"
  by (auto simp: only_logs_def)

lemma only_logs_trans: "only_logs s s' \<Longrightarrow> only_logs s' s'' \<Longrightarrow> only_logs s s''"
  by (auto simp: only_logs_def)

lemma adapter_logs:
  "only_logs s (snd (adapter_ConnectAbility env want c s))"
  "only_logs s (snd (adapter_DisconnectAbility env c s))"
  "only_logs s (snd (adapter_ReleaseAbility env c el s))"
  "only_logs s (snd (adapter_StartAbilityByCall env want c s))"
  by (auto simp: adapter_ConnectAbility_def adapter_DisconnectAbility_def adapter_ReleaseAbility_def
      adapter_StartAbilityByCall_def call_eq Let_def split: option.split)

lemma NotifyApp_logs: "only_logs s (snd (NotifyApp env c e code s))"
  by (auto simp: NotifyApp_def split: option.split)

lemma NotifyDeviceOfflineToAppLocked_logs: "only_logs s (NotifyDeviceOfflineToAppLocked env c es s)"
proof (induction es arbitrary: s)
  case (Cons e es)
  show ?case using only_logs_trans [OF NotifyApp_logs Cons.IH] by simp
qed simp

lemma DisconnectEach_logs: "only_logs s (snd (DisconnectEachRemoteAbilityLocked env l d c s))"
  by (auto simp: DisconnectEachRemoteAbilityLocked_def call_eq)

lemma disconnect_sessions_logs: "only_logs s (disconnect_sessions env c ss s)"
proof (induction ss arbitrary: s)
  case (Cons x ss)
  show ?case using only_logs_trans [OF DisconnectEach_logs Cons.IH] Cons.IH by simp
qed simp

lemma NotifyProcessDied_logs: "only_logs s (NotifyProcessDied env i s)"
  by (cases i) (auto simp: NotifyProcessDied_def call_eq)

lemma NotifyProcessDiedAll_logs: "only_logs s (NotifyProcessDiedAll env is s)"
proof (induction "is" arbitrary: s)
  case (Cons i "is")
  show ?case
    using only_logs_trans [OF NotifyProcessDied_logs Cons.IH] by (simp add: NotifyProcessDiedAll_def)
qed (simp add: NotifyProcessDiedAll_def)

lemma only_logs_frame:
  assumes "only_logs s s'"
  shows "distributedConnectAbilityMap s' = distributedConnectAbilityMap s"
    "connectAbilityMap s' = connectAbilityMap s" "trackingUidMap s' = trackingUidMap s"
    "calleeMap s' = calleeMap s" "callerMap s' = callerMap s"
    "dmsCallbackTask s' = dmsCallbackTask s" "dschedContinuation s' = dschedContinuation s"
  using assms by (auto simp: only_logs_def)

lemmas logs_frames [simp] =
  only_logs_frame [OF adapter_logs(1)] only_logs_frame [OF adapter_logs(2)]
  only_logs_frame [OF adapter_logs(3)] only_logs_frame [OF adapter_logs(4)]
  only_logs_frame [OF NotifyDeviceOfflineToAppLocked_logs]
  only_logs_frame [OF disconnect_sessions_logs] only_logs_frame [OF NotifyProcessDiedAll_logs]

section \<open>Sessions\<close>

definition devices :: "ConnectAbilitySession list \<Rightarrow> string list" where
  "devices ss = map ses_destinationDeviceId ss"

lemma devices_simps [simp]:
  "devices [] = []" "devices (s # ss) = ses_destinationDeviceId s # devices ss"
  by (simp_all add: devices_def)

lemma AddElement_frame [simp]:
  "ses_destinationDeviceId (AddElement env e s) = ses_destinationDeviceId s"
  "ses_callerInfo (AddElement env e s) = ses_callerInfo s"
  "ses_sourceDeviceId (AddElement env e s) = ses_sourceDeviceId s"
  "ses_targetComponent (AddElement env e s) = ses_targetComponent s"
  by (simp_all add: AddElement_def)

lemma new_session_simps [simp]:
  "ses_destinationDeviceId (new_session src dst c tc) = dst"
  "ses_callerInfo (new_session src dst c tc) = c"
  "ses_elementsList (new_session src dst c tc) = []"
  by (simp_all add: new_session_def)

lemma add_to_sessions_devices:
  "devices (add_to_sessions env src dst e c tc ss) =
     (if dst \<in> set (devices ss) then devices ss else devices ss @ [dst])"
  by (induction ss) auto

lemma add_to_sessions_nonempty [simp]: "add_to_sessions env src dst e c tc ss \<noteq> []"
  by (cases ss) auto

lemma add_to_sessions_callers:
  "ses_callerInfo ` set (add_to_sessions env src dst e c tc ss) \<subseteq> insert c (ses_callerInfo ` set ss)"
  by (induction ss) auto

lemma take_session_rest:
  "distinct (devices ss) \<Longrightarrow>
   snd (take_session d ss) = filter (\<lambda>x. ses_destinationDeviceId x \<noteq> d) ss"
proof (induction ss)
  case (Cons s ss)
  then have "d \<notin> set (devices ss) \<Longrightarrow> filter (\<lambda>x. ses_destinationDeviceId x \<noteq> d) ss = ss"
    by (auto simp: devices_def filter_id_conv)
  with Cons show ?case by (auto simp: split_beta)
qed simp

lemma take_session_found:
  "fst (take_session d ss) = find (\<lambda>x. ses_destinationDeviceId x = d) ss"
  by (induction ss) (auto simp: split_beta)

section \<open>The connection counter\<close>

text \<open>
  The counter map represents the number \<open>n u\<close> of each user, none above the limit \<open>L\<close>, which is
  600 as long as requests are served one at a time.
\<close>

definition tracks :: "nat \<Rightarrow> (int, uint32) stdmap \<Rightarrow> (int \<Rightarrow> nat) \<Rightarrow> bool" where
  "tracks L m n =
     (map_ok m \<and> L < 4294967296 \<and>
      (\<forall>u. map_find u m = (if n u = 0 then None else Some (of_nat (n u))) \<and> n u \<le> L))"

definition dec :: "int \<Rightarrow> (int, uint32) stdmap \<Rightarrow> (int, uint32) stdmap" where
  "dec u m = trackingUidMap (DecreaseConnectLocked u (initial_sched\<lparr>trackingUidMap := m\<rparr>))"

lemma DecreaseConnectLocked_dec: "DecreaseConnectLocked u s = s\<lparr>trackingUidMap := dec u (trackingUidMap s)\<rparr>"
  by (simp add: DecreaseConnectLocked_def dec_def Let_def split: option.split)

lemma small_word:
  assumes "n < 4294967296"
  shows "(of_nat n :: uint32) = 0 \<longleftrightarrow> n = 0" "unat (of_nat n :: uint32) = n"
proof -
  have "n mod 4294967296 = n" using assms by simp
  then show u: "unat (of_nat n :: uint32) = n" by (simp add: unat_of_nat)
  show "(of_nat n :: uint32) = 0 \<longleftrightarrow> n = 0" 
    using u word_unat_eq_iff [of "of_nat n :: uint32" 0] by (simp only: unsigned_0)
qed

lemma word_pred_small: "0 < n \<Longrightarrow> (of_nat n :: uint32) - 1 = of_nat (n - 1)"
  by (simp add: of_nat_diff)

lemma tracks_up:
  assumes "tracks L m n" "n u < L"
  shows "tracks L (count_up u m) (n(u := Suc (n u)))"
proof -
  have "(of_nat (Suc (n u)) :: uint32) = (if n u = 0 then 0 else of_nat (n u)) + 1"
    by (simp add: add.commute)
  with assms show ?thesis by (auto simp: tracks_def count_up_def add.commute)
qed

lemma tracks_dec:
  assumes "tracks L m n" "0 < n u" "0 \<le> u"
  shows "tracks L (dec u m) (n(u := n u - 1))"
proof -
  have f: "map_find u m = Some (of_nat (n u))" and le: "n u \<le> L" "L < 4294967296" and ok: "map_ok m"
    using assms by (auto simp: tracks_def)
  have le': "n u - Suc 0 \<le> L" "n u < 4294967296" "n u - 1 < 4294967296" using le by linarith+
  have pos: "0 < (of_nat (n u) :: uint32)"
    using small_word(1) [OF le'(2)] assms(2) by (simp add: word_gt_0)
  have pred: "(of_nat (n u) :: uint32) - 1 = of_nat (n u - 1)" by (rule word_pred_small [OF assms(2)])
  note z = small_word(1) [OF le'(3)]
  show ?thesis
    using assms f pos pred z ok le le'
    by (auto simp: tracks_def dec_def DecreaseConnectLocked_def Let_def)
qed

section \<open>Well-formed connection tables\<close>

text \<open>
  \<open>owner c\<close> is the user the connection object \<open>c\<close> belongs to: an application's callback
  is only ever presented by the process that created it.
\<close>

definition sessions_ok :: "(robj \<Rightarrow> int) \<Rightarrow> robj \<Rightarrow> ConnectAbilitySession list \<Rightarrow> bool" where
  "sessions_ok owner c ss =
     (ss \<noteq> [] \<and> distinct (devices ss) \<and> 0 \<le> owner c \<and>
      (\<forall>x \<in> set ss. uid (ses_callerInfo x) = owner c))"

definition table_ok :: "(robj \<Rightarrow> int) \<Rightarrow> connect_map \<Rightarrow> bool" where
  "table_ok owner m = (map_ok m \<and> (\<forall>(c, ss) \<in> set m. sessions_ok owner c ss))"

definition links :: "(robj \<Rightarrow> int) \<Rightarrow> connect_map \<Rightarrow> int \<Rightarrow> nat" where
  "links owner m u = length (filter (\<lambda>(c, ss). owner c = u) m)"

lemma links_simps [simp]:
  "links owner [] u = 0"
  "links owner ((c, ss) # m) u = (if owner c = u then Suc (links owner m u) else links owner m u)"
  by (simp_all add: links_def)

lemma table_ok_Nil [simp]: "table_ok owner []"
  by (simp add: table_ok_def)

lemma table_ok_Cons:
  "table_ok owner ((c, ss) # m) \<longleftrightarrow> (\<forall>k \<in> map_keys m. c < k) \<and> sessions_ok owner c ss \<and> table_ok owner m"
  by (auto simp: table_ok_def map_ok_Cons)

lemma table_ok_find: "table_ok owner m \<Longrightarrow> map_find c m = Some ss \<Longrightarrow> sessions_ok owner c ss"
  unfolding table_ok_def by (fastforce dest: map_find_Some_mem)

lemma table_ok_put: "table_ok owner m \<Longrightarrow> sessions_ok owner c ss \<Longrightarrow> table_ok owner (map_put c ss m)"
  by (auto simp: table_ok_def)

lemma table_ok_erase: "table_ok owner m \<Longrightarrow> table_ok owner (map_erase c m)"
  by (auto simp: table_ok_def)

lemma GetUidLocked_owner: "sessions_ok owner c ss \<Longrightarrow> GetUidLocked ss = owner c"
  by (auto simp: sessions_ok_def GetUidLocked_def)

lemma links_pos: "c \<in> map_keys m \<Longrightarrow> owner c = u \<Longrightarrow> 0 < links owner m u"
  by (induction m) auto

lemma links_erase:
  "map_ok m \<Longrightarrow> c \<in> map_keys m \<Longrightarrow>
   links owner (map_erase c m) u = (if owner c = u then links owner m u - 1 else links owner m u)"
proof (induction m)
  case (Cons e m)
  obtain k ss where e: "e = (k, ss)" by (cases e)
  show ?case
  proof (cases "k = c")
    case True
    with Cons.prems(1) show ?thesis by (simp add: e map_ok_Cons_absent)
  next
    case False
    with Cons have "c \<in> map_keys m" "map_ok m" by (auto simp: e map_ok_Cons)
    with Cons.IH False links_pos [of c m owner "owner c"] show ?thesis by (auto simp: e)
  qed
qed simp

lemma links_put_old:
  "map_ok m \<Longrightarrow> c \<in> map_keys m \<Longrightarrow> links owner (map_put c ss m) u = links owner m u"
proof (induction m)
  case (Cons e m)
  obtain k ss' where e: "e = (k, ss')" by (cases e)
  show ?case
  proof (cases "k = c")
    case True
    with Cons.prems(1) show ?thesis by (simp add: e map_ok_Cons_absent)
  next
    case False
    with Cons have m: "c \<in> map_keys m" "map_ok m" "k < c" by (auto simp: e map_ok_Cons)
    with Cons.IH False show ?thesis by (auto simp: e)
  qed
qed simp

lemma links_put_new:
  "c \<notin> map_keys m \<Longrightarrow>
   links owner (map_put c ss m) u = (if owner c = u then Suc (links owner m u) else links owner m u)"
  by (induction m) auto

definition conn_bound :: "nat \<Rightarrow> (robj \<Rightarrow> int) \<Rightarrow> sched \<Rightarrow> bool" where
  "conn_bound L owner s =
     (table_ok owner (distributedConnectAbilityMap s) \<and>
      tracks L (trackingUidMap s) (links owner (distributedConnectAbilityMap s)))"

abbreviation conn_inv :: "(robj \<Rightarrow> int) \<Rightarrow> sched \<Rightarrow> bool" where
  "conn_inv \<equiv> conn_bound 600"

lemma conn_inv_frame:
  "distributedConnectAbilityMap s' = distributedConnectAbilityMap s \<Longrightarrow>
   trackingUidMap s' = trackingUidMap s \<Longrightarrow> conn_bound L owner s' = conn_bound L owner s"
  by (simp add: conn_bound_def)

section \<open>The offline loop\<close>

definition without_device :: "string \<Rightarrow> connect_map \<Rightarrow> connect_map" where
  "without_device d m =
     filter (\<lambda>(c, ss). ss \<noteq> []) (map (\<lambda>(c, ss). (c, filter (\<lambda>x. ses_destinationDeviceId x \<noteq> d) ss)) m)"

lemma without_device_simps [simp]:
  "without_device d [] = []"
  "without_device d ((c, ss) # m) =
     (let rest = filter (\<lambda>x. ses_destinationDeviceId x \<noteq> d) ss
      in if rest = [] then without_device d m else (c, rest) # without_device d m)"
  by (simp_all add: without_device_def Let_def)

lemma without_device_keys: "map_keys (without_device d m) \<subseteq> map_keys m"
  by (induction m) (auto simp: Let_def split: if_splits)

lemma filter_devices: "devices (filter (\<lambda>x. ses_destinationDeviceId x \<noteq> d) ss) = filter (\<lambda>y. y \<noteq> d) (devices ss)"
  by (simp add: devices_def filter_map comp_def)

lemma without_device_ok: "table_ok owner m \<Longrightarrow> table_ok owner (without_device d m)"
proof (induction m)
  case (Cons e m)
  obtain c ss where e: "e = (c, ss)" by (cases e)
  show ?case using Cons without_device_keys [of d m]
    by (auto simp: e Let_def table_ok_Cons sessions_ok_def filter_devices)
qed simp

lemma take_session_split:
  assumes "sessions_ok owner c ss"
  shows "take_session d ss =
    (find (\<lambda>x. ses_destinationDeviceId x = d) ss, filter (\<lambda>x. ses_destinationDeviceId x \<noteq> d) ss)"
  using assms take_session_rest [of ss d] take_session_found [of d ss]
  by (metis prod.collapse sessions_ok_def)

lemma offline_connects_fst:
  "table_ok owner m \<Longrightarrow> fst (offline_connects env d m s) = without_device d m"
  by (induction m arbitrary: s)
    (auto simp: table_ok_Cons take_session_split Let_def split_beta)

lemma option_logs_frame [simp]:
  "trackingUidMap (case q of None \<Rightarrow> s | Some x \<Rightarrow> NotifyDeviceOfflineToAppLocked env c (f x) s) = trackingUidMap s"
  "connectAbilityMap (case q of None \<Rightarrow> s | Some x \<Rightarrow> NotifyDeviceOfflineToAppLocked env c (f x) s) = connectAbilityMap s"
  "calleeMap (case q of None \<Rightarrow> s | Some x \<Rightarrow> NotifyDeviceOfflineToAppLocked env c (f x) s) = calleeMap s"
  "callerMap (case q of None \<Rightarrow> s | Some x \<Rightarrow> NotifyDeviceOfflineToAppLocked env c (f x) s) = callerMap s"
  "dmsCallbackTask (case q of None \<Rightarrow> s | Some x \<Rightarrow> NotifyDeviceOfflineToAppLocked env c (f x) s) = dmsCallbackTask s"
  by (simp_all split: option.split)

lemma offline_connects_frame:
  "connectAbilityMap (snd (offline_connects env d m s)) = connectAbilityMap s"
  "calleeMap (snd (offline_connects env d m s)) = calleeMap s"
  "callerMap (snd (offline_connects env d m s)) = callerMap s"
  "dmsCallbackTask (snd (offline_connects env d m s)) = dmsCallbackTask s"
  by (induction m arbitrary: s) (auto simp: Let_def split_beta DecreaseConnectLocked_dec)

lemma offline_connects_tracks:
  assumes "table_ok owner m" "tracks L (trackingUidMap s) n" "\<And>u. links owner m u \<le> n u"
  shows "tracks L (trackingUidMap (snd (offline_connects env d m s)))
    (\<lambda>u. n u - links owner m u + links owner (without_device d m) u)"
  using assms
proof (induction m arbitrary: s n)
  case (Cons e m)
  obtain c ss where e: "e = (c, ss)" by (cases e)
  have ok: "sessions_ok owner c ss" "table_ok owner m" using Cons.prems(1) by (auto simp: e table_ok_Cons)
  note uid = GetUidLocked_owner [OF ok(1)]
  note split = take_session_split [OF ok(1), of d]
  let ?rest = "filter (\<lambda>x. ses_destinationDeviceId x \<noteq> d) ss"
  let ?s1 = "case find (\<lambda>x. ses_destinationDeviceId x = d) ss of None \<Rightarrow> s
    | Some x \<Rightarrow> NotifyDeviceOfflineToAppLocked env c (ses_elementsList x) s"
  have le: "links owner m u \<le> n u" "owner c = u \<Longrightarrow> Suc (links owner m u) \<le> n u" for u
    using Cons.prems(3) [of u] by (auto simp: e split: if_splits)
  show ?case
  proof (cases "?rest = []")
    case True
    let ?n = "n(owner c := n (owner c) - 1)"
    have "0 < n (owner c)" "0 \<le> owner c" using le(2) ok(1) by (fastforce, simp add: sessions_ok_def)
    then have t: "tracks L (dec (owner c) (trackingUidMap s)) ?n"
      using Cons.prems(2) by (intro tracks_dec)
    have le': "links owner m u \<le> ?n u" for u using le [of u] by auto
    let ?s4 = "ReportCaller env (case find (\<lambda>x. ses_destinationDeviceId x = d) ss of
        None \<Rightarrow> default_CallerInfo | Some x \<Rightarrow> ses_callerInfo x) DISTRIBUTED_COMPONENT_REMOVE CONNECT CALLER
        (DecreaseConnectLocked (owner c) (log_ext [RemoveDeathRecipientFrom c ConnectRecipient] ?s1))"
    have s4: "trackingUidMap ?s4 = dec (owner c) (trackingUidMap s)"
      by (simp add: DecreaseConnectLocked_dec)
    have "tracks L (trackingUidMap (snd (offline_connects env d m ?s4)))
        (\<lambda>u. ?n u - links owner m u + links owner (without_device d m) u)"
    proof (rule Cons.IH [OF ok(2)])
      show "tracks L (trackingUidMap ?s4) ?n" unfolding s4 by (rule t)
    qed (rule le')
    moreover have "(\<lambda>u. ?n u - links owner m u + links owner (without_device d m) u) =
        (\<lambda>u. n u - links owner (e # m) u + links owner (without_device d (e # m)) u)"
      using True by (auto simp: e Let_def fun_eq_iff)
    ultimately show ?thesis using True by (simp add: e split uid Let_def)
  next
    case False
    have "(\<lambda>u. n u - links owner (e # m) u + links owner (without_device d (e # m)) u) =
        (\<lambda>u. n u - links owner m u + links owner (without_device d m) u)"
      using False le(2) by (fastforce simp: e Let_def fun_eq_iff)
    moreover have "tracks L (trackingUidMap (snd (offline_connects env d m ?s1)))
        (\<lambda>u. n u - links owner m u + links owner (without_device d m) u)"
      using Cons.prems(2) le(1) by (intro Cons.IH [OF ok(2)]) simp_all
    ultimately show ?thesis using False by (simp add: e split Let_def split_beta)
  qed
qed simp

end
