(* ===== verification/SchedMachine.thy ===== *)
theory SchedMachine
  imports SchedInv
begin

text \<open>
  Every operation of the connect and call managers keeps the connection invariant; the
  managers as a machine, whose runs therefore keep it.
\<close>

section \<open>Applications that die\<close>

definition other_callers :: "CallerInfo \<Rightarrow> connect_map \<Rightarrow> connect_map" where
  "other_callers caller m = filter (\<lambda>(c, ss). \<not> (ss \<noteq> [] \<and> IsSameCaller caller (hd ss))) m"

lemma died_connects_fst: "fst (died_connects env caller m acc s) = other_callers caller m"
proof (induction m arbitrary: acc s)
  case (Cons e m)
  obtain c ss where e: "e = (c, ss)" by (cases e)
  show ?case by (simp add: e Cons.IH other_callers_def Let_def split_beta)
qed (simp add: other_callers_def)

definition dying :: "CallerInfo \<Rightarrow> connect_map \<Rightarrow> ConnectAbilitySession list" where
  "dying caller m = concat (map (\<lambda>(c, ss). if ss \<noteq> [] \<and> IsSameCaller caller (hd ss) then ss else []) m)"

lemma collect_notify_append:
  "collect_notify caller (xs @ ys) acc = collect_notify caller ys (collect_notify caller xs acc)"
  by (induction caller xs acc rule: collect_notify.induct) (auto simp: Let_def)

lemma died_connects_acc:
  "fst (snd (died_connects env caller m acc s)) = collect_notify caller (dying caller m) acc"
proof (induction m arbitrary: acc s)
  case (Cons e m)
  obtain c ss where e: "e = (c, ss)" by (cases e)
  show ?case by (simp add: e Cons.IH dying_def Let_def split_beta collect_notify_append)
qed (simp add: dying_def)

lemma died_connects_frame:
  "connectAbilityMap (snd (snd (died_connects env caller m acc s))) = connectAbilityMap s"
  "calleeMap (snd (snd (died_connects env caller m acc s))) = calleeMap s"
  "callerMap (snd (snd (died_connects env caller m acc s))) = callerMap s"
  "dmsCallbackTask (snd (snd (died_connects env caller m acc s))) = dmsCallbackTask s"
proof (induction m arbitrary: acc s)
  case (Cons e m)
  obtain c ss where e: "e = (c, ss)" by (cases e)
  case 1 show ?case by (simp add: e Cons.IH Let_def split_beta DecreaseConnectLocked_dec)
  case 2 show ?case by (simp add: e Cons.IH Let_def split_beta DecreaseConnectLocked_dec)
  case 3 show ?case by (simp add: e Cons.IH Let_def split_beta DecreaseConnectLocked_dec)
  case 4 show ?case by (simp add: e Cons.IH Let_def split_beta DecreaseConnectLocked_dec)
qed simp_all

lemma died_connects_tracks:
  assumes "table_ok owner m" "tracks L (trackingUidMap s) n" "\<And>u. links owner m u \<le> n u"
  shows "tracks L (trackingUidMap (snd (snd (died_connects env caller m acc s))))
    (\<lambda>u. n u - links owner m u + links owner (other_callers caller m) u)"
  using assms
proof (induction m arbitrary: acc s n)
  case (Cons e m)
  obtain c ss where e: "e = (c, ss)" by (cases e)
  have ok: "sessions_ok owner c ss" "table_ok owner m" using Cons.prems(1) by (auto simp: e table_ok_Cons)
  have le: "links owner m u \<le> n u" "owner c = u \<Longrightarrow> Suc (links owner m u) \<le> n u" for u
    using Cons.prems(3) [of u] by (auto simp: e split: if_splits)
  show ?case
  proof (cases "ss \<noteq> [] \<and> IsSameCaller caller (hd ss)")
    case True
    then have u: "uid caller = owner c"
      using ok(1) by (cases ss) (auto simp: sessions_ok_def IsSameCaller_def)
    let ?n = "n(owner c := n (owner c) - 1)"
    have "0 < n (owner c)" "0 \<le> owner c" using le(2) ok(1) by (fastforce, simp add: sessions_ok_def)
    then have t: "tracks L (dec (owner c) (trackingUidMap s)) ?n"
      using Cons.prems(2) by (intro tracks_dec)
    have le': "links owner m u \<le> ?n u" for u using le [of u] by auto
    let ?s3 = "ReportCaller env caller DISTRIBUTED_COMPONENT_REMOVE CONNECT CALLER
        (log_ext [RemoveDeathRecipientFrom c ConnectRecipient] (DecreaseConnectLocked (uid caller) s))"
    let ?acc = "collect_notify caller ss acc"
    have s3: "trackingUidMap ?s3 = dec (owner c) (trackingUidMap s)"
      by (simp add: DecreaseConnectLocked_dec u)
    have "tracks L (trackingUidMap (snd (snd (died_connects env caller m ?acc ?s3))))
        (\<lambda>u. ?n u - links owner m u + links owner (other_callers caller m) u)"
    proof (rule Cons.IH [OF ok(2)])
      show "tracks L (trackingUidMap ?s3) ?n" unfolding s3 by (rule t)
    qed (rule le')
    moreover have "(\<lambda>u. ?n u - links owner m u + links owner (other_callers caller m) u) =
        (\<lambda>u. n u - links owner (e # m) u + links owner (other_callers caller (e # m)) u)"
      using True by (auto simp: e other_callers_def fun_eq_iff)
    ultimately show ?thesis using True by (simp add: e Let_def)
  next
    case False
    have "(\<lambda>u. n u - links owner (e # m) u + links owner (other_callers caller (e # m)) u) =
        (\<lambda>u. n u - links owner m u + links owner (other_callers caller m) u)"
      using False le(2) by (fastforce simp: e other_callers_def fun_eq_iff)
    moreover have "tracks L (trackingUidMap (snd (snd (died_connects env caller m acc s))))
        (\<lambda>u. n u - links owner m u + links owner (other_callers caller m) u)"
      using Cons.prems(2) le(1) by (intro Cons.IH [OF ok(2)]) simp_all
    ultimately show ?thesis using False by (auto simp: e Let_def split_beta)
  qed
qed (simp add: other_callers_def)

lemma other_callers_ok: "table_ok owner m \<Longrightarrow> table_ok owner (other_callers caller m)"
  by (auto simp: table_ok_def other_callers_def)

lemma full_count: "(\<lambda>u. n u - n u + (k u :: nat)) = k"
  by auto

lemma ProcessConnectDied_tables:
  assumes "map_find c (distributedConnectAbilityMap s) = Some (x # xs)"
  shows "distributedConnectAbilityMap (ProcessConnectDied env (Some c) s) =
      other_callers (ses_callerInfo x) (distributedConnectAbilityMap s)"
    "trackingUidMap (ProcessConnectDied env (Some c) s) =
      trackingUidMap (snd (snd (died_connects env (ses_callerInfo x) (distributedConnectAbilityMap s) ([], []) s)))"
  using assms died_connects_fst [of env "ses_callerInfo x" "distributedConnectAbilityMap s" "([], [])" s]
  by (auto simp: ProcessConnectDied_def Let_def split: prod.splits)

lemma ProcessConnectDied_inv:
  assumes "conn_bound L owner s"
  shows "conn_bound L owner (ProcessConnectDied env connect s)"
proof (cases "\<exists>c x xs. connect = Some c \<and> map_find c (distributedConnectAbilityMap s) = Some (x # xs)")
  case True
  then obtain c x xs where c: "connect = Some c" "map_find c (distributedConnectAbilityMap s) = Some (x # xs)"
    by blast
  have inv: "table_ok owner (distributedConnectAbilityMap s)"
    "tracks L (trackingUidMap s) (links owner (distributedConnectAbilityMap s))"
    using assms by (auto simp: conn_bound_def)
  from died_connects_tracks [OF this, of env "ses_callerInfo x" "([], [])"]
  show ?thesis unfolding c(1)
    by (simp add: conn_bound_def ProcessConnectDied_tables [OF c(2)] other_callers_ok [OF inv(1)])
next
  case False
  then have "ProcessConnectDied env connect s = s"
    by (auto simp: ProcessConnectDied_def split: option.split list.split)
  with assms show ?thesis by simp
qed

section \<open>Connecting and disconnecting\<close>

lemma Mapping_tables:
  "distributedConnectAbilityMap (RemoteConnectAbilityMappingLocked env (Some c) src dst e caller tc s) =
     map_put c (add_to_sessions env src dst e caller tc
       (case map_find c (distributedConnectAbilityMap s) of None \<Rightarrow> [] | Some ss \<Rightarrow> ss))
       (distributedConnectAbilityMap s)"
  "trackingUidMap (RemoteConnectAbilityMappingLocked env (Some c) src dst e caller tc s) =
     (if c \<in> map_keys (distributedConnectAbilityMap s) then trackingUidMap s
      else count_up (uid caller) (trackingUidMap s))"
  by (auto simp: RemoteConnectAbilityMappingLocked_def Let_def dest: map_find_Some_key split: option.split)

lemma sessions_ok_add:
  assumes "ss = [] \<or> sessions_ok owner c ss" "uid caller = owner c" "0 \<le> owner c"
  shows "sessions_ok owner c (add_to_sessions env src dst e caller tc ss)"
proof -
  have "uid (ses_callerInfo x) = owner c"
    if "x \<in> set (add_to_sessions env src dst e caller tc ss)" for x
  proof -
    have "ses_callerInfo x \<in> insert caller (ses_callerInfo ` set ss)"
      using add_to_sessions_callers [of env src dst e caller tc ss] that by blast
    with assms show ?thesis by (auto simp: sessions_ok_def)
  qed
  with assms show ?thesis by (auto simp: sessions_ok_def add_to_sessions_devices)
qed

lemma Mapping_inv:
  assumes "conn_bound L owner s" "uid caller = owner c" "0 \<le> owner c"
    and "links owner (distributedConnectAbilityMap s) (owner c) < L"
  shows "conn_bound L owner (RemoteConnectAbilityMappingLocked env (Some c) src dst e caller tc s)"
proof -
  let ?m = "distributedConnectAbilityMap s"
  let ?ss = "case map_find c ?m of None \<Rightarrow> [] | Some ss \<Rightarrow> ss"
  have t: "table_ok owner ?m" "map_ok ?m" "tracks L (trackingUidMap s) (links owner ?m)"
    using assms(1) by (auto simp: conn_bound_def table_ok_def)
  have "?ss = [] \<or> sessions_ok owner c ?ss"
    using table_ok_find [OF t(1)] by (auto split: option.split)
  then have table: "table_ok owner (map_put c (add_to_sessions env src dst e caller tc ?ss) ?m)"
    by (intro table_ok_put [OF t(1)] sessions_ok_add assms(2,3))
  show ?thesis
  proof (cases "c \<in> map_keys ?m")
    case True
    then have "links owner (map_put c ss ?m) = links owner ?m" for ss
      by (intro ext links_put_old t(2))
    with True table t(3) show ?thesis by (simp add: conn_bound_def Mapping_tables)
  next
    case False
    then have "links owner (map_put c ss ?m) = (links owner ?m)(owner c := Suc (links owner ?m (owner c)))" for ss
      by (intro ext) (simp add: links_put_new)
    with False table tracks_up [OF t(3) assms(4)] show ?thesis
      by (simp add: conn_bound_def Mapping_tables assms(2))
  qed
qed

lemma conn_inv_log [simp]: "conn_bound L owner (log_ext es s) = conn_bound L owner s"
  by (rule conn_inv_frame) simp_all

lemma connect_loop_inv:
  assumes "conn_bound L owner s" "uid caller = owner c" "0 \<le> owner c"
    and "links owner (distributedConnectAbilityMap s) (owner c) < L"
  shows "conn_bound L owner (snd (connect_loop env n r want c caller account dev s))"
  using assms(1,4)
proof (induction n arbitrary: r s)
  case (Suc n)
  let ?s1 = "log_ext [Rpc dev (RpcConnectAbility want c caller account)] s"
  have "conn_bound L owner (RemoteConnectAbilityMappingLocked env (Some c) (sourceDeviceId caller) dev
      (want_element want) caller HARMONY_COMPONENT ?s1)"
    using Suc.prems assms(2,3) by (intro Mapping_inv) simp_all
  moreover have "conn_bound L owner (snd (connect_loop env n r' want c caller account dev ?s1))" for r'
    using Suc.prems by (intro Suc.IH) simp_all
  ultimately show ?case using Suc.prems(1) by (simp add: call_eq Let_def)
qed simp

lemma check_below_limit:
  assumes "conn_bound L owner s" "CheckDistributedConnectLocked caller s = ERR_OK"
  shows "0 \<le> uid caller" "links owner (distributedConnectAbilityMap s) (uid caller) < 600"
proof -
  let ?n = "links owner (distributedConnectAbilityMap s) (uid caller)"
  show "0 \<le> uid caller"
    using assms(2) by (auto simp: CheckDistributedConnectLocked_def err_defs split: if_splits)
  have t: "map_find (uid caller) (trackingUidMap s) = (if ?n = 0 then None else Some (of_nat ?n))"
    "?n < 4294967296"
    using assms(1) by (auto simp: conn_bound_def tracks_def intro: le_less_trans)
  have "\<not> MAX_DISTRIBUTED_CONNECT_NUM \<le> (of_nat ?n :: uint32)" if "?n \<noteq> 0"
    using assms(2) t(1) that
    by (auto simp: CheckDistributedConnectLocked_def err_defs split: if_splits option.splits)
  then show "?n < 600"
    using small_word(2) [OF t(2)] by (cases "?n = 0") (auto simp: MAX_DISTRIBUTED_CONNECT_NUM_def word_le_nat_alt)
qed

lemma caller_with_bundles_uid:
  "caller_with_bundles env h caller = Some caller' \<Longrightarrow>
   uid caller' = uid caller \<and> pid caller' = pid caller \<and> sourceDeviceId caller' = sourceDeviceId caller \<and>
   callerType caller' = callerType caller"
  by (auto simp: caller_with_bundles_def split: option.splits)

lemma TryConnectRemoteAbility_inv:
  assumes "conn_bound L owner s" "\<And>c. connect = Some c \<Longrightarrow> uid caller = owner c" "0 \<le> uid caller"
    and "links owner (distributedConnectAbilityMap s) (uid caller) < L"
  shows "conn_bound L owner (snd (TryConnectRemoteAbility env want connect caller s))"
  using assms by (cases connect)
    (auto simp: TryConnectRemoteAbility_def Let_def split: prod.split intro!: connect_loop_inv)

lemma ConnectRemoteAbility_inv:
  assumes "conn_inv owner s" "\<And>c. connect = Some c \<Longrightarrow> u = owner c"
  shows "conn_inv owner (snd (ConnectRemoteAbility env want connect u p tok s))"
proof -
  have "conn_inv owner (snd (TryConnectRemoteAbility env want connect caller' s))"
    if "CheckDistributedConnectLocked caller s = ERR_OK" "uid caller = u"
      "caller_with_bundles env h caller = Some caller'" for caller caller' h
    using check_below_limit [OF assms(1) that(1)] caller_with_bundles_uid [OF that(3)] that(2) assms
    by (intro TryConnectRemoteAbility_inv) auto
  with assms(1) show ?thesis
    by (auto simp: ConnectRemoteAbility_def Let_def split: option.split)
qed

lemma DisconnectRemoteAbility_inv:
  assumes "conn_bound L owner s"
  shows "conn_bound L owner (snd (DisconnectRemoteAbility env connect s))"
proof (cases "\<exists>c ss. connect = Some c \<and> map_find c (distributedConnectAbilityMap s) = Some ss")
  case True
  then obtain c ss where c: "connect = Some c" "map_find c (distributedConnectAbilityMap s) = Some ss" by blast
  let ?m = "distributedConnectAbilityMap s"
  have t: "table_ok owner ?m" "map_ok ?m" "tracks L (trackingUidMap s) (links owner ?m)"
    using assms by (auto simp: conn_bound_def table_ok_def)
  have ok: "sessions_ok owner c ss" by (rule table_ok_find [OF t(1) c(2)])
  have key: "c \<in> map_keys ?m" using c(2) by (rule map_find_Some_key)
  have "tracks L (dec (owner c) (trackingUidMap s))
      ((links owner ?m)(owner c := links owner ?m (owner c) - 1))"
    using ok links_pos [OF key refl] by (intro tracks_dec [OF t(3)]) (auto simp: sessions_ok_def)
  moreover have "links owner (map_erase c ?m) = (links owner ?m)(owner c := links owner ?m (owner c) - 1)"
    using links_erase [OF t(2) key] by (auto simp: fun_eq_iff)
  moreover have "ss \<noteq> []" using ok by (simp add: sessions_ok_def)
  ultimately show ?thesis using c GetUidLocked_owner [OF ok] table_ok_erase [OF t(1)]
    by (simp add: DisconnectRemoteAbility_def conn_bound_def Let_def DecreaseConnectLocked_dec)
next
  case False
  then have "snd (DisconnectRemoteAbility env connect s) = s"
    by (auto simp: DisconnectRemoteAbility_def split: option.split)
  with assms show ?thesis by simp
qed

section \<open>Operations that leave the connection table alone\<close>

lemma new_local_frame [simp]:
  "distributedConnectAbilityMap (snd (new_local s)) = distributedConnectAbilityMap s"
  "trackingUidMap (snd (new_local s)) = trackingUidMap s"
  "connectAbilityMap (snd (new_local s)) = connectAbilityMap s"
  "calleeMap (snd (new_local s)) = calleeMap s"
  "callerMap (snd (new_local s)) = callerMap s"
  "history (snd (new_local s)) = history s"
  by (simp_all add: new_local_def)

definition same_links :: "sched \<Rightarrow> sched \<Rightarrow> bool" where
  "same_links s s' =
     (distributedConnectAbilityMap s' = distributedConnectAbilityMap s \<and>
      trackingUidMap s' = trackingUidMap s)"

lemma same_links_refl [simp]: "same_links s s"
  by (simp add: same_links_def)

lemma same_links_inv: "same_links s s' \<Longrightarrow> conn_bound L owner s \<Longrightarrow> conn_bound L owner s'"
  by (simp add: same_links_def conn_bound_def)

lemma ConnectAbilityFromRemote_links:
  "ConnectAbilityFromRemote env want connect caller account s = Some (r, s') \<Longrightarrow> same_links s s'"
  by (auto simp: ConnectAbilityFromRemote_def Let_def split_beta same_links_def prod_eq_iff
      split: option.splits if_splits)

lemma DisconnectAbilityFromRemote_links:
  "same_links s (snd (DisconnectAbilityFromRemote env connect source s))"
  by (auto simp: DisconnectAbilityFromRemote_def Let_def same_links_def split: option.splits)

lemma died_loop_frame:
  "distributedConnectAbilityMap (snd (snd (died_loop env caller m e s))) = distributedConnectAbilityMap s \<and>
   trackingUidMap (snd (snd (died_loop env caller m e s))) = trackingUidMap s \<and>
   calleeMap (snd (snd (died_loop env caller m e s))) = calleeMap s \<and>
   callerMap (snd (snd (died_loop env caller m e s))) = callerMap s"
  by (induction env caller m e s rule: died_loop.induct) (auto simp: Let_def split_beta)

lemma NotifyProcessDiedFromRemote_links:
  "same_links s (snd (NotifyProcessDiedFromRemote env caller s))"
  by (simp add: NotifyProcessDiedFromRemote_def split_beta same_links_def died_loop_frame)

lemma call_side_links:
  "same_links s (SaveCallerComponent env want c caller s)"
  "same_links s (RemoveCallerComponent env c s)"
  "same_links s (HandleLocalCallerDied env c s)"
  by (auto simp: SaveCallerComponent_def RemoveCallerComponent_def HandleLocalCallerDied_def
      Let_def same_links_def split: option.splits)

lemma same_links_trans [trans]: "same_links s t \<Longrightarrow> same_links t u \<Longrightarrow> same_links s u"
  by (simp add: same_links_def)

lemma same_links_log [simp]: "same_links s (log_ext es s') = same_links s s'"
  by (simp add: same_links_def)

lemma StartRemoteAbilityByCall_links:
  "same_links s (snd (StartRemoteAbilityByCall env want connect u p tok s))"
  by (auto simp: StartRemoteAbilityByCall_def TryStartRemoteAbilityByCall_def Let_def split_beta call_eq
      split: option.splits intro: same_links_trans [OF _ call_side_links(1)])

lemma ReleaseRemoteAbility_links: "same_links s (snd (ReleaseRemoteAbility env connect element s))"
  by (auto simp: ReleaseRemoteAbility_def Let_def call_eq
      split: option.splits intro: same_links_trans [OF _ call_side_links(2)])

lemma callee_side_links:
  "same_links s (snd (StartAbilityByCallFromRemote env want connect caller account s))"
  "same_links s (snd (ReleaseAbilityFromRemote env connect element caller s))"
  "same_links s (ProcessCalleeDied env connect s)"
  by (auto simp: StartAbilityByCallFromRemote_def ReleaseAbilityFromRemote_def ProcessCalleeDied_def
      Let_def split_beta same_links_def split: option.splits)

lemma ProcessCallerDied_links: "same_links s (ProcessCallerDied env connect ty s)"
  using call_side_links(3) [of s env]
  by (auto simp: ProcessCallerDied_def Let_def split_beta same_links_def split: option.splits)

lemma component_links:
  "same_links s (snd (RegisterDistributedComponentListener cb s))"
  "same_links s (run_component_task env s)"
  by (auto simp: RegisterDistributedComponentListener_def run_component_task_def Let_def
      same_links_def split: list.splits option.splits)

section \<open>A device goes offline\<close>

lemma offline_callees_frame:
  "distributedConnectAbilityMap (snd (offline_callees env d m s)) = distributedConnectAbilityMap s"
  "trackingUidMap (snd (offline_callees env d m s)) = trackingUidMap s"
  "calleeMap (snd (offline_callees env d m s)) = calleeMap s"
  "callerMap (snd (offline_callees env d m s)) = callerMap s"
  "dmsCallbackTask (snd (offline_callees env d m s)) = dmsCallbackTask s"
  by (induction m arbitrary: s) (auto simp: Let_def split_beta)

lemma offline_callees_fst:
  "fst (offline_callees env d m s) = filter (\<lambda>(c, i). sourceDeviceId (ci_callerInfo i) \<noteq> d) m"
  by (induction m arbitrary: s) (auto simp: Let_def split_beta)

lemma offline_callers_frame:
  "distributedConnectAbilityMap (snd (offline_callers env d m s)) = distributedConnectAbilityMap s"
  "trackingUidMap (snd (offline_callers env d m s)) = trackingUidMap s"
  "connectAbilityMap (snd (offline_callers env d m s)) = connectAbilityMap s"
  "calleeMap (snd (offline_callers env d m s)) = calleeMap s"
  "dmsCallbackTask (snd (offline_callers env d m s)) = dmsCallbackTask s"
  by (induction m arbitrary: s) (auto simp: Let_def split_beta)

lemma ProcessFreeInstallOffline_frame [simp]:
  "distributedConnectAbilityMap (ProcessFreeInstallOffline env d s) = distributedConnectAbilityMap s"
  "trackingUidMap (ProcessFreeInstallOffline env d s) = trackingUidMap s"
  "connectAbilityMap (ProcessFreeInstallOffline env d s) = connectAbilityMap s"
  "callerMap (ProcessFreeInstallOffline env d s) = callerMap s"
  "calleeMap (ProcessFreeInstallOffline env d s) = calleeMap s"
  by (auto simp: ProcessFreeInstallOffline_def split_beta split: option.split)

text \<open>When the local device is known and is another one, the tables lose the device.\<close>

definition offline_applies :: "env \<Rightarrow> string \<Rightarrow> sched \<Rightarrow> bool" where
  "offline_applies env dev s =
     (case GetLocalDeviceId env s of None \<Rightarrow> False | Some l \<Rightarrow> CheckDeviceId l dev)"

lemma ProcessDeviceOffline_skip: "\<not> offline_applies env dev s \<Longrightarrow> ProcessDeviceOffline env dev s = s"
  by (auto simp: ProcessDeviceOffline_def offline_applies_def split: option.splits)

lemma ProcessDeviceOffline_tables:
  assumes "offline_applies env dev s" "table_ok owner (distributedConnectAbilityMap s)"
  shows "distributedConnectAbilityMap (ProcessDeviceOffline env dev s) =
      without_device dev (distributedConnectAbilityMap s)"
    "connectAbilityMap (ProcessDeviceOffline env dev s) =
      filter (\<lambda>(c, i). sourceDeviceId (ci_callerInfo i) \<noteq> dev) (connectAbilityMap s)"
    "trackingUidMap (ProcessDeviceOffline env dev s) =
      trackingUidMap (snd (offline_connects env dev (distributedConnectAbilityMap s) s))"
    "calleeMap (ProcessDeviceOffline env dev s) = calleeMap s"
  using assms offline_connects_fst [OF assms(2), of env dev s]
  by (auto simp: ProcessDeviceOffline_def offline_applies_def ProcessCalleeOffline_def Let_def split_beta
      offline_callees_fst offline_callees_frame offline_callers_frame offline_connects_frame split: option.splits)

lemma ProcessDeviceOffline_inv:
  assumes "conn_bound L owner s"
  shows "conn_bound L owner (ProcessDeviceOffline env dev s)"
proof (cases "offline_applies env dev s")
  case True
  have inv: "table_ok owner (distributedConnectAbilityMap s)"
    "tracks L (trackingUidMap s) (links owner (distributedConnectAbilityMap s))"
    using assms by (auto simp: conn_bound_def)
  from offline_connects_tracks [OF this, of env dev]
  show ?thesis
    by (simp add: conn_bound_def ProcessDeviceOffline_tables [OF True inv(1)] without_device_ok [OF inv(1)])
qed (simp add: ProcessDeviceOffline_skip assms)

end
