(* ===== verification/SchedTables.thy ===== *)
theory SchedTables
  imports SchedMachine
begin

text \<open>
  Well-formedness of the other tables of the service: the sessions of the call side, the
  callees and the connections of other devices; and the links between connection objects
  and devices the session tables stand for.
\<close>

definition table_wf :: "connect_map \<Rightarrow> bool" where
  "table_wf m = (map_ok m \<and> (\<forall>(c, ss) \<in> set m. ss \<noteq> [] \<and> distinct (devices ss)))"

lemma table_ok_wf: "table_ok owner m \<Longrightarrow> table_wf m"
  by (auto simp: table_ok_def table_wf_def sessions_ok_def)

lemma table_wf_Nil [simp]: "table_wf []"
  by (simp add: table_wf_def)

lemma table_wf_Cons:
  "table_wf ((c, ss) # m) \<longleftrightarrow>
   (\<forall>k \<in> map_keys m. c < k) \<and> ss \<noteq> [] \<and> distinct (devices ss) \<and> table_wf m"
  by (auto simp: table_wf_def map_ok_Cons)

lemma table_wf_erase [simp]: "table_wf m \<Longrightarrow> table_wf (map_erase c m)"
  by (auto simp: table_wf_def)

lemma table_wf_find: "table_wf m \<Longrightarrow> map_find c m = Some ss \<Longrightarrow> ss \<noteq> [] \<and> distinct (devices ss)"
  unfolding table_wf_def by (fastforce dest: map_find_Some_mem)

lemma table_wf_add:
  assumes "table_wf m"
  shows "table_wf (map_put c (add_to_sessions env src dst e caller tc
    (case map_find c m of None \<Rightarrow> [] | Some ss \<Rightarrow> ss)) m)"
proof -
  have "distinct (devices (case map_find c m of None \<Rightarrow> [] | Some ss \<Rightarrow> ss))"
    using table_wf_find [OF assms] by (auto split: option.split)
  with assms show ?thesis by (auto simp: table_wf_def add_to_sessions_devices)
qed

lemma take_session_distinct:
  "distinct (devices ss) \<Longrightarrow> take_session d ss =
    (find (\<lambda>x. ses_destinationDeviceId x = d) ss, filter (\<lambda>x. ses_destinationDeviceId x \<noteq> d) ss)"
  using take_session_rest [of ss d] take_session_found [of d ss] by (metis prod.collapse)

lemma offline_callers_fst: "table_wf m \<Longrightarrow> fst (offline_callers env d m s) = without_device d m"
  by (induction m arbitrary: s)
    (auto simp: table_wf_Cons take_session_distinct Let_def split_beta)

lemma without_device_wf: "table_wf m \<Longrightarrow> table_wf (without_device d m)"
proof (induction m)
  case (Cons e m)
  obtain c ss where e: "e = (c, ss)" by (cases e)
  show ?case using Cons without_device_keys [of d m]
    by (auto simp: e Let_def table_wf_Cons filter_devices)
qed simp

section \<open>The invariant of the other tables\<close>

definition call_inv :: "sched \<Rightarrow> bool" where
  "call_inv s = (table_wf (callerMap s) \<and> map_ok (calleeMap s) \<and> map_ok (connectAbilityMap s))"

definition same_calls :: "sched \<Rightarrow> sched \<Rightarrow> bool" where
  "same_calls s s' =
     (callerMap s' = callerMap s \<and> calleeMap s' = calleeMap s \<and>
      connectAbilityMap s' = connectAbilityMap s)"

lemma same_calls_inv: "same_calls s s' \<Longrightarrow> call_inv s' = call_inv s"
  by (simp add: same_calls_def call_inv_def)

lemma same_calls_refl [simp]: "same_calls s s"
  by (simp add: same_calls_def)

lemma same_calls_trans: "same_calls s t \<Longrightarrow> same_calls t u \<Longrightarrow> same_calls s u"
  by (simp add: same_calls_def)

lemma same_calls_log [simp]: "same_calls s (log_ext es s') = same_calls s s'"
  by (simp add: same_calls_def)

lemma Mapping_calls: "same_calls s (RemoteConnectAbilityMappingLocked env c src dst e caller tc s)"
  by (auto simp: RemoteConnectAbilityMappingLocked_def same_calls_def Let_def split: option.splits)

lemma connect_loop_calls: "same_calls s (snd (connect_loop env n r want c caller account dev s))"
proof (induction n arbitrary: r s)
  case (Suc n)
  let ?s1 = "log_ext [Rpc dev (RpcConnectAbility want c caller account)] s"
  have "same_calls s (snd (connect_loop env n r' want c caller account dev ?s1))" for r'
    using same_calls_trans [OF _ Suc.IH [of ?s1 r']] by simp
  moreover have "same_calls s (RemoteConnectAbilityMappingLocked env (Some c) (sourceDeviceId caller) dev
      (want_element want) caller HARMONY_COMPONENT ?s1)"
    using same_calls_trans [OF _ Mapping_calls] by simp
  ultimately show ?case by (simp add: call_eq Let_def)
qed simp

lemma ConnectRemoteAbility_calls: "same_calls s (snd (ConnectRemoteAbility env want connect u p tok s))"
  by (auto simp: ConnectRemoteAbility_def TryConnectRemoteAbility_def Let_def connect_loop_calls
      split: option.split prod.split)

lemma DisconnectRemoteAbility_calls: "same_calls s (snd (DisconnectRemoteAbility env connect s))"
  by (auto simp: DisconnectRemoteAbility_def same_calls_def Let_def DecreaseConnectLocked_dec split: option.split)

lemma ProcessConnectDied_calls: "same_calls s (ProcessConnectDied env connect s)"
  by (auto simp: ProcessConnectDied_def same_calls_def split_beta died_connects_frame
      split: option.split list.split)

lemma component_calls:
  "same_calls s (snd (RegisterDistributedComponentListener cb s))"
  "same_calls s (run_component_task env s)"
  by (auto simp: RegisterDistributedComponentListener_def run_component_task_def Let_def
      same_calls_def split: list.splits option.splits)

section \<open>Operations of the other device\<close>

lemma ConnectAbilityFromRemote_call_inv:
  "ConnectAbilityFromRemote env want connect caller account s = Some (r, s') \<Longrightarrow>
   call_inv s \<Longrightarrow> call_inv s'"
  by (auto simp: ConnectAbilityFromRemote_def Let_def split_beta call_inv_def prod_eq_iff
      split: option.splits if_splits)

lemma DisconnectAbilityFromRemote_call_inv:
  "call_inv s \<Longrightarrow> call_inv (snd (DisconnectAbilityFromRemote env connect source s))"
  by (auto simp: DisconnectAbilityFromRemote_def Let_def call_inv_def split: option.splits)

lemma died_loop_fst:
  "fst (died_loop env caller m e s) = filter (\<lambda>(c, i). \<not> same_process caller i) m"
  by (induction env caller m e s rule: died_loop.induct) (auto simp: Let_def split_beta)

lemma NotifyProcessDiedFromRemote_call_inv:
  "call_inv s \<Longrightarrow> call_inv (snd (NotifyProcessDiedFromRemote env caller s))"
  by (auto simp: NotifyProcessDiedFromRemote_def split_beta call_inv_def died_loop_frame died_loop_fst)

lemma SaveCallerComponent_map:
  "callerMap (SaveCallerComponent env want c caller s) =
     map_put c (add_to_sessions env (sourceDeviceId caller) (el_deviceId (want_element want))
       (want_element want) caller HARMONY_COMPONENT
       (case map_find c (callerMap s) of None \<Rightarrow> [] | Some ss \<Rightarrow> ss)) (callerMap s)"
  by (auto simp: SaveCallerComponent_def Let_def dest: map_find_Some_key split: option.split)

lemma SaveCallerComponent_call_inv: "call_inv s \<Longrightarrow> call_inv (SaveCallerComponent env want c caller s)"
  unfolding call_inv_def SaveCallerComponent_map
  by (auto simp: table_wf_add) (auto simp: SaveCallerComponent_def Let_def split: option.split)

lemma caller_erase_call_inv:
  "call_inv s \<Longrightarrow> call_inv (RemoveCallerComponent env c s)"
  "call_inv s \<Longrightarrow> call_inv (HandleLocalCallerDied env c s)"
  by (auto simp: RemoveCallerComponent_def HandleLocalCallerDied_def call_inv_def Let_def split: option.split)

lemma call_inv_log [simp]: "call_inv (log_ext es s) = call_inv s"
  by (simp add: call_inv_def)

lemma StartRemoteAbilityByCall_call_inv:
  "call_inv s \<Longrightarrow> call_inv (snd (StartRemoteAbilityByCall env want connect u p tok s))"
  by (auto simp: StartRemoteAbilityByCall_def TryStartRemoteAbilityByCall_def Let_def call_eq
      split: option.split prod.split intro!: SaveCallerComponent_call_inv)

lemma ReleaseRemoteAbility_call_inv:
  "call_inv s \<Longrightarrow> call_inv (snd (ReleaseRemoteAbility env connect element s))"
  by (auto simp: ReleaseRemoteAbility_def Let_def call_eq split: option.split
      intro!: caller_erase_call_inv(1))

lemma callee_side_call_inv:
  "call_inv s \<Longrightarrow> call_inv (snd (StartAbilityByCallFromRemote env want connect caller account s))"
  "call_inv s \<Longrightarrow> call_inv (snd (ReleaseAbilityFromRemote env connect element caller s))"
  "call_inv s \<Longrightarrow> call_inv (ProcessCalleeDied env connect s)"
  by (auto simp: StartAbilityByCallFromRemote_def ReleaseAbilityFromRemote_def ProcessCalleeDied_def
      Let_def split_beta call_inv_def split: option.splits)

lemma ProcessCallerDied_call_inv: "call_inv s \<Longrightarrow> call_inv (ProcessCallerDied env connect ty s)"
  using caller_erase_call_inv(2) [of s env]
  by (auto simp: ProcessCallerDied_def Let_def split_beta call_inv_def split: option.splits)

lemma ProcessDeviceOffline_call_inv: "call_inv s \<Longrightarrow> call_inv (ProcessDeviceOffline env dev s)"
  by (auto simp: ProcessDeviceOffline_def ProcessCalleeOffline_def Let_def split_beta call_inv_def
      offline_callees_fst offline_callees_frame offline_callers_frame offline_connects_frame
      offline_callers_fst without_device_wf split: option.splits)

section \<open>Links\<close>

text \<open>The links a session table stands for: which object is linked to which device.\<close>

definition device_links :: "connect_map \<Rightarrow> (robj \<times> string) set" where
  "device_links m = {(c, d). \<exists>ss. map_find c m = Some ss \<and> d \<in> set (devices ss)}"

lemma device_links_Nil [simp]: "device_links [] = {}"
  by (simp add: device_links_def)

lemma device_links_put:
  "device_links (map_put c ss m) = {(c', d) \<in> device_links m. c' \<noteq> c} \<union> {c} \<times> set (devices ss)"
  by (auto simp: device_links_def split: if_splits)

lemma device_links_erase: "device_links (map_erase c m) = {(c', d) \<in> device_links m. c' \<noteq> c}"
  by (auto simp: device_links_def split: if_splits)

lemma device_links_Cons:
  "c \<notin> map_keys m \<Longrightarrow> device_links ((c, ss) # m) = {c} \<times> set (devices ss) \<union> device_links m"
  by (auto simp: device_links_def split: if_splits)

lemma device_links_without:
  "table_wf m \<Longrightarrow> device_links (without_device d m) = device_links m - UNIV \<times> {d}"
proof (induction m)
  case (Cons e m)
  obtain c ss where e: "e = (c, ss)" by (cases e)
  have c: "c \<notin> map_keys m" and m: "table_wf m" using Cons.prems by (auto simp: e table_wf_Cons)
  have c': "c \<notin> map_keys (without_device d m)" using c without_device_keys by auto
  let ?rest = "filter (\<lambda>x. ses_destinationDeviceId x \<noteq> d) ss"
  have d: "set (devices ?rest) = set (devices ss) - {d}" by (auto simp: filter_devices)
  show ?case
  proof (cases "?rest = []")
    case True
    then have "set (devices ss) - {d} = {}" unfolding d [symmetric] by simp
    with True Cons.IH [OF m] show ?thesis by (auto simp: e device_links_Cons [OF c])
  next
    case False
    with Cons.IH [OF m] d show ?thesis
      by (auto simp: e Let_def device_links_Cons [OF c] device_links_Cons [OF c'])
  qed
qed simp

lemma device_links_add:
  "device_links (map_put c (add_to_sessions env src dst e caller tc
     (case map_find c m of None \<Rightarrow> [] | Some ss \<Rightarrow> ss)) m) = insert (c, dst) (device_links m)"
  unfolding device_links_put
  by (auto simp: device_links_def add_to_sessions_devices dest: map_find_Some_key split: option.splits if_splits)

end
