(* ===== verification/SchedContinue.thy ===== *)
theory SchedContinue
  imports SchedTables
begin

text \<open>
  Starting abilities on other devices, free installs and the migration of missions:
  operations of \<^verbatim>\<open>dtbschedmgr/src/distributed_sched_service.cpp\<close> (and the install callback
  of \<^verbatim>\<open>dms_free_install_callback.cpp\<close>, the result callback of \<^verbatim>\<open>dms_token_callback.cpp\<close>)
  over the continuation table and the table of free installs.
\<close>

definition CONTINUATION_TIMEOUT :: int where "CONTINUATION_TIMEOUT = 20000"
definition CHECK_REMOTE_INSTALL_ABILITY :: int where "CHECK_REMOTE_INSTALL_ABILITY = 40000"
definition DEFAULT_REQUEST_CODE :: int where "DEFAULT_REQUEST_CODE = - 1"
definition DMS_SRC_NETWORK_ID :: string where "DMS_SRC_NETWORK_ID = ''dmsSrcNetworkId''"
definition VERSION_CODE_KEY :: string where "VERSION_CODE_KEY = ''version''"

section \<open>Starting abilities\<close>

definition service_OnStart :: "sched \<Rightarrow> sched" where
  "service_OnStart s = s\<lparr>componentChangeHandler := True, dschedContinuation := Some (cont_Init new_continuation),
     dmsCallbackTask := Some (task_Init new_callback_task)\<rparr>"

text \<open>The want sent carries the local device, so that a result finds its way back.\<close>

definition StartRemoteAbility :: "env \<Rightarrow> Want \<Rightarrow> int \<Rightarrow> int \<Rightarrow> nat \<Rightarrow> sched \<Rightarrow> int \<times> sched" where
  "StartRemoteAbility env want callerUid requestCode token s =
     (let dev = el_deviceId (want_element want)
      in case GetLocalDeviceId env s of
           None \<Rightarrow> (INVALID_PARAMETERS_ERR, s)
         | Some localDeviceId \<Rightarrow>
             if \<not> CheckDeviceId localDeviceId dev then (INVALID_PARAMETERS_ERR, s)
             else if \<not> GetRemoteDms env dev s then (INVALID_PARAMETERS_ERR, s)
             else
               let caller = default_CallerInfo\<lparr>sourceDeviceId := localDeviceId, uid := callerUid,
                     accessToken := token\<rparr>
               in (case caller_with_bundles env (history s) caller of
                     None \<Rightarrow> (INVALID_PARAMETERS_ERR, s)
                   | Some caller' \<Rightarrow>
                       (let (ret, account) = GetAccountInfo env (history s) dev caller'
                        in if ret \<noteq> ERR_OK then (ret, s)
                           else call_rpc env dev
                             (RpcStartAbility (SetParam DMS_SRC_NETWORK_ID (WString localDeviceId) want)
                                requestCode caller' account) s)))"

definition StartAbility :: "env \<Rightarrow> Want \<Rightarrow> int \<Rightarrow> sched \<Rightarrow> int \<times> sched" where
  "StartAbility env want requestCode s =
     (let (err, s1) = call_ams env AmsConnect s
      in if err \<noteq> ERR_OK then (err, s1)
         else (case active_id env (history s1) of
                 None \<Rightarrow> (INVALID_PARAMETERS_ERR, s1)
               | Some i \<Rightarrow>
                   if GetBoolParam want (param_for_result env) False then
                     (let (dmsTokenCallback, s2) = new_local s1
                      in call_ams env (AmsStartAbility want (Some dmsTokenCallback) requestCode i) s2)
                   else call_ams env (AmsStartAbility want nullptr requestCode i) s1))"

definition StartAbilityFromRemote ::
  "env \<Rightarrow> Want \<Rightarrow> int \<Rightarrow> CallerInfo \<Rightarrow> AccountInfo \<Rightarrow> sched \<Rightarrow> int \<times> sched" where
  "StartAbilityFromRemote env want requestCode caller account s =
     (let dev = el_deviceId (want_element want)
      in case GetLocalDeviceId env s of
           None \<Rightarrow> (INVALID_REMOTE_PARAMETERS_ERR, s)
         | Some localDeviceId \<Rightarrow>
             if \<not> CheckDeviceIdFromRemote localDeviceId dev (sourceDeviceId caller)
             then (INVALID_REMOTE_PARAMETERS_ERR, s)
             else
               let err = CheckDPermission env (history s) want caller account dev False
               in if err \<noteq> ERR_OK then (err, s) else StartAbility env want requestCode s)"

section \<open>Results\<close>

definition SendResultFromRemote ::
  "env \<Rightarrow> Want \<Rightarrow> int \<Rightarrow> CallerInfo \<Rightarrow> AccountInfo \<Rightarrow> int \<Rightarrow> sched \<Rightarrow> int \<times> sched" where
  "SendResultFromRemote env want requestCode caller account resultCode s =
     (let dev = GetStringParam want DMS_SRC_NETWORK_ID;
          want' = RemoveParam DMS_SRC_NETWORK_ID want
      in case GetLocalDeviceId env s of
           None \<Rightarrow> (INVALID_REMOTE_PARAMETERS_ERR, s)
         | Some localDeviceId \<Rightarrow>
             if \<not> CheckDeviceIdFromRemote localDeviceId dev (sourceDeviceId caller)
             then (INVALID_REMOTE_PARAMETERS_ERR, s)
             else
               let err = CheckDPermission env (history s) want' caller account dev False
               in if err \<noteq> ERR_OK then (err, s)
                  else
                    let (err', s1) = call_ams env AmsConnect s
                    in if err' \<noteq> ERR_OK then (err', s1)
                       else call_ams env (AmsSendResult requestCode resultCode want') s1)"

text \<open>The token callback has its own look at the devices (\<^verbatim>\<open>dms_token_callback.cpp\<close>).\<close>

definition token_GetLocalDeviceId :: "env \<Rightarrow> sched \<Rightarrow> string option" where
  "token_GetLocalDeviceId env s = local_device env (history s)"

definition token_CheckDeviceId :: "string \<Rightarrow> string \<Rightarrow> bool" where
  "token_CheckDeviceId localDeviceId remoteDeviceId =
     (if localDeviceId = [] \<or> remoteDeviceId = [] \<or> localDeviceId = remoteDeviceId then False else True)"

definition token_GetRemoteDms :: "env \<Rightarrow> string \<Rightarrow> sched \<Rightarrow> bool" where
  "token_GetRemoteDms env remoteDeviceId s =
     (if remoteDeviceId = [] then False else remote_dms env (history s) remoteDeviceId)"

text \<open>\<open>DmsTokenCallback::SendResult\<close>: the ability manager returns a result; \<open>token\<close> is its own.\<close>

definition SendResult :: "env \<Rightarrow> nat \<Rightarrow> Want \<Rightarrow> int \<Rightarrow> int \<Rightarrow> nat \<Rightarrow> int \<Rightarrow> sched \<Rightarrow> int \<times> sched" where
  "SendResult env callingToken want callerUid requestCode accessTok resultCode s =
     (if \<not> IsFoundationCall env (history s) callingToken then (INVALID_PARAMETERS_ERR, s)
      else
        let dev = GetStringParam want DMS_SRC_NETWORK_ID
        in case token_GetLocalDeviceId env s of
             None \<Rightarrow> (INVALID_PARAMETERS_ERR, s)
           | Some localDeviceId \<Rightarrow>
               if \<not> token_CheckDeviceId localDeviceId dev then (INVALID_PARAMETERS_ERR, s)
               else if \<not> token_GetRemoteDms env dev s then (INVALID_PARAMETERS_ERR, s)
               else
                 let caller = default_CallerInfo\<lparr>uid := callerUid, sourceDeviceId := localDeviceId,
                       accessToken := accessTok\<rparr>
                 in (case caller_with_bundles env (history s) caller of
                       None \<Rightarrow> (INVALID_PARAMETERS_ERR, s)
                     | Some caller' \<Rightarrow>
                         (let (ret, account) = GetAccountInfo env (history s) dev caller'
                          in if ret \<noteq> ERR_OK then (ret, s)
                             else call_rpc env dev (RpcSendResult want requestCode caller' account resultCode) s)))"

section \<open>Ending a continuation\<close>

definition RemoveContinuationTimeout :: "int \<Rightarrow> sched \<Rightarrow> sched" where
  "RemoveContinuationTimeout missionId s =
     (case dschedContinuation s of
        None \<Rightarrow> s
      | Some c \<Rightarrow> s\<lparr>history := RemoveTimeOut missionId (history s) c\<rparr>)"

definition SetContinuationTimeout :: "int \<Rightarrow> int \<Rightarrow> sched \<Rightarrow> sched" where
  "SetContinuationTimeout missionId timeout s =
     (case dschedContinuation s of
        None \<Rightarrow> s
      | Some c \<Rightarrow> s\<lparr>history := SetTimeOut missionId timeout (history s) c\<rparr>)"

definition GetContinuaitonDevice :: "int \<Rightarrow> sched \<Rightarrow> string" where
  "GetContinuaitonDevice missionId s =
     (case dschedContinuation s of None \<Rightarrow> [] | Some c \<Rightarrow> GetTargetDevice missionId c)"

definition NotifyContinuationCallbackResult :: "env \<Rightarrow> int \<Rightarrow> int \<Rightarrow> sched \<Rightarrow> sched" where
  "NotifyContinuationCallbackResult env missionId isSuccess s =
     (case dschedContinuation s of
        None \<Rightarrow> s
      | Some c \<Rightarrow>
          if IsInContinuationProgress missionId c then
            (let s1 = (if isSuccess = 0 then snd (call_ams env (AmsCleanMission missionId) s) else s);
                 (result, h, c') = NotifyMissionCenterResult env missionId isSuccess (history s1) c
             in s1\<lparr>history := h, dschedContinuation := Some c'\<rparr>)
          else
            (let s1 = snd (call_ams env (AmsNotifyContinuationResult missionId isSuccess) s)
             in s1\<lparr>history := RemoveTimeOut missionId (history s1) c\<rparr>))"

text \<open>The timeout of a mission, installed by \<open>OnStart\<close>.\<close>

definition continuation_timeout :: "env \<Rightarrow> int \<Rightarrow> sched \<Rightarrow> sched" where
  "continuation_timeout env missionId s =
     NotifyContinuationCallbackResult env missionId CONTINUE_ABILITY_TIMEOUT_ERR s"

definition NotifyContinuationResultFromRemote :: "env \<Rightarrow> int \<Rightarrow> bool \<Rightarrow> sched \<Rightarrow> int \<times> sched" where
  "NotifyContinuationResultFromRemote env sessionId isSuccess s =
     (if sessionId \<le> 0 then (INVALID_REMOTE_PARAMETERS_ERR, s)
      else
        let missionId = sessionId
        in (ERR_OK, NotifyContinuationCallbackResult env missionId
                      (if isSuccess then 0 else NOTIFYCOMPLETECONTINUATION_FAILED) s))"

definition NotifyCompleteContinuation :: "env \<Rightarrow> u16string \<Rightarrow> int \<Rightarrow> bool \<Rightarrow> sched \<Rightarrow> sched" where
  "NotifyCompleteContinuation env devId sessionId isSuccess s =
     (if sessionId \<le> 0 then s
      else
        let deviceId = str8 env devId
        in if \<not> GetRemoteDms env deviceId s then s
           else snd (call_rpc env deviceId (RpcContinuationResult sessionId isSuccess) s))"

section \<open>Free installs\<close>

definition SetCallerInfo :: "env \<Rightarrow> hist \<Rightarrow> int \<Rightarrow> string \<Rightarrow> nat \<Rightarrow> CallerInfo option" where
  "SetCallerInfo env h callerUid localDeviceId token =
     caller_with_bundles env h (default_CallerInfo\<lparr>uid := callerUid, callerType := CALLER_TYPE_HARMONY,
       sourceDeviceId := localDeviceId, accessToken := token\<rparr>)"

definition StartRemoteFreeInstall ::
  "env \<Rightarrow> Want \<Rightarrow> int \<Rightarrow> int \<Rightarrow> nat \<Rightarrow> ptr \<Rightarrow> sched \<Rightarrow> int \<times> sched" where
  "StartRemoteFreeInstall env want callerUid requestCode token callback s =
     (let dev = el_deviceId (want_element want)
      in case GetLocalDeviceId env s of
           None \<Rightarrow> (INVALID_PARAMETERS_ERR, s)
         | Some localDeviceId \<Rightarrow>
             if \<not> CheckDeviceId localDeviceId dev then (INVALID_PARAMETERS_ERR, s)
             else if \<not> GetRemoteDms env dev s then (INVALID_PARAMETERS_ERR, s)
             else (case dmsCallbackTask s of
               None \<Rightarrow> (INVALID_REMOTE_PARAMETERS_ERR, s)
             | Some t \<Rightarrow>
                 (let (taskId, t1) = GenerateTaskId t;
                      launchType = (if and (want_flags want) (flag_continuation env) \<noteq> 0
                                    then FREEINSTALL_CONTINUE else FREEINSTALL_START);
                      (pushed, h1, t2) = task_PushCallback env taskId callback dev launchType want (history s) t1
                  in if pushed \<noteq> ERR_OK
                     then (INVALID_REMOTE_PARAMETERS_ERR, s\<lparr>history := h1, dmsCallbackTask := Some t2\<rparr>)
                     else
                       let t3 = (if launchType = FREEINSTALL_CONTINUE
                                 then SetContinuationMissionMap taskId (GetIntParam want ''sessionId'' (- 1)) t2
                                 else t2);
                           s1 = s\<lparr>history := h1, dmsCallbackTask := Some t3\<rparr>
                       in case SetCallerInfo env (history s1) callerUid localDeviceId token of
                            None \<Rightarrow> (INVALID_PARAMETERS_ERR, s1)
                          | Some caller \<Rightarrow>
                              (let (ret, account) = GetAccountInfo env (history s1) dev caller
                               in if ret \<noteq> ERR_OK then (INVALID_PARAMETERS_ERR, s1)
                                  else
                                    let newWant = SetParam DMS_SRC_NETWORK_ID (WString localDeviceId) want;
                                        info = \<lparr>fi_want = newWant, fi_requestCode = requestCode,
                                          fi_callerInfo = caller, fi_accountInfo = account\<rparr>;
                                        (result, s2) = call_rpc env dev (RpcStartFreeInstall info taskId) s1
                                    in if result \<noteq> ERR_OK then
                                         (let (item, h, t4) = task_PopCallback taskId (history s2) t3
                                          in (result, s2\<lparr>history := snd (NotifyFreeInstallResult env item result h),
                                                dmsCallbackTask := Some t4\<rparr>))
                                       else (result, s2)))))"

text \<open>The callback handed to the ability manager for one free install.\<close>

record DmsFreeInstallCallback =
  fic_taskId :: int
  fic_info :: FreeInstallInfo

definition StartFreeInstallFromRemote ::
  "env \<Rightarrow> FreeInstallInfo \<Rightarrow> int \<Rightarrow> sched \<Rightarrow> int \<times> (robj \<times> DmsFreeInstallCallback) option \<times> sched" where
  "StartFreeInstallFromRemote env info taskId s =
     (let dev = el_deviceId (want_element (fi_want info))
      in case GetLocalDeviceId env s of
           None \<Rightarrow> (INVALID_REMOTE_PARAMETERS_ERR, None, s)
         | Some localDeviceId \<Rightarrow>
             if \<not> CheckDeviceIdFromRemote localDeviceId dev (sourceDeviceId (fi_callerInfo info))
             then (INVALID_REMOTE_PARAMETERS_ERR, None, s)
             else
               let (err, s1) = call_ams env AmsConnect s
               in if err \<noteq> ERR_OK then (err, None, s1)
                  else (case active_id env (history s1) of
                          None \<Rightarrow> (INVALID_PARAMETERS_ERR, None, s1)
                        | Some i \<Rightarrow>
                            (let (callback, s2) = new_local s1;
                                 (err', s3) = call_ams env
                                   (AmsFreeInstall (fi_want info) callback i (fi_requestCode info)) s2
                             in (err', Some (callback, \<lparr>fic_taskId = taskId, fic_info = info\<rparr>), s3))))"

definition RemoveFlags :: "uint32 \<Rightarrow> Want \<Rightarrow> Want" where
  "RemoveFlags f w = w\<lparr>want_flags := and (want_flags w) (not f)\<rparr>"

definition StartLocalAbility :: "env \<Rightarrow> FreeInstallInfo \<Rightarrow> sched \<Rightarrow> int \<times> sched" where
  "StartLocalAbility env info s =
     (case GetLocalDeviceId env s of
        None \<Rightarrow> (INVALID_REMOTE_PARAMETERS_ERR, s)
      | Some localDeviceId \<Rightarrow>
          let err = CheckDPermission env (history s) (fi_want info) (fi_callerInfo info) (fi_accountInfo info)
                localDeviceId False
          in if err \<noteq> ERR_OK then (err, s)
             else StartAbility env (RemoveFlags (flag_install_on_demand env) (fi_want info)) (fi_requestCode info) s)"

definition HandleRemoteNotify :: "env \<Rightarrow> FreeInstallInfo \<Rightarrow> int \<Rightarrow> int \<Rightarrow> sched \<Rightarrow> int \<times> sched" where
  "HandleRemoteNotify env info taskId resultCode s =
     (let dev = sourceDeviceId (fi_callerInfo info)
      in if \<not> GetRemoteDms env dev s then (INVALID_PARAMETERS_ERR, s)
         else if taskId \<le> 0 then (INVALID_PARAMETERS_ERR, s)
         else call_rpc env dev (RpcCompleteFreeInstall taskId resultCode) s)"

definition NotifyCompleteFreeInstall :: "env \<Rightarrow> FreeInstallInfo \<Rightarrow> int \<Rightarrow> int \<Rightarrow> sched \<Rightarrow> int \<times> sched" where
  "NotifyCompleteFreeInstall env info taskId resultCode s =
     (if taskId \<le> 0 then (INVALID_PARAMETERS_ERR, s)
      else if resultCode \<noteq> ERR_OK then HandleRemoteNotify env info taskId resultCode s
      else
        let (result, s1) = StartLocalAbility env info s
        in HandleRemoteNotify env info taskId result s1)"

definition OnInstallFinished ::
  "env \<Rightarrow> Want \<Rightarrow> int \<Rightarrow> int \<Rightarrow> DmsFreeInstallCallback \<Rightarrow> sched \<Rightarrow> DmsFreeInstallCallback \<times> sched" where
  "OnInstallFinished env want requestCode resultCode cb s =
     (let info = (fic_info cb)\<lparr>fi_want := want, fi_requestCode := requestCode\<rparr>
      in (cb\<lparr>fic_info := info\<rparr>, snd (NotifyCompleteFreeInstall env info (fic_taskId cb) resultCode s)))"

definition NotifyCompleteFreeInstallFromRemote :: "env \<Rightarrow> int \<Rightarrow> int \<Rightarrow> sched \<Rightarrow> int \<times> sched" where
  "NotifyCompleteFreeInstallFromRemote env taskId resultCode s =
     (case (dmsCallbackTask s, dschedContinuation s) of
        (Some t, Some c) \<Rightarrow>
          (let launchType = GetLaunchType taskId t;
               (item, h, t1) = task_PopCallback taskId (history s) t;
               s1 = s\<lparr>history := h, dmsCallbackTask := Some t1\<rparr>
           in if launchType = FREEINSTALL_START then
                (let (result, h') = NotifyFreeInstallResult env item resultCode (history s1)
                 in (result, s1\<lparr>history := h'\<rparr>))
              else if resultCode = ERR_OK then
                (ERR_OK, s1\<lparr>dmsCallbackTask := Some (PopContinuationMissionMap taskId t1)\<rparr>)
              else
                let missionId = sint (word_of_int (GetContinuaionMissionId taskId t1) :: int32);
                    s2 = NotifyContinuationCallbackResult env missionId CONTINUE_FREE_INSTALL_FAILED s1
                in (ERR_OK, s2\<lparr>dmsCallbackTask := Some (PopContinuationMissionMap taskId t1)\<rparr>))
      | _ \<Rightarrow> (INVALID_REMOTE_PARAMETERS_ERR, s))"

text \<open>The timeout of a free install, installed by \<open>OnStart\<close>.\<close>

definition free_install_timed_out :: "env \<Rightarrow> int \<Rightarrow> sched \<Rightarrow> sched" where
  "free_install_timed_out env taskId s =
     snd (NotifyCompleteFreeInstallFromRemote env taskId (free_install_timeout env) s)"

section \<open>Migrating a mission\<close>

text \<open>\<open>PushCallback\<close> and \<open>PopCallback\<close> on the table of the service, results ignored.\<close>

definition push_continuation :: "int \<Rightarrow> ptr \<Rightarrow> string \<Rightarrow> bool \<Rightarrow> sched \<Rightarrow> sched" where
  "push_continuation missionId callback dev isFreeInstall s =
     (case dschedContinuation s of
        None \<Rightarrow> s
      | Some c \<Rightarrow> s\<lparr>dschedContinuation := Some (snd (cont_PushCallback missionId callback dev isFreeInstall c))\<rparr>)"

definition pop_continuation :: "int \<Rightarrow> sched \<Rightarrow> sched" where
  "pop_continuation missionId s =
     (case dschedContinuation s of
        None \<Rightarrow> s
      | Some c \<Rightarrow> s\<lparr>dschedContinuation := Some (snd (cont_PopCallback missionId c))\<rparr>)"

definition ContinueLocalMission ::
  "env \<Rightarrow> string \<Rightarrow> int \<Rightarrow> ptr \<Rightarrow> (string, want_param) stdmap \<Rightarrow> sched \<Rightarrow> int \<times> sched" where
  "ContinueLocalMission env dstDeviceId missionId callback params s =
     (case dschedContinuation s of
        None \<Rightarrow> (INVALID_PARAMETERS_ERR, s)
      | Some c \<Rightarrow>
          if IsInContinuationProgress missionId c then (INVALID_PARAMETERS_ERR, s)
          else (case mission_want env (history s) missionId of
            None \<Rightarrow> (INVALID_PARAMETERS_ERR, s)
          | Some missionWant \<Rightarrow>
              (let bundleName = el_bundleName (want_element missionWant);
                   want = missionWant\<lparr>want_params := params\<rparr>
               in case CheckRemoteBundleInfoForContinuation env (history s) dstDeviceId bundleName of
                    Inr remoteBundleVersion \<Rightarrow>
                      (let s1 = push_continuation missionId callback dstDeviceId False s;
                           s2 = SetContinuationTimeout missionId CONTINUATION_TIMEOUT s1
                       in call_ams env (AmsContinueAbility dstDeviceId missionId remoteBundleVersion) s2)
                  | Inl result \<Rightarrow>
                      if result = CONTINUE_REMOTE_UNINSTALLED_UNSUPPORT_FREEINSTALL then (result, s)
                      else if \<not> GetBoolParam want ''isFreeInstall'' False
                      then (CONTINUE_REMOTE_UNINSTALLED_SUPPORT_FREEINSTALL, s)
                      else
                        let s1 = push_continuation missionId callback dstDeviceId True s;
                            s2 = SetContinuationTimeout missionId CHECK_REMOTE_INSTALL_ABILITY s1;
                            want' = want\<lparr>want_element := (want_element want)\<lparr>el_deviceId := dstDeviceId\<rparr>\<rparr>;
                            (can, h) = CheckIfRemoteCanInstall env (history s2) want' missionId;
                            s3 = s2\<lparr>history := h\<rparr>
                        in if can then (ERR_OK, s3)
                           else (INVALID_PARAMETERS_ERR,
                                 pop_continuation missionId (RemoveContinuationTimeout missionId s3)))))"

definition ContinueRemoteMission ::
  "env \<Rightarrow> string \<Rightarrow> string \<Rightarrow> int \<Rightarrow> ptr \<Rightarrow> (string, want_param) stdmap \<Rightarrow> sched \<Rightarrow> int \<times> sched" where
  "ContinueRemoteMission env srcDeviceId dstDeviceId missionId callback params s =
     (if \<not> GetRemoteDms env srcDeviceId s then (INVALID_REMOTE_PARAMETERS_ERR, s)
      else call_rpc env srcDeviceId (RpcContinueMission srcDeviceId dstDeviceId missionId callback params) s)"

definition ContinueMission ::
  "env \<Rightarrow> string \<Rightarrow> string \<Rightarrow> int \<Rightarrow> ptr \<Rightarrow> (string, want_param) stdmap \<Rightarrow> sched \<Rightarrow> int \<times> sched" where
  "ContinueMission env srcDeviceId dstDeviceId missionId callback params s =
     (if srcDeviceId = [] \<or> dstDeviceId = [] \<or> callback = nullptr then (INVALID_PARAMETERS_ERR, s)
      else (case GetLocalDeviceId env s of
              None \<Rightarrow> (INVALID_PARAMETERS_ERR, s)
            | Some localDevId \<Rightarrow>
                if srcDeviceId = localDevId then ContinueLocalMission env dstDeviceId missionId callback params s
                else if dstDeviceId = localDevId
                then ContinueRemoteMission env srcDeviceId dstDeviceId missionId callback params s
                else (INVALID_PARAMETERS_ERR, s)))"

definition SetWantForContinuation :: "env \<Rightarrow> Want \<Rightarrow> int \<Rightarrow> sched \<Rightarrow> int + Want" where
  "SetWantForContinuation env want missionId s =
     (case GetLocalDeviceId env s of
        None \<Rightarrow> Inl INVALID_REMOTE_PARAMETERS_ERR
      | Some devId \<Rightarrow>
          (let want1 = SetParam ''deviceId'' (WString devId) (SetParam ''sessionId'' (WInt missionId) want)
           in case GetLocalBundleInfo env (history s) (el_bundleName (want_element want1)) of
                Inl e \<Rightarrow> Inl INVALID_PARAMETERS_ERR
              | Inr b \<Rightarrow> Inr (SetParam VERSION_CODE_KEY (WInt (sint (of_nat (bi_versionCode b) :: int32))) want1)))"

definition StartContinuation :: "env \<Rightarrow> Want \<Rightarrow> int \<Rightarrow> int \<Rightarrow> int \<Rightarrow> nat \<Rightarrow> sched \<Rightarrow> int \<times> sched" where
  "StartContinuation env want missionId callerUid status token s =
     (if status \<noteq> ERR_OK
      then (INVALID_REMOTE_PARAMETERS_ERR, NotifyContinuationCallbackResult env missionId status s)
      else if and (want_flags want) (flag_continuation env) = 0 then (INVALID_REMOTE_PARAMETERS_ERR, s)
      else (case dschedContinuation s of
        None \<Rightarrow> (INVALID_REMOTE_PARAMETERS_ERR, s)
      | Some c \<Rightarrow>
          (let s1 = (if IsInContinuationProgress missionId c then s
                     else s\<lparr>history := SetTimeOut missionId CONTINUATION_TIMEOUT (history s) c\<rparr>)
           in case SetWantForContinuation env want missionId s1 of
                Inl result \<Rightarrow> (result, s1)
              | Inr newWant \<Rightarrow>
                  if IsFreeInstall missionId c
                  then StartRemoteFreeInstall env newWant callerUid DEFAULT_REQUEST_CODE token nullptr s1
                  else StartRemoteAbility env newWant callerUid DEFAULT_REQUEST_CODE token s1)))"

end
