(* ===== verification/SchedProps.thy ===== *)
theory SchedProps
  imports SchedTables
begin

text \<open>
  The connect and call managers as one machine over their requests, and the properties of
  the service: how many connections a user holds, what stays connected when a device goes
  offline or an application dies, and which calls each operation makes.
\<close>

section \<open>Requests\<close>

datatype sched_req =
    ReqConnect Want ptr int int nat
  | ReqDisconnect ptr
  | ReqConnectFromRemote Want ptr CallerInfo AccountInfo
  | ReqDisconnectFromRemote ptr string
  | ReqProcessDiedFromRemote CallerInfo
  | ReqDeviceOffline string
  | ReqConnectDied ptr
  | ReqStartByCall Want ptr int int nat
  | ReqRelease ptr ElementName
  | ReqStartByCallFromRemote Want ptr CallerInfo AccountInfo
  | ReqReleaseFromRemote ptr ElementName CallerInfo
  | ReqCallerDied ptr int
  | ReqCalleeDied ptr
  | ReqRegisterListener ptr
  | ReqComponentTask

text \<open>\<open>None\<close>: the behaviour of the code is undefined.\<close>

fun sched_exec :: "env \<Rightarrow> sched_req \<Rightarrow> sched \<Rightarrow> sched option" where
  "sched_exec env (ReqConnect w c u p t) s = Some (snd (ConnectRemoteAbility env w c u p t s))"
| "sched_exec env (ReqDisconnect c) s = Some (snd (DisconnectRemoteAbility env c s))"
| "sched_exec env (ReqConnectFromRemote w c caller account) s =
     map_option snd (ConnectAbilityFromRemote env w c caller account s)"
| "sched_exec env (ReqDisconnectFromRemote c source) s =
     Some (snd (DisconnectAbilityFromRemote env c source s))"
| "sched_exec env (ReqProcessDiedFromRemote caller) s = Some (snd (NotifyProcessDiedFromRemote env caller s))"
| "sched_exec env (ReqDeviceOffline dev) s = Some (ProcessDeviceOffline env dev s)"
| "sched_exec env (ReqConnectDied c) s = Some (ProcessConnectDied env c s)"
| "sched_exec env (ReqStartByCall w c u p t) s = Some (snd (StartRemoteAbilityByCall env w c u p t s))"
| "sched_exec env (ReqRelease c el) s = Some (snd (ReleaseRemoteAbility env c el s))"
| "sched_exec env (ReqStartByCallFromRemote w c caller account) s =
     Some (snd (StartAbilityByCallFromRemote env w c caller account s))"
| "sched_exec env (ReqReleaseFromRemote c el caller) s =
     Some (snd (ReleaseAbilityFromRemote env c el caller s))"
| "sched_exec env (ReqCallerDied c ty) s = Some (ProcessCallerDied env c ty s)"
| "sched_exec env (ReqCalleeDied c) s = Some (ProcessCalleeDied env c s)"
| "sched_exec env (ReqRegisterListener l) s = Some (snd (RegisterDistributedComponentListener l s))"
| "sched_exec env ReqComponentTask s = Some (run_component_task env s)"

definition sched_step :: "env \<Rightarrow> sched option \<Rightarrow> sched_req \<Rightarrow> sched option" where
  "sched_step env st r = (case st of None \<Rightarrow> None | Some s \<Rightarrow> sched_exec env r s)"

text \<open>An object is presented for connecting only by the user \<open>owner\<close> says it belongs to.\<close>

fun presented :: "(robj \<Rightarrow> int) \<Rightarrow> sched_req \<Rightarrow> bool" where
  "presented owner (ReqConnect w (Some c) u p t) = (u = owner c)"
| "presented owner r = True"

text \<open>The service invariant, which undefined behaviour ends.\<close>

definition opt_conn_inv :: "(robj \<Rightarrow> int) \<Rightarrow> sched option \<Rightarrow> bool" where
  "opt_conn_inv owner st = (case st of None \<Rightarrow> True | Some s \<Rightarrow> conn_inv owner s)"

definition opt_call_inv :: "sched option \<Rightarrow> bool" where
  "opt_call_inv st = (case st of None \<Rightarrow> True | Some s \<Rightarrow> call_inv s)"

lemma sched_exec_inv:
  assumes "conn_inv owner s" "presented owner r"
  shows "opt_conn_inv owner (sched_exec env r s)"
proof (cases r)
  case (ReqConnect w c u p t)
  with assms show ?thesis by (cases c) (auto simp: opt_conn_inv_def intro!: ConnectRemoteAbility_inv)
next
  case (ReqConnectFromRemote w c caller account)
  with assms(1) show ?thesis
    using ConnectAbilityFromRemote_links [of env w c caller account s]
    by (cases "ConnectAbilityFromRemote env w c caller account s") (auto simp: opt_conn_inv_def intro: same_links_inv)
qed (simp_all add: opt_conn_inv_def assms(1) DisconnectRemoteAbility_inv ProcessDeviceOffline_inv
    ProcessConnectDied_inv
    same_links_inv [OF DisconnectAbilityFromRemote_links] same_links_inv [OF NotifyProcessDiedFromRemote_links]
    same_links_inv [OF StartRemoteAbilityByCall_links] same_links_inv [OF ReleaseRemoteAbility_links]
    same_links_inv [OF callee_side_links(1)] same_links_inv [OF callee_side_links(2)]
    same_links_inv [OF callee_side_links(3)] same_links_inv [OF ProcessCallerDied_links]
    same_links_inv [OF component_links(1)] same_links_inv [OF component_links(2)])

lemma sched_exec_call_inv: "call_inv s \<Longrightarrow> opt_call_inv (sched_exec env r s)"
proof (cases r)
  case (ReqConnectFromRemote w c caller account)
  moreover assume "call_inv s"
  ultimately show ?thesis
    using ConnectAbilityFromRemote_call_inv [of env w c caller account s]
    by (cases "ConnectAbilityFromRemote env w c caller account s") (auto simp: opt_call_inv_def)
qed (simp_all add: opt_call_inv_def DisconnectAbilityFromRemote_call_inv NotifyProcessDiedFromRemote_call_inv
    StartRemoteAbilityByCall_call_inv ReleaseRemoteAbility_call_inv callee_side_call_inv
    ProcessCallerDied_call_inv ProcessDeviceOffline_call_inv
    same_calls_inv [OF ConnectRemoteAbility_calls] same_calls_inv [OF DisconnectRemoteAbility_calls]
    same_calls_inv [OF ProcessConnectDied_calls] same_calls_inv [OF component_calls(1)]
    same_calls_inv [OF component_calls(2)])

lemma opt_inv_Some [simp]:
  "opt_conn_inv owner (Some s) = conn_inv owner s" "opt_call_inv (Some s) = call_inv s"
  "opt_conn_inv owner None" "opt_call_inv None"
  by (simp_all add: opt_conn_inv_def opt_call_inv_def)

lemma sched_step_simps [simp]:
  "sched_step env (Some s) r = sched_exec env r s" "sched_step env None r = None"
  by (simp_all add: sched_step_def)

interpretation sched_m: guarded_machine "sched_step env" "opt_conn_inv owner" "presented owner" for env owner
proof unfold_locales
  fix st r
  assume "opt_conn_inv owner st" "presented owner r"
  then show "opt_conn_inv owner (sched_step env st r)" by (cases st) (simp_all add: sched_exec_inv)
qed

interpretation calls_m: machine "sched_step env" "\<lambda>st. st = Some initial_sched" opt_call_inv for env
proof unfold_locales
  fix st r
  assume "opt_call_inv st"
  then show "opt_call_inv (sched_step env st r)" by (cases st) (simp_all add: sched_exec_call_inv)
qed (simp add: call_inv_def initial_sched_def)

lemma initial_conn_inv: "conn_inv owner initial_sched"
  by (simp add: conn_bound_def initial_sched_def tracks_def)

lemma reached_inv:
  assumes "run (sched_step env) (Some initial_sched) rs = Some s"
  shows "call_inv s" "list_all (presented owner) rs \<Longrightarrow> conn_inv owner s"
  using calls_m.reachable_inv [of "Some initial_sched" env rs]
    sched_m.run_allowed_inv [of owner "Some initial_sched" rs env] assms initial_conn_inv [of owner]
  by simp_all

section \<open>Counting\<close>

text \<open>
  C8: In every reachable state of the service, if each connection object is presented by
  one user only, the counter of a user is exactly the number of connection objects of that
  user in the connection table (no entry when there is none), never more than 600; and every
  object in the table has a session, at most one per device, all of that user.
\<close>

theorem connections_counted:
  assumes "list_all (presented owner) rs"
    and "run (sched_step env) (Some initial_sched) rs = Some s"
  shows "(let n = links owner (distributedConnectAbilityMap s) u
      in map_find u (trackingUidMap s) = (if n = 0 then None else Some (of_nat n)) \<and> n \<le> 600) \<and>
    (map_find c (distributedConnectAbilityMap s) = Some ss \<longrightarrow>
      ss \<noteq> [] \<and> distinct (devices ss) \<and> (\<forall>x \<in> set ss. uid (ses_callerInfo x) = owner c))"
proof -
  have "conn_inv owner s" by (rule reached_inv(2) [OF assms(2,1)])
  then have "tracks 600 (trackingUidMap s) (links owner (distributedConnectAbilityMap s))"
    "table_ok owner (distributedConnectAbilityMap s)"
    by (auto simp: conn_bound_def)
  with table_ok_find show ?thesis by (auto simp: tracks_def Let_def sessions_ok_def)
qed

definition sample_want :: "string \<Rightarrow> Want" where
  "sample_want d = \<lparr>want_element = \<lparr>el_deviceId = d, el_bundleName = ''b'', el_abilityName = ''a'',
     el_moduleName = []\<rparr>, want_flags = 0, want_params = []\<rparr>"

text \<open>Connecting one object to two devices and then disconnecting it.\<close>

definition sample_reqs :: "sched_req list" where
  "sample_reqs = [ReqConnect (sample_want ''B'') (Some (Proxy 1)) 5 7 0,
     ReqConnect (sample_want ''C'') (Some (Proxy 1)) 5 7 0]"

definition sample_sched :: sched where
  "sample_sched = the (run (sched_step sample_env) (Some initial_sched) sample_reqs)"

lemmas connect_defs = ConnectRemoteAbility_def TryConnectRemoteAbility_def connect_loop.simps numeral_3_eq_3
  BIND_CONNECT_RETRY_TIMES_def BIND_CONNECT_TIMEOUT_def CheckDistributedConnectLocked_def
  MAX_DISTRIBUTED_CONNECT_NUM_def
  GetLocalDeviceId_def CheckDeviceId_def GetRemoteDms_def caller_with_bundles_def
  RemoteConnectAbilityMappingLocked_def count_up_def ReportCaller_def

lemmas account_defs = GetAccountInfo_def GetRelatedGroups_def GetRelatedGroupsString_def ParseGroupInfos_def
  GetCallerAppIdFromBms_def GetBundleNameListFromBms_def GetAppIdOfBundle_def active_id_def

lemma sample_run:
  "run (sched_step sample_env) (Some initial_sched) sample_reqs = Some sample_sched"
  "distributedConnectAbilityMap sample_sched =
     [(Proxy 1, [AddElement sample_env (want_element (sample_want ''B''))
        (new_session ''A'' ''B'' (default_CallerInfo\<lparr>uid := 5, pid := 7, callerType := 1, sourceDeviceId := ''A'',
           callerAppId := ''app'', bundleNames := [''b'']\<rparr>) HARMONY_COMPONENT),
        AddElement sample_env (want_element (sample_want ''C''))
        (new_session ''A'' ''C'' (default_CallerInfo\<lparr>uid := 5, pid := 7, callerType := 1, sourceDeviceId := ''A'',
           callerAppId := ''app'', bundleNames := [''b'']\<rparr>) HARMONY_COMPONENT)])]"
  "trackingUidMap sample_sched = [(5, 1)]"
  by (simp_all add: sample_sched_def sample_reqs_def connect_defs account_defs sample_want_def sample_env_def
      initial_sched_def default_CallerInfo_def CALLER_TYPE_HARMONY_def call_eq err_defs log_ext_def Let_def
      default_AccountInfo_def word_le_nat_alt)

theorem connections_counted_witness:
  "map_find 5 (trackingUidMap sample_sched) = Some 1 \<and>
   links (\<lambda>c. 5) (distributedConnectAbilityMap sample_sched) 5 = 1 \<and>
   (\<exists>ss. map_find (Proxy 1) (distributedConnectAbilityMap sample_sched) = Some ss \<and> devices ss = [''B'', ''C''])"
proof -
  have "list_all (presented (\<lambda>c. 5)) sample_reqs" by (simp add: sample_reqs_def)
  from connections_counted [OF this sample_run(1), of 5 "Proxy 1" "[]"]
  show ?thesis by (simp add: sample_run(2,3) Let_def)
qed

section \<open>Devices and links\<close>

lemma offline_links:
  assumes "conn_inv owner s" and "call_inv s"
  shows "(let s' = ProcessDeviceOffline env dev s
      in if offline_applies env dev s then
           device_links (distributedConnectAbilityMap s') =
             device_links (distributedConnectAbilityMap s) - UNIV \<times> {dev} \<and>
           device_links (callerMap s') = device_links (callerMap s) - UNIV \<times> {dev} \<and>
           connectAbilityMap s' =
             filter (\<lambda>(c, i). sourceDeviceId (ci_callerInfo i) \<noteq> dev) (connectAbilityMap s) \<and>
           calleeMap s' = calleeMap s
         else s' = s)"
proof (cases "offline_applies env dev s")
  case True
  have inv: "table_ok owner (distributedConnectAbilityMap s)" and wf: "table_wf (callerMap s)"
    using assms by (auto simp: conn_bound_def call_inv_def)
  have "callerMap (ProcessDeviceOffline env dev s) = without_device dev (callerMap s)"
    using True offline_callers_fst [OF wf]
    by (auto simp: ProcessDeviceOffline_def ProcessCalleeOffline_def offline_applies_def Let_def split_beta
        offline_callees_frame offline_connects_frame split: option.splits)
  with True show ?thesis
    by (simp add: Let_def ProcessDeviceOffline_tables [OF True inv] device_links_without wf table_ok_wf [OF inv])
qed (simp add: ProcessDeviceOffline_skip)



section \<open>The connection table as a set of links\<close>

lemma connect_loop_links:
  assumes "connect_loop env n r want c caller account dev s = (r', s')" "r \<noteq> ERR_OK"
  shows "device_links (distributedConnectAbilityMap s') =
    (if r' = ERR_OK then insert (c, dev) (device_links (distributedConnectAbilityMap s))
     else device_links (distributedConnectAbilityMap s))"
  using assms
proof (induction n arbitrary: r s)
  case (Suc n)
  let ?e = "Rpc dev (RpcConnectAbility want c caller account)"
  show ?case
  proof (cases "rpc_result env (history s) dev (RpcConnectAbility want c caller account) = ERR_OK")
    case True
    with Suc.prems(1) show ?thesis by (auto simp: call_eq Mapping_tables device_links_add)
  next
    case False
    with Suc.prems(1) Suc.IH [OF _ False, of "log_ext [?e] s"] show ?thesis
      by (auto simp: call_eq split: if_splits)
  qed
qed auto

lemma ConnectRemoteAbility_links:
  assumes "ConnectRemoteAbility env want (Some c) u p tok s = (r, s')"
  shows "device_links (distributedConnectAbilityMap s') =
    (if r = ERR_OK then insert (c, el_deviceId (want_element want)) (device_links (distributedConnectAbilityMap s))
     else device_links (distributedConnectAbilityMap s))"
proof -
  have "REMOTE_DEVICE_BIND_ABILITY_ERR \<noteq> ERR_OK" by (simp add: err_defs)
  note loop = connect_loop_links [OF _ this]
  have no: "INVALID_PARAMETERS_ERR \<noteq> ERR_OK" by (simp add: err_defs)
  show ?thesis using assms no
    by (auto simp: ConnectRemoteAbility_def TryConnectRemoteAbility_def Let_def
        split: option.splits if_splits prod.splits dest: loop)
qed

lemma DisconnectRemoteAbility_table:
  "distributedConnectAbilityMap (snd (DisconnectRemoteAbility env (Some c) s)) =
     map_erase c (distributedConnectAbilityMap s)"
  by (auto simp: DisconnectRemoteAbility_def Let_def DecreaseConnectLocked_dec dest: map_find_None_iff [THEN iffD1]
      split: option.split)

text \<open>
  C18: The connection table refines a set of links between objects and devices. Connecting
  adds the link to the wanted device exactly when the operation succeeds, and changes no
  link otherwise; disconnecting an object removes all its links and no other.
\<close>

theorem connect_refines_links:
  "(let (r, s') = ConnectRemoteAbility env want (Some c) u p tok s
    in device_links (distributedConnectAbilityMap s') =
         device_links (distributedConnectAbilityMap s) \<union>
         (if r = ERR_OK then {(c, el_deviceId (want_element want))} else {})) \<and>
   (let s' = snd (DisconnectRemoteAbility env (Some c) s)
    in device_links (distributedConnectAbilityMap s') =
         {(c', d) \<in> device_links (distributedConnectAbilityMap s). c' \<noteq> c})"
  using ConnectRemoteAbility_links [of env want c u p tok s]
  by (auto simp: Let_def DisconnectRemoteAbility_table device_links_erase split: prod.split)

end
