(* ===== verification/SchedEffects.thy ===== *)
theory SchedEffects
  imports SchedProps
begin

text \<open>
  The calls the operations of the service make: the requests to other devices, read off the
  history, and the requests to the ability manager.
\<close>

fun rpc_of :: "ext \<Rightarrow> (string \<times> rpc) option" where
  "rpc_of (Rpc d r) = Some (d, r)"
| "rpc_of x = None"

definition rpc_calls :: "hist \<Rightarrow> (string \<times> rpc) list" where
  "rpc_calls h = List.map_filter rpc_of h"

lemma rpc_calls_simps [simp]:
  "rpc_calls [] = []" "rpc_calls (h @ h') = rpc_calls h @ rpc_calls h'"
  "rpc_calls (x # h) = (case rpc_of x of None \<Rightarrow> rpc_calls h | Some r \<Rightarrow> r # rpc_calls h)"
  by (simp_all add: rpc_calls_def map_filter_def split: option.split)

lemma report_rpc [simp]:
  "rpc_calls (history (ReportCaller env c ch co de s)) = rpc_calls (history s)"
  "rpc_calls (history (ReportCallee env i ch co de s)) = rpc_calls (history s)"
  by (simp_all add: ReportCaller_def ReportCallee_def HandleDistributedComponentChange_def Let_def)

lemma Decrease_history [simp]: "history (DecreaseConnectLocked u s) = history s"
  by (simp add: DecreaseConnectLocked_dec)

lemma Mapping_rpc [simp]:
  "rpc_calls (history (RemoteConnectAbilityMappingLocked env c src dst e caller tc s)) = rpc_calls (history s)"
  by (auto simp: RemoteConnectAbilityMappingLocked_def Let_def split: option.split)

section \<open>Connecting\<close>

lemma connect_loop_rpc:
  assumes "connect_loop env n r want c caller account dev s = (r', s')"
  shows "\<exists>k \<le> n. rpc_calls (history s') = rpc_calls (history s) @
      replicate k (dev, RpcConnectAbility want c caller account) \<and> (k = 0 \<longrightarrow> n = 0)"
  using assms
proof (induction n arbitrary: r s)
  case (Suc n)
  let ?e = "Rpc dev (RpcConnectAbility want c caller account)"
  let ?r = "rpc_result env (history s) dev (RpcConnectAbility want c caller account)"
  show ?case
  proof (cases "connect_loop env n ?r want c caller account dev (log_ext [?e] s) = (r', s')")
    case True
    from Suc.IH [OF this] obtain k where "k \<le> n" "rpc_calls (history s') =
        rpc_calls (history s) @ replicate (Suc k) (dev, RpcConnectAbility want c caller account)"
      by auto
    then show ?thesis by (intro exI [of _ "Suc k"]) simp
  next
    case False
    with Suc.prems have "rpc_calls (history s') =
        rpc_calls (history s) @ [(dev, RpcConnectAbility want c caller account)]"
      by (auto simp: call_eq Let_def split: if_splits)
    then show ?thesis by (intro exI [of _ 1]) simp
  qed
qed simp

text \<open>The requests to the connection's device that one connect operation may send.\<close>

definition connect_requests ::
  "Want \<Rightarrow> ptr \<Rightarrow> int \<Rightarrow> int \<Rightarrow> (string \<times> rpc) set" where
  "connect_requests want connect u p =
     {(el_deviceId (want_element want), RpcConnectAbility want c caller account) | c caller account.
        connect = Some c \<and> uid caller = u \<and> pid caller = p}"

lemma caller_uid_pid:
  "caller_with_bundles env h (default_CallerInfo\<lparr>uid := u, pid := p, callerType := ty, sourceDeviceId := l,
     accessToken := tok\<rparr>) = Some caller \<Longrightarrow> uid caller = u \<and> pid caller = p"
  by (auto dest!: caller_with_bundles_uid)

text \<open>
  Connecting sends at most three requests, all the same connect request of this caller
  to the device the want names, and at least one when it succeeds; a caller without a user
  or with 600 connections sends nothing and changes nothing.
\<close>

lemma connect_sends_at_most_three:
  assumes "ConnectRemoteAbility env want connect u p tok s = (r, s')"
  shows "(\<exists>k \<le> 3. \<exists>req. rpc_calls (history s') = rpc_calls (history s) @ replicate k req \<and>
      (0 < k \<longrightarrow> req \<in> connect_requests want connect u p) \<and> (r = ERR_OK \<longrightarrow> 0 < k)) \<and>
    ((u < 0 \<or> (\<exists>n \<ge> 600. map_find u (trackingUidMap s) = Some n)) \<longrightarrow> s' = s \<and> r \<noteq> ERR_OK)"
proof
  let ?P = "\<exists>k \<le> 3. \<exists>req. rpc_calls (history s') = rpc_calls (history s) @ replicate k req \<and>
      (0 < k \<longrightarrow> req \<in> connect_requests want connect u p) \<and> (r = ERR_OK \<longrightarrow> 0 < k)"
  have loop: ?P
    if "connect_loop env BIND_CONNECT_RETRY_TIMES e want c caller account (el_deviceId (want_element want)) s = (r, s')"
      "connect = Some c" "uid caller = u" "pid caller = p" for e c caller account
    using connect_loop_rpc [OF that(1)] that(2-) unfolding connect_requests_def
    by (fastforce simp: BIND_CONNECT_RETRY_TIMES_def)
  have stay: ?P if "r \<noteq> ERR_OK" "s' = s"
    using that by (intro exI [of _ 0]) simp
  have no: "INVALID_PARAMETERS_ERR \<noteq> ERR_OK" by (simp add: err_defs)
  have "(r \<noteq> ERR_OK \<and> s' = s) \<or> (\<exists>e c caller account. connect = Some c \<and> uid caller = u \<and> pid caller = p \<and>
      connect_loop env BIND_CONNECT_RETRY_TIMES e want c caller account (el_deviceId (want_element want)) s = (r, s'))"
    using assms no
    by (auto simp: ConnectRemoteAbility_def TryConnectRemoteAbility_def Let_def
        split: option.splits if_splits prod.splits dest!: caller_uid_pid)
  then show ?P using loop stay by blast
  have "INVALID_PARAMETERS_ERR \<noteq> ERR_OK" "BIND_ABILITY_LEAK_ERR \<noteq> ERR_OK" "BIND_ABILITY_UID_INVALID_ERR \<noteq> ERR_OK"
    by (simp_all add: err_defs)
  then show "(u < 0 \<or> (\<exists>n \<ge> 600. map_find u (trackingUidMap s) = Some n)) \<longrightarrow> s' = s \<and> r \<noteq> ERR_OK"
    using assms
    by (auto simp: ConnectRemoteAbility_def CheckDistributedConnectLocked_def MAX_DISTRIBUTED_CONNECT_NUM_def Let_def
        split: option.splits if_splits)
qed

lemma connect_sends_at_most_three_sample:
  "\<exists>k \<le> 3. 0 < k \<and> (\<exists>req \<in> connect_requests (sample_want ''B'') (Some (Proxy 1)) 5 7.
     rpc_calls (history (snd (ConnectRemoteAbility sample_env (sample_want ''B'') (Some (Proxy 1)) 5 7 0 initial_sched)))
       = replicate k req)"
proof -
  have ok: "fst (ConnectRemoteAbility sample_env (sample_want ''B'') (Some (Proxy 1)) 5 7 0 initial_sched) = ERR_OK"
    by (simp add: connect_defs account_defs sample_want_def sample_env_def
      initial_sched_def default_CallerInfo_def CALLER_TYPE_HARMONY_def call_eq err_defs log_ext_def Let_def
      default_AccountInfo_def word_le_nat_alt)
  have "history initial_sched = []" by (simp add: initial_sched_def)
  with connect_sends_at_most_three [OF prod.collapse [symmetric], of sample_env "sample_want ''B''" "Some (Proxy 1)"
      5 7 0 initial_sched] ok
  show ?thesis by auto
qed

section \<open>Disconnecting\<close>

lemma target_component [simp]: "ses_targetComponent x = HARMONY_COMPONENT"
  by (cases "ses_targetComponent x") simp

text \<open>Which devices can be reached, when that does not change during an operation.\<close>

definition steady :: "env \<Rightarrow> (string \<Rightarrow> bool) \<Rightarrow> bool" where
  "steady env up = (\<forall>h d. d \<noteq> [] \<longrightarrow> remote_dms env h d = up d)"

lemma steady_dms: "steady env up \<Longrightarrow> GetRemoteDms env d s = (d \<noteq> [] \<and> up d)"
  by (auto simp: steady_def GetRemoteDms_def)

definition reachable_of :: "(string \<Rightarrow> bool) \<Rightarrow> string list \<Rightarrow> string list" where
  "reachable_of up ds = filter (\<lambda>d. d \<noteq> [] \<and> up d) ds"

lemma disconnect_sessions_rpc:
  assumes "steady env up"
  shows "\<exists>us. length us = length (reachable_of up (devices ss)) \<and>
    rpc_calls (history (disconnect_sessions env c ss s)) = rpc_calls (history s) @
      map (\<lambda>(d, u, l). (d, RpcDisconnectAbility c u l)) (zip (reachable_of up (devices ss)) us)"
proof (induction ss arbitrary: s)
  case (Cons x ss)
  let ?d = "ses_destinationDeviceId x"
  let ?u = "(calling_uid env (history s), ses_sourceDeviceId x)"
  let ?s = "snd (DisconnectEachRemoteAbilityLocked env (ses_sourceDeviceId x) ?d c s)"
  obtain us where us: "length us = length (reachable_of up (devices ss))"
    "rpc_calls (history (disconnect_sessions env c ss ?s)) = rpc_calls (history ?s) @
      map (\<lambda>(d, u, l). (d, RpcDisconnectAbility c u l)) (zip (reachable_of up (devices ss)) us)"
    using Cons.IH by blast
  show ?case
  proof (cases "?d \<noteq> [] \<and> up ?d")
    case True
    with us show ?thesis
      by (intro exI [of _ "?u # us"])
        (simp add: DisconnectEachRemoteAbilityLocked_def steady_dms [OF assms] call_eq reachable_of_def)
  next
    case False
    with us show ?thesis
      by (intro exI [of _ us])
        (auto simp: DisconnectEachRemoteAbilityLocked_def steady_dms [OF assms] reachable_of_def)
  qed
qed (simp add: reachable_of_def)

text \<open>
  Disconnecting an object that is connected succeeds and sends, in the order of its
  sessions, exactly one disconnect request for this object to each of its devices that can be reached;
  an unknown object is refused and nothing is sent or changed.
\<close>

lemma disconnect_tells_each_device:
  assumes "steady env up" "table_wf (distributedConnectAbilityMap s)"
  shows "case map_find c (distributedConnectAbilityMap s) of
      None \<Rightarrow> DisconnectRemoteAbility env (Some c) s = (NO_CONNECT_CALLBACK_ERR, s)
    | Some ss \<Rightarrow> \<exists>us s'. DisconnectRemoteAbility env (Some c) s = (ERR_OK, s') \<and>
        length us = length (reachable_of up (devices ss)) \<and>
        rpc_calls (history s') = rpc_calls (history s) @
          map (\<lambda>(d, u, l). (d, RpcDisconnectAbility c u l)) (zip (reachable_of up (devices ss)) us)"
proof (cases "map_find c (distributedConnectAbilityMap s)")
  case (Some ss)
  let ?s4 = "(ReportCaller env (ses_callerInfo (hd ss)) DISTRIBUTED_COMPONENT_REMOVE CONNECT CALLER
      (log_ext [RemoveDeathRecipientFrom c ConnectRecipient] (DecreaseConnectLocked (GetUidLocked ss) s)))
      \<lparr>distributedConnectAbilityMap := map_erase c (distributedConnectAbilityMap s)\<rparr>"
  have "ss \<noteq> []" using table_wf_find [OF assms(2) Some] by blast
  then have "DisconnectRemoteAbility env (Some c) s = (ERR_OK, disconnect_sessions env c ss ?s4)"
    using Some by (simp add: DisconnectRemoteAbility_def Let_def DecreaseConnectLocked_dec)
  with Some disconnect_sessions_rpc [OF assms(1), of ss c ?s4] show ?thesis by auto
next
  case None
  then show ?thesis by (simp add: DisconnectRemoteAbility_def)
qed

lemma steady_sample [simp]: "steady sample_env (\<lambda>d. True)"
  by (simp add: steady_def sample_env_def)

lemma sample_wf: "table_wf (distributedConnectAbilityMap sample_sched)"
  by (simp add: sample_run(2) table_wf_Cons)

lemma disconnect_tells_each_device_sample:
  "map fst (rpc_calls (history (snd (DisconnectRemoteAbility sample_env (Some (Proxy 1)) sample_sched)))) =
     map fst (rpc_calls (history sample_sched)) @ [''B'', ''C'']"
proof -
  have ss: "reachable_of (\<lambda>d. True) (devices (snd (hd (distributedConnectAbilityMap sample_sched)))) = [''B'', ''C'']"
    "map_find (Proxy 1) (distributedConnectAbilityMap sample_sched) =
      Some (snd (hd (distributedConnectAbilityMap sample_sched)))"
    by (simp_all add: sample_run(2) reachable_of_def)
  have "map fst (map (\<lambda>(d, u, l). (d, RpcDisconnectAbility x u l)) (zip [''B'', ''C''] us)) = [''B'', ''C'']"
    if "length us = 2" for us x
    using that by (cases us; cases "tl us") auto
  with disconnect_tells_each_device [OF steady_sample sample_wf, of "Proxy 1"] ss show ?thesis
    by auto
qed

section \<open>Applications that die\<close>

text \<open>What the loop has collected: the devices \<open>ds\<close>, and the set of their keys.\<close>

definition collected :: "CallerInfo \<Rightarrow> string list \<Rightarrow> string list \<times> ProcessDiedNotifyInfo list \<Rightarrow> bool" where
  "collected caller ds acc =
     (distinct ds \<and> set (fst acc) = (\<lambda>d. d @ int_to_string 0) ` set ds \<and>
      snd acc = map (\<lambda>d. DiedInfo d caller HARMONY_COMPONENT) ds)"

lemma collect_notify_collected:
  "collected caller ds acc \<Longrightarrow>
   \<exists>ds'. collected caller ds' (collect_notify caller ss acc) \<and> set ds' = set ds \<union> set (devices ss)"
proof (induction ss arbitrary: ds acc)
  case (Cons x ss)
  obtain processed notify where acc: "acc = (processed, notify)" by (cases acc)
  let ?d = "ses_destinationDeviceId x" and ?key = "ses_destinationDeviceId x @ int_to_string 0"
  show ?case
  proof (cases "?key \<in> set processed")
    case True
    with Cons.prems have "?d \<in> set ds" by (auto simp: acc collected_def)
    with True Cons.IH [OF Cons.prems] show ?thesis by (auto simp: acc Let_def insert_absorb)
  next
    case False
    with Cons.prems have "collected caller (ds @ [?d])
        (set_emplace ?key processed, notify @ [DiedInfo ?d caller HARMONY_COMPONENT])"
      by (auto simp: acc collected_def)
    from Cons.IH [OF this] False show ?thesis by (auto simp: acc Let_def)
  qed
qed auto

lemma NotifyProcessDiedAll_rpc:
  assumes "steady env up"
  shows "rpc_calls (history (NotifyProcessDiedAll env (map (\<lambda>d. DiedInfo d caller HARMONY_COMPONENT) ds) s)) =
    rpc_calls (history s) @ map (\<lambda>d. (d, RpcProcessDied caller)) (reachable_of up ds)"
  unfolding NotifyProcessDiedAll_def
  by (induction ds arbitrary: s)
    (simp_all add: NotifyProcessDied_def steady_dms [OF assms] call_eq reachable_of_def)

lemma died_connects_rpc:
  "rpc_calls (history (snd (snd (died_connects env caller m acc s)))) = rpc_calls (history s)"
proof (induction m arbitrary: acc s)
  case (Cons e m)
  obtain c ss where e: "e = (c, ss)" by (cases e)
  show ?case by (simp add: e Cons.IH Let_def split_beta)
qed simp

lemma set_dying:
  "set (devices (dying caller m)) =
     {d. \<exists>(c, ss) \<in> set m. ss \<noteq> [] \<and> IsSameCaller caller (hd ss) \<and> d \<in> set (devices ss)}"
  by (induction m) (auto simp: dying_def devices_def)

lemma ProcessConnectDied_requests:
  assumes "steady env up"
    and "map_find c (distributedConnectAbilityMap s) = Some (x # xs)"
  shows "let m = distributedConnectAbilityMap s; caller = ses_callerInfo x; s' = ProcessConnectDied env (Some c) s
    in distributedConnectAbilityMap s' = filter (\<lambda>(c, ss). \<not> (ss \<noteq> [] \<and> IsSameCaller caller (hd ss))) m \<and>
       (\<exists>ds. distinct ds \<and>
          set ds = {d. \<exists>(c, ss) \<in> set m. ss \<noteq> [] \<and> IsSameCaller caller (hd ss) \<and> d \<in> set (devices ss)} \<and>
          rpc_calls (history s') =
            rpc_calls (history s) @ map (\<lambda>d. (d, RpcProcessDied caller)) (reachable_of up ds))"
proof -
  let ?m = "distributedConnectAbilityMap s" and ?caller = "ses_callerInfo x"
  let ?dc = "died_connects env ?caller ?m ([], []) s"
  have "collected ?caller [] ([], [])" by (simp add: collected_def)
  from collect_notify_collected [OF this, of "dying ?caller ?m"] obtain ds where
    ds: "collected ?caller ds (fst (snd ?dc))" "set ds = set (devices (dying ?caller ?m))"
    by (auto simp: died_connects_acc)
  have "set (devices (dying ?caller ?m)) =
      {d. \<exists>(c, ss) \<in> set ?m. ss \<noteq> [] \<and> IsSameCaller ?caller (hd ss) \<and> d \<in> set (devices ss)}"
    by (rule set_dying)
  moreover have "rpc_calls (history (ProcessConnectDied env (Some c) s)) =
      rpc_calls (history s) @ map (\<lambda>d. (d, RpcProcessDied ?caller)) (reachable_of up ds)"
    using assms(2) ds(1) died_connects_rpc [of env ?caller ?m "([], [])" s]
    by (auto simp: ProcessConnectDied_def collected_def NotifyProcessDiedAll_rpc [OF assms(1)] split: prod.split)
  ultimately show ?thesis using ds ProcessConnectDied_tables(1) [OF assms(2), of env]
    unfolding Let_def by (auto simp: collected_def other_callers_def)
qed

text \<open>
  C31: When an application whose object is connected dies, every object of the same caller
  leaves the connection table and no other; each device one of them was connected to and
  that can be reached is told exactly once, whatever the number of sessions, and no other
  request is sent.
\<close>

theorem connect_died_tells_each_device_once:
  assumes "steady env up"
    and "map_find c (distributedConnectAbilityMap s) = Some (x # xs)"
  shows "let m = distributedConnectAbilityMap s; caller = ses_callerInfo x; s' = ProcessConnectDied env (Some c) s
    in distributedConnectAbilityMap s' = filter (\<lambda>(c, ss). \<not> (ss \<noteq> [] \<and> IsSameCaller caller (hd ss))) m \<and>
       (\<exists>ds. distinct ds \<and>
          set ds = {d. \<exists>(c, ss) \<in> set m. ss \<noteq> [] \<and> IsSameCaller caller (hd ss) \<and> d \<in> set (devices ss)} \<and>
          rpc_calls (history s') =
            rpc_calls (history s) @ map (\<lambda>d. (d, RpcProcessDied caller)) (reachable_of up ds))"
  using assms by (rule ProcessConnectDied_requests)

theorem connect_died_tells_each_device_once_witness:
  "distributedConnectAbilityMap (ProcessConnectDied sample_env (Some (Proxy 1)) sample_sched) = [] \<and>
   set (map fst (drop (length (rpc_calls (history sample_sched)))
     (rpc_calls (history (ProcessConnectDied sample_env (Some (Proxy 1)) sample_sched))))) = {''B'', ''C''}"
proof -
  obtain x xs where m: "distributedConnectAbilityMap sample_sched = [(Proxy 1, x # xs)]"
    "devices (x # xs) = [''B'', ''C'']"
    by (simp add: sample_run(2))
  then have f: "map_find (Proxy 1) (distributedConnectAbilityMap sample_sched) = Some (x # xs)" by simp
  have same: "IsSameCaller (ses_callerInfo x) x" by (simp add: IsSameCaller_def)
  note t = connect_died_tells_each_device_once [OF steady_sample f]
  have t1: "distributedConnectAbilityMap (ProcessConnectDied sample_env (Some (Proxy 1)) sample_sched) = []"
    using t same by (simp add: Let_def m(1))
  from t obtain ds where ds: "set ds = {d. \<exists>(c, ss) \<in> set [(Proxy 1, x # xs)]. ss \<noteq> [] \<and>
      IsSameCaller (ses_callerInfo x) (hd ss) \<and> d \<in> set (devices ss)}"
    "rpc_calls (history (ProcessConnectDied sample_env (Some (Proxy 1)) sample_sched)) =
      rpc_calls (history sample_sched) @ map (\<lambda>d. (d, RpcProcessDied (ses_callerInfo x))) (reachable_of (\<lambda>d. True) ds)"
    unfolding Let_def m(1) by blast
  have "set ds = set (devices (x # xs))" unfolding ds(1) using same by (simp del: devices_simps)
  then have "set ds = {''B'', ''C''}" by (simp only: m(2) list.set)
  then have "set (reachable_of (\<lambda>d. True) ds) = {''B'', ''C''}" by (auto simp: reachable_of_def)
  with t1 show ?thesis by (simp add: ds(2) image_image del: One_nat_def)
qed

section \<open>Connections of a process of another device\<close>

fun ams_of :: "ext \<Rightarrow> ams option" where
  "ams_of (Ams a) = Some a"
| "ams_of x = None"

definition ams_calls :: "hist \<Rightarrow> ams list" where
  "ams_calls h = List.map_filter ams_of h"

lemma ams_calls_simps [simp]:
  "ams_calls [] = []" "ams_calls (h @ h') = ams_calls h @ ams_calls h'"
  "ams_calls (x # h) = (case ams_of x of None \<Rightarrow> ams_calls h | Some r \<Rightarrow> r # ams_calls h)"
  by (simp_all add: ams_calls_def map_filter_def split: option.split)

lemma report_ams [simp]:
  "ams_calls (history (ReportCaller env c ch co de s)) = ams_calls (history s)"
  "ams_calls (history (ReportCallee env i ch co de s)) = ams_calls (history s)"
  by (simp_all add: ReportCaller_def ReportCallee_def HandleDistributedComponentChange_def Let_def)

definition ams_up :: "env \<Rightarrow> bool" where
  "ams_up env = (\<forall>h. ams_result env h AmsConnect = ERR_OK)"

lemma died_loop_ams:
  assumes "ams_up env"
  shows "ams_calls (history (snd (snd (died_loop env caller m e s)))) = ams_calls (history s) @
    concat (map (\<lambda>(c, i). [AmsConnect, AmsDisconnectAbility (ci_callbackWrapper i)])
      (filter (\<lambda>(c, i). same_process caller i) m))"
  using assms
  by (induction env caller m e s rule: died_loop.induct)
    (auto simp: Let_def split_beta adapter_DisconnectAbility_def call_eq ams_up_def)

text \<open>
  When another device reports a dead process, exactly the connections of that process
  (same device, user, process and caller type) leave the table, and the ability manager is
  asked once per connection, in table order, to disconnect its wrapper.
\<close>

lemma process_died_disconnects_its_connections:
  assumes "ams_up env"
  shows "let s' = snd (NotifyProcessDiedFromRemote env caller s); m = connectAbilityMap s
    in connectAbilityMap s' = filter (\<lambda>(c, i). \<not> same_process caller i) m \<and>
       ams_calls (history s') = ams_calls (history s) @
         concat (map (\<lambda>(c, i). [AmsConnect, AmsDisconnectAbility (ci_callbackWrapper i)])
           (filter (\<lambda>(c, i). same_process caller i) m)) \<and>
       calleeMap s' = calleeMap s \<and> callerMap s' = callerMap s \<and>
       distributedConnectAbilityMap s' = distributedConnectAbilityMap s"
  using died_loop_ams [OF assms, of caller "connectAbilityMap s" ERR_OK s]
    died_loop_frame [of env caller "connectAbilityMap s" ERR_OK s]
  by (simp add: NotifyProcessDiedFromRemote_def split_beta Let_def died_loop_fst)

definition remote_info :: "string \<Rightarrow> nat \<Rightarrow> ConnectInfo" where
  "remote_info d w = \<lparr>ci_callerInfo = default_CallerInfo\<lparr>sourceDeviceId := d\<rparr>, ci_callbackWrapper = Local w,
     ci_element = empty_element\<rparr>"

definition two_connections :: sched where
  "two_connections = initial_sched\<lparr>connectAbilityMap :=
     [(Proxy 1, remote_info ''B'' 0), (Proxy 2, remote_info ''C'' 1)]\<rparr>"

lemma process_died_sample:
  "let s' = snd (NotifyProcessDiedFromRemote sample_env (default_CallerInfo\<lparr>sourceDeviceId := ''B''\<rparr>) two_connections)
   in map_keys (connectAbilityMap s') = {Proxy 2} \<and>
      ams_calls (history s') = [AmsConnect, AmsDisconnectAbility (Local 0)]"
proof -
  have "ams_up sample_env" by (simp add: ams_up_def sample_env_def err_defs)
  from process_died_disconnects_its_connections
    [OF this, of "default_CallerInfo\<lparr>sourceDeviceId := ''B''\<rparr>" two_connections]
  show ?thesis
    by (simp add: Let_def two_connections_def remote_info_def same_process_def default_CallerInfo_def
        initial_sched_def)
qed

end
