(* ===== verification/SchedRemote.thy ===== *)
theory SchedRemote
  imports SchedEffects
begin

text \<open>
  Requests of other devices to start and connect local abilities: when they are refused,
  when the behaviour of the code is undefined, and what is reported; the call side as links.
\<close>

section \<open>When a request of another device is granted\<close>

lemmas permission_defs = CheckDPermission_def may_start_def CheckAccountAccessPermission_def
  CheckComponentAccessPermission_def CheckCustomPermission_def list_ex_iff list_all_iff

definition permitted :: "env \<Rightarrow> sched \<Rightarrow> Want \<Rightarrow> CallerInfo \<Rightarrow> AccountInfo \<Rightarrow> bool \<Rightarrow> bool" where
  "permitted env s want caller account ext =
     (\<exists>l target. GetLocalDeviceId env s = Some l \<and> l \<noteq> [] \<and> el_deviceId (want_element want) = l \<and>
        sourceDeviceId caller \<noteq> [] \<and> sourceDeviceId caller \<noteq> l \<and>
        GetTargetAbility env (history s) want ext = Some target \<and>
        may_start env (history s) want caller account target)"

lemma permitted_check:
  "permitted env s want caller account ext \<longleftrightarrow>
   (\<exists>l. GetLocalDeviceId env s = Some l \<and>
      CheckDeviceIdFromRemote l (el_deviceId (want_element want)) (sourceDeviceId caller) \<and>
      CheckDPermission env (history s) want caller account l ext = ERR_OK)"
proof -
  have "CheckDPermission env (history s) want caller account l ext = ERR_OK \<longleftrightarrow>
     l \<noteq> [] \<and> (\<exists>target. GetTargetAbility env (history s) want ext = Some target \<and>
       may_start env (history s) want caller account target)" for l
    by (auto simp: permission_defs err_defs Let_def split: option.splits)
  then show ?thesis by (auto simp: permitted_def CheckDeviceIdFromRemote_def)
qed

definition callable :: "env \<Rightarrow> sched \<Rightarrow> Want \<Rightarrow> CallerInfo \<Rightarrow> AccountInfo \<Rightarrow> bool" where
  "callable env s want caller account =
     (permitted env s want caller account False \<and>
      GetAppIdOfBundle env (history s) (el_bundleName (want_element want)) = Some (callerAppId caller))"

lemma callable_check:
  "callable env s want caller account \<longleftrightarrow>
   (\<exists>l. GetLocalDeviceId env s = Some l \<and>
      CheckDeviceIdFromRemote l (el_deviceId (want_element want)) (sourceDeviceId caller) \<and>
      CheckGetCallerPermission env (history s) want caller account l = ERR_OK)"
  by (auto simp: callable_def permitted_check CheckGetCallerPermission_def err_defs Let_def split: option.splits)


definition remote_want :: Want where
  "remote_want = sample_want ''A''"

definition remote_caller :: "int \<Rightarrow> CallerInfo" where
  "remote_caller ty = default_CallerInfo\<lparr>callerType := ty, sourceDeviceId := ''B'', callerAppId := ''app''\<rparr>"

definition same_account :: AccountInfo where
  "same_account = \<lparr>accountType = SAME_ACCOUNT_TYPE, groupIdList = []\<rparr>"

lemmas remote_sample_defs = remote_want_def remote_caller_def same_account_def sample_want_def sample_env_def
  sample_ability_def default_CallerInfo_def GetTargetAbility_def QueryAbilityInfo_def active_id_def
  GetLocalDeviceId_def GetIntParam_def DEFAULT_DMS_MISSION_ID_def may_start_def GetAppIdOfBundle_def
  initial_sched_def err_defs


section \<open>Undefined behaviour\<close>

text \<open>The stub presented to the ability manager, and the state before that call.\<close>

definition presented_wrapper :: "CallerInfo \<Rightarrow> robj \<Rightarrow> sched \<Rightarrow> robj \<times> sched" where
  "presented_wrapper caller c s =
     (if callerType caller = CALLER_TYPE_HARMONY then
        (case map_find c (connectAbilityMap s) of
           Some info \<Rightarrow> (ci_callbackWrapper info, s)
         | None \<Rightarrow> new_local s)
      else (c, s))"

lemma ConnectAbilityFromRemote_permitted:
  assumes "permitted env s want caller account True"
  shows "ConnectAbilityFromRemote env want (Some c) caller account s =
    (let harmony = (callerType caller = CALLER_TYPE_HARMONY);
         (w, s1) = presented_wrapper caller c s;
         (e, s2) = adapter_ConnectAbility env want w s1
     in if e \<noteq> ERR_OK then Some (e, s2)
        else if \<not> harmony then None
        else if map_find c (connectAbilityMap s) \<noteq> None then Some (e, s2)
        else (let info = \<lparr>ci_callerInfo = caller, ci_callbackWrapper = w, ci_element = want_element want\<rparr>;
                  s3 = ReportCallee env info DISTRIBUTED_COMPONENT_ADD CONNECT CALLEE s2
              in Some (e, s3\<lparr>connectAbilityMap := map_emplace c info (connectAbilityMap s3)\<rparr>)))"
  using assms
  by (auto simp: permitted_check ConnectAbilityFromRemote_def presented_wrapper_def Let_def
      split: option.splits prod.splits)

text \<open>
  Connecting from another device uses an iterator that was never assigned exactly when
  the object is given, the request is permitted, its caller type is not the harmony type,
  and the ability manager accepts the connection. The stub always sets that type.
\<close>

lemma connect_from_remote_undefined_iff:
  "ConnectAbilityFromRemote env want connect caller account s = None \<longleftrightarrow>
     (\<exists>c. connect = Some c \<and> permitted env s want caller account True \<and>
        callerType caller \<noteq> CALLER_TYPE_HARMONY \<and>
        fst (adapter_ConnectAbility env want c s) = ERR_OK)"
proof (cases "permitted env s want caller account True")
  case True
  show ?thesis
  proof (cases connect)
    case (Some c)
    with True show ?thesis
      by (auto simp: ConnectAbilityFromRemote_permitted presented_wrapper_def Let_def split: prod.splits)
  qed (simp add: ConnectAbilityFromRemote_def)
next
  case False
  then have "ConnectAbilityFromRemote env want connect caller account s \<noteq> None"
    by (auto simp: permitted_check ConnectAbilityFromRemote_def Let_def split: option.split)
  with False show ?thesis by simp
qed

section \<open>Reports\<close>

fun report_of :: "ext \<Rightarrow> string option" where
  "report_of (PostReport r) = Some r"
| "report_of x = None"

definition reports :: "hist \<Rightarrow> string list" where
  "reports h = List.map_filter report_of h"

lemma reports_simps [simp]:
  "reports [] = []" "reports (h @ h') = reports h @ reports h'"
  "reports (x # h) = (case report_of x of None \<Rightarrow> reports h | Some r \<Rightarrow> r # reports h)"
  by (simp_all add: reports_def map_filter_def split: option.split)

lemma adapter_reports [simp]:
  "reports (history (snd (adapter_ConnectAbility env want w s))) = reports (history s)"
  "reports (history (snd (adapter_StartAbilityByCall env want w s))) = reports (history s)"
  by (auto simp: adapter_ConnectAbility_def adapter_StartAbilityByCall_def call_eq Let_def split: option.split)

definition reporting :: "sched \<Rightarrow> bool" where
  "reporting s = (distributedComponentListener s \<noteq> nullptr \<and> componentChangeHandler s)"

lemma ReportCallee_count:
  "reporting s \<Longrightarrow> length (reports (history (ReportCallee env i ch co de s))) = Suc (length (reports (history s)))"
  by (simp add: ReportCallee_def reporting_def HandleDistributedComponentChange_def Let_def)

lemma reporting_frame:
  "reporting (log_ext es s) = reporting s" "reporting (snd (new_local s)) = reporting s"
  by (simp_all add: reporting_def log_ext_def new_local_def)

lemma adapter_reporting [simp]:
  "reporting (snd (adapter_ConnectAbility env want w s)) = reporting s"
  "reporting (snd (adapter_StartAbilityByCall env want w s)) = reporting s"
  by (auto simp: adapter_ConnectAbility_def adapter_StartAbilityByCall_def call_eq Let_def reporting_frame
      split: option.split)

lemma wrapper_frame:
  "reports (history (snd (presented_wrapper caller c s))) = reports (history s)"
  "reporting (snd (presented_wrapper caller c s)) = reporting s"
  "connectAbilityMap (snd (presented_wrapper caller c s)) = connectAbilityMap s"
  by (auto simp: presented_wrapper_def reporting_frame split: option.split)

text \<open>
  While a listener is registered, a successful connection from another device is
  reported as added only when it is new; but a successful call from another device is
  reported as added every time, also when the same object is already in the table, which
  keeps the old entry.
\<close>

lemma add_reports:
  assumes "reporting s"
  shows "(ConnectAbilityFromRemote env want (Some c) caller account s = Some (ERR_OK, s1) \<longrightarrow>
      length (reports (history s1)) = length (reports (history s)) +
        (if c \<in> map_keys (connectAbilityMap s) then 0 else 1)) \<and>
    (StartAbilityByCallFromRemote env want (Some c) caller account s = (ERR_OK, s2) \<longrightarrow>
      length (reports (history s2)) = length (reports (history s)) + 1 \<and>
      (\<forall>info. map_find c (calleeMap s) = Some info \<longrightarrow> calleeMap s2 = calleeMap s))"
proof
  have no: "INVALID_REMOTE_PARAMETERS_ERR \<noteq> ERR_OK" by (simp add: err_defs)
  show "ConnectAbilityFromRemote env want (Some c) caller account s = Some (ERR_OK, s1) \<longrightarrow>
      length (reports (history s1)) = length (reports (history s)) +
        (if c \<in> map_keys (connectAbilityMap s) then 0 else 1)"
  proof (cases "permitted env s want caller account True")
    case True
    with assms show ?thesis
      by (auto simp: ConnectAbilityFromRemote_permitted Let_def split_beta prod_eq_iff ReportCallee_count
          wrapper_frame dest: map_find_Some_key split: if_splits)
  next
    case False
    with no show ?thesis
      by (auto simp: permitted_check ConnectAbilityFromRemote_def Let_def split: option.split)
  qed
  show "StartAbilityByCallFromRemote env want (Some c) caller account s = (ERR_OK, s2) \<longrightarrow>
      length (reports (history s2)) = length (reports (history s)) + 1 \<and>
      (\<forall>info. map_find c (calleeMap s) = Some info \<longrightarrow> calleeMap s2 = calleeMap s)"
    using assms no
    by (auto simp: StartAbilityByCallFromRemote_def Let_def split_beta prod_eq_iff ReportCallee_count
        reporting_frame map_emplace_def split: option.splits if_splits)
qed

definition listening :: sched where
  "listening = initial_sched\<lparr>distributedComponentListener := Some (Proxy 9), componentChangeHandler := True\<rparr>"

definition called_once :: "int \<times> sched" where
  "called_once = StartAbilityByCallFromRemote sample_env remote_want (Some (Proxy 1)) (remote_caller 1) same_account listening"

definition called_twice :: "int \<times> sched" where
  "called_twice = StartAbilityByCallFromRemote sample_env remote_want (Some (Proxy 1)) (remote_caller 1) same_account
     (snd called_once)"

lemmas call_from_remote_defs = StartAbilityByCallFromRemote_def CheckDeviceIdFromRemote_def
  CheckGetCallerPermission_def CheckDPermission_def CheckAccountAccessPermission_def
  CheckComponentAccessPermission_def CheckCustomPermission_def adapter_StartAbilityByCall_def
  ReportCallee_def HandleDistributedComponentChange_def new_local_def

lemma called_facts:
  "fst called_once = ERR_OK" "map_keys (calleeMap (snd called_once)) = {Proxy 1}" "reporting (snd called_once)"
  "reports (history (snd called_once)) = [''b'']"
  by (simp_all add: called_once_def listening_def call_from_remote_defs remote_sample_defs call_eq log_ext_def
      map_emplace_def reporting_def callee_report_def Let_def)

lemma add_reports_sample:
  "fst called_twice = ERR_OK \<and> length (reports (history (snd called_twice))) = 2 \<and>
   calleeMap (snd called_twice) = calleeMap (snd called_once)"
proof -
  have ok: "called_twice = (ERR_OK, snd called_twice)"
    by (simp add: called_twice_def called_once_def listening_def call_from_remote_defs remote_sample_defs call_eq
        log_ext_def map_emplace_def reporting_def callee_report_def Let_def)
  obtain info where "map_find (Proxy 1) (calleeMap (snd called_once)) = Some info"
    using map_key_find [of "Proxy 1" "calleeMap (snd called_once)"] called_facts(2) by auto
  with add_reports [OF called_facts(3), of sample_env remote_want "Proxy 1" "remote_caller 1" same_account _
      "snd called_twice"] called_facts(4) ok [unfolded called_twice_def]
  show ?thesis unfolding called_twice_def by (metis One_nat_def Suc_eq_plus1 fst_conv list.size(3,4) numeral_2_eq_2)
qed

section \<open>The call table as links\<close>

lemma RemoveCallerComponent_map: "callerMap (RemoveCallerComponent env c s) = map_erase c (callerMap s)"
  by (auto simp: RemoveCallerComponent_def Let_def dest: map_find_None_iff [THEN iffD1] split: option.split)

lemma HandleLocalCallerDied_map: "callerMap (HandleLocalCallerDied env c s) = map_erase c (callerMap s)"
  by (auto simp: HandleLocalCallerDied_def Let_def dest: map_find_None_iff [THEN iffD1] split: option.split)

lemma StartRemoteAbilityByCall_map:
  assumes "StartRemoteAbilityByCall env want (Some c) u p tok s = (r, s')"
  shows "device_links (callerMap s') = device_links (callerMap s) \<union>
    (if r = ERR_OK then {(c, el_deviceId (want_element want))} else {})"
proof -
  have "INVALID_PARAMETERS_ERR \<noteq> ERR_OK" by (simp add: err_defs)
  with assms show ?thesis
    by (auto simp: StartRemoteAbilityByCall_def TryStartRemoteAbilityByCall_def Let_def call_eq
        SaveCallerComponent_map device_links_add split: option.splits if_splits prod.splits)
qed

text \<open>
  C37: The table of called abilities refines the same kind of link set. A call adds the link
  to the wanted device exactly when it succeeds; a release for one device, when it succeeds,
  removes the links of the object to every device; when the caller dies its object loses its
  links; and no other link changes.
\<close>

theorem calls_refine_links:
  "(let (r, s') = StartRemoteAbilityByCall env want (Some c) u p tok s
    in device_links (callerMap s') = device_links (callerMap s) \<union>
         (if r = ERR_OK then {(c, el_deviceId (want_element want))} else {})) \<and>
   (let (r, s') = ReleaseRemoteAbility env (Some c) element s
    in device_links (callerMap s') = (if r = ERR_OK then {(c', d) \<in> device_links (callerMap s). c' \<noteq> c}
         else device_links (callerMap s))) \<and>
   device_links (callerMap (ProcessCallerDied env (Some c) CALLER s)) =
     {(c', d) \<in> device_links (callerMap s). c' \<noteq> c}"
proof -
  have no: "INVALID_PARAMETERS_ERR \<noteq> ERR_OK" by (simp add: err_defs)
  have "let (r, s') = ReleaseRemoteAbility env (Some c) element s
    in device_links (callerMap s') = (if r = ERR_OK then {(c', d) \<in> device_links (callerMap s). c' \<noteq> c}
         else device_links (callerMap s))"
    using no by (simp add: ReleaseRemoteAbility_def Let_def call_eq RemoveCallerComponent_map device_links_erase
        split: option.split)
  moreover have "callerMap (ProcessCallerDied env (Some c) CALLER s) = map_erase c (callerMap s)"
    by (simp add: ProcessCallerDied_def HandleLocalCallerDied_map)
  ultimately show ?thesis
    using StartRemoteAbilityByCall_map [of env want c u p tok s]
    by (auto simp: device_links_erase split: prod.split)
qed

end
