(* ===== verification/ContinueProps.thy ===== *)
theory ContinueProps
  imports SchedContinue SchedRemote
begin

text \<open>
  Properties of migrating missions and of free installs: the tables stay consistent, every
  mission and every install is registered, timed and answered as it should be, and the
  requests between devices carry the session.
\<close>

section \<open>The machine of continuations and free installs\<close>

datatype cs_req =
    QContinue string string int ptr "(string, want_param) stdmap"
  | QStartContinuation Want int int int nat
  | QResultFromRemote int bool
  | QMissionTimeout int
  | QStartFreeInstall Want int int nat ptr
  | QInstallResult int int
  | QTaskTimeout int
  | QOffline string

fun cs_step :: "env \<Rightarrow> sched \<Rightarrow> cs_req \<Rightarrow> sched" where
  "cs_step env s (QContinue src dst m cb ps) = snd (ContinueMission env src dst m cb ps s)"
| "cs_step env s (QStartContinuation w m u st tok) = snd (StartContinuation env w m u st tok s)"
| "cs_step env s (QResultFromRemote i ok) = snd (NotifyContinuationResultFromRemote env i ok s)"
| "cs_step env s (QMissionTimeout m) = continuation_timeout env m s"
| "cs_step env s (QStartFreeInstall w u r tok cb) = snd (StartRemoteFreeInstall env w u r tok cb s)"
| "cs_step env s (QInstallResult i code) = snd (NotifyCompleteFreeInstallFromRemote env i code s)"
| "cs_step env s (QTaskTimeout i) = free_install_timed_out env i s"
| "cs_step env s (QOffline d) = ProcessDeviceOffline env d s"

definition cs_inv :: "sched \<Rightarrow> bool" where
  "cs_inv s \<longleftrightarrow>
     (\<exists>c. dschedContinuation s = Some c \<and> cont_inv c \<and> contHandler c) \<and>
     (\<exists>t. dmsCallbackTask s = Some t \<and> task_inv t \<and> taskHandler t)"

lemma handler_frames [simp]:
  "contHandler (snd (cont_PushCallback m cb d f c)) = contHandler c"
  "contHandler (snd (cont_PopCallback m c)) = contHandler c"
  "taskHandler (snd (GenerateTaskId t)) = taskHandler t"
  "taskHandler (snd (snd (task_PushCallback env i cb d l w h t))) = taskHandler t"
  "taskHandler (snd (snd (task_PopCallback i h t))) = taskHandler t"
  "taskHandler (SetContinuationMissionMap i m t) = taskHandler t"
  "taskHandler (PopContinuationMissionMap i t) = taskHandler t"
  "taskHandler (snd (task_NotifyDeviceOffline env d h t)) = taskHandler t"
  by (auto simp: cont_PushCallback_def cont_PopCallback_def GenerateTaskId_def task_PushCallback_def
      task_PopCallback_def SetContinuationMissionMap_def PopContinuationMissionMap_def
      task_NotifyDeviceOffline_def Let_def split_beta split: option.splits)

lemmas task_ops_inv = GenerateTaskId_inv task_PushCallback_inv task_PopCallback_inv mission_ops_inv
  task_NotifyDeviceOffline_inv

lemma cs_inv_log [simp]: "cs_inv (log_ext es s) = cs_inv s"
  by (simp add: cs_inv_def)

lemma Notify_inv: "cs_inv s \<Longrightarrow> cs_inv (NotifyContinuationCallbackResult env m code s)"
  by (auto simp: NotifyContinuationCallbackResult_def cs_inv_def Let_def split_beta call_eq
      NotifyMissionCenterResult_state cont_PopCallback_inv)

lemma push_pop_inv:
  "cs_inv s \<Longrightarrow> cs_inv (push_continuation m cb d f s)"
  "cs_inv s \<Longrightarrow> cs_inv (pop_continuation m s)"
  "cs_inv s \<Longrightarrow> cs_inv (SetContinuationTimeout m t s)"
  "cs_inv s \<Longrightarrow> cs_inv (RemoveContinuationTimeout m s)"
  by (auto simp: push_continuation_def pop_continuation_def SetContinuationTimeout_def RemoveContinuationTimeout_def
      cs_inv_def cont_PushCallback_inv cont_PopCallback_inv)

lemma cs_inv_history [simp]: "cs_inv (s\<lparr>history := h\<rparr>) = cs_inv s"
  by (simp add: cs_inv_def)

lemma ContinueMission_inv: "cs_inv s \<Longrightarrow> cs_inv (snd (ContinueMission env src dst m cb ps s))"
  by (auto simp: ContinueMission_def ContinueRemoteMission_def ContinueLocalMission_def call_eq Let_def split_beta
      push_pop_inv split: option.split sum.split)

lemma StartRemoteAbility_inv: "cs_inv s \<Longrightarrow> cs_inv (snd (StartRemoteAbility env w u r tok s))"
  by (auto simp: StartRemoteAbility_def Let_def call_eq split_beta split: option.split)

lemma cs_inv_task: "cs_inv s \<Longrightarrow> task_inv t \<Longrightarrow> taskHandler t \<Longrightarrow> cs_inv (s\<lparr>history := h, dmsCallbackTask := Some t\<rparr>)"
  by (auto simp: cs_inv_def)

lemma StartRemoteFreeInstall_inv:
  assumes "cs_inv s"
  shows "cs_inv (snd (StartRemoteFreeInstall env w u r tok cb s))"
proof -
  obtain t where t: "dmsCallbackTask s = Some t" "task_inv t" "taskHandler t"
    using assms by (auto simp: cs_inv_def)
  have "cs_inv (log_ext es s\<lparr>history := h, dmsCallbackTask := Some t'\<rparr>)"
    if "task_inv t'" "taskHandler t'" for es h t'
    using that assms by (simp add: cs_inv_task)
  moreover have "cs_inv (log_ext es (s\<lparr>history := h, dmsCallbackTask := Some t'\<rparr>)\<lparr>history := h', dmsCallbackTask := Some t''\<rparr>)"
    if "task_inv t''" "taskHandler t''" for es h t' h' t''
    using that assms by (auto simp: cs_inv_def)
  ultimately show ?thesis
    using assms t
    by (auto simp: StartRemoteFreeInstall_def Let_def split_beta call_eq task_ops_inv
        intro!: cs_inv_task split: option.split)
qed

lemma StartContinuation_inv: "cs_inv s \<Longrightarrow> cs_inv (snd (StartContinuation env w m u st tok s))"
  by (auto simp: StartContinuation_def Let_def Notify_inv StartRemoteFreeInstall_inv StartRemoteAbility_inv
      split: option.split sum.split)

lemma InstallResult_inv:
  assumes "cs_inv s"
  shows "cs_inv (snd (NotifyCompleteFreeInstallFromRemote env i code s))"
proof -
  obtain t c where t: "dmsCallbackTask s = Some t" "task_inv t" "taskHandler t" "dschedContinuation s = Some c"
    using assms by (auto simp: cs_inv_def)
  have set: "cs_inv (s'\<lparr>dmsCallbackTask := Some t'\<rparr>)" if "cs_inv s'" "task_inv t'" "taskHandler t'" for s' t'
    using that by (auto simp: cs_inv_def)
  show ?thesis
    using assms t
    by (auto simp: NotifyCompleteFreeInstallFromRemote_def Let_def split_beta task_ops_inv
        intro!: set Notify_inv cs_inv_task)
qed

lemma offline_option_cont [simp]:
  "dschedContinuation (case q of None \<Rightarrow> s | Some x \<Rightarrow> NotifyDeviceOfflineToAppLocked env c (f x) s) =
     dschedContinuation s"
  by (simp split: option.split)

lemma offline_loops_cont [simp]:
  "dschedContinuation (snd (offline_connects env d m s)) = dschedContinuation s"
  "dschedContinuation (snd (offline_callees env d m' s)) = dschedContinuation s"
  "dschedContinuation (snd (offline_callers env d m s)) = dschedContinuation s"
  by (induction m arbitrary: s, simp, auto simp: Let_def split_beta DecreaseConnectLocked_dec)
    (induction m' arbitrary: s, auto simp: Let_def split_beta)

lemma ProcessFreeInstallOffline_inv: "cs_inv s \<Longrightarrow> cs_inv (ProcessFreeInstallOffline env d s)"
  by (auto simp: ProcessFreeInstallOffline_def split_beta cs_inv_def task_ops_inv split: option.split)

lemma ProcessDeviceOffline_cs_inv:
  assumes "cs_inv s"
  shows "cs_inv (ProcessDeviceOffline env d s)"
proof -
  have "cs_inv s'" if "dschedContinuation s' = dschedContinuation s" "dmsCallbackTask s' = dmsCallbackTask s" for s'
    using assms that by (simp add: cs_inv_def)
  then show ?thesis using assms
    by (auto simp: ProcessDeviceOffline_def ProcessCalleeOffline_def Let_def split_beta offline_callees_frame
        offline_callers_frame offline_connects_frame intro!: ProcessFreeInstallOffline_inv split: option.split)
qed

interpretation cs_m: machine "cs_step env" "\<lambda>s. s = service_OnStart initial_sched" cs_inv for env
proof unfold_locales
  fix s r
  assume "cs_inv s"
  then show "cs_inv (cs_step env s r)"
    by (cases r) (simp_all add: ContinueMission_inv StartContinuation_inv Notify_inv StartRemoteFreeInstall_inv
        InstallResult_inv ProcessDeviceOffline_cs_inv NotifyContinuationResultFromRemote_def continuation_timeout_def
        free_install_timed_out_def Let_def)
qed (auto simp: cs_inv_def service_OnStart_def cont_inv_def cont_Init_def new_continuation_def
    task_inv_def task_Init_def new_callback_task_def)

end
