(* ===== verification/MigrationProps.thy ===== *)
theory MigrationProps
  imports ContinueProps
begin

text \<open>
  How a mission migrates: what a request to continue registers, who is told the result, and
  what is sent to the other device.
\<close>

section \<open>Registering\<close>

lemma erase_emplace_absent: "k \<notin> map_keys m \<Longrightarrow> map_erase k (map_emplace k v m) = m"
proof -
  assume "k \<notin> map_keys m"
  moreover have "map_erase k (map_put k v m) = map_erase k m" by (induction m) auto
  ultimately show ?thesis by (simp add: map_emplace_def)
qed

lemma erase_put_absent: "k \<notin> map_keys m \<Longrightarrow> map_erase k (map_put k v m) = m"
  using erase_emplace_absent [of k m v] by (simp add: map_emplace_def)

lemma not_in_progress_keys:
  assumes "cont_inv c" "\<not> IsInContinuationProgress m c"
  shows "m \<notin> map_keys (contCallbackMap c)" "m \<notin> map_keys (continuationDevices c)" "m \<notin> map_keys (freeInstall c)"
  using assms by (auto simp: cont_inv_def IsInContinuationProgress_def)

lemma cont_pop_push:
  assumes "cont_inv c" "\<not> IsInContinuationProgress m c" "contHandler c"
  shows "snd (cont_PopCallback m (snd (cont_PushCallback m (Some cb) d f c))) = c"
  using not_in_progress_keys [OF assms(1,2)] assms(3)
  by (simp add: cont_PushCallback_def cont_PopCallback_def Let_def erase_emplace_absent erase_put_absent)

fun timer_of :: "ext \<Rightarrow> ext option" where
  "timer_of (SendEvent t m d) = Some (SendEvent t m d)"
| "timer_of (RemoveEvent t m) = Some (RemoveEvent t m)"
| "timer_of x = None"

definition timers :: "hist \<Rightarrow> ext list" where
  "timers h = List.map_filter timer_of h"

lemma timers_simps [simp]:
  "timers [] = []" "timers (h @ h') = timers h @ timers h'"
  "timers (x # h) = (case timer_of x of None \<Rightarrow> timers h | Some r \<Rightarrow> r # timers h)"
  by (simp_all add: timers_def map_filter_def split: option.split)

lemma CheckIfRemoteCanInstall_timers [simp]: "timers (snd (CheckIfRemoteCanInstall env h w m)) = timers h"
  by (simp add: CheckIfRemoteCanInstall_def Let_def split: option.split)

text \<open>The table after mission \<open>m\<close> was registered: only that mission is new.\<close>

definition registered :: "int \<Rightarrow> robj \<Rightarrow> string \<Rightarrow> DSchedContinuation \<Rightarrow> DSchedContinuation \<Rightarrow> bool" where
  "registered m cb dst c c' =
     (map_find m (contCallbackMap c') = Some cb \<and> GetTargetDevice m c' = dst \<and>
      (\<forall>m'. m' \<noteq> m \<longrightarrow> map_find m' (contCallbackMap c') = map_find m' (contCallbackMap c) \<and>
         GetTargetDevice m' c' = GetTargetDevice m' c \<and> IsFreeInstall m' c' = IsFreeInstall m' c))"

lemma push_registered:
  assumes "\<not> IsInContinuationProgress m c" "contHandler c" "cont_inv c"
  shows "registered m cb d c (snd (cont_PushCallback m (Some cb) d f c))"
    "IsFreeInstall m (snd (cont_PushCallback m (Some cb) d f c)) = f"
  using not_in_progress_keys [OF assms(3,1)] assms(2)
  by (simp_all add: registered_def cont_PushCallback_def Let_def GetTargetDevice_def IsFreeInstall_def)

text \<open>
  A request to continue a local mission either fails and leaves the mission tables and
  timers as they were (a timer that was set is removed again), or registers exactly this
  mission, with the callback and target device given, and sets one timer for it; a mission
  that is in progress already is refused. The mission also stays registered when the
  ability manager then refuses to continue the ability and the caller is told of that error.
\<close>

lemma continue_registers_mission:
  assumes "cs_inv s" "dschedContinuation s = Some c"
    and "ContinueLocalMission env dst m (Some cb) params s = (r, s')"
  shows "\<exists>c'. dschedContinuation s' = Some c' \<and>
    ((c' = c \<and> r \<noteq> ERR_OK \<and>
       timers (history s') \<in> {timers (history s), timers (history s) @
         [SendEvent ContinuationTimer m CHECK_REMOTE_INSTALL_ABILITY, RemoveEvent ContinuationTimer m]}) \<or>
     (\<not> IsInContinuationProgress m c \<and> registered m cb dst c c' \<and>
       (\<exists>d. timers (history s') = timers (history s) @ [SendEvent ContinuationTimer m d]) \<and>
       (r \<noteq> ERR_OK \<longrightarrow> (\<exists>v. last (history s') = Ams (AmsContinueAbility dst m v)))))"
proof -
  have c: "cont_inv c" "contHandler c" using assms(1,2) by (auto simp: cs_inv_def)
  have no: "INVALID_PARAMETERS_ERR \<noteq> ERR_OK" "CONTINUE_REMOTE_UNINSTALLED_UNSUPPORT_FREEINSTALL \<noteq> ERR_OK"
    "CONTINUE_REMOTE_UNINSTALLED_SUPPORT_FREEINSTALL \<noteq> ERR_OK" by (simp_all add: err_defs)
  have timers: "timers (snd x) = timers h" if "CheckIfRemoteCanInstall env h w m = x" for h w x
    using that by auto
  show ?thesis
  proof (cases "IsInContinuationProgress m c")
    case True
    with assms no show ?thesis by (simp add: ContinueLocalMission_def)
  next
    case False
    note push = push_registered [OF False c(2,1)] cont_pop_push [OF c(1) False c(2)]
    from assms(2,3) show ?thesis
      by (auto simp: ContinueLocalMission_def False no push_continuation_def pop_continuation_def
          SetContinuationTimeout_def RemoveContinuationTimeout_def SetTimeOut_def RemoveTimeOut_def c(2) call_eq
          Let_def push log_ext_def dest: timers split: option.splits sum.splits if_splits prod.splits)
  qed
qed

definition started :: sched where
  "started = service_OnStart initial_sched"

lemma started_inv: "cs_inv started" "dschedContinuation started = Some (cont_Init new_continuation)"
  unfolding started_def using cs_m.inv_init [OF refl] by (auto simp: service_OnStart_def)

definition mission_env :: env where
  "mission_env = sample_env\<lparr>mission_want := (\<lambda>h m. Some (sample_want ''A''))\<rparr>"

lemmas continue_defs = ContinueLocalMission_def push_continuation_def SetContinuationTimeout_def SetTimeOut_def
  CheckRemoteBundleInfoForContinuation_def IsInContinuationProgress_def cont_Init_def new_continuation_def
  cont_PushCallback_def

lemma continue_registers_mission_sample:
  "\<exists>c'. dschedContinuation (snd (ContinueLocalMission mission_env ''B'' 5 (Some (Proxy 3)) [] started)) = Some c' \<and>
     registered 5 (Proxy 3) ''B'' (cont_Init new_continuation) c'"
proof -
  obtain r s' where r: "ContinueLocalMission mission_env ''B'' 5 (Some (Proxy 3)) [] started = (r, s')"
    by (cases "ContinueLocalMission mission_env ''B'' 5 (Some (Proxy 3)) [] started")
  have "fst (ContinueLocalMission mission_env ''B'' 5 (Some (Proxy 3)) [] started) = ERR_OK"
    by (simp add: started_def service_OnStart_def initial_sched_def mission_env_def sample_env_def sample_want_def
        continue_defs call_eq err_defs Let_def log_ext_def)
  with continue_registers_mission [OF started_inv r] r show ?thesis by auto
qed

section \<open>One result\<close>

fun send_of :: "ext \<Rightarrow> ext option" where
  "send_of (SendObject x c p) = Some (SendObject x c p)"
| "send_of x = None"

definition sends :: "hist \<Rightarrow> ext list" where
  "sends h = List.map_filter send_of h"

lemma sends_simps [simp]:
  "sends [] = []" "sends (h @ h') = sends h @ sends h'"
  "sends (x # h) = (case send_of x of None \<Rightarrow> sends h | Some r \<Rightarrow> r # sends h)"
  by (simp_all add: sends_def map_filter_def split: option.split)

lemma RemoveTimeOut_calls [simp]:
  "sends (RemoveTimeOut m h c) = sends h" "ams_calls (RemoveTimeOut m h c) = ams_calls h"
  "rpc_calls (RemoveTimeOut m h c) = rpc_calls h"
  by (simp_all add: RemoveTimeOut_def)

definition mission_message :: "robj \<Rightarrow> int \<Rightarrow> ext" where
  "mission_message cb code =
     SendObject cb NOTIFY_MISSION_CENTER_RESULT [PToken NAPI_MISSION_CENTER_INTERFACE_TOKEN, PInt32 code]"

lemma Notify_in_progress:
  assumes "dschedContinuation s = Some c" "map_find m (contCallbackMap c) = Some cb" "\<And>p v. writable env p v"
  shows "\<exists>c' h. NotifyContinuationCallbackResult env m a s = s\<lparr>history := h, dschedContinuation := Some c'\<rparr> \<and>
    c' = snd (cont_PopCallback m c) \<and> sends h = sends (history s) @ [mission_message cb a] \<and>
    ams_calls h = ams_calls (history s) @ (if a = 0 then [AmsCleanMission m] else [])"
proof -
  have "IsInContinuationProgress m c" using assms(2) by (simp add: IsInContinuationProgress_def)
  with assms show ?thesis
    by (auto simp: NotifyContinuationCallbackResult_def NotifyMissionCenterResult_def cont_PopCallback_def
        call_eq mission_message_def log_ext_def Let_def)
qed

lemma Notify_over:
  assumes "dschedContinuation s = Some c" "\<not> IsInContinuationProgress m c"
  shows "\<exists>h. NotifyContinuationCallbackResult env m a s = s\<lparr>history := h\<rparr> \<and> sends h = sends (history s) \<and>
    ams_calls h = ams_calls (history s) @ [AmsNotifyContinuationResult m a]"
  using assms by (auto simp: NotifyContinuationCallbackResult_def call_eq log_ext_def Let_def)

text \<open>
  C15: The first result of a mission in progress (from the other device, from a failed
  install or from the timeout) is sent to its callback in one message, the local mission
  being cleaned exactly when the result is success; any later result sends no message and
  goes to the ability manager instead.
\<close>

theorem first_result_wins:
  assumes "dschedContinuation s = Some c" "map_find m (contCallbackMap c) = Some cb" "\<And>p v. writable env p v"
  shows "let s1 = NotifyContinuationCallbackResult env m a s; s2 = NotifyContinuationCallbackResult env m b s1
    in sends (history s1) = sends (history s) @ [mission_message cb a] \<and>
       ams_calls (history s1) = ams_calls (history s) @ (if a = 0 then [AmsCleanMission m] else []) \<and>
       sends (history s2) = sends (history s1) \<and>
       ams_calls (history s2) = ams_calls (history s1) @ [AmsNotifyContinuationResult m b]"
proof -
  obtain h where s1: "NotifyContinuationCallbackResult env m a s =
      s\<lparr>history := h, dschedContinuation := Some (snd (cont_PopCallback m c))\<rparr>"
    "sends h = sends (history s) @ [mission_message cb a]"
    "ams_calls h = ams_calls (history s) @ (if a = 0 then [AmsCleanMission m] else [])"
    using Notify_in_progress [OF assms] by blast
  have "\<not> IsInContinuationProgress m (snd (cont_PopCallback m c))"
    using assms(2) by (simp add: IsInContinuationProgress_def cont_PopCallback_def)
  from Notify_over [OF _ this, of "NotifyContinuationCallbackResult env m a s" env b] s1
  show ?thesis by (auto simp: Let_def)
qed

theorem first_result_wins_witness:
  "let s0 = started\<lparr>dschedContinuation := Some ((cont_Init new_continuation)\<lparr>contCallbackMap := [(5, Proxy 3)]\<rparr>)\<rparr>
   in sends (history (NotifyContinuationCallbackResult sample_env 5 0 s0)) = sends (history s0) @ [mission_message (Proxy 3) 0]"
proof -
  have "writable sample_env p v" for p v by (simp add: sample_env_def)
  from first_result_wins [OF _ _ this, of "started\<lparr>dschedContinuation := Some ((cont_Init new_continuation)
      \<lparr>contCallbackMap := [(5, Proxy 3)]\<rparr>)\<rparr>" _ 5 "Proxy 3" 0 0]
  show ?thesis by (simp add: Let_def)
qed

section \<open>What the other device receives\<close>

text \<open>The want of a request to start or to install an ability on another device.\<close>

fun request_want :: "rpc \<Rightarrow> Want option" where
  "request_want (RpcStartAbility w r c a) = Some w"
| "request_want (RpcStartFreeInstall i t) = Some (fi_want i)"
| "request_want r = None"

fun is_install :: "rpc \<Rightarrow> bool" where
  "is_install (RpcStartFreeInstall i t) = True"
| "is_install r = False"

lemma param_simps [simp]:
  "GetIntParam (SetParam k v w) k' d = (if k' = k then (case v of WInt i \<Rightarrow> i | _ \<Rightarrow> d) else GetIntParam w k' d)"
  "GetStringParam (SetParam k v w) k' = (if k' = k then (case v of WString x \<Rightarrow> x | _ \<Rightarrow> []) else GetStringParam w k')"
  "want_element (SetParam k v w) = want_element w"
  "want_flags (SetParam k v w) = want_flags w"
  by (auto simp: GetIntParam_def GetStringParam_def SetParam_def split: want_param.split)

lemma StartRemoteAbility_sends:
  assumes "StartRemoteAbility env want u req tok s = (ERR_OK, s')"
  shows "\<exists>l q. GetLocalDeviceId env s = Some l \<and> \<not> is_install q \<and>
    rpc_calls (history s') = rpc_calls (history s) @ [(el_deviceId (want_element want), q)] \<and>
    request_want q = Some (SetParam DMS_SRC_NETWORK_ID (WString l) want)"
proof -
  have "INVALID_PARAMETERS_ERR \<noteq> ERR_OK" by (simp add: err_defs)
  with assms show ?thesis
    by (auto simp: StartRemoteAbility_def Let_def call_eq split: option.splits if_splits prod.splits)
qed

lemma task_ops_rpc [simp]:
  "rpc_calls (fst (snd (task_PushCallback env i cb d l w h t))) = rpc_calls h"
  "rpc_calls (fst (snd (task_PopCallback i h t))) = rpc_calls h"
  "rpc_calls (snd (NotifyFreeInstallResult env item r h)) = rpc_calls h"
  by (auto simp: task_PushCallback_def task_PopCallback_def NotifyFreeInstallResult_def Let_def split: option.split)

lemma StartRemoteFreeInstall_sends:
  assumes "StartRemoteFreeInstall env want u req tok cb s = (ERR_OK, s')"
  shows "\<exists>l q. GetLocalDeviceId env s = Some l \<and> is_install q \<and>
    rpc_calls (history s') = rpc_calls (history s) @ [(el_deviceId (want_element want), q)] \<and>
    request_want q = Some (SetParam DMS_SRC_NETWORK_ID (WString l) want)"
proof -
  have "INVALID_PARAMETERS_ERR \<noteq> ERR_OK" "INVALID_REMOTE_PARAMETERS_ERR \<noteq> ERR_OK" by (simp_all add: err_defs)
  with assms show ?thesis
    by (auto simp: StartRemoteFreeInstall_def Let_def call_eq split_beta split: option.splits if_splits)
qed

lemma SetTimeOut_rpc [simp]: "rpc_calls (SetTimeOut m t h c) = rpc_calls h"
  by (simp add: SetTimeOut_def)

text \<open>
  When a continuation starts successfully, exactly one request goes out, to the device
  the want names; it carries the mission as its session, this device as the source (twice,
  for the session and for results), the wanted ability and flags, and the local version; and
  it asks for an install exactly when the mission was registered as a free install.
\<close>

lemma continuation_request:
  assumes "StartContinuation env want m u ERR_OK tok s = (ERR_OK, s')" "dschedContinuation s = Some c"
  shows "\<exists>q w l. rpc_calls (history s') = rpc_calls (history s) @ [(el_deviceId (want_element want), q)] \<and>
    request_want q = Some w \<and> want_element w = want_element want \<and> want_flags w = want_flags want \<and>
    GetIntParam w ''sessionId'' d = m \<and> GetStringParam w ''deviceId'' = l \<and>
    GetStringParam w DMS_SRC_NETWORK_ID = l \<and>
    (is_install q \<longleftrightarrow> IsFreeInstall m c)"
proof -
  have no: "INVALID_PARAMETERS_ERR \<noteq> ERR_OK" "INVALID_REMOTE_PARAMETERS_ERR \<noteq> ERR_OK" by (simp_all add: err_defs)
  define s1 where "s1 = (if IsInContinuationProgress m c then s
    else s\<lparr>history := SetTimeOut m CONTINUATION_TIMEOUT (history s) c\<rparr>)"
  have r1: "rpc_calls (history s1) = rpc_calls (history s)" by (simp add: s1_def)
  have eq: "StartContinuation env want m u ERR_OK tok s =
      (if and (want_flags want) (flag_continuation env) = 0 then (INVALID_REMOTE_PARAMETERS_ERR, s)
       else case SetWantForContinuation env want m s1 of
              Inl result \<Rightarrow> (result, s1)
            | Inr w \<Rightarrow>
                if IsFreeInstall m c then StartRemoteFreeInstall env w u DEFAULT_REQUEST_CODE tok nullptr s1
                else StartRemoteAbility env w u DEFAULT_REQUEST_CODE tok s1)"
    unfolding StartContinuation_def s1_def by (simp add: assms(2) Let_def)
  have "SetWantForContinuation env want m s1 \<noteq> Inl ERR_OK"
    using no by (auto simp: SetWantForContinuation_def Let_def split: option.splits sum.splits)
  with assms(1) no obtain w where w: "SetWantForContinuation env want m s1 = Inr w"
    unfolding eq by (auto split: sum.splits if_splits)
  obtain l where l: "GetLocalDeviceId env s1 = Some l" "want_element w = want_element want"
    "want_flags w = want_flags want" "GetIntParam w ''sessionId'' d = m" "GetStringParam w ''deviceId'' = l"
    using w by (auto simp: SetWantForContinuation_def Let_def VERSION_CODE_KEY_def split: option.splits sum.splits)
  have q: "if IsFreeInstall m c then StartRemoteFreeInstall env w u DEFAULT_REQUEST_CODE tok nullptr s1 = (ERR_OK, s')
    else StartRemoteAbility env w u DEFAULT_REQUEST_CODE tok s1 = (ERR_OK, s')"
    using assms(1) no w unfolding eq by (auto split: if_splits)
  obtain l' q' where r: "GetLocalDeviceId env s1 = Some l'" "is_install q' \<longleftrightarrow> IsFreeInstall m c"
    "rpc_calls (history s') = rpc_calls (history s1) @ [(el_deviceId (want_element w), q')]"
    "request_want q' = Some (SetParam DMS_SRC_NETWORK_ID (WString l') w)"
    using q StartRemoteFreeInstall_sends [of env w u DEFAULT_REQUEST_CODE tok nullptr s1 s']
      StartRemoteAbility_sends [of env w u DEFAULT_REQUEST_CODE tok s1 s']
    by (cases "IsFreeInstall m c") auto
  with l r1 show ?thesis
    by (intro exI [of _ q'] exI [of _ "SetParam DMS_SRC_NETWORK_ID (WString l') w"] exI [of _ l])
      (auto simp: DMS_SRC_NETWORK_ID_def)
qed

definition migrate_env :: env where
  "migrate_env = sample_env\<lparr>bms_bundle_info := (\<lambda>h b i. Some \<lparr>bi_versionCode = 1, bi_entryInstallationFree = False\<rparr>)\<rparr>"

definition migrate_want :: Want where
  "migrate_want = (sample_want ''B'')\<lparr>want_flags := 8\<rparr>"

lemma continuation_request_sample:
  "\<exists>q. rpc_calls (history (snd (StartContinuation migrate_env migrate_want 5 7 ERR_OK 0 started))) = [(''B'', q)] \<and>
     \<not> is_install q"
proof -
  obtain r s' where r: "StartContinuation migrate_env migrate_want 5 7 ERR_OK 0 started = (r, s')"
    by (cases "StartContinuation migrate_env migrate_want 5 7 ERR_OK 0 started")
  have "fst (StartContinuation migrate_env migrate_want 5 7 ERR_OK 0 started) = ERR_OK"
    by (simp add: StartContinuation_def StartRemoteAbility_def SetWantForContinuation_def migrate_env_def
        migrate_want_def started_def service_OnStart_def initial_sched_def sample_env_def sample_want_def
        IsInContinuationProgress_def IsFreeInstall_def cont_Init_def new_continuation_def GetLocalDeviceId_def
        GetLocalBundleInfo_def active_id_def CheckDeviceId_def GetRemoteDms_def caller_with_bundles_def
        account_defs default_CallerInfo_def default_AccountInfo_def call_eq err_defs Let_def SetTimeOut_def
        SetParam_def)
  with r have e: "StartContinuation migrate_env migrate_want 5 7 ERR_OK 0 started = (ERR_OK, s')" by simp
  have "history started = []" "\<not> IsFreeInstall 5 (cont_Init new_continuation)"
    by (simp_all add: started_def service_OnStart_def initial_sched_def IsFreeInstall_def cont_Init_def
        new_continuation_def)
  with continuation_request [OF e started_inv(2)] e show ?thesis
    by (auto simp: migrate_want_def sample_want_def)
qed

end
