(* ===== verification/InstallProps.thy ===== *)
theory InstallProps
  imports MigrationProps
begin

text \<open>
  How a free install runs: which task is kept for it, who is told its result, and what the
  device that installs does.
\<close>

section \<open>Tasks\<close>

text \<open>The task \<open>StartRemoteFreeInstall\<close> files, and whether filing it succeeds.\<close>

definition new_task :: "env \<Rightarrow> Want \<Rightarrow> ptr \<Rightarrow> DmsCallbackTask \<Rightarrow> CallbackTaskItem" where
  "new_task env want cb t =
     \<lparr>item_callback = cb, item_taskId = sint (currTaskId t),
      item_launchType = (if and (want_flags want) (flag_continuation env) \<noteq> 0
                         then FREEINSTALL_CONTINUE else FREEINSTALL_START),
      item_deviceId = el_deviceId (want_element want), item_want = want\<rparr>"

lemma mission_map_tasks [simp]:
  "taskCallbackMap (SetContinuationMissionMap i m t) = taskCallbackMap t"
  "taskCallbackMap (PopContinuationMissionMap i t) = taskCallbackMap t"
  "taskCallbackMap (snd (GenerateTaskId t)) = taskCallbackMap t"
  "fst (GenerateTaskId t) = sint (currTaskId t)"
  by (simp_all add: SetContinuationMissionMap_def PopContinuationMissionMap_def GenerateTaskId_def Let_def)

lemma task_push_ok:
  assumes "task_PushCallback env i cb d l w h t = (ERR_OK, h', t')"
  shows "i \<notin> map_keys (taskCallbackMap t)"
    "taskCallbackMap t' = map_emplace i \<lparr>item_callback = cb, item_taskId = i, item_launchType = l,
       item_deviceId = d, item_want = w\<rparr> (taskCallbackMap t)"
    "sends h' = sends h"
proof -
  have "INVALID_PARAMETERS_ERR \<noteq> ERR_OK" by (simp add: err_defs)
  with assms show "i \<notin> map_keys (taskCallbackMap t)"
    "taskCallbackMap t' = map_emplace i \<lparr>item_callback = cb, item_taskId = i, item_launchType = l,
       item_deviceId = d, item_want = w\<rparr> (taskCallbackMap t)" "sends h' = sends h"
    by (auto simp: task_PushCallback_def Let_def split: if_splits)
qed

lemma task_push_fail:
  assumes "task_PushCallback env i cb d l w h t = (r, h', t')" "r \<noteq> ERR_OK"
  shows "t' = t" "sends h' = sends h"
  using assms by (auto simp: task_PushCallback_def Let_def split: if_splits)

lemma task_push_rpc:
  "task_PushCallback env i cb d l w h t = (p, h', t') \<Longrightarrow> rpc_calls h' = rpc_calls h"
  by (metis task_ops_rpc(1) fst_conv snd_conv)

lemma task_pop_found:
  assumes "map_find i (taskCallbackMap t) = Some item"
  shows "task_PopCallback i h t =
    (item, if taskHandler t then h @ [RemoveEvent CallbackTimer i] else h,
     t\<lparr>taskCallbackMap := map_erase i (taskCallbackMap t)\<rparr>)"
  using assms by (simp add: task_PopCallback_def)

definition install_message :: "env \<Rightarrow> CallbackTaskItem \<Rightarrow> int \<Rightarrow> ext list" where
  "install_message env item code =
     (case item_callback item of
        None \<Rightarrow> []
      | Some cb \<Rightarrow> [SendObject cb IASS_CALLBACK_ON_REMOTE_FREE_INSTALL_DONE (free_install_message env item code)])"

lemma NotifyFreeInstallResult_message:
  assumes "\<And>p v. writable env p v"
  shows "snd (NotifyFreeInstallResult env item code h) = h @ install_message env item code"
  using assms by (simp add: NotifyFreeInstallResult_def install_message_def free_install_message_def
      split: option.split)

lemma install_message_sends [simp]: "sends (install_message env item code) = install_message env item code"
  by (simp add: install_message_def split: option.split)

text \<open>How far a start gets: refused before the task is filed, filed only, or sent.\<close>

definition filed :: "env \<Rightarrow> Want \<Rightarrow> ptr \<Rightarrow> sched \<Rightarrow> DmsCallbackTask \<Rightarrow> bool" where
  "filed env want cb s t =
     (\<exists>l. GetLocalDeviceId env s = Some l \<and> CheckDeviceId l (el_deviceId (want_element want)) \<and>
      GetRemoteDms env (el_deviceId (want_element want)) s \<and>
      fst (task_PushCallback env (sint (currTaskId t)) cb (el_deviceId (want_element want))
        (item_launchType (new_task env want cb t)) want (history s) (snd (GenerateTaskId t))) = ERR_OK)"

lemma launch_type_new_task [simp]:
  "item_launchType (new_task env want cb t) =
     (if and (want_flags want) (flag_continuation env) \<noteq> 0 then FREEINSTALL_CONTINUE else FREEINSTALL_START)"
  by (simp add: new_task_def)

lemma not_filed:
  assumes "dmsCallbackTask s = Some t" "\<not> filed env want cb s t"
    and "StartRemoteFreeInstall env want u req tok cb s = (r, s')"
  shows "\<exists>t'. dmsCallbackTask s' = Some t' \<and> taskCallbackMap t' = taskCallbackMap t \<and> r \<noteq> ERR_OK \<and>
    sends (history s') = sends (history s) \<and> rpc_calls (history s') = rpc_calls (history s)"
proof -
  have no: "INVALID_PARAMETERS_ERR \<noteq> ERR_OK" "INVALID_REMOTE_PARAMETERS_ERR \<noteq> ERR_OK" by (simp_all add: err_defs)
  obtain i t1 where g: "GenerateTaskId t = (i, t1)" "i = sint (currTaskId t)" "taskCallbackMap t1 = taskCallbackMap t"
    by (simp add: GenerateTaskId_def Let_def)
  obtain p h1 t2 where push: "task_PushCallback env i cb (el_deviceId (want_element want))
      (item_launchType (new_task env want cb t)) want (history s) t1 = (p, h1, t2)"
    by (cases "task_PushCallback env i cb (el_deviceId (want_element want))
      (item_launchType (new_task env want cb t)) want (history s) t1") blast
  have rpc: "rpc_calls h1 = rpc_calls (history s)"
    by (rule task_push_rpc [OF push])
  show ?thesis
  proof (cases "p = ERR_OK")
    case True
    with assms g push no show ?thesis
      by (auto simp: StartRemoteFreeInstall_def filed_def Let_def split: option.splits if_splits)
  next
    case False
    note f = task_push_fail [OF push False]
    from assms g push no f rpc False show ?thesis
      by (auto simp: StartRemoteFreeInstall_def Let_def split: option.splits if_splits)
  qed
qed

text \<open>What happens once the task is filed.\<close>

definition send_install ::
  "env \<Rightarrow> Want \<Rightarrow> int \<Rightarrow> int \<Rightarrow> nat \<Rightarrow> string \<Rightarrow> int \<Rightarrow> DmsCallbackTask \<Rightarrow> sched \<Rightarrow> int \<times> sched" where
  "send_install env want u req tok l i t s1 =
     (case SetCallerInfo env (history s1) u l tok of
        None \<Rightarrow> (INVALID_PARAMETERS_ERR, s1)
      | Some caller \<Rightarrow>
          (let (ret, account) = GetAccountInfo env (history s1) (el_deviceId (want_element want)) caller
           in if ret \<noteq> ERR_OK then (INVALID_PARAMETERS_ERR, s1)
              else
                let info = \<lparr>fi_want = SetParam DMS_SRC_NETWORK_ID (WString l) want, fi_requestCode = req,
                      fi_callerInfo = caller, fi_accountInfo = account\<rparr>;
                    (result, s2) = call_rpc env (el_deviceId (want_element want)) (RpcStartFreeInstall info i) s1
                in if result \<noteq> ERR_OK then
                     (let (item, h, t4) = task_PopCallback i (history s2) t
                      in (result, s2\<lparr>history := snd (NotifyFreeInstallResult env item result h),
                            dmsCallbackTask := Some t4\<rparr>))
                   else (result, s2)))"

lemma filed_sends:
  assumes "dmsCallbackTask s = Some t" "filed env want cb s t"
  shows "\<exists>l h1 t3. sint (currTaskId t) \<notin> map_keys (taskCallbackMap t) \<and> sends h1 = sends (history s) \<and>
    rpc_calls h1 = rpc_calls (history s) \<and>
    taskCallbackMap t3 = map_emplace (sint (currTaskId t)) (new_task env want cb t) (taskCallbackMap t) \<and>
    StartRemoteFreeInstall env want u req tok cb s =
      send_install env want u req tok l (sint (currTaskId t)) t3 (s\<lparr>history := h1, dmsCallbackTask := Some t3\<rparr>)"
proof -
  obtain i t1 where g: "GenerateTaskId t = (i, t1)" "i = sint (currTaskId t)" "taskCallbackMap t1 = taskCallbackMap t"
    by (simp add: GenerateTaskId_def Let_def)
  let ?l = "item_launchType (new_task env want cb t)"
  obtain h1 t2 where push: "task_PushCallback env i cb (el_deviceId (want_element want)) ?l want (history s) t1 =
      (ERR_OK, h1, t2)"
    using assms(2) g by (auto simp: filed_def prod_eq_iff)
  note p = task_push_ok [OF push]
  obtain l where l: "GetLocalDeviceId env s = Some l" "CheckDeviceId l (el_deviceId (want_element want))"
    "GetRemoteDms env (el_deviceId (want_element want)) s" using assms(2) by (auto simp: filed_def)
  define t3 where "t3 = (if ?l = FREEINSTALL_CONTINUE
    then SetContinuationMissionMap i (GetIntParam want ''sessionId'' (- 1)) t2 else t2)"
  have "rpc_calls h1 = rpc_calls (history s)"
    by (rule task_push_rpc [OF push])
  moreover have "StartRemoteFreeInstall env want u req tok cb s =
      send_install env want u req tok l i t3 (s\<lparr>history := h1, dmsCallbackTask := Some t3\<rparr>)"
    using push [unfolded launch_type_new_task] l assms(1) g(1)
    unfolding StartRemoteFreeInstall_def send_install_def t3_def launch_type_new_task
    by (cases "and (want_flags want) (flag_continuation env) = 0") (auto simp: Let_def split: option.split prod.split)
  moreover have "taskCallbackMap t3 = taskCallbackMap t2" by (simp add: t3_def)
  ultimately show ?thesis using p g
    by (intro exI [of _ l] exI [of _ h1] exI [of _ t3]) (simp add: new_task_def)
qed

text \<open>
  C32: Starting a free install files at most one task, under a fresh id. On success the task
  is pending with its callback, device and want, and one install request carrying that id
  went out. If the other device refuses, the task is gone and its callback is told the error
  once. If it fails before a request goes out, nobody is told, and then the task stays
  pending exactly when it had been filed.
\<close>

theorem start_free_install_tasks:
  assumes "dmsCallbackTask s = Some t" "\<And>p v. writable env p v"
    and "StartRemoteFreeInstall env want u req tok cb s = (r, s')"
  shows "\<exists>t'. dmsCallbackTask s' = Some t' \<and>
    (let id = sint (currTaskId t); item = new_task env want cb t; old = taskCallbackMap t;
         sent = rpc_calls (history s') \<noteq> rpc_calls (history s)
     in if r = ERR_OK then
          id \<notin> map_keys old \<and> taskCallbackMap t' = map_emplace id item old \<and> sends (history s') = sends (history s) \<and>
          (\<exists>info. rpc_calls (history s') =
             rpc_calls (history s) @ [(el_deviceId (want_element want), RpcStartFreeInstall info id)])
        else if sent then
          taskCallbackMap t' = old \<and> sends (history s') = sends (history s) @ install_message env item r
        else
          sends (history s') = sends (history s) \<and>
          taskCallbackMap t' = (if filed env want cb s t then map_emplace id item old else old))"
proof (cases "filed env want cb s t")
  case False
  from not_filed [OF assms(1) False assms(3)] False show ?thesis by (auto simp: Let_def)
next
  case True
  let ?i = "sint (currTaskId t)" and ?old = "taskCallbackMap t" and ?item = "new_task env want cb t"
  obtain l h1 t3 where f: "?i \<notin> map_keys ?old" "sends h1 = sends (history s)" "rpc_calls h1 = rpc_calls (history s)"
    "taskCallbackMap t3 = map_emplace ?i ?item ?old"
    "send_install env want u req tok l ?i t3 (s\<lparr>history := h1, dmsCallbackTask := Some t3\<rparr>) = (r, s')"
    using filed_sends [OF assms(1) True, of u req tok] assms(3) by metis
  have "INVALID_PARAMETERS_ERR \<noteq> ERR_OK" by (simp add: err_defs)
  moreover have "map_find ?i (taskCallbackMap t3) = Some ?item" using f by simp
  note pop = task_pop_found [OF this]
  moreover have "map_erase ?i (taskCallbackMap t3) = ?old" using f by (simp add: erase_emplace_absent)
  ultimately show ?thesis using f True
    by (auto simp: send_install_def call_eq Let_def NotifyFreeInstallResult_message [OF assms(2)]
        pop
        split: option.splits if_splits prod.splits)
qed

text \<open>A caller the bundle manager does not know: its task stays although the start failed.\<close>

definition nobody_env :: env where
  "nobody_env = sample_env\<lparr>bms_bundles_for_uid := (\<lambda>h u. None)\<rparr>"

definition started_task :: DmsCallbackTask where
  "started_task = task_Init new_callback_task"

lemma started_task: "dmsCallbackTask started = Some started_task"
  by (simp add: started_def service_OnStart_def started_task_def)

theorem start_free_install_tasks_witness:
  "(let (r, s') = StartRemoteFreeInstall nobody_env (sample_want ''B'') 5 7 0 (Some (Proxy 4)) started
    in r \<noteq> ERR_OK \<and> sends (history s') = [] \<and>
       (\<exists>t'. dmsCallbackTask s' = Some t' \<and> map_keys (taskCallbackMap t') = {1}))"
proof -
  obtain r s' where r: "StartRemoteFreeInstall nobody_env (sample_want ''B'') 5 7 0 (Some (Proxy 4)) started = (r, s')"
    by (cases "StartRemoteFreeInstall nobody_env (sample_want ''B'') 5 7 0 (Some (Proxy 4)) started")
  have w: "writable nobody_env p v" for p v by (simp add: nobody_env_def sample_env_def)
  have e: "fst (StartRemoteFreeInstall nobody_env (sample_want ''B'') 5 7 0 (Some (Proxy 4)) started) \<noteq> ERR_OK"
    "rpc_calls (history (snd (StartRemoteFreeInstall nobody_env (sample_want ''B'') 5 7 0 (Some (Proxy 4)) started))) =
     rpc_calls (history started)"
    "filed nobody_env (sample_want ''B'') (Some (Proxy 4)) started started_task"
    by (simp_all add: StartRemoteFreeInstall_def filed_def started_def service_OnStart_def initial_sched_def
        nobody_env_def sample_env_def sample_want_def GetLocalDeviceId_def CheckDeviceId_def GetRemoteDms_def
        task_PushCallback_def GenerateTaskId_def task_Init_def new_callback_task_def started_task_def
        SetCallerInfo_def caller_with_bundles_def GetCallerAppIdFromBms_def GetBundleNameListFromBms_def
        err_defs Let_def)
  have h: "taskCallbackMap started_task = []" "sint (currTaskId started_task) = 1" "history started = []"
    by (simp_all add: started_task_def task_Init_def new_callback_task_def started_def service_OnStart_def
        initial_sched_def)
  from start_free_install_tasks [OF started_task w r] e r h show ?thesis by (auto simp: Let_def)
qed

section \<open>Results of installs\<close>

text \<open>
  C16: The result of a free install an application waits for is sent to its callback in one
  message and its task is gone; a second result for the same task, such as its timeout, is
  refused and sends nothing. The tasks of other installs are untouched.
\<close>

theorem install_result_told_once:
  assumes "dmsCallbackTask s = Some t" "dschedContinuation s = Some c"
    and "map_find i (taskCallbackMap t) = Some item" "item_launchType item = FREEINSTALL_START"
    and "task_inv t" "\<And>p v. writable env p v"
    and "NotifyCompleteFreeInstallFromRemote env i code s = (r, s')"
  shows "sends (history s') = sends (history s) @ install_message env item code \<and> install_message env item code \<noteq> [] \<and>
    (\<exists>t'. dmsCallbackTask s' = Some t' \<and> taskCallbackMap t' = map_erase i (taskCallbackMap t)) \<and>
    (let (r'', s'') = NotifyCompleteFreeInstallFromRemote env i code' s'
     in r'' = INVALID_REMOTE_PARAMETERS_ERR \<and> sends (history s'') = sends (history s'))"
proof -
  note pop = task_pop_found [OF assms(3)]
  have "(i, item) \<in> set (taskCallbackMap t)" by (rule map_find_Some_mem [OF assms(3)])
  then have cb: "item_callback item \<noteq> nullptr" "0 < i" using assms(4,5) by (auto simp: task_inv_def)
  have launch: "GetLaunchType i t = FREEINSTALL_START" using assms(3,4) by (simp add: GetLaunchType_def)
  have s': "history s' = (if taskHandler t then history s @ [RemoveEvent CallbackTimer i] else history s) @
      install_message env item code" "dschedContinuation s' = Some c"
    "dmsCallbackTask s' = Some (t\<lparr>taskCallbackMap := map_erase i (taskCallbackMap t)\<rparr>)"
    using arg_cong [OF assms(7), of snd] NotifyFreeInstallResult_message [OF assms(6)]
    by (auto simp: NotifyCompleteFreeInstallFromRemote_def assms(1,2) launch pop Let_def split_beta)
  have "NotifyCompleteFreeInstallFromRemote env i code' s' = (INVALID_REMOTE_PARAMETERS_ERR, s')"
    using s'(2,3) by (simp add: NotifyCompleteFreeInstallFromRemote_def GetLaunchType_def task_PopCallback_def
        NotifyFreeInstallResult_def default_item_def Let_def)
  with s' cb(1) show ?thesis by (auto simp: Let_def install_message_def)
qed

definition waiting :: CallbackTaskItem where
  "waiting = \<lparr>item_callback = Some (Proxy 4), item_taskId = 1, item_launchType = FREEINSTALL_START,
     item_deviceId = ''B'', item_want = default_Want\<rparr>"

definition waiting_task :: DmsCallbackTask where
  "waiting_task = started_task\<lparr>taskCallbackMap := [(1, waiting)]\<rparr>"

theorem install_result_told_once_witness:
  "sends (history (snd (NotifyCompleteFreeInstallFromRemote sample_env 1 0
     (started\<lparr>dmsCallbackTask := Some waiting_task\<rparr>)))) = install_message sample_env waiting 0"
proof -
  have i: "task_inv waiting_task" "map_find 1 (taskCallbackMap waiting_task) = Some waiting"
    "item_launchType waiting = FREEINSTALL_START"
    by (auto simp: task_inv_def waiting_task_def waiting_def started_task_def task_Init_def new_callback_task_def
        map_ok_def)
  have w: "writable sample_env p v" for p v by (simp add: sample_env_def)
  let ?s = "started\<lparr>dmsCallbackTask := Some waiting_task\<rparr>"
  have s: "dmsCallbackTask ?s = Some waiting_task" "dschedContinuation ?s = Some (cont_Init new_continuation)"
    "sends (history ?s) = []"
    using started_inv(2) by (simp_all add: started_def service_OnStart_def initial_sched_def)
  from install_result_told_once [OF s(1,2) i(2,3,1) w prod.collapse [symmetric], of 0] s(3)
  show ?thesis by simp
qed

section \<open>The device that installs\<close>

lemma StartAbility_rpc [simp]: "rpc_calls (history (snd (StartAbility env want req s))) = rpc_calls (history s)"
  by (auto simp: StartAbility_def call_eq new_local_def Let_def split_beta split: option.split)

lemma GetRemoteDms_iff [simp]: "GetRemoteDms env d s = (d \<noteq> [] \<and> remote_dms env (history s) d)"
  by (simp add: GetRemoteDms_def)

text \<open>
  C33: When an install for another device is finished, that device is told in exactly one
  request for its task, if it can be reached: the error of the install, or else the result of
  starting the ability. The ability manager is asked to start it only if the install
  succeeded and the caller may start it.
\<close>

theorem install_finished_reports:
  assumes "steady env up" "0 < fic_taskId cb"
    and "OnInstallFinished env want req code cb s = (cb', s')"
  shows "let d = sourceDeviceId (fi_callerInfo (fic_info cb))
    in (\<exists>r. rpc_calls (history s') = rpc_calls (history s) @
          (if d \<noteq> [] \<and> up d then [(d, RpcCompleteFreeInstall (fic_taskId cb) r)] else []) \<and>
          (code \<noteq> ERR_OK \<longrightarrow> r = code)) \<and>
       (ams_calls (history s') \<noteq> ams_calls (history s) \<longrightarrow>
          code = ERR_OK \<and>
          (\<exists>l target. GetLocalDeviceId env s = Some l \<and> GetTargetAbility env (history s) want False = Some target \<and>
             may_start env (history s) want (fi_callerInfo (fic_info cb)) (fi_accountInfo (fic_info cb)) target))"
proof -
  define info where "info = (fic_info cb)\<lparr>fi_want := want, fi_requestCode := req\<rparr>"
  have s': "s' = snd (NotifyCompleteFreeInstall env info (fic_taskId cb) code s)"
    using assms(3) by (simp add: OnInstallFinished_def info_def Let_def prod_eq_iff)
  have info: "fi_callerInfo info = fi_callerInfo (fic_info cb)" "fi_accountInfo info = fi_accountInfo (fic_info cb)"
    "fi_want info = want" by (simp_all add: info_def)
  let ?d = "sourceDeviceId (fi_callerInfo (fic_info cb))"
  have notify: "rpc_calls (history (snd (HandleRemoteNotify env info (fic_taskId cb) r s1))) = rpc_calls (history s1) @
      (if ?d \<noteq> [] \<and> up ?d then [(?d, RpcCompleteFreeInstall (fic_taskId cb) r)] else [])"
    "ams_calls (history (snd (HandleRemoteNotify env info (fic_taskId cb) r s1))) = ams_calls (history s1)" for r s1
    using assms(1,2) by (auto simp: HandleRemoteNotify_def call_eq info steady_def Let_def)
  have start: "rpc_calls (history (snd (StartLocalAbility env info s))) = rpc_calls (history s)"
    by (simp add: StartLocalAbility_def Let_def split: option.split)
  have perm: "CheckDPermission env (history s) want caller account l False = ERR_OK \<longleftrightarrow>
     l \<noteq> [] \<and> (\<exists>target. GetTargetAbility env (history s) want False = Some target \<and>
       may_start env (history s) want caller account target)" for l caller account
    by (auto simp: permission_defs err_defs Let_def split: option.splits)
  have ams: "\<exists>l target. GetLocalDeviceId env s = Some l \<and> GetTargetAbility env (history s) want False = Some target \<and>
      may_start env (history s) want (fi_callerInfo (fic_info cb)) (fi_accountInfo (fic_info cb)) target"
    if "ams_calls (history (snd (StartLocalAbility env info s))) \<noteq> ams_calls (history s)"
    using that by (auto simp: StartLocalAbility_def info perm Let_def split: option.splits if_splits)
  show ?thesis
  proof (cases "code = ERR_OK")
    case True
    then have "s' = snd (HandleRemoteNotify env info (fic_taskId cb) (fst (StartLocalAbility env info s))
        (snd (StartLocalAbility env info s)))"
      using assms(2) by (simp add: s' NotifyCompleteFreeInstall_def split_beta Let_def)
    with True notify start ams show ?thesis by (auto simp: Let_def)
  next
    case False
    then have "s' = snd (HandleRemoteNotify env info (fic_taskId cb) code s)"
      using assms(2) by (simp add: s' NotifyCompleteFreeInstall_def)
    with False notify show ?thesis by (auto simp: Let_def)
  qed
qed

definition finished_callback :: DmsFreeInstallCallback where
  "finished_callback = \<lparr>fic_taskId = 1, fic_info = \<lparr>fi_want = sample_want ''A'', fi_requestCode = 0,
     fi_callerInfo = default_CallerInfo\<lparr>sourceDeviceId := ''B''\<rparr>, fi_accountInfo = same_account\<rparr>\<rparr>"

theorem install_finished_reports_witness:
  "rpc_calls (history (snd (OnInstallFinished sample_env (sample_want ''A'') 0 9 finished_callback started))) =
     [(''B'', RpcCompleteFreeInstall 1 9)]"
proof -
  obtain cb' s' where r: "OnInstallFinished sample_env (sample_want ''A'') 0 9 finished_callback started = (cb', s')"
    by (cases "OnInstallFinished sample_env (sample_want ''A'') 0 9 finished_callback started")
  have c: "0 < fic_taskId finished_callback" by (simp add: finished_callback_def)
  have "history started = []" by (simp add: started_def service_OnStart_def initial_sched_def)
  with install_finished_reports [OF steady_sample c r] r show ?thesis
    by (auto simp: finished_callback_def default_CallerInfo_def err_defs Let_def)
qed

section \<open>Starting abilities for other devices\<close>

definition result_permitted :: "env \<Rightarrow> sched \<Rightarrow> Want \<Rightarrow> CallerInfo \<Rightarrow> AccountInfo \<Rightarrow> bool" where
  "result_permitted env s want caller account =
     (\<exists>l target. GetLocalDeviceId env s = Some l \<and> l \<noteq> [] \<and> GetStringParam want DMS_SRC_NETWORK_ID = l \<and>
        sourceDeviceId caller \<noteq> [] \<and> sourceDeviceId caller \<noteq> l \<and>
        GetTargetAbility env (history s) (RemoveParam DMS_SRC_NETWORK_ID want) False = Some target \<and>
        may_start env (history s) (RemoveParam DMS_SRC_NETWORK_ID want) caller account target)"

lemma result_permitted_check:
  "result_permitted env s want caller account \<longleftrightarrow>
   (\<exists>l. GetLocalDeviceId env s = Some l \<and>
      CheckDeviceIdFromRemote l (GetStringParam want DMS_SRC_NETWORK_ID) (sourceDeviceId caller) \<and>
      CheckDPermission env (history s) (RemoveParam DMS_SRC_NETWORK_ID want) caller account l False = ERR_OK)"
proof -
  have "CheckDPermission env (history s) w caller account l False = ERR_OK \<longleftrightarrow>
     l \<noteq> [] \<and> (\<exists>target. GetTargetAbility env (history s) w False = Some target \<and>
       may_start env (history s) w caller account target)" for l w
    by (auto simp: permission_defs err_defs Let_def split: option.splits)
  then show ?thesis by (auto simp: result_permitted_def CheckDeviceIdFromRemote_def)
qed

text \<open>
  A start for another device, or a result from it, that is not permitted leaves the
  service as it was and returns an error: a start must name this device and come from
  another one, a result must carry this device as its source, and both must pass the
  account, component and token checks.
\<close>

lemma unpermitted_start_refused:
  "(\<not> permitted env s want caller account False \<longrightarrow>
     (\<exists>e. e \<noteq> ERR_OK \<and> StartAbilityFromRemote env want req caller account s = (e, s))) \<and>
   (\<not> result_permitted env s want caller account \<longrightarrow>
     (\<exists>e. e \<noteq> ERR_OK \<and> SendResultFromRemote env want req caller account code s = (e, s)))"
proof -
  have no: "INVALID_REMOTE_PARAMETERS_ERR \<noteq> ERR_OK" by (simp add: err_defs)
  have dest: "CheckDeviceIdFromRemote l d src \<Longrightarrow> d = l" for l d src
    by (simp add: CheckDeviceIdFromRemote_def split: if_splits)
  show ?thesis using no
    by (auto simp: permitted_check result_permitted_check StartAbilityFromRemote_def SendResultFromRemote_def
        Let_def dest: dest split: option.split)
qed

lemma unpermitted_start_refused_sample:
  "\<exists>e. e \<noteq> ERR_OK \<and> StartAbilityFromRemote sample_env (sample_want ''C'') 0 (remote_caller 1) same_account
     initial_sched = (e, initial_sched)"
proof -
  have "\<not> permitted sample_env initial_sched (sample_want ''C'') (remote_caller 1) same_account False"
    by (simp add: permitted_def remote_sample_defs)
  with unpermitted_start_refused [of sample_env initial_sched "sample_want ''C''" "remote_caller 1" same_account]
  show ?thesis by blast
qed

section \<open>A failed install of a mission without a record\<close>

text \<open>
  When the install for a mission fails and no mission was recorded for the task, the
  error code that reports the missing record is taken for the number of the mission, and the
  ability manager is told that the mission of that number failed.
\<close>

lemma missing_mission_is_an_error_code:
  assumes "dmsCallbackTask s = Some t" "dschedContinuation s = Some c"
    and "map_find i (taskCallbackMap t) = Some item" "item_launchType item = FREEINSTALL_CONTINUE"
    and "0 < i" "map_find i (continuationMissionMap t) = None" "code \<noteq> ERR_OK"
    and "\<not> IsInContinuationProgress INVALID_PARAMETERS_ERR c"
  shows "ams_calls (history (snd (NotifyCompleteFreeInstallFromRemote env i code s))) =
    ams_calls (history s) @ [AmsNotifyContinuationResult INVALID_PARAMETERS_ERR CONTINUE_FREE_INSTALL_FAILED]"
proof -
  have launch: "GetLaunchType i t = FREEINSTALL_CONTINUE" using assms(3-5) by (simp add: GetLaunchType_def)
  have code: "sint (word_of_int INVALID_PARAMETERS_ERR :: int32) = INVALID_PARAMETERS_ERR"
    by (simp add: err_defs)
  show ?thesis using assms
    by (simp add: NotifyCompleteFreeInstallFromRemote_def launch task_pop_found GetContinuaionMissionId_def code
        NotifyContinuationCallbackResult_def call_eq Let_def)
qed

end
