(* ===== verification/MissionData.thy ===== *)
theory MissionData
  imports DmsTypes ContinuationData
begin

text \<open>
  The missions devices tell each other about: \<^verbatim>\<open>DstbMissionInfo\<close>
  (\<^verbatim>\<open>dtbschedmgr/src/mission/distributed_mission_info.cpp\<close>), with its messages, and the
  conversions from and to the \<^verbatim>\<open>MissionInfo\<close> of the ability manager
  (\<^verbatim>\<open>mission_info_converter.cpp\<close>). \<^verbatim>\<open>MissionInfo\<close> belongs to another repository and is a
  record of the parts the conversions use. Shared pointers are options.
\<close>

section \<open>Mission infos\<close>

record DstbMissionInfo =
  dm_id :: int
  dm_runingState :: int
  dm_userId :: int
  dm_missionStackId :: int
  dm_combinedMissionIds :: "int list"
  dm_windowMode :: int
  dm_boundsLeft :: int
  dm_boundsTop :: int
  dm_boundsRight :: int
  dm_boundsBottom :: int
  dm_baseWant :: "Want option"
  dm_topAbility :: "ElementName option"
  dm_baseAbility :: "ElementName option"
  dm_reservedAbility :: "ElementName option"
  dm_lastMissionActiveTime :: int
  dm_displayId :: int
  dm_label :: string
  dm_size :: int
  dm_iconPath :: string
  dm_continuable :: int
  dm_windowType :: int
  dm_lockedState :: bool
  dm_missionType :: int
  dm_windowTypeMode :: int

definition new_DstbMissionInfo :: DstbMissionInfo where
  "new_DstbMissionInfo = \<lparr>dm_id = - 1, dm_runingState = - 1, dm_userId = 0, dm_missionStackId = - 1,
     dm_combinedMissionIds = [], dm_windowMode = 0, dm_boundsLeft = 0, dm_boundsTop = 0,
     dm_boundsRight = 0, dm_boundsBottom = 0, dm_baseWant = None, dm_topAbility = None,
     dm_baseAbility = None, dm_reservedAbility = None, dm_lastMissionActiveTime = 0,
     dm_displayId = 0, dm_label = [], dm_size = 0, dm_iconPath = [], dm_continuable = 0,
     dm_windowType = 0, dm_lockedState = False, dm_missionType = 2147483647, dm_windowTypeMode = 0\<rparr>"

definition dm_values :: "env \<Rightarrow> DstbMissionInfo \<Rightarrow> pval list" where
  "dm_values env i =
     [PInt32 (dm_id i), PInt32 (dm_runingState i), PInt32 (dm_userId i), PInt32 (dm_missionStackId i),
      PInt32s (dm_combinedMissionIds i), PInt32 (dm_windowMode i), PInt32 (dm_boundsLeft i),
      PInt32 (dm_boundsTop i), PInt32 (dm_boundsRight i), PInt32 (dm_boundsBottom i),
      write_parcelable (marshal_want env) (dm_baseWant i),
      write_parcelable (marshal_element env) (dm_topAbility i),
      write_parcelable (marshal_element env) (dm_baseAbility i),
      write_parcelable (marshal_element env) (dm_reservedAbility i),
      PInt64 (dm_lastMissionActiveTime i), PInt32 (dm_displayId i),
      PString16 (str16 env (dm_label i)), PInt32 (dm_size i), PString16 (str16 env (dm_iconPath i)),
      PInt32 (dm_continuable i), PInt32 (dm_windowType i), PBool (dm_lockedState i),
      PInt32 (dm_missionType i), PInt32 (dm_windowTypeMode i)]"

definition dm_Marshalling :: "env \<Rightarrow> DstbMissionInfo \<Rightarrow> parcel \<Rightarrow> parcel option" where
  "dm_Marshalling env i p = write_all (writable env) (dm_values env i) p"

definition dm_ReadFromParcel :: "env \<Rightarrow> parcel \<Rightarrow> DstbMissionInfo option" where
  "dm_ReadFromParcel env p =
     (let (i, p) = read_or 0 read_int32 p;
          (running, p) = read_or 0 read_int32 p;
          (user, p) = read_or 0 read_int32 p;
          (stack, p) = read_or 0 read_int32 p
      in (case read_int32s p of
            None \<Rightarrow> None
          | Some (combined, p) \<Rightarrow>
              (let (mode, p) = read_or 0 read_int32 p;
                   (left, p) = read_or 0 read_int32 p;
                   (top, p) = read_or 0 read_int32 p;
                   (right, p) = read_or 0 read_int32 p;
                   (bottom, p) = read_or 0 read_int32 p;
                   (want, p) = read_parcelable (unmarshal_want env) p;
                   (topAbility, p) = read_parcelable (unmarshal_element env) p;
                   (baseAbility, p) = read_parcelable (unmarshal_element env) p;
                   (reserved, p) = read_parcelable (unmarshal_element env) p;
                   (active, p) = read_or 0 read_int64 p;
                   (display, p) = read_or 0 read_int32 p;
                   (label, p) = read_or [] read_string16 p;
                   (size, p) = read_or 0 read_int32 p;
                   (icon, p) = read_or [] read_string16 p;
                   (continuable, p) = read_or 0 read_int32 p;
                   (windowType, p) = read_or 0 read_int32 p;
                   (locked, p) = read_or False read_bool p;
                   (missionType, p) = read_or 0 read_int32 p;
                   (windowTypeMode, p) = read_or 0 read_int32 p
               in Some \<lparr>dm_id = i, dm_runingState = running, dm_userId = user, dm_missionStackId = stack,
                    dm_combinedMissionIds = combined, dm_windowMode = mode, dm_boundsLeft = left,
                    dm_boundsTop = top, dm_boundsRight = right, dm_boundsBottom = bottom,
                    dm_baseWant = want, dm_topAbility = topAbility, dm_baseAbility = baseAbility,
                    dm_reservedAbility = reserved, dm_lastMissionActiveTime = active,
                    dm_displayId = display, dm_label = str8 env label, dm_size = size,
                    dm_iconPath = str8 env icon, dm_continuable = continuable,
                    dm_windowType = windowType, dm_lockedState = locked,
                    dm_missionType = missionType, dm_windowTypeMode = windowTypeMode\<rparr>)))"

text \<open>\<^verbatim>\<open>Unmarshalling\<close> allocates an object and reads it; it is null when reading fails.\<close>

definition dm_Unmarshalling :: "env \<Rightarrow> parcel \<Rightarrow> DstbMissionInfo option" where
  "dm_Unmarshalling env p = dm_ReadFromParcel env p"

section \<open>Lists of mission infos\<close>

text \<open>A nested object is written when its \<^verbatim>\<open>Marshalling\<close> succeeds and the library accepts it.\<close>

fun write_mission_infos :: "env \<Rightarrow> DstbMissionInfo list \<Rightarrow> parcel \<Rightarrow> parcel option" where
  "write_mission_infos env [] p = Some p"
| "write_mission_infos env (i # is) p =
     do { q \<leftarrow> dm_Marshalling env i [];
          p' \<leftarrow> write_all (writable env) [PNested q] p;
          write_mission_infos env is p' }"

definition WriteDstbMissionInfosToParcel :: "env \<Rightarrow> DstbMissionInfo list \<Rightarrow> parcel \<Rightarrow> parcel option" where
  "WriteDstbMissionInfosToParcel env is p =
     (let size = length is
      in if size = 0 then write_all (writable env) [PInt32 VALUE_NULL] p
         else do { p1 \<leftarrow> write_all (writable env) [PInt32 VALUE_OBJECT, PInt32 (sint (of_nat size :: int32))] p;
                   write_mission_infos env is p1 })"

fun read_mission_infos :: "env \<Rightarrow> nat \<Rightarrow> parcel \<Rightarrow> (DstbMissionInfo list \<times> parcel) option" where
  "read_mission_infos env 0 p = Some ([], p)"
| "read_mission_infos env (Suc n) p =
     (case read_parcelable (dm_Unmarshalling env) p of
        (None, p') \<Rightarrow> None
      | (Some i, p') \<Rightarrow>
          do { (is, p'') \<leftarrow> read_mission_infos env n p'; Some (i # is, p'') })"

definition ReadDstbMissionInfosFromParcel :: "env \<Rightarrow> parcel \<Rightarrow> (DstbMissionInfo list \<times> parcel) option" where
  "ReadDstbMissionInfosFromParcel env p =
     (let (empty, p1) = read_or 0 read_int32 p
      in if empty = VALUE_OBJECT then
           (let (len, p2) = read_or 0 read_int32 p1
            in if len < 0 then None
               else if readable_bytes env p2 < nat len then None
               else read_mission_infos env (nat len) p2)
         else Some ([], p1))"

definition want_bundle :: "Want \<Rightarrow> string" where
  "want_bundle w = el_bundleName (want_element w)"

definition pointer_text :: "('a \<Rightarrow> string) \<Rightarrow> 'a option \<Rightarrow> string" where
  "pointer_text f x = (case x of None \<Rightarrow> ''nullptr'' | Some y \<Rightarrow> f y)"

definition dm_ToString :: "DstbMissionInfo \<Rightarrow> string" where
  "dm_ToString i = ''id: '' @ int_to_string (dm_id i)
     @ '' runingState: '' @ int_to_string (dm_runingState i)
     @ '' userId: '' @ int_to_string (dm_userId i)
     @ '' missionStackId: '' @ int_to_string (dm_missionStackId i)
     @ '' windowMode: '' @ int_to_string (dm_windowMode i)
     @ '' boundsLeft: '' @ int_to_string (dm_boundsLeft i)
     @ '' boundsTop: '' @ int_to_string (dm_boundsTop i)
     @ '' boundsRight: '' @ int_to_string (dm_boundsRight i)
     @ '' boundsBottom: '' @ int_to_string (dm_boundsBottom i)
     @ '' baseWant: '' @ pointer_text want_bundle (dm_baseWant i)
     @ '' topAbility: '' @ pointer_text el_bundleName (dm_topAbility i)
     @ '' baseAbility: '' @ pointer_text el_bundleName (dm_baseAbility i)
     @ '' reservedAbility: '' @ pointer_text el_bundleName (dm_reservedAbility i)
     @ '' lastMissionActiveTime: '' @ int_to_string (dm_lastMissionActiveTime i)
     @ '' displayId: '' @ int_to_string (dm_displayId i)
     @ '' label: '' @ dm_label i
     @ '' size: '' @ int_to_string (dm_size i)
     @ '' iconPath: '' @ dm_iconPath i
     @ '' continuable: '' @ int_to_string (dm_continuable i)
     @ '' windowType: '' @ int_to_string (dm_windowType i)
     @ '' lockedState: '' @ (if dm_lockedState i then ''true'' else ''false'')
     @ '' missionType: '' @ int_to_string (dm_missionType i)
     @ '' windowTypeMode: '' @ int_to_string (dm_windowTypeMode i)"

section \<open>Conversion\<close>

record MissionInfo =
  ms_id :: int
  ms_runningState :: int
  ms_lockedState :: bool
  ms_continuable :: bool
  ms_label :: string
  ms_iconPath :: string
  ms_want :: Want

definition to_dstb :: "MissionInfo \<Rightarrow> DstbMissionInfo" where
  "to_dstb m = new_DstbMissionInfo\<lparr>dm_id := ms_id m, dm_runingState := ms_runningState m,
     dm_lockedState := ms_lockedState m, dm_label := ms_label m, dm_iconPath := ms_iconPath m,
     dm_baseWant := Some (ms_want m), dm_continuable := if ms_continuable m then 1 else 0\<rparr>"

text \<open>The new infos are appended to the caller's list.\<close>

definition ConvertToDstbMissionInfos ::
  "MissionInfo list \<Rightarrow> DstbMissionInfo list \<Rightarrow> int \<times> DstbMissionInfo list" where
  "ConvertToDstbMissionInfos ms out =
     (if ms = [] then (ERR_OK, out) else (ERR_OK, out @ map to_dstb ms))"

text \<open>\<open>None\<close>: an info without a want, whose null pointer the code dereferences.\<close>

definition to_mission :: "DstbMissionInfo \<Rightarrow> MissionInfo option" where
  "to_mission i =
     (case dm_baseWant i of
        None \<Rightarrow> None
      | Some w \<Rightarrow> Some \<lparr>ms_id = dm_id i, ms_runningState = dm_runingState i,
          ms_lockedState = dm_lockedState i, ms_continuable = (dm_continuable i = 1),
          ms_label = dm_label i, ms_iconPath = dm_iconPath i, ms_want = w\<rparr>)"

fun convert_missions :: "DstbMissionInfo list \<Rightarrow> MissionInfo list option" where
  "convert_missions [] = Some []"
| "convert_missions (i # is) =
     do { m \<leftarrow> to_mission i; ms \<leftarrow> convert_missions is; Some (m # ms) }"

definition ConvertToMissionInfos ::
  "DstbMissionInfo list \<Rightarrow> MissionInfo list \<Rightarrow> (int \<times> MissionInfo list) option" where
  "ConvertToMissionInfos is out =
     (if is = [] then Some (ERR_OK, out)
      else do { ms \<leftarrow> convert_missions is; Some (ERR_OK, out @ ms) })"

text \<open>\<open>mm\<close> and \<open>um\<close> are the marshalling of \<^verbatim>\<open>MissionInfo\<close>.\<close>

definition WriteMissionInfosToParcel ::
  "env \<Rightarrow> (MissionInfo \<Rightarrow> parcel) \<Rightarrow> MissionInfo list \<Rightarrow> parcel \<Rightarrow> parcel option" where
  "WriteMissionInfosToParcel env mm ms p =
     (let size = length ms
      in if size = 0 then write_all (writable env) [PInt32 VALUE_NULL] p
         else write_all (writable env)
                ([PInt32 VALUE_OBJECT, PInt32 (sint (of_nat size :: int32))] @ map (PNested \<circ> mm) ms) p)"

fun read_missions :: "(parcel \<Rightarrow> MissionInfo option) \<Rightarrow> nat \<Rightarrow> parcel \<Rightarrow> (MissionInfo list \<times> parcel) option" where
  "read_missions um 0 p = Some ([], p)"
| "read_missions um (Suc n) p =
     (case read_parcelable um p of
        (None, p') \<Rightarrow> None
      | (Some m, p') \<Rightarrow> do { (ms, p'') \<leftarrow> read_missions um n p'; Some (m # ms, p'') })"

definition ReadMissionInfosFromParcel ::
  "env \<Rightarrow> (parcel \<Rightarrow> MissionInfo option) \<Rightarrow> parcel \<Rightarrow> (MissionInfo list \<times> parcel) option" where
  "ReadMissionInfosFromParcel env um p =
     (let (empty, p1) = read_or 0 read_int32 p
      in if empty = VALUE_OBJECT then
           (let (len, p2) = read_or 0 read_int32 p1
            in if len < 0 then None
               else if readable_bytes env p2 < nat len then None
               else read_missions um (nat len) p2)
         else Some ([], p1))"

section \<open>Round trips\<close>

text \<open>
  A library that takes every value, and conversions that give back what they were given;
  a value still to be read has at least one byte.
\<close>

definition good_parcels :: "env \<Rightarrow> bool" where
  "good_parcels env =
     ((\<forall>p v. writable env p v) \<and> (\<forall>t. str8 env (str16 env t) = t) \<and>
      (\<forall>w. unmarshal_want env (marshal_want env w) = Some w) \<and>
      (\<forall>e. unmarshal_element env (marshal_element env e) = Some e) \<and>
      (\<forall>m. unmarshal_params env (marshal_params env m) = Some m) \<and>
      (\<forall>p. length p \<le> readable_bytes env p))"

lemma good_parcels_simps [simp]:
  assumes "good_parcels env"
  shows "writable env p v" "str8 env (str16 env t) = t"
    "unmarshal_want env (marshal_want env w) = Some w"
    "unmarshal_element env (marshal_element env e) = Some e"
    "unmarshal_params env (marshal_params env m) = Some m"
  using assms by (simp_all add: good_parcels_def)

lemma good_parcels_length: "good_parcels env \<Longrightarrow> n \<le> length p \<Longrightarrow> \<not> readable_bytes env p < n"
  by (metis good_parcels_def le_trans not_le)

lemma dm_roundtrip:
  assumes "good_parcels env"
  shows "dm_Unmarshalling env (dm_values env i) = Some i"
  using assms by (simp add: dm_Unmarshalling_def dm_ReadFromParcel_def dm_values_def read_or_def)

lemma write_mission_infos_ok:
  assumes "good_parcels env"
  shows "write_mission_infos env is p = Some (p @ map (\<lambda>i. PNested (dm_values env i)) is)"
  using assms by (induction "is" arbitrary: p) (auto simp: dm_Marshalling_def)

lemma read_mission_infos_ok:
  assumes "good_parcels env"
  shows "read_mission_infos env (length is) (map (\<lambda>i. PNested (dm_values env i)) is @ p) = Some (is, p)"
  using assms by (induction "is") (auto simp: dm_roundtrip)

lemma mission_infos_message:
  assumes "good_parcels env" and "length is < 2147483648"
  shows "\<exists>vs. WriteDstbMissionInfosToParcel env is p = Some (p @ vs) \<and>
    (\<forall>q. ReadDstbMissionInfosFromParcel env (vs @ q) = Some (is, q))"
proof (cases "is = []")
  case True
  with assms(1) show ?thesis
    by (auto simp: WriteDstbMissionInfosToParcel_def ReadDstbMissionInfosFromParcel_def read_or_def
        VALUE_NULL_def VALUE_OBJECT_def)
next
  case False
  let ?vs = "[PInt32 VALUE_OBJECT, PInt32 (int (length is))] @ map (\<lambda>i. PNested (dm_values env i)) is"
  have "WriteDstbMissionInfosToParcel env is p = Some (p @ ?vs)"
    using False assms
    by (simp add: WriteDstbMissionInfosToParcel_def write_mission_infos_ok sint_of_nat_32)
  moreover have "ReadDstbMissionInfosFromParcel env (?vs @ q) = Some (is, q)" for q
    using assms(1) good_parcels_length[OF assms(1), of "length is" "map (\<lambda>i. PNested (dm_values env i)) is @ q"]
    by (simp add: ReadDstbMissionInfosFromParcel_def read_or_def read_mission_infos_ok)
  ultimately show ?thesis by blast
qed

lemma read_missions_ok:
  "(\<And>m. um (mm m) = Some m) \<Longrightarrow>
   read_missions um (length ms) (map (PNested \<circ> mm) ms @ p) = Some (ms, p)"
  by (induction ms) auto

lemma missions_message:
  assumes "good_parcels env" and "length ms < 2147483648" and "\<And>m. um (mm m) = Some m"
  shows "\<exists>vs. WriteMissionInfosToParcel env mm ms p = Some (p @ vs) \<and>
    ReadMissionInfosFromParcel env um (vs @ q) = Some (ms, q)"
proof (cases "ms = []")
  case True
  with assms(1) show ?thesis
    by (auto simp: WriteMissionInfosToParcel_def ReadMissionInfosFromParcel_def read_or_def
        VALUE_NULL_def VALUE_OBJECT_def)
next
  case False
  let ?vs = "[PInt32 VALUE_OBJECT, PInt32 (int (length ms))] @ map (PNested \<circ> mm) ms"
  have "WriteMissionInfosToParcel env mm ms p = Some (p @ ?vs)"
    using False assms by (simp add: WriteMissionInfosToParcel_def sint_of_nat_32)
  moreover have "ReadMissionInfosFromParcel env um (?vs @ q) = Some (ms, q)"
    using assms(3) good_parcels_length[OF assms(1), of "length ms" "map (PNested \<circ> mm) ms @ q"]
    by (simp add: ReadMissionInfosFromParcel_def read_or_def read_missions_ok[where mm = mm])
  ultimately show ?thesis by blast
qed

lemma to_mission_to_dstb: "to_mission (to_dstb m) = Some m"
  by (simp add: to_mission_def to_dstb_def)

lemma convert_missions_to_dstb: "convert_missions (map to_dstb ms) = Some ms"
  by (induction ms) (auto simp: to_mission_to_dstb)

lemma conversions_inverse:
  "ConvertToMissionInfos (snd (ConvertToDstbMissionInfos ms [])) [] = Some (ERR_OK, ms)"
  by (simp add: ConvertToMissionInfos_def ConvertToDstbMissionInfos_def convert_missions_to_dstb)

end
