(* ===== verification/SnapshotData.thy ===== *)
theory SnapshotData
  imports DmsTypes "HOL-Library.Monad_Syntax"
begin

text \<open>
  Mission snapshots (\<^verbatim>\<open>dtbschedmgr/src/mission/snapshot.cpp\<close>, \<^verbatim>\<open>snapshot_converter.cpp\<close>): the
  byte stream a snapshot is stored as in the distributed data base, and reading it back. A
  stream is a list of bytes, every access to it is checked (\<open>None\<close> is an access outside the
  buffer), and a 32-bit length is the four bytes of a little-endian word.

  The image library (\<open>pack_image\<close>, \<open>unpack_image\<close>), the byte encoding of a message
  (\<open>encode_parcel\<close>, \<open>decode_parcel\<close>) and the bytes the library adds after a buffer
  (\<open>padding\<close>) are parameters.
\<close>

section \<open>Snapshots\<close>

type_synonym byte = "8 word"
type_synonym pixel_map = "byte list"

record Rect =
  rect_left :: int
  rect_top :: int
  rect_right :: int
  rect_bottom :: int

record Snapshot =
  sn_version :: int
  sn_orientation :: int
  sn_rect :: "Rect option"
  sn_reducedResolution :: bool
  sn_scale :: "32 word"
  sn_isRealSnapshot :: bool
  sn_windowingMode :: int
  sn_systemUiVisibility :: int
  sn_isTranslucent :: bool
  sn_windowBounds :: "Rect option"
  sn_appLabel :: u16string
  sn_abilityLabel :: u16string
  sn_icon :: "byte list"
  sn_secAppLabel :: u16string
  sn_secAbilityLabel :: u16string
  sn_secIcon :: "byte list"
  sn_sourceDeviceTips :: u16string
  sn_pixelMap :: "pixel_map option"
  sn_createdTime :: int
  sn_lastAccessTime :: int

definition new_Snapshot :: Snapshot where
  "new_Snapshot = \<lparr>sn_version = 0, sn_orientation = 0, sn_rect = None, sn_reducedResolution = True,
     sn_scale = 0, sn_isRealSnapshot = True, sn_windowingMode = 0, sn_systemUiVisibility = 0,
     sn_isTranslucent = True, sn_windowBounds = None, sn_appLabel = [], sn_abilityLabel = [],
     sn_icon = [], sn_secAppLabel = [], sn_secAbilityLabel = [], sn_secIcon = [],
     sn_sourceDeviceTips = [], sn_pixelMap = None, sn_createdTime = 0, sn_lastAccessTime = 0\<rparr>"

record snap_env =
  encode_parcel :: "parcel \<Rightarrow> byte list"
  decode_parcel :: "byte list \<Rightarrow> parcel"
  pack_image :: "pixel_map \<Rightarrow> byte list"
  unpack_image :: "byte list \<Rightarrow> pixel_map option"
  padding :: "nat \<Rightarrow> byte list"
  capacity :: "byte list \<Rightarrow> nat"
  set_capacity_ok :: "nat \<Rightarrow> bool"
  write_buffer_ok :: "byte list \<Rightarrow> bool"
  write_uint32_ok :: "byte list \<Rightarrow> nat \<Rightarrow> bool"
  value_ok :: parcel_writer
  pixel_value :: "pixel_map \<Rightarrow> pval option"

definition GetCreatedTime :: "Snapshot \<Rightarrow> int" where "GetCreatedTime s = sn_createdTime s"

definition GetLastAccessTime :: "Snapshot \<Rightarrow> int" where "GetLastAccessTime s = sn_lastAccessTime s"

definition UpdateLastAccessTime :: "int \<Rightarrow> Snapshot \<Rightarrow> Snapshot" where
  "UpdateLastAccessTime t s = s\<lparr>sn_lastAccessTime := t\<rparr>"

section \<open>Rectangles\<close>

definition rect_Marshalling :: "Rect \<Rightarrow> parcel" where
  "rect_Marshalling r = [PInt32 (rect_left r), PInt32 (rect_top r), PInt32 (rect_right r), PInt32 (rect_bottom r)]"

definition rect_Unmarshalling :: "parcel \<Rightarrow> Rect option" where
  "rect_Unmarshalling p =
     (let (l, p) = read_or 0 read_int32 p;
          (t, p) = read_or 0 read_int32 p;
          (r, p) = read_or 0 read_int32 p;
          (b, p) = read_or 0 read_int32 p
      in Some \<lparr>rect_left = l, rect_top = t, rect_right = r, rect_bottom = b\<rparr>)"

section \<open>Values of a snapshot\<close>

definition snapshot_values :: "int \<Rightarrow> Snapshot \<Rightarrow> pval list" where
  "snapshot_values version s =
     [PInt32 version, PInt32 (sn_orientation s), write_parcelable rect_Marshalling (sn_rect s),
      PBool (sn_reducedResolution s), PFloat (sn_scale s), PBool (sn_isRealSnapshot s),
      PInt32 (sn_windowingMode s), PInt32 (sn_systemUiVisibility s), PBool (sn_isTranslucent s),
      write_parcelable rect_Marshalling (sn_windowBounds s), PString16 (sn_appLabel s),
      PString16 (sn_abilityLabel s), PBytes (sn_icon s), PString16 (sn_secAppLabel s),
      PString16 (sn_secAbilityLabel s), PBytes (sn_secIcon s), PString16 (sn_sourceDeviceTips s)]"

definition snap_WriteToParcel :: "snap_env \<Rightarrow> Snapshot \<Rightarrow> parcel \<Rightarrow> parcel option" where
  "snap_WriteToParcel e s p =
     (case write_all (value_ok e) (snapshot_values 1 s) p of
        None \<Rightarrow> None
      | Some p1 \<Rightarrow>
          (case sn_pixelMap s of
             None \<Rightarrow> write_all (value_ok e) [PNull] p1
           | Some m \<Rightarrow>
               (case write_all (value_ok e) [PInt32 1] p1 of
                  None \<Rightarrow> None
                | Some p2 \<Rightarrow>
                    (case pixel_value e m of None \<Rightarrow> None | Some v \<Rightarrow> write_all (value_ok e) [v] p2))))"

text \<open>A checked read, and the function of the rest.\<close>

definition reading :: "('a \<times> parcel) option \<Rightarrow> ('a \<Rightarrow> parcel \<Rightarrow> 'b option) \<Rightarrow> 'b option" where
  "reading r k = (case r of None \<Rightarrow> None | Some (x, p) \<Rightarrow> k x p)"

lemma reading_Some [simp]: "reading (Some (x, p)) k = k x p"
  by (simp add: reading_def)

definition FillSnapShot :: "parcel \<Rightarrow> Snapshot option" where
  "FillSnapShot p =
     reading (read_int32 p) (\<lambda>version p.
     reading (read_int32 p) (\<lambda>orientation p.
     let (rect, p) = read_parcelable rect_Unmarshalling p in
     reading (read_bool p) (\<lambda>reduced p.
     reading (read_float p) (\<lambda>scale p.
     reading (read_bool p) (\<lambda>isReal p.
     reading (read_int32 p) (\<lambda>mode p.
     reading (read_int32 p) (\<lambda>visibility p.
     reading (read_bool p) (\<lambda>translucent p.
     let (bounds, p) = read_parcelable rect_Unmarshalling p;
         (appLabel, p) = read_or [] read_string16 p;
         (abilityLabel, p) = read_or [] read_string16 p in
     reading (read_bytes p) (\<lambda>icon p.
     let (secAppLabel, p) = read_or [] read_string16 p;
         (secAbilityLabel, p) = read_or [] read_string16 p in
     reading (read_bytes p) (\<lambda>secIcon p.
     let (tips, p) = read_or [] read_string16 p in
     Some (new_Snapshot\<lparr>sn_version := version, sn_orientation := orientation, sn_rect := rect,
       sn_reducedResolution := reduced, sn_scale := scale, sn_isRealSnapshot := isReal,
       sn_windowingMode := mode, sn_systemUiVisibility := visibility,
       sn_isTranslucent := translucent, sn_windowBounds := bounds, sn_appLabel := appLabel,
       sn_abilityLabel := abilityLabel, sn_icon := icon, sn_secAppLabel := secAppLabel,
       sn_secAbilityLabel := secAbilityLabel, sn_secIcon := secIcon,
       sn_sourceDeviceTips := tips\<rparr>)))))))))))"

section \<open>Byte streams\<close>

definition INT_BYTE :: nat where "INT_BYTE = 4"
definition PIXEL_MAP_MAX_BUFFER_SIZE :: nat where "PIXEL_MAP_MAX_BUFFER_SIZE = 614400"

definition le32 :: "nat \<Rightarrow> byte list" where
  "le32 n = [of_nat n, of_nat (n div 256), of_nat (n div 65536), of_nat (n div 16777216)]"

fun word_of_bytes :: "byte list \<Rightarrow> nat" where
  "word_of_bytes [] = 0"
| "word_of_bytes (b # bs) = unat b + 256 * word_of_bytes bs"

text \<open>The bytes at an offset; \<open>None\<close> when some lie outside the buffer.\<close>

definition bytes_at :: "nat \<Rightarrow> nat \<Rightarrow> byte list \<Rightarrow> byte list option" where
  "bytes_at off n bs = (if off + n \<le> length bs then Some (take n (drop off bs)) else None)"

definition uint32_at :: "nat \<Rightarrow> byte list \<Rightarrow> nat option" where
  "uint32_at off bs = map_option word_of_bytes (bytes_at off 4 bs)"

text \<open>\<open>WriteBuffer\<close>, and the four bytes of \<open>WriteUint32\<close>.\<close>

definition put_buffer :: "snap_env \<Rightarrow> byte list \<Rightarrow> byte list \<Rightarrow> byte list option" where
  "put_buffer e bs p = (if write_buffer_ok e bs then Some (p @ bs @ padding e (length bs)) else None)"

definition put_uint32 :: "snap_env \<Rightarrow> nat \<Rightarrow> byte list \<Rightarrow> byte list option" where
  "put_uint32 e n p = (if write_uint32_ok e p n then Some (p @ le32 n) else None)"

definition WriteSnapshotInfo :: "snap_env \<Rightarrow> Snapshot \<Rightarrow> byte list \<Rightarrow> byte list option" where
  "WriteSnapshotInfo e s data =
     (case write_all (value_ok e) (snapshot_values (sn_version s) s) [] of
        None \<Rightarrow> None
      | Some p \<Rightarrow>
          (let info = encode_parcel e p
           in Option.bind (put_uint32 e (length info) data) (put_buffer e info)))"

text \<open>\<open>None\<close> also stands for a missing pixel map, which the code dereferences.\<close>

definition WritePixelMap :: "snap_env \<Rightarrow> Snapshot \<Rightarrow> byte list \<Rightarrow> byte list option" where
  "WritePixelMap e s data =
     (case sn_pixelMap s of
        None \<Rightarrow> None
      | Some m \<Rightarrow>
          (let bytes = pack_image e m; len = length bytes;
               need = length data + len + INT_BYTE;
               minCapacity = (if need mod INT_BYTE \<noteq> 0 then need + INT_BYTE else need)
           in if PIXEL_MAP_MAX_BUFFER_SIZE < len then None
              else if capacity e data < minCapacity \<and> \<not> set_capacity_ok e minCapacity then None
              else Option.bind (put_uint32 e len data) (put_buffer e bytes)))"

definition CreatePixelMap :: "snap_env \<Rightarrow> byte list \<Rightarrow> pixel_map option" where
  "CreatePixelMap e bytes = (if bytes = [] then None else unpack_image e bytes)"

text \<open>
  Reading a stream. The outer \<open>None\<close> is an access outside the buffer, the inner one the
  null pointer the function returns. \<open>now\<close> is the tick count.
\<close>

definition Create :: "snap_env \<Rightarrow> int \<Rightarrow> byte list \<Rightarrow> Snapshot option option" where
  "Create e now data =
     (let totalSize = length data
      in if totalSize < 4 then Some None
         else do {
           msgSize \<leftarrow> uint32_at 0 data;
           if totalSize \<le> msgSize \<or> totalSize \<le> msgSize + 4 then Some None
           else do {
             message \<leftarrow> bytes_at 4 msgSize data;
             if \<not> write_buffer_ok e message then Some None
             else (case FillSnapShot (decode_parcel e message) of
                     None \<Rightarrow> Some None
                   | Some s \<Rightarrow>
                       (let remainSize = (totalSize - msgSize - 4) mod 2 ^ 32
                        in if remainSize < 4 then Some None
                           else do {
                             pixelmapLen \<leftarrow> uint32_at (4 + msgSize) data;
                             if remainSize \<le> pixelmapLen \<or> remainSize < pixelmapLen + 4 then Some None
                             else do {
                               pixels \<leftarrow> bytes_at (8 + msgSize) pixelmapLen data;
                               Some (Some (s\<lparr>sn_pixelMap := CreatePixelMap e pixels,
                                 sn_createdTime := now, sn_lastAccessTime := now\<rparr>)) } })) } })"

section \<open>Conversion\<close>

definition SNAPSHOT_DMS_VERSION :: int where "SNAPSHOT_DMS_VERSION = 200"

definition zero_rect :: Rect where
  "zero_rect = \<lparr>rect_left = 0, rect_top = 0, rect_right = 0, rect_bottom = 0\<rparr>"

text \<open>
  \<^verbatim>\<open>MissionSnapshot\<close> of the ability manager is represented by its pixel map. Both functions
  named \<^verbatim>\<open>ConvertToSnapshot\<close> assign the same members and leave the times alone.
\<close>

definition ConvertToSnapshot :: "pixel_map option \<Rightarrow> Snapshot \<Rightarrow> Snapshot" where
  "ConvertToSnapshot m s = s\<lparr>sn_version := SNAPSHOT_DMS_VERSION, sn_orientation := 0,
     sn_rect := Some zero_rect, sn_reducedResolution := True, sn_scale := 0, sn_isRealSnapshot := True,
     sn_windowingMode := 0, sn_systemUiVisibility := 0, sn_isTranslucent := True,
     sn_windowBounds := Some zero_rect, sn_appLabel := [], sn_abilityLabel := [], sn_icon := [],
     sn_secAppLabel := [], sn_secAbilityLabel := [], sn_secIcon := [], sn_sourceDeviceTips := [],
     sn_pixelMap := m\<rparr>"

definition ConvertToMissionSnapshot :: "Snapshot \<Rightarrow> pixel_map option" where
  "ConvertToMissionSnapshot s = sn_pixelMap s"

text \<open>\<open>MissionSnapshotSequence\<close> of the mission manager: the stream of a snapshot.\<close>

definition MissionSnapshotSequence :: "snap_env \<Rightarrow> int \<Rightarrow> Snapshot \<Rightarrow> int \<times> byte list" where
  "MissionSnapshotSequence e flattenError s =
     (case WriteSnapshotInfo e s [] of
        None \<Rightarrow> (flattenError, [])
      | Some d1 \<Rightarrow>
          (case WritePixelMap e s d1 of None \<Rightarrow> (flattenError, d1) | Some d2 \<Rightarrow> (ERR_OK, d2)))"

section \<open>Streams are read back\<close>

text \<open>
  What the libraries promise: writes are accepted, the bytes of a message are whole words,
  and a buffer is filled up to a whole word.
\<close>

definition snap_lib_ok :: "snap_env \<Rightarrow> bool" where
  "snap_lib_ok e =
     ((\<forall>p v. value_ok e p v) \<and> (\<forall>bs. write_buffer_ok e bs) \<and> (\<forall>p n. write_uint32_ok e p n) \<and>
      (\<forall>n. set_capacity_ok e n) \<and> (\<forall>p. length (encode_parcel e p) mod 4 = 0) \<and>
      (\<forall>n. length (padding e n) < 4) \<and> (\<forall>n. n mod 4 = 0 \<longrightarrow> padding e n = []))"

lemma snap_lib_simps [simp]:
  assumes "snap_lib_ok e"
  shows "value_ok e p v" "write_buffer_ok e bs" "write_uint32_ok e bs n" "set_capacity_ok e n"
    "padding e (length (encode_parcel e p)) = []"
  using assms by (simp_all add: snap_lib_ok_def)

lemma bytes_at_prefix [simp]: "length a = n \<Longrightarrow> bytes_at 0 n (a @ b) = Some a"
  by (simp add: bytes_at_def)

lemma bytes_at_middle: "length a = off \<Longrightarrow> length b = n \<Longrightarrow> bytes_at off n (a @ b @ c) = Some b"
  by (simp add: bytes_at_def)

lemma bytes_at_None: "bytes_at off n bs = None \<longleftrightarrow> length bs < off + n"
  by (simp add: bytes_at_def)

lemma length_le32 [simp]: "length (le32 n) = 4"
  by (simp add: le32_def)

lemma byte_at: "unat (of_nat (n div d) :: byte) = n div d mod 256"
  by (simp add: unat_of_nat)

lemma le32_inverse:
  assumes "n < 2 ^ 32"
  shows "word_of_bytes (le32 n) = n"
proof -
  have top: "n div 256 div 256 div 256 mod 256 = n div 256 div 256 div 256"
    using assms by (simp add: div_mult2_eq [symmetric] less_mult_imp_div_less)
  have "word_of_bytes (le32 n) = n mod 256 + 256 * (n div 256 mod 256 +
      256 * (n div 256 div 256 mod 256 + 256 * (n div 256 div 256 div 256 mod 256)))"
    by (simp add: le32_def unat_of_nat take_bit_eq_mod div_mult2_eq [symmetric])
  also have "\<dots> = n"
    by (simp only: top mod_mult_div_eq)
  finally show ?thesis .
qed

lemma uint32_at_middle: "length a = off \<Longrightarrow> n < 2 ^ 32 \<Longrightarrow> uint32_at off (a @ le32 n @ c) = Some n"
  by (simp add: uint32_at_def bytes_at_middle le32_inverse)

lemma read_rect_Unmarshalling [simp]: "rect_Unmarshalling (rect_Marshalling r) = Some r"
  by (simp add: rect_Unmarshalling_def rect_Marshalling_def read_or_def)

lemma FillSnapShot_values:
  "FillSnapShot (snapshot_values v s) =
     Some (s\<lparr>sn_version := v, sn_pixelMap := None, sn_createdTime := 0, sn_lastAccessTime := 0\<rparr>)"
  by (simp add: FillSnapShot_def snapshot_values_def read_or_def new_Snapshot_def)

lemma Create_in_bounds: "Create e now data \<noteq> None"
proof -
  have "\<exists>x. uint32_at off bs = Some x" if "off + 4 \<le> length bs" for off bs
    using that by (simp add: uint32_at_def bytes_at_def)
  then show ?thesis
    by (auto simp: Create_def Let_def not_le bytes_at_def uint32_at_def split: option.splits)
qed

lemma Create_stream:
  assumes "snap_lib_ok e" and "length info < 2 ^ 32" and "length pixels \<le> PIXEL_MAP_MAX_BUFFER_SIZE"
    and "length pad < 4"
    and "FillSnapShot (decode_parcel e info) = Some s"
  shows "Create e now (le32 (length info) @ info @ le32 (length pixels) @ pixels @ pad) =
    Some (Some (s\<lparr>sn_pixelMap := CreatePixelMap e pixels, sn_createdTime := now, sn_lastAccessTime := now\<rparr>))"
    (is "Create e now ?data = _")
proof -
  have small: "length pixels \<le> 614400"
    using assms(3) by (simp add: PIXEL_MAP_MAX_BUFFER_SIZE_def)
  have info: "uint32_at 0 ?data = Some (length info)" "bytes_at 4 (length info) ?data = Some info"
    using uint32_at_middle[of "[]" 0] bytes_at_middle[of "le32 (length info)"] assms(2) by simp_all
  have pix: "uint32_at (4 + length info) ?data = Some (length pixels)"
    using uint32_at_middle[of "le32 (length info) @ info" "4 + length info" "length pixels" "pixels @ pad"] small
    by simp
  have rest: "bytes_at (8 + length info) (length pixels) ?data = Some pixels"
    using bytes_at_middle[of "le32 (length info) @ info @ le32 (length pixels)" "8 + length info" pixels]
    by simp
  have remain: "(length ?data - length info - 4) mod 2 ^ 32 = 4 + length pixels + length pad"
    using small assms(4) by (simp add: mod_less)
  show ?thesis
    using info pix rest remain assms(1,5) by (simp add: Create_def Let_def)
qed

lemma WriteSnapshotInfo_stream:
  "snap_lib_ok e \<Longrightarrow> WriteSnapshotInfo e s [] =
     (let info = encode_parcel e (snapshot_values (sn_version s) s) in Some (le32 (length info) @ info))"
  by (simp add: WriteSnapshotInfo_def put_uint32_def put_buffer_def Let_def)

lemma WritePixelMap_stream:
  "snap_lib_ok e \<Longrightarrow> sn_pixelMap s = Some m \<Longrightarrow> length (pack_image e m) \<le> PIXEL_MAP_MAX_BUFFER_SIZE \<Longrightarrow>
   WritePixelMap e s data =
     (let b = pack_image e m in Some (data @ le32 (length b) @ b @ padding e (length b)))"
  by (simp add: WritePixelMap_def put_uint32_def put_buffer_def Let_def)

text \<open>
  C25: A snapshot that is stored is read back. When the image is at most 600 KB after
  compression and the library reads back the message of the other members, the mission manager makes a stream of a snapshot, and reading that stream on
  another device gives the same snapshot with the decoded image, its two times set to the
  time of reading. And no stream whatsoever makes the reader look outside its buffer.
\<close>

theorem snapshot_stream:
  assumes "snap_lib_ok e" and "sn_pixelMap s = Some m"
    and "length (pack_image e m) \<le> PIXEL_MAP_MAX_BUFFER_SIZE"
    and "length (encode_parcel e (snapshot_values (sn_version s) s)) < 2 ^ 32"
    and "decode_parcel e (encode_parcel e (snapshot_values (sn_version s) s)) = snapshot_values (sn_version s) s"
  shows "(\<exists>bs. MissionSnapshotSequence e err s = (ERR_OK, bs) \<and>
      Create e now bs = Some (Some (s\<lparr>sn_pixelMap := CreatePixelMap e (pack_image e m),
        sn_createdTime := now, sn_lastAccessTime := now\<rparr>))) \<and>
    (\<forall>bs. Create e now bs \<noteq> None)"
proof -
  let ?info = "encode_parcel e (snapshot_values (sn_version s) s)" and ?pixels = "pack_image e m"
  let ?bs = "le32 (length ?info) @ ?info @ le32 (length ?pixels) @ ?pixels @ padding e (length ?pixels)"
  have "MissionSnapshotSequence e err s = (ERR_OK, ?bs)"
    using assms(1) by (simp add: MissionSnapshotSequence_def WriteSnapshotInfo_stream
        WritePixelMap_stream[OF assms(1-3)] Let_def)
  moreover have pad: "length (padding e (length ?pixels)) < 4"
    using assms(1) unfolding snap_lib_ok_def by blast
  have fill: "FillSnapShot (decode_parcel e ?info) =
      Some (s\<lparr>sn_pixelMap := None, sn_createdTime := 0, sn_lastAccessTime := 0\<rparr>)"
    by (simp add: assms(5) FillSnapShot_values)
  have "Create e now ?bs = Some (Some (s\<lparr>sn_pixelMap := CreatePixelMap e ?pixels,
      sn_createdTime := now, sn_lastAccessTime := now\<rparr>))"
    by (subst Create_stream[OF assms(1,4,3) pad fill]) simp
  ultimately show ?thesis using Create_in_bounds by blast
qed

text \<open>A concrete library: an image is its own encoding, and a message is one word.\<close>

definition sample_snap_env :: "parcel \<Rightarrow> snap_env" where
  "sample_snap_env p = \<lparr>encode_parcel = (\<lambda>p. [1, 2, 3, 4]), decode_parcel = (\<lambda>bs. p), pack_image = (\<lambda>m. m),
     unpack_image = Some, padding = (\<lambda>n. replicate ((4 - n mod 4) mod 4) 0), capacity = (\<lambda>d. 0),
     set_capacity_ok = (\<lambda>n. True), write_buffer_ok = (\<lambda>b. True), write_uint32_ok = (\<lambda>p n. True),
     value_ok = (\<lambda>p v. True), pixel_value = (\<lambda>m. None)\<rparr>"

definition sample_snapshot :: Snapshot where
  "sample_snapshot = ConvertToSnapshot (Some [7, 8, 9]) new_Snapshot"

theorem snapshot_stream_witness:
  "\<exists>bs. MissionSnapshotSequence (sample_snap_env (snapshot_values 200 sample_snapshot)) 5 sample_snapshot = (ERR_OK, bs) \<and>
    Create (sample_snap_env (snapshot_values 200 sample_snapshot)) 1 bs =
      Some (Some (sample_snapshot\<lparr>sn_createdTime := 1, sn_lastAccessTime := 1\<rparr>))"
proof -
  let ?s = sample_snapshot and ?e = "sample_snap_env (snapshot_values 200 sample_snapshot)"
  have lib: "snap_lib_ok ?e"
    by (simp add: snap_lib_ok_def sample_snap_env_def)
  have s: "sn_pixelMap ?s = Some [7, 8, 9]" "sn_version ?s = 200"
    by (simp_all add: sample_snapshot_def ConvertToSnapshot_def SNAPSHOT_DMS_VERSION_def)
  have "\<exists>bs. MissionSnapshotSequence ?e 5 ?s = (ERR_OK, bs) \<and>
      Create ?e 1 bs = Some (Some (?s\<lparr>sn_pixelMap := CreatePixelMap ?e (pack_image ?e [7, 8, 9]),
        sn_createdTime := 1, sn_lastAccessTime := 1\<rparr>))"
    using s by (intro snapshot_stream[OF lib s(1), THEN conjunct1])
      (simp_all add: sample_snap_env_def PIXEL_MAP_MAX_BUFFER_SIZE_def)
  moreover have "CreatePixelMap ?e (pack_image ?e [7, 8, 9]) = Some [7, 8, 9]"
    by (simp add: sample_snap_env_def CreatePixelMap_def)
  moreover have "?s\<lparr>sn_pixelMap := Some [7, 8, 9]\<rparr> = ?s"
    by (simp add: sample_snapshot_def ConvertToSnapshot_def)
  ultimately show ?thesis by simp
qed

end
