(* ===== verification/RetryLoop.thy ===== *)
theory RetryLoop
  imports DmsPrelude "HOL-Library.Monad_Syntax"
begin

text \<open>
  The loops of the services that wait for another service: try, sleep, count down, give up.
  The code writes them as \<^verbatim>\<open>do ... while (true)\<close> or as \<^verbatim>\<open>for\<close> and \<^verbatim>\<open>while\<close> loops with a counter;
  a loop that does not return is \<open>None\<close>.
\<close>

partial_function (option) retry_loop ::
  "('s \<Rightarrow> (bool \<times> 's) option) \<Rightarrow> ('s \<Rightarrow> 's) \<Rightarrow> int \<Rightarrow> 's \<Rightarrow> (bool \<times> 's) option" where
  "retry_loop attempt pause n s =
     do { (done, s1) \<leftarrow> attempt s;
          if done then Some (True, s1)
          else if n - 1 \<le> 0 then Some (False, pause s1)
          else retry_loop attempt pause (n - 1) (pause s1) }"

text \<open>
  The contract of one attempt: it returns, keeps \<open>invar\<close>, and costs at most \<open>c\<close>; a pause
  costs one. Then the loop returns, and \<open>n\<close> rounds cost at most \<open>n * (c + 1)\<close>.
\<close>

locale retry =
  fixes attempt :: "'s \<Rightarrow> (bool \<times> 's) option"
    and pause :: "'s \<Rightarrow> 's"
    and invar :: "'s \<Rightarrow> bool"
    and goal :: "'s \<Rightarrow> bool"
    and cost :: "'s \<Rightarrow> nat"
    and c :: nat
  assumes attempt_returns: "\<exists>d s'. attempt s = Some (d, s')"
    and attempt_invar: "invar s \<Longrightarrow> attempt s = Some (d, s') \<Longrightarrow> invar s'"
    and attempt_goal: "invar s \<Longrightarrow> attempt s = Some (True, s') \<Longrightarrow> goal s'"
    and attempt_cost: "attempt s = Some (d, s') \<Longrightarrow> cost s' \<le> cost s + c"
    and pause_invar: "invar s \<Longrightarrow> invar (pause s)"
    and pause_cost: "cost (pause s) = Suc (cost s)"
begin

lemma last_round:
  assumes "attempt s = Some (d, s1)" and "d \<or> n - 1 \<le> 0"
  shows "\<exists>s'. retry_loop attempt pause n s = Some (d, s') \<and> cost s' \<le> cost s + (c + 1) \<and>
    (invar s \<longrightarrow> invar s' \<and> (d \<longrightarrow> goal s'))"
proof -
  let ?s' = "if d then s1 else pause s1"
  have "retry_loop attempt pause n s = Some (d, ?s')"
    using assms by (subst retry_loop.simps) auto
  moreover have "cost ?s' \<le> cost s + (c + 1)"
    using attempt_cost[OF assms(1)] by (simp add: pause_cost)
  moreover have "invar s \<longrightarrow> invar ?s' \<and> (d \<longrightarrow> goal ?s')"
    using attempt_invar[OF _ assms(1)] attempt_goal[of s s1] assms(1) pause_invar[of s1] by auto
  ultimately show ?thesis by blast
qed

lemma returns:
  "\<exists>d s'. retry_loop attempt pause n s = Some (d, s') \<and> cost s' \<le> cost s + nat (max 1 n) * (c + 1) \<and>
     (invar s \<longrightarrow> invar s' \<and> (d \<longrightarrow> goal s'))"
proof (induction "nat n" arbitrary: n s)
  case 0
  obtain d s1 where a: "attempt s = Some (d, s1)"
    using attempt_returns by blast
  have n: "n - 1 \<le> 0" and "max 1 n = 1" using 0 by simp_all
  with last_round[OF a disjI2[OF n]] show ?case by fastforce
next
  case (Suc k)
  obtain d s1 where a: "attempt s = Some (d, s1)"
    using attempt_returns by blast
  show ?case
  proof (cases "d \<or> n - 1 \<le> 0")
    case True
    have "c + 1 \<le> nat (max 1 n) * (c + 1)"
      using mult_le_mono1[of 1 "nat (max 1 n)" "c + 1"] by simp
    with last_round[OF a True] show ?thesis by (meson add_left_mono order_trans)
  next
    case False
    have k: "k = nat (n - 1)" using Suc.hyps(2) by simp
    obtain d' s' where r: "retry_loop attempt pause (n - 1) (pause s1) = Some (d', s')"
        "cost s' \<le> cost (pause s1) + nat (max 1 (n - 1)) * (c + 1)"
        "invar (pause s1) \<longrightarrow> invar s' \<and> (d' \<longrightarrow> goal s')"
      using Suc.hyps(1)[OF k, of "pause s1"] by blast
    have "retry_loop attempt pause n s = Some (d', s')"
      using False a r(1) by (subst retry_loop.simps) simp
    moreover have "nat (max 1 n) = Suc (nat (max 1 (n - 1)))"
      using False by auto
    then have "nat (max 1 n) * (c + 1) = nat (max 1 (n - 1)) * (c + 1) + (c + 1)"
      by (simp only: mult_Suc add.commute)
    then have "cost s' \<le> cost s + nat (max 1 n) * (c + 1)"
      using r(2) attempt_cost[OF a] pause_cost[of s1] by linarith
    moreover have "invar s \<longrightarrow> invar s' \<and> (d' \<longrightarrow> goal s')"
      using r(3) attempt_invar[OF _ a] pause_invar by blast
    ultimately show ?thesis by blast
  qed
qed

end

end
