(* ===== verification/MissionEnv.thy ===== *)
theory MissionEnv
  imports MissionData SnapshotData RetryLoop
begin

text \<open>
  What the mission parts use of other code: the device table, the system ability manager, the
  ability manager, the schedulers of other devices, the distributed data base and the string
  helpers. The answers are functions of the calls made so far (\<open>mhist\<close>), the fields of
  \<open>menv\<close>; conversions of strings and messages are those of \<open>env\<close>.
\<close>

section \<open>Calls\<close>

datatype mission_rpc =
    RpcStartSyncMissions CallerInfo
  | RpcStopSyncMissions CallerInfo
  | RpcMissionsChanged "DstbMissionInfo list" CallerInfo

datatype mission_recipient = ListenerDeath | RemoteDmsDeath | KvServiceDeath

datatype mext =
    MRpc string mission_rpc
  | MAddDeath robj mission_recipient
  | MRemoveDeath robj mission_recipient
  | MSend robj nat parcel
  | AmsRegisterMissionListener
  | AmsUnRegisterMissionListener
  | KvServiceWatched
  | KvSubscribe
  | KvUnSubscribe
  | KvClose
  | KvDeleteStore
  | KvPut string "byte list"
  | KvDelete string
  | KvRemoveDeviceData string
  | MSleep nat

type_synonym mhist = "mext list"

record menv =
  conv :: env
  snap :: snap_env
  m_uuid :: "mhist \<Rightarrow> string \<Rightarrow> string"
  m_network :: "mhist \<Rightarrow> string \<Rightarrow> string"
  m_online :: "mhist \<Rightarrow> string \<Rightarrow> bool"
  m_local :: "mhist \<Rightarrow> string option"
  m_dms :: "mhist \<Rightarrow> string \<Rightarrow> robj option"
  m_start_sync :: "mhist \<Rightarrow> robj \<Rightarrow> CallerInfo \<Rightarrow> int \<times> DstbMissionInfo list"
  m_stop_sync :: "mhist \<Rightarrow> robj \<Rightarrow> CallerInfo \<Rightarrow> int"
  m_changed :: "mhist \<Rightarrow> robj \<Rightarrow> DstbMissionInfo list \<Rightarrow> CallerInfo \<Rightarrow> int"
  m_ams_connect :: "mhist \<Rightarrow> int"
  m_ams_missions :: "mhist \<Rightarrow> int \<Rightarrow> int \<times> MissionInfo list"
  m_ams_register :: "mhist \<Rightarrow> int"
  m_ams_unregister :: "mhist \<Rightarrow> int"
  m_ams_snapshot :: "mhist \<Rightarrow> string \<Rightarrow> int \<Rightarrow> int \<times> pixel_map option"
  m_uid :: "mhist \<Rightarrow> int"
  m_pid :: "mhist \<Rightarrow> int"
  m_tick :: "mhist \<Rightarrow> int"
  m_post_ok :: "mhist \<Rightarrow> bool"
  kv_samgr :: "mhist \<Rightarrow> bool"
  kv_alive :: "mhist \<Rightarrow> bool"
  kv_open :: "mhist \<Rightarrow> bool \<times> bool"
  kv_subscribe_ok :: "mhist \<Rightarrow> bool"
  kv_unsubscribe_ok :: "mhist \<Rightarrow> bool"
  kv_close_ok :: "mhist \<Rightarrow> bool"
  kv_drop_ok :: "mhist \<Rightarrow> bool"
  kv_put_ok :: "mhist \<Rightarrow> string \<Rightarrow> byte list \<Rightarrow> bool"
  kv_delete_ok :: "mhist \<Rightarrow> string \<Rightarrow> bool"
  kv_get :: "mhist \<Rightarrow> string \<Rightarrow> byte list option"
  kv_remove_ok :: "mhist \<Rightarrow> string \<Rightarrow> bool"
  split_str :: "string \<Rightarrow> string \<Rightarrow> string list"
  str_to_int :: "string \<Rightarrow> int option"
  m_dnet_uuid :: "mhist \<Rightarrow> string \<Rightarrow> string"
  marshal_mission :: "MissionInfo \<Rightarrow> parcel"
  unmarshal_mission :: "parcel \<Rightarrow> MissionInfo option"
  marshal_snapshot :: "pixel_map option \<Rightarrow> parcel"
  unmarshal_snapshot :: "parcel \<Rightarrow> pixel_map option option"

section \<open>A sample environment\<close>

text \<open>The local device is \<open>A\<close>; the uuid of a device is its network id.\<close>

definition sample_menv :: menv where
  "sample_menv = \<lparr>conv = sample_env, snap = sample_snap_env [], m_uuid = (\<lambda>h n. n),
     m_network = (\<lambda>h u. u), m_online = (\<lambda>h n. True), m_local = (\<lambda>h. Some ''A''),
     m_dms = (\<lambda>h n. Some (Proxy 50)), m_start_sync = (\<lambda>h x c. (0, [])), m_stop_sync = (\<lambda>h x c. 0),
     m_changed = (\<lambda>h x i c. 0), m_ams_connect = (\<lambda>h. 0), m_ams_missions = (\<lambda>h n. (0, [])),
     m_ams_register = (\<lambda>h. 0), m_ams_unregister = (\<lambda>h. 0), m_ams_snapshot = (\<lambda>h n i. (0, Some [1])),
     m_uid = (\<lambda>h. 5), m_pid = (\<lambda>h. 7), m_tick = (\<lambda>h. int (length h)), m_post_ok = (\<lambda>h. True),
     kv_samgr = (\<lambda>h. True), kv_alive = (\<lambda>h. True), kv_open = (\<lambda>h. (True, True)),
     kv_subscribe_ok = (\<lambda>h. True), kv_unsubscribe_ok = (\<lambda>h. True), kv_close_ok = (\<lambda>h. True),
     kv_drop_ok = (\<lambda>h. True), kv_put_ok = (\<lambda>h k v. True), kv_delete_ok = (\<lambda>h k. True),
     kv_get = (\<lambda>h k. None), kv_remove_ok = (\<lambda>h d. True), split_str = (\<lambda>s p. [s]),
     str_to_int = (\<lambda>s. None), m_dnet_uuid = (\<lambda>h n. n), marshal_mission = (\<lambda>m. []),
     unmarshal_mission = (\<lambda>p. None), marshal_snapshot = (\<lambda>m. []), unmarshal_snapshot = (\<lambda>p. None)\<rparr>"

end
