(* ===== verification/DataStorage.thy ===== *)
theory DataStorage
  imports MissionEnv
begin

text \<open>
  The distributed data base of snapshots, \<^verbatim>\<open>DistributedDataStorage\<close> of
  \<^verbatim>\<open>dtbschedmgr/src/mission/distributed_data_storage.cpp\<close>: opening the store with retries,
  inserting, deleting and querying the stream of a snapshot under the key made of the uuid of
  its device and its mission id, and closing. Every operation takes and returns the history of
  calls. A status of the store is whether it is \<^verbatim>\<open>SUCCESS\<close>.
\<close>

section \<open>State\<close>

record data_storage =
  kvStoreDeathRecipient :: bool
  dmsDataStorageHandler :: bool
  distributedDataChangeListener :: bool
  kvStorePtr :: bool
  waitTasks :: nat

definition new_data_storage :: data_storage where
  "new_data_storage = \<lparr>kvStoreDeathRecipient = False, dmsDataStorageHandler = False,
     distributedDataChangeListener = False, kvStorePtr = False, waitTasks = 0\<rparr>"

definition RETRY_TIMES_WAIT_KV_DATA :: int where "RETRY_TIMES_WAIT_KV_DATA = 30"
definition RETRY_TIMES_GET_KVSTORE :: int where "RETRY_TIMES_GET_KVSTORE = 5"

type_synonym 'a storing = "'a \<times> mhist \<times> data_storage"

section \<open>Opening\<close>

definition InitHandler :: "data_storage \<Rightarrow> bool \<times> data_storage" where
  "InitHandler s = (True, s\<lparr>dmsDataStorageHandler := True\<rparr>)"

definition InitKvDataService :: "menv \<Rightarrow> mhist \<Rightarrow> data_storage \<Rightarrow> bool \<times> data_storage" where
  "InitKvDataService env h s =
     (if \<not> m_post_ok env h then (False, s) else (True, s\<lparr>waitTasks := Suc (waitTasks s)\<rparr>))"

definition storage_Init :: "menv \<Rightarrow> mhist \<Rightarrow> data_storage \<Rightarrow> bool \<times> data_storage" where
  "storage_Init env h s =
     (let s1 = s\<lparr>kvStoreDeathRecipient := True\<rparr>;
          (ret, s2) = InitHandler s1
      in if \<not> ret then (False, s2) else InitKvDataService env h s2)"

definition WaitKvDataService :: "menv \<Rightarrow> mhist \<Rightarrow> (bool \<times> mhist) option" where
  "WaitKvDataService env h =
     (if \<not> kv_samgr env h then Some (False, h)
      else retry_loop (\<lambda>h. Some (if kv_alive env h then (True, h @ [KvServiceWatched]) else (False, h)))
             (\<lambda>h. h @ [MSleep 1000]) RETRY_TIMES_WAIT_KV_DATA h)"

text \<open>Opening yields the status and whether the pointer is set.\<close>

definition GetKvStore :: "menv \<Rightarrow> mhist \<Rightarrow> data_storage \<Rightarrow> bool \<times> data_storage" where
  "GetKvStore env h s = (let (ok, ptr) = kv_open env h in (ok, s\<lparr>kvStorePtr := ptr\<rparr>))"

definition TryGetKvStore :: "menv \<Rightarrow> mhist \<Rightarrow> data_storage \<Rightarrow> bool storing option" where
  "TryGetKvStore env h s =
     do { (done, h', s') \<leftarrow>
            retry_loop (\<lambda>(h, s). Some (let (ok, s') = GetKvStore env h s in (ok \<and> kvStorePtr s', h, s')))
              (\<lambda>(h, s). (h @ [MSleep 500], s)) RETRY_TIMES_GET_KVSTORE (h, s);
          Some (done \<or> kvStorePtr s', h', s') }"

definition InitDistributedDataStorage :: "menv \<Rightarrow> mhist \<Rightarrow> data_storage \<Rightarrow> (mhist \<times> data_storage) option" where
  "InitDistributedDataStorage env h s = map_option snd (TryGetKvStore env h s)"

text \<open>Subscribing moves the listener out of its pointer, which is null afterwards.\<close>

definition SubscribeDistributedDataStorage :: "menv \<Rightarrow> mhist \<Rightarrow> data_storage \<Rightarrow> mhist \<times> data_storage" where
  "SubscribeDistributedDataStorage env h s =
     (if \<not> kvStorePtr s then (h, s)
      else if distributedDataChangeListener s
      then (h @ [KvSubscribe], s\<lparr>distributedDataChangeListener := False\<rparr>)
      else (h, s))"

text \<open>The task \<open>InitKvDataService\<close> posts.\<close>

definition run_wait_task :: "menv \<Rightarrow> mhist \<Rightarrow> data_storage \<Rightarrow> (mhist \<times> data_storage) option" where
  "run_wait_task env h s =
     do { (ready, h1) \<leftarrow> WaitKvDataService env h;
          if \<not> ready then Some (h1, s)
          else do { (h2, s1) \<leftarrow> InitDistributedDataStorage env h1 s;
                    Some (SubscribeDistributedDataStorage env h2 (s1\<lparr>distributedDataChangeListener := True\<rparr>)) } }"

definition storage_NotifyRemoteDied :: "robj \<Rightarrow> mhist \<Rightarrow> data_storage \<Rightarrow> mhist" where
  "storage_NotifyRemoteDied remote h s =
     (if kvStoreDeathRecipient s then h @ [MRemoveDeath remote KvServiceDeath] else h)"

section \<open>Closing\<close>

definition UninitDistributedDataStorage :: "menv \<Rightarrow> mhist \<Rightarrow> data_storage \<Rightarrow> bool storing" where
  "UninitDistributedDataStorage env h s =
     (let subscribed = distributedDataChangeListener s \<and> kvStorePtr s;
          s1 = (if subscribed then s\<lparr>distributedDataChangeListener := False\<rparr> else s);
          h1 = (if subscribed then h @ [KvUnSubscribe] else h)
      in if subscribed \<and> \<not> kv_unsubscribe_ok env h then (False, h1, s1)
         else
           let h2 = (if kvStorePtr s1 then h1 @ [KvClose] else h1)
           in if kvStorePtr s1 \<and> \<not> kv_close_ok env h1 then (False, h2, s1)
              else
                let s2 = s1\<lparr>kvStorePtr := False\<rparr>
                in if \<not> kv_drop_ok env h2 then (False, h2 @ [KvDeleteStore], s2)
                   else (True, h2 @ [KvDeleteStore], s2))"

definition storage_Stop :: "menv \<Rightarrow> mhist \<Rightarrow> data_storage \<Rightarrow> bool storing" where
  "storage_Stop env h s = UninitDistributedDataStorage env h (s\<lparr>dmsDataStorageHandler := False\<rparr>)"

section \<open>Entries\<close>

definition GenerateKey :: "string \<Rightarrow> int \<Rightarrow> string" where
  "GenerateKey uuid missionId = uuid @ ''_'' @ int_to_string missionId"

definition GenerateValue :: "byte list \<Rightarrow> byte list" where
  "GenerateValue bytes = bytes"

definition InsertInnerLocked :: "menv \<Rightarrow> string \<Rightarrow> int \<Rightarrow> byte list \<Rightarrow> mhist \<Rightarrow> data_storage \<Rightarrow> bool \<times> mhist" where
  "InsertInnerLocked env uuid missionId bytes h s =
     (if \<not> kvStorePtr s then (False, h)
      else (let key = GenerateKey uuid missionId; value = GenerateValue bytes
            in (kv_put_ok env h key value, h @ [KvPut key value])))"

definition DeleteInnerLocked :: "menv \<Rightarrow> string \<Rightarrow> int \<Rightarrow> mhist \<Rightarrow> data_storage \<Rightarrow> bool \<times> mhist" where
  "DeleteInnerLocked env uuid missionId h s =
     (if \<not> kvStorePtr s then (False, h)
      else (let key = GenerateKey uuid missionId in (kv_delete_ok env h key, h @ [KvDelete key])))"

definition QueryInnerLocked :: "menv \<Rightarrow> string \<Rightarrow> int \<Rightarrow> mhist \<Rightarrow> data_storage \<Rightarrow> byte list option" where
  "QueryInnerLocked env uuid missionId h s =
     (if \<not> kvStorePtr s then None else kv_get env h (GenerateKey uuid missionId))"

definition FuzzyDeleteInnerLocked :: "menv \<Rightarrow> string \<Rightarrow> mhist \<Rightarrow> data_storage \<Rightarrow> bool \<times> mhist" where
  "FuzzyDeleteInnerLocked env networkId h s =
     (if \<not> kvStorePtr s then (False, h)
      else (kv_remove_ok env h networkId, h @ [KvRemoveDeviceData networkId]))"

text \<open>The checks \<open>Insert\<close>, \<open>Delete\<close> and \<open>Query\<close> begin with: the uuid of the device, if valid.\<close>

definition entry_uuid :: "menv \<Rightarrow> string \<Rightarrow> int \<Rightarrow> mhist \<Rightarrow> string option" where
  "entry_uuid env networkId missionId h =
     (if networkId = [] then None
      else if missionId < 0 then None
      else (let uuid = m_uuid env h networkId in if uuid = [] then None else Some uuid))"

definition Insert :: "menv \<Rightarrow> string \<Rightarrow> int \<Rightarrow> byte list \<Rightarrow> mhist \<Rightarrow> data_storage \<Rightarrow> bool \<times> mhist" where
  "Insert env networkId missionId bytes h s =
     (case entry_uuid env networkId missionId h of
        None \<Rightarrow> (False, h)
      | Some uuid \<Rightarrow> InsertInnerLocked env uuid missionId bytes h s)"

definition Delete :: "menv \<Rightarrow> string \<Rightarrow> int \<Rightarrow> mhist \<Rightarrow> data_storage \<Rightarrow> bool \<times> mhist" where
  "Delete env networkId missionId h s =
     (case entry_uuid env networkId missionId h of
        None \<Rightarrow> (False, h)
      | Some uuid \<Rightarrow> DeleteInnerLocked env uuid missionId h s)"

definition Query :: "menv \<Rightarrow> string \<Rightarrow> int \<Rightarrow> mhist \<Rightarrow> data_storage \<Rightarrow> byte list option" where
  "Query env networkId missionId h s =
     (case entry_uuid env networkId missionId h of
        None \<Rightarrow> None
      | Some uuid \<Rightarrow> QueryInnerLocked env uuid missionId h s)"

definition FuzzyDelete :: "menv \<Rightarrow> string \<Rightarrow> mhist \<Rightarrow> data_storage \<Rightarrow> bool \<times> mhist" where
  "FuzzyDelete env networkId h s =
     (if networkId = [] then (False, h) else FuzzyDeleteInnerLocked env networkId h s)"

section \<open>Waiting ends\<close>

definition msleep :: "mhist \<Rightarrow> nat" where
  "msleep h = length (filter (\<lambda>e. \<exists>n. e = MSleep n) h)"

lemma msleep_simps [simp]:
  "msleep (h @ [MSleep n]) = Suc (msleep h)" "msleep (h @ [KvServiceWatched]) = msleep h"
  by (simp_all add: msleep_def)

interpretation kv_waiting: retry
    "\<lambda>h. Some (if kv_alive env h then (True, h @ [KvServiceWatched]) else (False, h))"
    "\<lambda>h. h @ [MSleep 1000]" "\<lambda>h. True" "\<lambda>h. KvServiceWatched \<in> set h" msleep 0 for env
  by unfold_locales (auto split: if_splits)

interpretation kv_opening: retry
    "\<lambda>(h, s). Some (let (ok, s') = GetKvStore env h s in (ok \<and> kvStorePtr s', h, s'))"
    "\<lambda>(h, s). (h @ [MSleep 500], s)" "\<lambda>x. True" "\<lambda>(h, s). kvStorePtr s" "\<lambda>(h, s). msleep h" 0 for env
  by unfold_locales (auto simp: GetKvStore_def split: prod.splits)

lemma WaitKvDataService_returns:
  "\<exists>ok h'. WaitKvDataService env h = Some (ok, h') \<and> msleep h' \<le> msleep h + 30 \<and>
     (ok \<longrightarrow> KvServiceWatched \<in> set h')"
  using kv_waiting.returns[of env RETRY_TIMES_WAIT_KV_DATA h]
  by (auto simp: WaitKvDataService_def RETRY_TIMES_WAIT_KV_DATA_def)

lemma TryGetKvStore_returns:
  "\<exists>ok h' s'. TryGetKvStore env h s = Some (ok, h', s') \<and> msleep h' \<le> msleep h + 5 \<and> ok = kvStorePtr s'"
  using kv_opening.returns[of env RETRY_TIMES_GET_KVSTORE "(h, s)"]
  by (fastforce simp: TryGetKvStore_def RETRY_TIMES_GET_KVSTORE_def)

end
