(* ===== verification/MissionState.thy ===== *)
theory MissionState
  imports DataStorage
begin

text \<open>
  The state of the mission manager (\<^verbatim>\<open>dtbschedmgr/src/mission/distributed_sched_mission_manager.cpp\<close>,
  \<^verbatim>\<open>include/mission/distributed_sched_mission_manager.h\<close>), its caches, its listeners, and the
  calls to the ability manager (\<^verbatim>\<open>distributed_sched_adapter.cpp\<close>) and to listeners
  (\<^verbatim>\<open>mission_changed_notify.cpp\<close>). \<^verbatim>\<open>Init\<close> makes the handlers once and nothing resets them,
  so the null tests on handlers are always passed. Tasks posted to the mission handler carry
  the name they can be removed by.
\<close>

section \<open>State\<close>

record ListenerInfo =
  called :: bool
  listenerSet :: "robj list"

definition new_ListenerInfo :: ListenerInfo where
  "new_ListenerInfo = \<lparr>called = False, listenerSet = []\<rparr>"

definition listener_Find :: "robj \<Rightarrow> ListenerInfo \<Rightarrow> bool" where
  "listener_Find x i = (x \<in> set (listenerSet i))"

definition listener_Emplace :: "robj \<Rightarrow> ListenerInfo \<Rightarrow> bool \<times> ListenerInfo" where
  "listener_Emplace x i =
     (if x \<in> set (listenerSet i) then (False, i)
      else (True, i\<lparr>listenerSet := set_emplace x (listenerSet i)\<rparr>))"

definition listener_Erase :: "robj \<Rightarrow> ListenerInfo \<Rightarrow> ListenerInfo" where
  "listener_Erase x i = i\<lparr>listenerSet := set_erase x (listenerSet i)\<rparr>"

definition listener_Empty :: "ListenerInfo \<Rightarrow> bool" where
  "listener_Empty i = (listenerSet i = [])"

datatype mission_task =
    TaskRegisterChange "DstbMissionInfo list"
  | TaskUnregisterChange
  | TaskListenerDied robj
  | TaskRemoteDmsDied robj
  | TaskRetryStartSync string string int
  | TaskRetryRegister int
  | TaskNotifyChanged "robj list" u16string
  | TaskDnetDied
  | TaskDeleteData string

datatype change_task = TaskLocalMissions | TaskSnapshotChanged int | TaskSnapshotDestroyed int

datatype device_task = TaskSendMissions string "DstbMissionInfo list" CallerInfo

record missions =
  listenDeviceMap :: "(u16string, ListenerInfo) stdmap"
  remoteDmsMap :: "(string, robj) stdmap"
  remoteSyncDeviceSet :: "string list"
  cachedSnapshotInfos :: "(string, Snapshot) stdmap"
  deviceMissionInfos :: "(string, DstbMissionInfo list) stdmap"
  deviceHandle :: "(string, device_task list) stdmap"
  isRegMissionChange :: bool
  missonChangeListener :: bool
  distributedDataStorage :: "data_storage option"
  missionTasks :: "(string \<times> mission_task) list"
  changeTasks :: "change_task list"
  mhistory :: mhist

definition new_missions :: missions where
  "new_missions = \<lparr>listenDeviceMap = [], remoteDmsMap = [], remoteSyncDeviceSet = [],
     cachedSnapshotInfos = [], deviceMissionInfos = [], deviceHandle = [], isRegMissionChange = False,
     missonChangeListener = False, distributedDataStorage = None, missionTasks = [], changeTasks = [],
     mhistory = []\<rparr>"

definition mission_Init :: "missions \<Rightarrow> missions" where
  "mission_Init s = s\<lparr>missonChangeListener := True\<rparr>"

definition started_missions :: missions where
  "started_missions = mission_Init new_missions"

definition MAX_CACHED_ITEM :: nat where "MAX_CACHED_ITEM = 10"
definition MAX_RETRY_TIMES :: int where "MAX_RETRY_TIMES = 15"
definition GET_MAX_MISSIONS :: int where "GET_MAX_MISSIONS = 20"
definition DMS_VERSION :: int where "DMS_VERSION = 200"
definition DELETE_DATA_STORAGE :: string where "DELETE_DATA_STORAGE = ''DeleteDataStorage''"

definition mlog :: "mext list \<Rightarrow> missions \<Rightarrow> missions" where
  "mlog es s = s\<lparr>mhistory := mhistory s @ es\<rparr>"

definition post_mission :: "menv \<Rightarrow> string \<Rightarrow> mission_task \<Rightarrow> missions \<Rightarrow> missions" where
  "post_mission env name t s =
     (if m_post_ok env (mhistory s) then s\<lparr>missionTasks := missionTasks s @ [(name, t)]\<rparr> else s)"

definition RemoveTask :: "string \<Rightarrow> missions \<Rightarrow> missions" where
  "RemoveTask name s = s\<lparr>missionTasks := filter (\<lambda>(n, t). n \<noteq> name) (missionTasks s)\<rparr>"

definition post_change :: "menv \<Rightarrow> change_task \<Rightarrow> missions \<Rightarrow> missions" where
  "post_change env t s =
     (if m_post_ok env (mhistory s) then s\<lparr>changeTasks := changeTasks s @ [t]\<rparr> else s)"

definition GetUuid :: "menv \<Rightarrow> string \<Rightarrow> missions \<Rightarrow> string" where
  "GetUuid env networkId s = m_uuid env (mhistory s) networkId"

section \<open>The ability manager\<close>

definition GetLocalMissionInfos :: "menv \<Rightarrow> int \<Rightarrow> missions \<Rightarrow> int \<times> DstbMissionInfo list" where
  "GetLocalMissionInfos env numMissions s =
     (let errCode = m_ams_connect env (mhistory s)
      in if errCode \<noteq> ERR_OK then (errCode, [])
         else (let (ret, amsMissions) = m_ams_missions env (mhistory s) numMissions
               in if ret \<noteq> ERR_OK then (ret, [])
                  else if amsMissions = [] then (ERR_OK, [])
                  else ConvertToDstbMissionInfos amsMissions []))"

definition adapter_RegisterMissionListener :: "menv \<Rightarrow> missions \<Rightarrow> int \<times> missions" where
  "adapter_RegisterMissionListener env s =
     (if \<not> missonChangeListener s then (INVALID_PARAMETERS_ERR, s)
      else (let errCode = m_ams_connect env (mhistory s)
            in if errCode \<noteq> ERR_OK then (errCode, s)
               else (m_ams_register env (mhistory s), mlog [AmsRegisterMissionListener] s)))"

definition adapter_UnRegisterMissionListener :: "menv \<Rightarrow> missions \<Rightarrow> int \<times> missions" where
  "adapter_UnRegisterMissionListener env s =
     (if \<not> missonChangeListener s then (INVALID_PARAMETERS_ERR, s)
      else (let errCode = m_ams_connect env (mhistory s)
            in if errCode \<noteq> ERR_OK then (errCode, s)
               else (m_ams_unregister env (mhistory s), mlog [AmsUnRegisterMissionListener] s)))"

definition GetLocalMissionSnapshotInfo :: "menv \<Rightarrow> string \<Rightarrow> int \<Rightarrow> missions \<Rightarrow> int \<times> pixel_map option" where
  "GetLocalMissionSnapshotInfo env networkId missionId s =
     (let errCode = m_ams_connect env (mhistory s)
      in if errCode \<noteq> ERR_OK then (errCode, None)
         else (let (ret, m) = m_ams_snapshot env (mhistory s) networkId missionId
               in if ret \<noteq> ERR_OK then (ret, m)
                  else if m = None then (err_null_object (conv env), None)
                  else (ERR_OK, m)))"

section \<open>Telling listeners\<close>

definition CODE_NOTIFY_MISSION :: nat where "CODE_NOTIFY_MISSION = 0"
definition NOTIFY_SNAP_SHOT :: nat where "NOTIFY_SNAP_SHOT = 1"
definition NOTIFY_NET_DISCONNECT :: nat where "NOTIFY_NET_DISCONNECT = 2"
definition REMOTE_MISSION_LISTENER :: u16string where
  "REMOTE_MISSION_LISTENER = u16 ''ohos.aafwk.RemoteMissionListener''"

text \<open>The message is sent when all its values are written; its result is only logged.\<close>

definition notify_listener :: "menv \<Rightarrow> ptr \<Rightarrow> nat \<Rightarrow> u16string \<Rightarrow> pval list \<Rightarrow> missions \<Rightarrow> missions" where
  "notify_listener env remote code dev vs s =
     (case remote of
        None \<Rightarrow> s
      | Some x \<Rightarrow>
          (case write_all (writable (conv env))
                 ([PToken REMOTE_MISSION_LISTENER, PString (str8 (conv env) dev)] @ vs) [] of
             None \<Rightarrow> s
           | Some data \<Rightarrow> mlog [MSend x code data] s))"

definition NotifyMissionsChanged :: "menv \<Rightarrow> ptr \<Rightarrow> u16string \<Rightarrow> missions \<Rightarrow> missions" where
  "NotifyMissionsChanged env remote dev s = notify_listener env remote CODE_NOTIFY_MISSION dev [] s"

definition NotifySnapshot :: "menv \<Rightarrow> ptr \<Rightarrow> u16string \<Rightarrow> int \<Rightarrow> missions \<Rightarrow> missions" where
  "NotifySnapshot env remote dev missionId s =
     notify_listener env remote NOTIFY_SNAP_SHOT dev [PInt32 missionId] s"

definition NotifyNetDisconnect :: "menv \<Rightarrow> ptr \<Rightarrow> u16string \<Rightarrow> int \<Rightarrow> missions \<Rightarrow> missions" where
  "NotifyNetDisconnect env remote dev st s =
     notify_listener env remote NOTIFY_NET_DISCONNECT dev [PInt32 st] s"

definition NotifySnapshotChanged :: "menv \<Rightarrow> string \<Rightarrow> int \<Rightarrow> missions \<Rightarrow> missions" where
  "NotifySnapshotChanged env networkId missionId s =
     (let dev = str16 (conv env) networkId
      in (case map_find dev (listenDeviceMap s) of
            None \<Rightarrow> s
          | Some i \<Rightarrow> foldl (\<lambda>s x. NotifySnapshot env (Some x) dev missionId s) s (listenerSet i)))"

section \<open>Snapshots in memory\<close>

definition GenerateKeyInfo :: "string \<Rightarrow> int \<Rightarrow> string" where
  "GenerateKeyInfo dev missionId = dev @ ''_'' @ int_to_string missionId"

text \<open>The loop that looks for the entry used longest ago; - 1 marks the first round.\<close>

fun find_oldest :: "(string, Snapshot) stdmap \<Rightarrow> int \<Rightarrow> string option \<Rightarrow> string option" where
  "find_oldest [] oldest it = it"
| "find_oldest ((k, v) # m) oldest it =
     (if oldest = - 1 \<or> GetLastAccessTime v < oldest then find_oldest m (GetLastAccessTime v) (Some k)
      else find_oldest m oldest it)"

definition evict :: "(string, Snapshot) stdmap \<Rightarrow> (string, Snapshot) stdmap" where
  "evict m =
     (if length m = MAX_CACHED_ITEM then
        (case find_oldest m (- 1) None of None \<Rightarrow> m | Some k \<Rightarrow> map_erase k m)
      else m)"

definition EnqueueCachedSnapshotInfo :: "string \<Rightarrow> int \<Rightarrow> Snapshot option \<Rightarrow> missions \<Rightarrow> missions" where
  "EnqueueCachedSnapshotInfo dev missionId snapshot s =
     (case snapshot of
        None \<Rightarrow> s
      | Some x \<Rightarrow>
          if dev = [] then s
          else
            let keyInfo = GenerateKeyInfo dev missionId;
                stale = (case map_find keyInfo (cachedSnapshotInfos s) of
                           None \<Rightarrow> False
                         | Some y \<Rightarrow> GetCreatedTime x < GetCreatedTime y)
            in if stale then s
               else s\<lparr>cachedSnapshotInfos := map_put keyInfo x (evict (cachedSnapshotInfos s))\<rparr>)"

definition DequeueCachedSnapshotInfo :: "menv \<Rightarrow> string \<Rightarrow> int \<Rightarrow> missions \<Rightarrow> Snapshot option \<times> missions" where
  "DequeueCachedSnapshotInfo env dev missionId s =
     (if dev = [] then (None, s)
      else (let k = GenerateKeyInfo dev missionId
            in (case map_find k (cachedSnapshotInfos s) of
                  None \<Rightarrow> (None, s)
                | Some x \<Rightarrow> (Some (UpdateLastAccessTime (m_tick env (mhistory s)) x),
                    s\<lparr>cachedSnapshotInfos := map_erase k (cachedSnapshotInfos s)\<rparr>))))"

definition DeleteCachedSnapshotInfo :: "menv \<Rightarrow> string \<Rightarrow> missions \<Rightarrow> missions" where
  "DeleteCachedSnapshotInfo env networkId s =
     (if networkId = [] then s
      else (let uuid = GetUuid env networkId s
            in if uuid = [] then s
               else s\<lparr>cachedSnapshotInfos :=
                 filter (\<lambda>(k, v). \<not> contains_sub uuid k) (cachedSnapshotInfos s)\<rparr>))"

section \<open>Missions of other devices in memory\<close>

definition FetchCachedRemoteMissions :: "menv \<Rightarrow> string \<Rightarrow> int \<Rightarrow> missions \<Rightarrow> int \<times> DstbMissionInfo list" where
  "FetchCachedRemoteMissions env srcId numMissions s =
     (let uuid = GetUuid env srcId s
      in if uuid = [] then (INVALID_PARAMETERS_ERR, [])
         else (case map_find uuid (deviceMissionInfos s) of
                 None \<Rightarrow> (err_null_object (conv env), [])
               | Some infos \<Rightarrow>
                   (let actualNums = sint (of_nat (length infos) :: int32)
                    in if actualNums < 0 then (err_null_object (conv env), [])
                       else (ERR_NONE, if numMissions < actualNums then take (nat numMissions) infos else infos))))"

definition RebornMissionCache :: "menv \<Rightarrow> string \<Rightarrow> DstbMissionInfo list \<Rightarrow> missions \<Rightarrow> missions" where
  "RebornMissionCache env dev infos s =
     (let uuid = GetUuid env dev s
      in if uuid = [] then s
         else s\<lparr>deviceMissionInfos := map_put uuid infos (deviceMissionInfos s)\<rparr>)"

definition CleanMissionCache :: "menv \<Rightarrow> string \<Rightarrow> missions \<Rightarrow> missions" where
  "CleanMissionCache env dev s =
     (let uuid = GetUuid env dev s
      in if uuid = [] then s
         else s\<lparr>deviceMissionInfos := map_erase uuid (deviceMissionInfos s)\<rparr>)"

definition IsDeviceIdValidated :: "menv \<Rightarrow> string \<Rightarrow> missions \<Rightarrow> bool" where
  "IsDeviceIdValidated env dev s = (if dev = [] then False else m_online env (mhistory s) dev)"

text \<open>\<open>None\<close>: a mission of another device without a want (\<open>to_mission\<close>).\<close>

definition GetMissionInfos :: "menv \<Rightarrow> string \<Rightarrow> int \<Rightarrow> missions \<Rightarrow> (int \<times> MissionInfo list) option" where
  "GetMissionInfos env dev numMissions s =
     (if \<not> IsDeviceIdValidated env dev s then Some (INVALID_PARAMETERS_ERR, [])
      else if numMissions \<le> 0 then Some (INVALID_PARAMETERS_ERR, [])
      else (let (ret, infos) = FetchCachedRemoteMissions env dev numMissions s
            in if ret \<noteq> ERR_OK then Some (ret, []) else ConvertToMissionInfos infos []))"

section \<open>The scheduler of another device\<close>

definition mission_GetRemoteDms :: "menv \<Rightarrow> string \<Rightarrow> missions \<Rightarrow> robj option \<times> missions" where
  "mission_GetRemoteDms env dev s =
     (if dev = [] then (None, s)
      else (case map_find dev (remoteDmsMap s) of
              Some x \<Rightarrow> (Some x, s)
            | None \<Rightarrow>
                (case m_dms env (mhistory s) dev of
                   None \<Rightarrow> (None, s)
                 | Some x \<Rightarrow>
                     (let s1 = mlog [MAddDeath x RemoteDmsDeath] s;
                          s2 = (case map_find dev (remoteDmsMap s1) of
                                  None \<Rightarrow> s1
                                | Some old \<Rightarrow> mlog [MRemoveDeath old RemoteDmsDeath] s1)
                      in (Some x, s2\<lparr>remoteDmsMap := map_put dev x (remoteDmsMap s2)\<rparr>)))))"

definition GenerateCallerInfo :: "menv \<Rightarrow> missions \<Rightarrow> CallerInfo option" where
  "GenerateCallerInfo env s =
     (case m_local env (mhistory s) of
        None \<Rightarrow> None
      | Some localUuid \<Rightarrow>
          Some (default_CallerInfo\<lparr>uid := m_uid env (mhistory s), pid := m_pid env (mhistory s),
            callerType := CALLER_TYPE_HARMONY, sourceDeviceId := localUuid, dmsVersion := DMS_VERSION\<rparr>))"

section \<open>The data base of snapshots\<close>

definition mission_NotifyRemoteDied :: "robj \<Rightarrow> missions \<Rightarrow> missions" where
  "mission_NotifyRemoteDied remote s =
     (case distributedDataStorage s of
        None \<Rightarrow> s
      | Some d \<Rightarrow> s\<lparr>mhistory := storage_NotifyRemoteDied remote (mhistory s) d\<rparr>)"

definition InitDataStorage :: "menv \<Rightarrow> missions \<Rightarrow> int \<times> missions" where
  "InitDataStorage env s =
     (let d = (case distributedDataStorage s of None \<Rightarrow> new_data_storage | Some d \<Rightarrow> d);
          (ok, d') = storage_Init env (mhistory s) d;
          s1 = s\<lparr>distributedDataStorage := Some d'\<rparr>
      in if \<not> ok then (err_null_object (conv env), s1) else (ERR_NONE, s1))"

definition StopDataStorage :: "menv \<Rightarrow> missions \<Rightarrow> int \<times> missions" where
  "StopDataStorage env s =
     (case distributedDataStorage s of
        None \<Rightarrow> (err_null_object (conv env), s)
      | Some d \<Rightarrow>
          (let (ok, h, d') = storage_Stop env (mhistory s) d;
               s1 = s\<lparr>mhistory := h, distributedDataStorage := Some d'\<rparr>
           in if \<not> ok then (err_null_object (conv env), s1) else (ERR_NONE, s1)))"

definition StoreSnapshotInfo :: "menv \<Rightarrow> string \<Rightarrow> int \<Rightarrow> byte list \<Rightarrow> missions \<Rightarrow> int \<times> missions" where
  "StoreSnapshotInfo env dev missionId bytes s =
     (case distributedDataStorage s of
        None \<Rightarrow> (err_null_object (conv env), s)
      | Some d \<Rightarrow>
          (let (ok, h) = Insert env dev missionId bytes (mhistory s) d
           in (if ok then ERR_NONE else INVALID_PARAMETERS_ERR, s\<lparr>mhistory := h\<rparr>)))"

definition RemoveSnapshotInfo :: "menv \<Rightarrow> string \<Rightarrow> int \<Rightarrow> missions \<Rightarrow> int \<times> missions" where
  "RemoveSnapshotInfo env dev missionId s =
     (case distributedDataStorage s of
        None \<Rightarrow> (err_null_object (conv env), s)
      | Some d \<Rightarrow>
          (let (ok, h) = Delete env dev missionId (mhistory s) d
           in (if ok then ERR_NONE else INVALID_PARAMETERS_ERR, s\<lparr>mhistory := h\<rparr>)))"

text \<open>\<open>None\<close> is an access outside the buffer of a stored stream, which never happens.\<close>

definition GetRemoteMissionSnapshotInfo ::
  "menv \<Rightarrow> string \<Rightarrow> int \<Rightarrow> missions \<Rightarrow> (int \<times> pixel_map option \<times> missions) option" where
  "GetRemoteMissionSnapshotInfo env networkId missionId s =
     (let uuid = GetUuid env networkId s
      in if uuid = [] then Some (INVALID_PARAMETERS_ERR, None, s)
         else (case DequeueCachedSnapshotInfo env uuid missionId s of
                 (Some x, s1) \<Rightarrow> Some (ERR_NONE, ConvertToMissionSnapshot x, s1)
               | (None, s1) \<Rightarrow>
                   (case distributedDataStorage s1 of
                      None \<Rightarrow> Some (err_null_object (conv env), None, s1)
                    | Some d \<Rightarrow>
                        (case Query env networkId missionId (mhistory s1) d of
                           None \<Rightarrow> Some (INVALID_PARAMETERS_ERR, None, s1)
                         | Some bytes \<Rightarrow>
                             do { x \<leftarrow> Create (snap env) (m_tick env (mhistory s1)) bytes;
                                  Some (case x of
                                          None \<Rightarrow> (err_null_object (conv env), None, s1)
                                        | Some y \<Rightarrow> (ERR_NONE, ConvertToMissionSnapshot y, s1)) }))))"

text \<open>The delayed task of \<open>DeleteDataStorage\<close>, and the same work done at once.\<close>

definition delete_data :: "menv \<Rightarrow> string \<Rightarrow> missions \<Rightarrow> missions" where
  "delete_data env dev s =
     (case distributedDataStorage s of
        None \<Rightarrow> s
      | Some d \<Rightarrow> s\<lparr>mhistory := snd (FuzzyDelete env dev (mhistory s) d)\<rparr>)"

definition DeleteDataStorage :: "menv \<Rightarrow> string \<Rightarrow> bool \<Rightarrow> missions \<Rightarrow> missions" where
  "DeleteDataStorage env dev isDelayed s =
     (case distributedDataStorage s of
        None \<Rightarrow> s
      | Some d \<Rightarrow>
          (let name = DELETE_DATA_STORAGE @ GetUuid env dev s
           in if isDelayed then post_mission env name (TaskDeleteData dev) s
              else delete_data env dev (RemoveTask name s)))"

end
