(* ===== verification/MissionSync.thy ===== *)
theory MissionSync
  imports MissionState
begin

text \<open>
  The mission manager's protocol (\<^verbatim>\<open>distributed_sched_mission_manager.cpp\<close>): listeners of
  remote missions, starting and stopping to follow the missions of another device, telling the
  devices that follow this one, and what happens when a listener, another scheduler or the
  soft bus dies. The last section runs the tasks the operations post.
\<close>

section \<open>Following another device\<close>

definition HasSyncListener :: "menv \<Rightarrow> string \<Rightarrow> missions \<Rightarrow> bool" where
  "HasSyncListener env networkId s =
     (case map_find (str16 (conv env) networkId) (listenDeviceMap s) of
        None \<Rightarrow> False | Some i \<Rightarrow> called i)"

definition RegisterMissionListener :: "menv \<Rightarrow> u16string \<Rightarrow> ptr \<Rightarrow> missions \<Rightarrow> int \<times> missions" where
  "RegisterMissionListener env devId listener s =
     (let remoteDeviceId = str8 (conv env) devId;
          s1 = RemoveTask (DELETE_DATA_STORAGE @ GetUuid env remoteDeviceId s) s
      in (case listener of
            None \<Rightarrow> (INVALID_PARAMETERS_ERR, s1)
          | Some x \<Rightarrow>
              (case m_local env (mhistory s1) of
                 None \<Rightarrow> (INVALID_PARAMETERS_ERR, s1)
               | Some localDeviceId \<Rightarrow>
                   if localDeviceId = remoteDeviceId then (INVALID_PARAMETERS_ERR, s1)
                   else
                     let i = (case map_find devId (listenDeviceMap s1) of
                                None \<Rightarrow> new_ListenerInfo | Some i \<Rightarrow> i);
                         (new, i') = listener_Emplace x i;
                         s2 = s1\<lparr>listenDeviceMap := map_put devId i' (listenDeviceMap s1)\<rparr>
                     in if \<not> new then (ERR_NONE, s2)
                        else (ERR_NONE, mlog [MAddDeath x ListenerDeath] s2))))"

definition UnRegisterMissionListener :: "menv \<Rightarrow> u16string \<Rightarrow> ptr \<Rightarrow> missions \<Rightarrow> int \<times> missions" where
  "UnRegisterMissionListener env devId listener s =
     (case listener of
        None \<Rightarrow> (INVALID_PARAMETERS_ERR, s)
      | Some x \<Rightarrow>
          (case m_local env (mhistory s) of
             None \<Rightarrow> (INVALID_PARAMETERS_ERR, s)
           | Some localDeviceId \<Rightarrow>
               if localDeviceId = str8 (conv env) devId then (INVALID_PARAMETERS_ERR, s)
               else (case map_find devId (listenDeviceMap s) of
                       None \<Rightarrow> (ERR_NONE, s)
                     | Some i \<Rightarrow>
                         if \<not> listener_Find x i then (ERR_NONE, s)
                         else
                           let s1 = mlog [MRemoveDeath x ListenerDeath] s;
                               i' = listener_Erase x i
                           in if \<not> listener_Empty i'
                              then (ERR_NONE, s1\<lparr>listenDeviceMap := map_put devId i' (listenDeviceMap s1)\<rparr>)
                              else (ERR_NONE, s1\<lparr>listenDeviceMap := map_erase devId (listenDeviceMap s1)\<rparr>))))"

text \<open>The three functions named \<^verbatim>\<open>StartSyncRemoteMissions\<close>: with the other scheduler, with the
  two devices, and the operation.\<close>

definition StartSync_with :: "menv \<Rightarrow> string \<Rightarrow> robj \<Rightarrow> missions \<Rightarrow> int \<times> missions" where
  "StartSync_with env dstDevId remoteDms s =
     (case GenerateCallerInfo env s of
        None \<Rightarrow> (GET_LOCAL_DEVICE_ERR, s)
      | Some caller \<Rightarrow>
          (let (ret, infos) = m_start_sync env (mhistory s) remoteDms caller;
               s1 = mlog [MRpc dstDevId (RpcStartSyncMissions caller)] s
           in if ret = ERR_NONE then (ret, RebornMissionCache env dstDevId infos s1) else (ret, s1)))"

definition RetryStartSyncRemoteMissions :: "menv \<Rightarrow> string \<Rightarrow> string \<Rightarrow> int \<Rightarrow> missions \<Rightarrow> missions" where
  "RetryStartSyncRemoteMissions env dst loc retryTimes s =
     (if retryTimes < MAX_RETRY_TIMES then post_mission env [] (TaskRetryStartSync dst loc retryTimes) s else s)"

definition StartSync_devices :: "menv \<Rightarrow> string \<Rightarrow> string \<Rightarrow> missions \<Rightarrow> int \<times> missions" where
  "StartSync_devices env dst loc s =
     (let devId = str16 (conv env) dst
      in (case map_find devId (listenDeviceMap s) of
            None \<Rightarrow> (ERR_NONE, s)
          | Some i \<Rightarrow>
              if called i then (ERR_NONE, s)
              else (case mission_GetRemoteDms env dst s of
                      (None, s1) \<Rightarrow> (GET_REMOTE_DMS_FAIL, RetryStartSyncRemoteMissions env dst loc 0 s1)
                    | (Some x, s1) \<Rightarrow>
                        (let (ret, s2) = StartSync_with env dst x s1
                         in if ret = ERR_NONE then
                              (case map_find devId (listenDeviceMap s2) of
                                 None \<Rightarrow> (ret, s2)
                               | Some i' \<Rightarrow> (ret, s2\<lparr>listenDeviceMap :=
                                   map_put devId (i'\<lparr>called := True\<rparr>) (listenDeviceMap s2)\<rparr>))
                            else (ret, s2)))))"

definition StartSyncRemoteMissions :: "menv \<Rightarrow> string \<Rightarrow> missions \<Rightarrow> int \<times> missions" where
  "StartSyncRemoteMissions env dst s =
     (case m_local env (mhistory s) of
        None \<Rightarrow> (INVALID_PARAMETERS_ERR, s)
      | Some localDeviceId \<Rightarrow>
          if dst = localDeviceId then (INVALID_PARAMETERS_ERR, s)
          else StartSync_devices env dst localDeviceId s)"

definition StopSyncRemoteMissions :: "menv \<Rightarrow> string \<Rightarrow> bool \<Rightarrow> missions \<Rightarrow> int \<times> missions" where
  "StopSyncRemoteMissions env dst offline s =
     (let s1 = DeleteDataStorage env dst True (DeleteCachedSnapshotInfo env dst (CleanMissionCache env dst s))
      in if offline then (ERR_NONE, s1)
         else (case mission_GetRemoteDms env dst s1 of
                 (None, s2) \<Rightarrow> (GET_REMOTE_DMS_FAIL, s2)
               | (Some x, s2) \<Rightarrow>
                   (case GenerateCallerInfo env s2 of
                      None \<Rightarrow> (GET_LOCAL_DEVICE_ERR, s2)
                    | Some caller \<Rightarrow> (m_stop_sync env (mhistory s2) x caller,
                        mlog [MRpc dst (RpcStopSyncMissions caller)] s2))))"

definition CleanMissionResources :: "menv \<Rightarrow> string \<Rightarrow> missions \<Rightarrow> missions" where
  "CleanMissionResources env dst s =
     (let devId = str16 (conv env) dst
      in (case map_find devId (listenDeviceMap s) of
            None \<Rightarrow> s
          | Some i \<Rightarrow>
              (let s1 = mlog (map (\<lambda>x. MRemoveDeath x ListenerDeath) (listenerSet i)) s;
                   s2 = s1\<lparr>listenDeviceMap := map_erase devId (listenDeviceMap s1)\<rparr>
               in snd (StopSyncRemoteMissions env dst True s2))))"

section \<open>Being followed\<close>

definition needSyncDevice :: "string \<Rightarrow> missions \<Rightarrow> bool" where
  "needSyncDevice dev s = (dev \<in> set (remoteSyncDeviceSet s))"

definition StartSyncMissionsFromRemote ::
  "menv \<Rightarrow> CallerInfo \<Rightarrow> missions \<Rightarrow> int \<times> DstbMissionInfo list \<times> missions" where
  "StartSyncMissionsFromRemote env caller s =
     (let s1 = s\<lparr>remoteSyncDeviceSet := set_emplace (sourceDeviceId caller) (remoteSyncDeviceSet s)\<rparr>;
          (result, infos) = GetLocalMissionInfos env GET_MAX_MISSIONS s1
      in (result, infos, post_mission env [] (TaskRegisterChange infos) s1))"

definition StopSyncMissionsFromRemote :: "menv \<Rightarrow> string \<Rightarrow> missions \<Rightarrow> missions" where
  "StopSyncMissionsFromRemote env dev s =
     (let s1 = s\<lparr>remoteSyncDeviceSet := set_erase dev (remoteSyncDeviceSet s)\<rparr>
      in if remoteSyncDeviceSet s1 = [] then post_mission env [] TaskUnregisterChange s1 else s1)"

text \<open>A device that is offline or has no uuid has no handler; the table is keyed by uuid.\<close>

definition FetchDeviceHandler :: "menv \<Rightarrow> string \<Rightarrow> missions \<Rightarrow> string option \<times> missions" where
  "FetchDeviceHandler env dev s =
     (if \<not> IsDeviceIdValidated env dev s then (None, s)
      else (let uuid = GetUuid env dev s
            in if uuid = [] then (None, s)
               else (Some uuid, s\<lparr>deviceHandle := map_emplace uuid [] (deviceHandle s)\<rparr>)))"

definition post_device :: "string \<Rightarrow> device_task \<Rightarrow> missions \<Rightarrow> missions" where
  "post_device uuid t s =
     (case map_find uuid (deviceHandle s) of
        None \<Rightarrow> s
      | Some ts \<Rightarrow> s\<lparr>deviceHandle := map_put uuid (ts @ [t]) (deviceHandle s)\<rparr>)"

fun notify_devices ::
  "menv \<Rightarrow> DstbMissionInfo list \<Rightarrow> CallerInfo \<Rightarrow> string list \<Rightarrow> missions \<Rightarrow> int \<times> missions" where
  "notify_devices env infos caller [] s = (ERR_NONE, s)"
| "notify_devices env infos caller (dev # ds) s =
     (case FetchDeviceHandler env dev s of
        (None, s1) \<Rightarrow> notify_devices env infos caller ds s1
      | (Some uuid, s1) \<Rightarrow>
          if \<not> m_post_ok env (mhistory s1) then (err_null_object (conv env), s1)
          else notify_devices env infos caller ds (post_device uuid (TaskSendMissions dev infos caller) s1))"

definition NotifyMissionsChangedToRemote :: "menv \<Rightarrow> DstbMissionInfo list \<Rightarrow> missions \<Rightarrow> int \<times> missions" where
  "NotifyMissionsChangedToRemote env infos s =
     (case GenerateCallerInfo env s of
        None \<Rightarrow> (GET_LOCAL_DEVICE_ERR, s)
      | Some caller \<Rightarrow> notify_devices env infos caller (remoteSyncDeviceSet s) s)"

definition NotifyMissionsChangedToRemoteInner ::
  "menv \<Rightarrow> string \<Rightarrow> DstbMissionInfo list \<Rightarrow> CallerInfo \<Rightarrow> missions \<Rightarrow> missions" where
  "NotifyMissionsChangedToRemoteInner env dev infos caller s =
     (case mission_GetRemoteDms env dev s of
        (None, s1) \<Rightarrow> s1
      | (Some x, s1) \<Rightarrow> mlog [MRpc dev (RpcMissionsChanged infos caller)] s1)"

definition NotifyMissionsChangedFromRemote ::
  "menv \<Rightarrow> CallerInfo \<Rightarrow> DstbMissionInfo list \<Rightarrow> missions \<Rightarrow> int \<times> missions" where
  "NotifyMissionsChangedFromRemote env caller infos s =
     (let dev = str16 (conv env) (sourceDeviceId caller);
          s1 = RebornMissionCache env (sourceDeviceId caller) infos s
      in (case map_find dev (listenDeviceMap s1) of
            None \<Rightarrow> (INVALID_PARAMETERS_ERR, s1)
          | Some i \<Rightarrow> (ERR_NONE, post_mission env [] (TaskNotifyChanged (listenerSet i) dev) s1)))"

section \<open>Changes of the local missions\<close>

definition NotifyLocalMissionsChanged :: "menv \<Rightarrow> missions \<Rightarrow> missions" where
  "NotifyLocalMissionsChanged env s = post_change env TaskLocalMissions s"

definition NotifyMissionSnapshotCreated :: "menv \<Rightarrow> int \<Rightarrow> missions \<Rightarrow> missions" where
  "NotifyMissionSnapshotCreated env missionId s = post_change env (TaskSnapshotChanged missionId) s"

definition NotifyMissionSnapshotChanged :: "menv \<Rightarrow> int \<Rightarrow> missions \<Rightarrow> missions" where
  "NotifyMissionSnapshotChanged env missionId s = post_change env (TaskSnapshotChanged missionId) s"

definition NotifyMissionSnapshotDestroyed :: "menv \<Rightarrow> int \<Rightarrow> missions \<Rightarrow> missions" where
  "NotifyMissionSnapshotDestroyed env missionId s = post_change env (TaskSnapshotDestroyed missionId) s"

text \<open>The listener the ability manager calls (\<^verbatim>\<open>distributed_mission_change_listener.cpp\<close>).\<close>

definition OnMissionCreated :: "menv \<Rightarrow> int \<Rightarrow> missions \<Rightarrow> missions" where
  "OnMissionCreated env missionId s =
     NotifyMissionSnapshotCreated env missionId (NotifyLocalMissionsChanged env s)"

definition OnMissionDestroyed :: "menv \<Rightarrow> int \<Rightarrow> missions \<Rightarrow> missions" where
  "OnMissionDestroyed env missionId s =
     NotifyMissionSnapshotDestroyed env missionId (NotifyLocalMissionsChanged env s)"

definition OnMissionSnapshotChanged :: "menv \<Rightarrow> int \<Rightarrow> missions \<Rightarrow> missions" where
  "OnMissionSnapshotChanged env missionId s = NotifyMissionSnapshotChanged env missionId s"

definition OnMissionMovedToFront :: "menv \<Rightarrow> int \<Rightarrow> missions \<Rightarrow> missions" where
  "OnMissionMovedToFront env missionId s = NotifyLocalMissionsChanged env s"

definition MissionSnapshotChanged :: "menv \<Rightarrow> int \<Rightarrow> missions \<Rightarrow> int \<times> missions" where
  "MissionSnapshotChanged env missionId s =
     (case m_local env (mhistory s) of
        None \<Rightarrow> (INVALID_PARAMETERS_ERR, s)
      | Some networkId \<Rightarrow>
          (let (errCode, m) = GetLocalMissionSnapshotInfo env networkId missionId s
           in if errCode \<noteq> ERR_OK then (errCode, s)
              else (let (err, bytes) = MissionSnapshotSequence (snap env) (err_flatten_object (conv env))
                          (ConvertToSnapshot m new_Snapshot)
                    in if err \<noteq> ERR_OK then (err, s)
                       else StoreSnapshotInfo env networkId missionId bytes s)))"

definition MissionSnapshotDestroyed :: "menv \<Rightarrow> int \<Rightarrow> missions \<Rightarrow> int \<times> missions" where
  "MissionSnapshotDestroyed env missionId s =
     (case m_local env (mhistory s) of
        None \<Rightarrow> (INVALID_PARAMETERS_ERR, s)
      | Some networkId \<Rightarrow> RemoveSnapshotInfo env networkId missionId s)"

definition InitAllSnapshots :: "menv \<Rightarrow> DstbMissionInfo list \<Rightarrow> missions \<Rightarrow> missions" where
  "InitAllSnapshots env infos s = foldl (\<lambda>s i. snd (MissionSnapshotChanged env (dm_id i) s)) s infos"

section \<open>Devices and deaths\<close>

definition mission_DeviceOnlineNotify :: "menv \<Rightarrow> string \<Rightarrow> missions \<Rightarrow> missions" where
  "mission_DeviceOnlineNotify env dev s =
     (if dev = [] then s else RemoveTask (DELETE_DATA_STORAGE @ GetUuid env dev s) s)"

definition mission_DeviceOfflineNotify :: "menv \<Rightarrow> string \<Rightarrow> missions \<Rightarrow> missions" where
  "mission_DeviceOfflineNotify env dev s =
     (if dev = [] then s
      else
        let s1 = CleanMissionResources env dev (StopSyncMissionsFromRemote env dev s)
        in (case map_find dev (remoteDmsMap s1) of
              None \<Rightarrow> s1
            | Some x \<Rightarrow> (mlog [MRemoveDeath x RemoteDmsDeath] s1)\<lparr>remoteDmsMap := map_erase dev (remoteDmsMap s1)\<rparr>))"

definition mission_OnRemoteDied :: "menv \<Rightarrow> ptr \<Rightarrow> missions \<Rightarrow> missions" where
  "mission_OnRemoteDied env remote s =
     (case remote of None \<Rightarrow> s | Some x \<Rightarrow> post_mission env [] (TaskListenerDied x) s)"

definition mission_OnRemoteDmsDied :: "menv \<Rightarrow> ptr \<Rightarrow> missions \<Rightarrow> missions" where
  "mission_OnRemoteDmsDied env remote s =
     (case remote of None \<Rightarrow> s | Some x \<Rightarrow> post_mission env [] (TaskRemoteDmsDied x) s)"

text \<open>
  The loop over the listeners of all devices: the table without the dead listener, the
  devices that lost their last listener and were followed, and the calls.
\<close>

fun listener_died_loop ::
  "menv \<Rightarrow> robj \<Rightarrow> (u16string, ListenerInfo) stdmap \<Rightarrow> string list \<Rightarrow>
   (u16string, ListenerInfo) stdmap \<times> string list \<times> mext list" where
  "listener_died_loop env x [] ds = ([], ds, [])"
| "listener_died_loop env x ((dev, i) # m) ds =
     (if \<not> listener_Find x i then
        (let (m', ds', es) = listener_died_loop env x m ds in ((dev, i) # m', ds', es))
      else
        let i' = listener_Erase x i
        in if listener_Empty i' then
             (let ds1 = (if called i' then set_emplace (str8 (conv env) dev) ds else ds);
                  (m', ds', es) = listener_died_loop env x m ds1
              in (m', ds', MRemoveDeath x ListenerDeath # es))
           else
             (let (m', ds', es) = listener_died_loop env x m ds
              in ((dev, i') # m', ds', MRemoveDeath x ListenerDeath # es)))"

definition OnMissionListenerDied :: "menv \<Rightarrow> robj \<Rightarrow> missions \<Rightarrow> missions" where
  "OnMissionListenerDied env x s =
     (let (m, ds, es) = listener_died_loop env x (listenDeviceMap s) [];
          s1 = mlog es (s\<lparr>listenDeviceMap := m\<rparr>)
      in foldl (\<lambda>s dev. snd (StopSyncRemoteMissions env dev False s)) s1 ds)"

text \<open>The loop that finds the device of a dead scheduler.\<close>

fun dms_device :: "robj \<Rightarrow> (string, robj) stdmap \<Rightarrow> string option" where
  "dms_device x [] = None"
| "dms_device x ((dev, y) # m) = (if y = x then Some dev else dms_device x m)"

definition OnRemoteDmsDied :: "menv \<Rightarrow> robj \<Rightarrow> missions \<Rightarrow> missions" where
  "OnRemoteDmsDied env x s =
     (case dms_device x (remoteDmsMap s) of
        None \<Rightarrow> s
      | Some dev \<Rightarrow>
          (let s1 = (mlog [MRemoveDeath x RemoteDmsDeath] s)\<lparr>remoteDmsMap := map_erase dev (remoteDmsMap s)\<rparr>
           in if dev = [] then s1
              else if HasSyncListener env dev s1 then
                (case m_local env (mhistory s1) of
                   None \<Rightarrow> s1
                 | Some localDeviceId \<Rightarrow> RetryStartSyncRemoteMissions env dev localDeviceId 0 s1)
              else s1))"

definition RetryRegisterMissionChange :: "menv \<Rightarrow> int \<Rightarrow> missions \<Rightarrow> missions" where
  "RetryRegisterMissionChange env retryTimes s =
     (if retryTimes < MAX_RETRY_TIMES then post_mission env [] (TaskRetryRegister retryTimes) s else s)"

definition NotifyDmsProxyProcessDied :: "menv \<Rightarrow> missions \<Rightarrow> missions" where
  "NotifyDmsProxyProcessDied env s =
     (if \<not> isRegMissionChange s then s else RetryRegisterMissionChange env 0 s)"

definition OnDnetDied :: "menv \<Rightarrow> missions \<Rightarrow> missions" where
  "OnDnetDied env s = post_mission env [] TaskDnetDied s"

text \<open>The death of the data base service (\<^verbatim>\<open>kvstore_death_recipient.cpp\<close>).\<close>

definition KvStore_OnRemoteDied :: "menv \<Rightarrow> robj \<Rightarrow> missions \<Rightarrow> missions" where
  "KvStore_OnRemoteDied env remote s = snd (InitDataStorage env (mission_NotifyRemoteDied remote s))"

section \<open>Running tasks\<close>

definition run_retry_start :: "menv \<Rightarrow> string \<Rightarrow> string \<Rightarrow> int \<Rightarrow> missions \<Rightarrow> missions" where
  "run_retry_start env dst loc retryTimes s =
     (if \<not> HasSyncListener env dst s then s
      else (case mission_GetRemoteDms env dst s of
              (None, s1) \<Rightarrow> RetryStartSyncRemoteMissions env dst loc (retryTimes + 1) s1
            | (Some x, s1) \<Rightarrow> snd (StartSync_with env dst x s1)))"

definition run_retry_register :: "menv \<Rightarrow> int \<Rightarrow> missions \<Rightarrow> missions" where
  "run_retry_register env retryTimes s =
     (if \<not> isRegMissionChange s then s
      else (let (ret, s1) = adapter_RegisterMissionListener env s
            in if ret = err_null_object (conv env)
               then RetryRegisterMissionChange env (retryTimes + 1) s1 else s1))"

definition run_register_change :: "menv \<Rightarrow> DstbMissionInfo list \<Rightarrow> missions \<Rightarrow> missions" where
  "run_register_change env infos s =
     (if isRegMissionChange s then s
      else (let (ret, s1) = adapter_RegisterMissionListener env s;
                s2 = (if ret = ERR_OK then s1\<lparr>isRegMissionChange := True\<rparr> else s1)
            in InitAllSnapshots env infos s2))"

definition run_unregister_change :: "menv \<Rightarrow> missions \<Rightarrow> missions" where
  "run_unregister_change env s =
     (let (ret, s1) = adapter_UnRegisterMissionListener env s
      in if ret = ERR_OK then s1\<lparr>isRegMissionChange := False\<rparr> else s1)"

definition run_dnet_died :: "menv \<Rightarrow> missions \<Rightarrow> missions" where
  "run_dnet_died env s =
     (if \<not> isRegMissionChange s then s
      else (snd (adapter_UnRegisterMissionListener env (s\<lparr>remoteSyncDeviceSet := []\<rparr>)))\<lparr>isRegMissionChange := False\<rparr>)"

fun run_mission_task :: "menv \<Rightarrow> mission_task \<Rightarrow> missions \<Rightarrow> missions" where
  "run_mission_task env (TaskRegisterChange infos) s = run_register_change env infos s"
| "run_mission_task env TaskUnregisterChange s = run_unregister_change env s"
| "run_mission_task env (TaskListenerDied x) s = OnMissionListenerDied env x s"
| "run_mission_task env (TaskRemoteDmsDied x) s = OnRemoteDmsDied env x s"
| "run_mission_task env (TaskRetryStartSync dst loc n) s = run_retry_start env dst loc n s"
| "run_mission_task env (TaskRetryRegister n) s = run_retry_register env n s"
| "run_mission_task env (TaskNotifyChanged xs dev) s =
     foldl (\<lambda>s x. NotifyMissionsChanged env (Some x) dev s) s xs"
| "run_mission_task env TaskDnetDied s = run_dnet_died env s"
| "run_mission_task env (TaskDeleteData dev) s = delete_data env dev s"

fun run_change_task :: "menv \<Rightarrow> change_task \<Rightarrow> missions \<Rightarrow> missions" where
  "run_change_task env TaskLocalMissions s =
     (let (ret, infos) = GetLocalMissionInfos env GET_MAX_MISSIONS s
      in if ret = ERR_OK then snd (NotifyMissionsChangedToRemote env infos s) else s)"
| "run_change_task env (TaskSnapshotChanged i) s = snd (MissionSnapshotChanged env i s)"
| "run_change_task env (TaskSnapshotDestroyed i) s = snd (MissionSnapshotDestroyed env i s)"

fun run_device_task :: "menv \<Rightarrow> device_task \<Rightarrow> missions \<Rightarrow> missions" where
  "run_device_task env (TaskSendMissions dev infos caller) s =
     NotifyMissionsChangedToRemoteInner env dev infos caller s"

text \<open>
  The handlers run in threads of their own, and delayed tasks wait: any task of the mission
  handler or of the change handler may be next; the handler of a device takes its tasks in
  order.
\<close>

definition run_mission :: "menv \<Rightarrow> nat \<Rightarrow> missions \<Rightarrow> missions" where
  "run_mission env n s =
     (if n < length (missionTasks s)
      then run_mission_task env (snd (missionTasks s ! n))
             (s\<lparr>missionTasks := take n (missionTasks s) @ drop (Suc n) (missionTasks s)\<rparr>)
      else s)"

definition run_change :: "menv \<Rightarrow> nat \<Rightarrow> missions \<Rightarrow> missions" where
  "run_change env n s =
     (if n < length (changeTasks s)
      then run_change_task env (changeTasks s ! n)
             (s\<lparr>changeTasks := take n (changeTasks s) @ drop (Suc n) (changeTasks s)\<rparr>)
      else s)"

definition run_device :: "menv \<Rightarrow> string \<Rightarrow> missions \<Rightarrow> missions" where
  "run_device env uuid s =
     (case map_find uuid (deviceHandle s) of
        Some (t # ts) \<Rightarrow> run_device_task env t (s\<lparr>deviceHandle := map_put uuid ts (deviceHandle s)\<rparr>)
      | _ \<Rightarrow> s)"

text \<open>The task that opens the store; \<open>None\<close>: it does not return.\<close>

definition run_storage :: "menv \<Rightarrow> missions \<Rightarrow> missions option" where
  "run_storage env s =
     (case distributedDataStorage s of
        None \<Rightarrow> Some s
      | Some d \<Rightarrow>
          if waitTasks d = 0 then Some s
          else do { (h, d') \<leftarrow> run_wait_task env (mhistory s) (d\<lparr>waitTasks := waitTasks d - 1\<rparr>);
                    Some (s\<lparr>mhistory := h, distributedDataStorage := Some d'\<rparr>) })"

section \<open>Changes of the data base\<close>

text \<open>\<open>KeyInfo::ParseInfo\<close> of \<^verbatim>\<open>distributed_data_change_listener.cpp\<close>.\<close>

definition ParseInfo :: "menv \<Rightarrow> string \<Rightarrow> (string \<times> int) option" where
  "ParseInfo env strKey =
     (case split_str env strKey ''_'' of
        [uuid, number] \<Rightarrow> map_option (\<lambda>i. (uuid, i)) (str_to_int env number)
      | _ \<Rightarrow> None)"

text \<open>The three loops; \<open>False\<close> is the early return out of the whole function.\<close>

fun changed_inserts :: "menv \<Rightarrow> string list \<Rightarrow> missions \<Rightarrow> bool \<times> missions" where
  "changed_inserts env [] s = (True, s)"
| "changed_inserts env (k # ks) s =
     (case ParseInfo env k of
        None \<Rightarrow> changed_inserts env ks s
      | Some (uuid, missionId) \<Rightarrow>
          (let networkId = m_network env (mhistory s) uuid
           in if networkId = [] then (False, s)
              else changed_inserts env ks (NotifySnapshotChanged env networkId missionId s)))"

fun changed_deletes :: "menv \<Rightarrow> string list \<Rightarrow> missions \<Rightarrow> missions" where
  "changed_deletes env [] s = s"
| "changed_deletes env (k # ks) s =
     (case ParseInfo env k of
        None \<Rightarrow> changed_deletes env ks s
      | Some (uuid, missionId) \<Rightarrow>
          changed_deletes env ks (snd (DequeueCachedSnapshotInfo env uuid missionId s)))"

fun changed_updates :: "menv \<Rightarrow> string list \<Rightarrow> missions \<Rightarrow> missions" where
  "changed_updates env [] s = s"
| "changed_updates env (k # ks) s =
     (case ParseInfo env k of
        None \<Rightarrow> changed_updates env ks s
      | Some (uuid, missionId) \<Rightarrow>
          (let networkId = m_network env (mhistory s) uuid
           in if networkId = [] then s
              else changed_updates env ks (NotifySnapshotChanged env networkId missionId
                     (snd (DequeueCachedSnapshotInfo env uuid missionId s)))))"

definition OnChange :: "menv \<Rightarrow> string list \<Rightarrow> string list \<Rightarrow> string list \<Rightarrow> missions \<Rightarrow> missions" where
  "OnChange env inserts deletes updates s =
     (let (go, s1) = changed_inserts env inserts s
      in if \<not> go then s1 else changed_updates env updates (changed_deletes env deletes s1))"

end
