(* ===== verification/MissionInv.thy ===== *)
theory MissionInv
  imports MissionSync
begin

text \<open>
  The invariant of the mission manager and that every operation and every posted task keeps
  it: no listener entry is empty, the snapshot cache is bounded, the tables keyed by device or
  uuid have no empty key, and the retries that wait are within their limit.
\<close>

section \<open>The invariant\<close>

definition listeners_ok :: "(u16string, ListenerInfo) stdmap \<Rightarrow> bool" where
  "listeners_ok m = (map_ok m \<and> (\<forall>(k, i) \<in> set m. listenerSet i \<noteq> [] \<and> set_ok (listenerSet i)))"

definition cache_ok :: "(string, Snapshot) stdmap \<Rightarrow> bool" where
  "cache_ok m = (map_ok m \<and> length m \<le> MAX_CACHED_ITEM)"

definition keyed_ok :: "(string, 'v) stdmap \<Rightarrow> bool" where
  "keyed_ok m = (map_ok m \<and> [] \<notin> map_keys m)"

fun task_ok :: "mission_task \<Rightarrow> bool" where
  "task_ok (TaskRetryStartSync dst loc n) = (0 \<le> n \<and> n < MAX_RETRY_TIMES)"
| "task_ok (TaskRetryRegister n) = (0 \<le> n \<and> n < MAX_RETRY_TIMES)"
| "task_ok (TaskNotifyChanged xs dev) = (xs \<noteq> [])"
| "task_ok t = True"

definition tasks_ok :: "(string \<times> mission_task) list \<Rightarrow> bool" where
  "tasks_ok ts = (\<forall>(n, t) \<in> set ts. task_ok t)"

definition mission_inv :: "missions \<Rightarrow> bool" where
  "mission_inv s \<longleftrightarrow> listeners_ok (listenDeviceMap s) \<and> cache_ok (cachedSnapshotInfos s) \<and>
     keyed_ok (deviceMissionInfos s) \<and> keyed_ok (remoteDmsMap s) \<and> keyed_ok (deviceHandle s) \<and>
     set_ok (remoteSyncDeviceSet s) \<and> tasks_ok (missionTasks s)"

section \<open>Tables\<close>

lemma tasks_ok_simps [simp]:
  "tasks_ok []" "tasks_ok ((n, t) # ts) = (task_ok t \<and> tasks_ok ts)"
  "tasks_ok (ts @ us) = (tasks_ok ts \<and> tasks_ok us)"
  by (auto simp: tasks_ok_def)

lemma tasks_ok_filter [simp]: "tasks_ok ts \<Longrightarrow> tasks_ok (filter P ts)"
  by (auto simp: tasks_ok_def)

lemma tasks_ok_take [simp]: "tasks_ok ts \<Longrightarrow> tasks_ok (take n ts)"
  by (meson in_set_takeD tasks_ok_def)

lemma tasks_ok_drop [simp]: "tasks_ok ts \<Longrightarrow> tasks_ok (drop n ts)"
  by (meson in_set_dropD tasks_ok_def)

lemma tasks_ok_nth: "tasks_ok ts \<Longrightarrow> n < length ts \<Longrightarrow> task_ok (snd (ts ! n))"
  by (metis (mono_tags, lifting) case_prod_beta nth_mem tasks_ok_def)

lemma keyed_ok_put [simp]: "keyed_ok m \<Longrightarrow> k \<noteq> [] \<Longrightarrow> keyed_ok (map_put k v m)"
  by (auto simp: keyed_ok_def)

lemma keyed_ok_erase [simp]: "keyed_ok m \<Longrightarrow> keyed_ok (map_erase k m)"
  by (auto simp: keyed_ok_def)

lemma keyed_ok_emplace [simp]: "keyed_ok m \<Longrightarrow> k \<noteq> [] \<Longrightarrow> keyed_ok (map_emplace k v m)"
  by (auto simp: keyed_ok_def)

lemma keyed_ok_key: "keyed_ok m \<Longrightarrow> map_find k m = Some v \<Longrightarrow> k \<noteq> []"
  by (auto simp: keyed_ok_def dest: map_find_Some_key)

lemma listeners_ok_erase [simp]: "listeners_ok m \<Longrightarrow> listeners_ok (map_erase k m)"
  by (auto simp: listeners_ok_def)

lemma listeners_ok_find: "listeners_ok m \<Longrightarrow> map_find k m = Some i \<Longrightarrow> listenerSet i \<noteq> [] \<and> set_ok (listenerSet i)"
  by (auto simp: listeners_ok_def dest: map_find_Some_mem)

lemma listeners_ok_put [simp]:
  "listeners_ok m \<Longrightarrow> listenerSet i \<noteq> [] \<Longrightarrow> set_ok (listenerSet i) \<Longrightarrow> listeners_ok (map_put k i m)"
  by (auto simp: listeners_ok_def set_map_put)

lemma map_erase_shorter: "map_ok m \<Longrightarrow> k \<in> map_keys m \<Longrightarrow> length (map_erase k m) < length m"
  by (auto simp: map_erase_def map_keys_def intro!: length_filter_less)

lemma find_oldest_Some: "find_oldest m t (Some k) \<noteq> None"
  by (induction m arbitrary: t k) auto

lemma find_oldest_key: "find_oldest m t it = Some k \<Longrightarrow> k \<in> map_keys m \<or> it = Some k"
  by (induction m t it rule: find_oldest.induct) (auto simp: map_keys_def split: if_splits)

lemma evict_room:
  assumes "cache_ok m"
  shows "map_ok (evict m) \<and> length (evict m) < MAX_CACHED_ITEM"
proof (cases "length m = MAX_CACHED_ITEM")
  case False
  with assms show ?thesis by (auto simp: evict_def cache_ok_def)
next
  case True
  then obtain k v m' where m: "m = (k, v) # m'"
    by (cases m) (auto simp: MAX_CACHED_ITEM_def)
  then have "find_oldest m (- 1) None = find_oldest m' (GetLastAccessTime v) (Some k)"
    by simp
  then obtain k' where k': "find_oldest m (- 1) None = Some k'"
    using find_oldest_Some by fastforce
  with find_oldest_key[OF k'] have "k' \<in> map_keys m" by simp
  with assms True k' show ?thesis
    using map_erase_shorter[of m k'] by (simp add: evict_def cache_ok_def)
qed

lemma length_map_put: "length (map_put k v m) \<le> Suc (length m)"
proof (induction m)
  case (Cons e m)
  have "length (map_erase k m) \<le> length m"
    by (simp add: map_erase_def)
  with Cons show ?case
    by (cases e) (auto simp: map_erase_def intro: le_trans[OF length_filter_le])
qed simp

lemma cache_ok_enqueue: "cache_ok m \<Longrightarrow> cache_ok (map_put k v (evict m))"
  using evict_room[of m] length_map_put[of k v "evict m"] by (auto simp: cache_ok_def)

lemma cache_ok_erase [simp]: "cache_ok m \<Longrightarrow> cache_ok (map_erase k m)"
  by (auto simp: cache_ok_def map_erase_def intro: le_trans[OF length_filter_le] map_ok_filter)

lemma cache_ok_filter [simp]: "cache_ok m \<Longrightarrow> cache_ok (filter P m)"
  by (auto simp: cache_ok_def intro: le_trans[OF length_filter_le])

section \<open>Operations\<close>

named_theorems mission_keeps

lemma mission_inv_mlog [simp]: "mission_inv (mlog es s) = mission_inv s"
  by (simp add: mission_inv_def mlog_def)

lemma mission_inv_simps [simp]:
  "mission_inv (s\<lparr>mhistory := h\<rparr>) = mission_inv s"
  "mission_inv (s\<lparr>distributedDataStorage := d\<rparr>) = mission_inv s"
  "mission_inv (s\<lparr>isRegMissionChange := b\<rparr>) = mission_inv s"
  "mission_inv (s\<lparr>changeTasks := ts\<rparr>) = mission_inv s"
  by (simp_all add: mission_inv_def)

lemma mission_inv_mlog_fields [simp]:
  "listenDeviceMap (mlog es s) = listenDeviceMap s" "remoteDmsMap (mlog es s) = remoteDmsMap s"
  "cachedSnapshotInfos (mlog es s) = cachedSnapshotInfos s" "deviceHandle (mlog es s) = deviceHandle s"
  "deviceMissionInfos (mlog es s) = deviceMissionInfos s" "missionTasks (mlog es s) = missionTasks s"
  "remoteSyncDeviceSet (mlog es s) = remoteSyncDeviceSet s" "mhistory (mlog es s) = mhistory s @ es"
  "isRegMissionChange (mlog es s) = isRegMissionChange s"
  "distributedDataStorage (mlog es s) = distributedDataStorage s"
  by (simp_all add: mlog_def)

lemma post_mission_inv [mission_keeps]: "mission_inv s \<Longrightarrow> task_ok t \<Longrightarrow> mission_inv (post_mission env n t s)"
  by (simp add: post_mission_def mission_inv_def)

lemma post_change_inv [mission_keeps]: "mission_inv s \<Longrightarrow> mission_inv (post_change env t s)"
  by (simp add: post_change_def)

lemma RemoveTask_inv [mission_keeps]: "mission_inv s \<Longrightarrow> mission_inv (RemoveTask n s)"
  by (simp add: RemoveTask_def mission_inv_def)

lemma notify_listener_inv [mission_keeps]: "mission_inv s \<Longrightarrow> mission_inv (notify_listener env x c d vs s)"
  by (simp add: notify_listener_def split: option.splits)

lemma foldl_inv: "(\<And>s x. mission_inv s \<Longrightarrow> mission_inv (f s x)) \<Longrightarrow> mission_inv s \<Longrightarrow> mission_inv (foldl f s xs)"
  by (induction xs arbitrary: s) auto

lemma NotifySnapshotChanged_inv [mission_keeps]:
  "mission_inv s \<Longrightarrow> mission_inv (NotifySnapshotChanged env n i s)"
  by (auto simp: NotifySnapshotChanged_def NotifySnapshot_def Let_def mission_keeps intro!: foldl_inv split: option.splits)

lemma cache_ops_inv [mission_keeps]:
  assumes "mission_inv s"
  shows "mission_inv (EnqueueCachedSnapshotInfo dev i x s)"
    "mission_inv (snd (DequeueCachedSnapshotInfo env dev i s))"
    "mission_inv (DeleteCachedSnapshotInfo env n s)"
    "mission_inv (RebornMissionCache env dev infos s)"
    "mission_inv (CleanMissionCache env dev s)"
  using assms
  by (auto simp: EnqueueCachedSnapshotInfo_def DequeueCachedSnapshotInfo_def DeleteCachedSnapshotInfo_def
      RebornMissionCache_def CleanMissionCache_def Let_def mission_inv_def cache_ok_enqueue
      split: option.splits)

lemma GetRemoteDms_inv [mission_keeps]: "mission_inv s \<Longrightarrow> mission_inv (snd (mission_GetRemoteDms env dev s))"
  by (auto simp: mission_GetRemoteDms_def Let_def mission_inv_def split: option.splits)

lemma storage_ops_inv [mission_keeps]:
  assumes "mission_inv s"
  shows "mission_inv (mission_NotifyRemoteDied x s)" "mission_inv (snd (InitDataStorage env s))"
    "mission_inv (snd (StopDataStorage env s))" "mission_inv (snd (StoreSnapshotInfo env dev i bs s))"
    "mission_inv (snd (RemoveSnapshotInfo env dev i s))" "mission_inv (delete_data env dev s)"
    "mission_inv (DeleteDataStorage env dev b s)"
  using assms
  by (auto simp: mission_NotifyRemoteDied_def InitDataStorage_def StopDataStorage_def StoreSnapshotInfo_def
      RemoveSnapshotInfo_def delete_data_def DeleteDataStorage_def Let_def mission_keeps
      split: option.splits prod.splits)

lemma RegisterMissionListener_inv [mission_keeps]:
  assumes "mission_inv s"
  shows "mission_inv (snd (RegisterMissionListener env dev x s))"
proof -
  let ?s1 = "RemoveTask (DELETE_DATA_STORAGE @ GetUuid env (str8 (conv env) dev) s) s"
  have 1: "mission_inv ?s1" using assms by (rule RemoveTask_inv)
  have "mission_inv (?s1\<lparr>listenDeviceMap := map_put dev (snd (listener_Emplace y i)) (listenDeviceMap ?s1)\<rparr>)"
    if "i = (case map_find dev (listenDeviceMap ?s1) of None \<Rightarrow> new_ListenerInfo | Some i \<Rightarrow> i)" for y i
    using 1 that listeners_ok_find[of "listenDeviceMap ?s1" dev]
    by (auto simp: mission_inv_def listener_Emplace_def new_ListenerInfo_def split: option.splits)
  with 1 show ?thesis
    by (auto simp: RegisterMissionListener_def Let_def split_beta split: option.splits)
qed

lemma UnRegisterMissionListener_inv [mission_keeps]:
  assumes "mission_inv s"
  shows "mission_inv (snd (UnRegisterMissionListener env dev x s))"
  using assms listeners_ok_find[of "listenDeviceMap s" dev]
  by (auto simp: UnRegisterMissionListener_def listener_Empty_def listener_Erase_def Let_def mission_inv_def
      split: option.splits)

lemma StartSync_with_inv [mission_keeps]: "mission_inv s \<Longrightarrow> mission_inv (snd (StartSync_with env dst x s))"
  by (simp add: StartSync_with_def Let_def mission_keeps split_beta split: option.splits)

lemma RetryStart_inv [mission_keeps]:
  "mission_inv s \<Longrightarrow> 0 \<le> n \<Longrightarrow> mission_inv (RetryStartSyncRemoteMissions env dst loc n s)"
  by (simp add: RetryStartSyncRemoteMissions_def mission_keeps)

lemma RetryRegister_inv [mission_keeps]:
  "mission_inv s \<Longrightarrow> 0 \<le> n \<Longrightarrow> mission_inv (RetryRegisterMissionChange env n s)"
  by (simp add: RetryRegisterMissionChange_def mission_keeps)

lemma set_called_inv [mission_keeps]:
  "mission_inv s \<Longrightarrow> map_find dev (listenDeviceMap s) = Some i \<Longrightarrow>
   mission_inv (s\<lparr>listenDeviceMap := map_put dev (i\<lparr>called := b\<rparr>) (listenDeviceMap s)\<rparr>)"
  using listeners_ok_find[of "listenDeviceMap s" dev i] by (auto simp: mission_inv_def)

lemma StartSync_devices_inv [mission_keeps]:
  assumes "mission_inv s"
  shows "mission_inv (snd (StartSync_devices env dst loc s))"
proof (cases "mission_GetRemoteDms env dst s")
  case (Pair x s1)
  with GetRemoteDms_inv[OF assms, of env dst] have 1: "mission_inv s1" by simp
  have 2: "mission_inv (snd (StartSync_with env dst y s1))" for y
    using 1 by (rule StartSync_with_inv)
  show ?thesis
    using assms Pair 1 2
    by (auto simp: StartSync_devices_def Let_def split_beta RetryStart_inv set_called_inv split: option.splits)
qed

lemma StartSync_inv [mission_keeps]: "mission_inv s \<Longrightarrow> mission_inv (snd (StartSyncRemoteMissions env dst s))"
  by (simp add: StartSyncRemoteMissions_def mission_keeps split: option.splits)

lemma StopSync_inv [mission_keeps]: "mission_inv s \<Longrightarrow> mission_inv (snd (StopSyncRemoteMissions env dst b s))"
  using GetRemoteDms_inv[of "DeleteDataStorage env dst True (DeleteCachedSnapshotInfo env dst (CleanMissionCache env dst s))" env dst]
  by (auto simp: StopSyncRemoteMissions_def Let_def mission_keeps split_beta split: option.splits prod.splits)

lemma Clean_inv [mission_keeps]: "mission_inv s \<Longrightarrow> mission_inv (CleanMissionResources env dst s)"
  by (auto simp: CleanMissionResources_def Let_def mission_inv_def intro!: StopSync_inv[unfolded mission_inv_def]
      split: option.splits)

lemma followed_inv [mission_keeps]:
  assumes "mission_inv s"
  shows "mission_inv (snd (snd (StartSyncMissionsFromRemote env caller s)))"
    "mission_inv (StopSyncMissionsFromRemote env dev s)"
proof -
  have "mission_inv (s\<lparr>remoteSyncDeviceSet := ds\<rparr>)" if "set_ok ds" for ds
    using assms that by (simp add: mission_inv_def)
  then show "mission_inv (snd (snd (StartSyncMissionsFromRemote env caller s)))"
    "mission_inv (StopSyncMissionsFromRemote env dev s)"
    using assms by (simp_all add: StartSyncMissionsFromRemote_def StopSyncMissionsFromRemote_def Let_def
        split_beta post_mission_inv mission_inv_def[of s])
qed

lemma FetchDeviceHandler_inv [mission_keeps]: "mission_inv s \<Longrightarrow> mission_inv (snd (FetchDeviceHandler env dev s))"
  by (simp add: FetchDeviceHandler_def Let_def mission_inv_def)

lemma post_device_inv [mission_keeps]: "mission_inv s \<Longrightarrow> mission_inv (post_device uuid t s)"
  using keyed_ok_key[of "deviceHandle s" uuid]
  by (auto simp: post_device_def mission_inv_def split: option.splits)

lemma notify_devices_inv [mission_keeps]: "mission_inv s \<Longrightarrow> mission_inv (snd (notify_devices env infos c ds s))"
proof (induction ds arbitrary: s)
  case (Cons d ds)
  then show ?case
    using FetchDeviceHandler_inv[OF Cons.prems, of env d]
    by (cases "FetchDeviceHandler env d s") (auto simp: post_device_inv split: option.splits)
qed simp

lemma changed_inv [mission_keeps]:
  assumes "mission_inv s"
  shows "mission_inv (snd (NotifyMissionsChangedToRemote env infos s))"
    "mission_inv (NotifyMissionsChangedToRemoteInner env dev infos c s)"
    "mission_inv (snd (NotifyMissionsChangedFromRemote env c infos s))"
proof -
  show "mission_inv (snd (NotifyMissionsChangedToRemote env infos s))"
    using assms by (simp add: NotifyMissionsChangedToRemote_def mission_keeps split: option.splits)
  show "mission_inv (NotifyMissionsChangedToRemoteInner env dev infos c s)"
    using GetRemoteDms_inv[OF assms, of env dev]
    by (auto simp: NotifyMissionsChangedToRemoteInner_def split: prod.splits option.splits)
  have 1: "mission_inv (RebornMissionCache env (sourceDeviceId c) infos s)"
    using assms by (rule cache_ops_inv)
  then have "listenerSet i \<noteq> []"
    if "map_find dev (listenDeviceMap (RebornMissionCache env (sourceDeviceId c) infos s)) = Some i" for dev i
    using that listeners_ok_find by (auto simp: mission_inv_def)
  with 1 show "mission_inv (snd (NotifyMissionsChangedFromRemote env c infos s))"
    by (auto simp: NotifyMissionsChangedFromRemote_def Let_def intro!: post_mission_inv split: option.splits)
qed

lemma snapshots_inv [mission_keeps]:
  assumes "mission_inv s"
  shows "mission_inv (snd (MissionSnapshotChanged env i s))" "mission_inv (snd (MissionSnapshotDestroyed env i s))"
  using assms
  by (auto simp: MissionSnapshotChanged_def MissionSnapshotDestroyed_def Let_def mission_keeps
      split: option.splits prod.splits)

lemma InitAllSnapshots_inv [mission_keeps]: "mission_inv s \<Longrightarrow> mission_inv (InitAllSnapshots env infos s)"
  by (simp add: InitAllSnapshots_def foldl_inv snapshots_inv)

lemma adapter_inv [mission_keeps]:
  assumes "mission_inv s"
  shows "mission_inv (snd (adapter_RegisterMissionListener env s))"
    "mission_inv (snd (adapter_UnRegisterMissionListener env s))"
  using assms by (simp_all add: adapter_RegisterMissionListener_def adapter_UnRegisterMissionListener_def Let_def)

lemma erase_dms_inv [mission_keeps]:
  "mission_inv s \<Longrightarrow> mission_inv ((mlog es s)\<lparr>remoteDmsMap := map_erase dev (remoteDmsMap s)\<rparr>)"
  by (simp add: mission_inv_def)

lemma offline_inv [mission_keeps]:
  assumes "mission_inv s"
  shows "mission_inv (mission_DeviceOfflineNotify env dev s)"
proof -
  have "mission_inv (CleanMissionResources env dev (StopSyncMissionsFromRemote env dev s))"
    using assms by (simp add: mission_keeps)
  then show ?thesis
    by (simp add: mission_DeviceOfflineNotify_def Let_def assms erase_dms_inv split: option.splits)
qed

lemma listener_died_loop_ok:
  "listeners_ok m \<Longrightarrow> listeners_ok (fst (listener_died_loop env x m ds)) \<and>
     map_keys (fst (listener_died_loop env x m ds)) \<subseteq> map_keys m"
proof (induction m arbitrary: ds)
  case (Cons e m)
  obtain dev i where e: "e = (dev, i)" by fastforce
  have tail: "listeners_ok m" "\<And>k. k \<in> map_keys m \<Longrightarrow> dev < k" "listenerSet i \<noteq> []" "set_ok (listenerSet i)"
    using Cons.prems by (auto simp: e listeners_ok_def map_ok_Cons)
  have IH: "listeners_ok (fst (listener_died_loop env x m ds'))"
    "map_keys (fst (listener_died_loop env x m ds')) \<subseteq> map_keys m" for ds'
    using Cons.IH[OF tail(1)] by auto
  have cons: "listeners_ok ((dev, j) # fst (listener_died_loop env x m ds'))"
    if "listenerSet j \<noteq> []" "set_ok (listenerSet j)" for j ds'
    using IH[of ds'] tail(2) that by (auto simp: listeners_ok_def map_ok_Cons)
  show ?case
    using IH cons tail(3,4)
    by (auto simp: e Let_def split_beta listener_Erase_def listener_Empty_def)
qed (simp add: listeners_ok_def)

lemma died_inv [mission_keeps]:
  assumes "mission_inv s"
  shows "mission_inv (OnMissionListenerDied env x s)" "mission_inv (OnRemoteDmsDied env x s)"
proof -
  have "mission_inv (s\<lparr>listenDeviceMap := fst (listener_died_loop env x (listenDeviceMap s) [])\<rparr>)"
    using assms listener_died_loop_ok[of "listenDeviceMap s" env x "[]"] by (simp add: mission_inv_def)
  then show "mission_inv (OnMissionListenerDied env x s)"
    by (auto simp: OnMissionListenerDied_def split_beta Let_def intro!: foldl_inv mission_keeps)
  show "mission_inv (OnRemoteDmsDied env x s)"
    using assms erase_dms_inv[OF assms]
    by (auto simp: OnRemoteDmsDied_def Let_def RetryStart_inv split: option.splits)
qed

lemma run_retry_inv [mission_keeps]:
  assumes "mission_inv s" and "0 \<le> n"
  shows "mission_inv (run_retry_start env dst loc n s)" "mission_inv (run_retry_register env n s)"
  using assms GetRemoteDms_inv[OF assms(1), of env dst] adapter_inv(1)[OF assms(1), of env]
  by (auto simp: run_retry_start_def run_retry_register_def Let_def split_beta mission_keeps
      split: option.splits prod.splits)

lemma run_register_inv [mission_keeps]:
  assumes "mission_inv s"
  shows "mission_inv (run_register_change env infos s)" "mission_inv (run_unregister_change env s)"
    "mission_inv (run_dnet_died env s)"
proof -
  have "mission_inv (s\<lparr>remoteSyncDeviceSet := []\<rparr>)"
    using assms by (simp add: mission_inv_def)
  with assms show "mission_inv (run_register_change env infos s)" "mission_inv (run_unregister_change env s)"
    "mission_inv (run_dnet_died env s)"
    by (simp_all add: run_register_change_def run_unregister_change_def run_dnet_died_def Let_def split_beta
        InitAllSnapshots_inv adapter_inv)
qed

lemma run_mission_task_inv: "mission_inv s \<Longrightarrow> task_ok t \<Longrightarrow> mission_inv (run_mission_task env t s)"
  by (cases t) (auto simp: NotifyMissionsChanged_def mission_keeps intro!: foldl_inv)

lemma run_tasks_inv [mission_keeps]:
  assumes "mission_inv s"
  shows "mission_inv (run_mission env n s)" "mission_inv (run_change env n s)" "mission_inv (run_device env uuid s)"
proof -
  have ts: "tasks_ok (missionTasks s)" using assms by (simp add: mission_inv_def)
  have "mission_inv (s\<lparr>missionTasks := take n (missionTasks s) @ drop (Suc n) (missionTasks s)\<rparr>)"
    using assms ts by (simp add: mission_inv_def)
  then show "mission_inv (run_mission env n s)"
    using assms tasks_ok_nth[OF ts] by (simp add: run_mission_def run_mission_task_inv)
  have "mission_inv (run_change_task env t s')" if "mission_inv s'" for t s'
    using that by (cases t) (simp_all add: mission_keeps split_beta Let_def)
  then show "mission_inv (run_change env n s)"
    using assms by (simp add: run_change_def)
  have "mission_inv (s\<lparr>deviceHandle := map_put uuid ts (deviceHandle s)\<rparr>)"
    if "map_find uuid (deviceHandle s) = Some us" for ts us
    using assms that keyed_ok_key[of "deviceHandle s" uuid] by (simp add: mission_inv_def)
  moreover have "mission_inv (run_device_task env t s')" if "mission_inv s'" for t s'
    using that by (cases t) (simp add: changed_inv)
  ultimately show "mission_inv (run_device env uuid s)"
    using assms by (auto simp: run_device_def split: option.splits list.splits)
qed

lemma run_storage_inv [mission_keeps]: "mission_inv s \<Longrightarrow> run_storage env s = Some s' \<Longrightarrow> mission_inv s'"
  by (auto simp: run_storage_def split: option.splits if_splits bind_splits)

lemma run_storage_returns: "run_storage env s \<noteq> None"
proof -
  have "\<exists>x. run_wait_task env h d = Some x" for h d
  proof -
    obtain ok h1 where w: "WaitKvDataService env h = Some (ok, h1)"
      using WaitKvDataService_returns by blast
    obtain ok' h2 d' where t: "TryGetKvStore env h1 d = Some (ok', h2, d')"
      using TryGetKvStore_returns by blast
    show ?thesis
      by (cases ok) (simp_all add: run_wait_task_def InitDistributedDataStorage_def w t)
  qed
  note waits = this
  show ?thesis
  proof (cases "distributedDataStorage s")
    case (Some d)
    obtain h d' where "run_wait_task env (mhistory s) (d\<lparr>waitTasks := waitTasks d - 1\<rparr>) = Some (h, d')"
      using waits by (metis surj_pair)
    with Some show ?thesis by (simp add: run_storage_def)
  qed (simp add: run_storage_def)
qed

lemma OnChange_inv [mission_keeps]:
  assumes "mission_inv s"
  shows "mission_inv (OnChange env ins del upd s)"
proof -
  have i: "mission_inv s \<Longrightarrow> mission_inv (snd (changed_inserts env ks s))" for ks s
    by (induction env ks s rule: changed_inserts.induct)
      (auto simp: Let_def mission_keeps split: option.splits)
  have d: "mission_inv s \<Longrightarrow> mission_inv (changed_deletes env ks s)" for ks s
    by (induction env ks s rule: changed_deletes.induct) (auto simp: mission_keeps split: option.splits)
  have u: "mission_inv s \<Longrightarrow> mission_inv (changed_updates env ks s)" for ks s
    by (induction env ks s rule: changed_updates.induct)
      (auto simp: Let_def mission_keeps split: option.splits)
  show ?thesis
    using i[OF assms, of ins] d u by (auto simp: OnChange_def split_beta)
qed

lemma GetRemoteMissionSnapshotInfo_inv [mission_keeps]:
  assumes "mission_inv s"
  shows "\<exists>r m s'. GetRemoteMissionSnapshotInfo env n i s = Some (r, m, s') \<and> mission_inv s'"
proof (cases "DequeueCachedSnapshotInfo env (GetUuid env n s) i s")
  case (Pair x s1)
  have 1: "mission_inv s1"
    using cache_ops_inv(2)[OF assms, of env "GetUuid env n s" i] Pair by simp
  have c: "\<exists>y. Create (snap env) t bs = Some y" for t bs
    using Create_in_bounds[of "snap env" t bs] by simp
  show ?thesis
  proof (cases "GetUuid env n s = [] \<or> x \<noteq> None \<or> distributedDataStorage s1 = None")
    case True
    with Pair assms 1 show ?thesis
      by (cases x) (auto simp: GetRemoteMissionSnapshotInfo_def Let_def)
  next
    case False
    then obtain d where d: "GetUuid env n s \<noteq> []" "x = None" "distributedDataStorage s1 = Some d" by auto
    show ?thesis
    proof (cases "Query env n i (mhistory s1) d")
      case None
      with d Pair 1 show ?thesis by (simp add: GetRemoteMissionSnapshotInfo_def Let_def)
    next
      case (Some bs)
      obtain y where "Create (snap env) (m_tick env (mhistory s1)) bs = Some y" using c by blast
      with d Pair 1 Some show ?thesis
        by (cases y) (simp_all add: GetRemoteMissionSnapshotInfo_def Let_def)
    qed
  qed
qed

end
