(* ===== verification/IpcSample.thy ===== *)
theory IpcSample
  imports MissionData
begin

text \<open>
  A concrete environment whose messages are read back: wants, elements and parameters are
  marshalled field by field, strings convert both ways, and the extra information of a message
  is printed and parsed. It shows that what the message theorems assume can hold.
\<close>

fun sample_param :: "want_param \<Rightarrow> pval" where
  "sample_param (WInt i) = PInt32 i"
| "sample_param (WBool b) = PBool b"
| "sample_param (WString s) = PString s"
| "sample_param (WStrings ss) = PStrings ss"

fun sample_unparam :: "pval \<Rightarrow> want_param option" where
  "sample_unparam (PInt32 i) = Some (WInt i)"
| "sample_unparam (PBool b) = Some (WBool b)"
| "sample_unparam (PString s) = Some (WString s)"
| "sample_unparam (PStrings ss) = Some (WStrings ss)"
| "sample_unparam v = None"

fun sample_params :: "(string, want_param) stdmap \<Rightarrow> parcel" where
  "sample_params [] = []"
| "sample_params ((k, v) # m) = PString k # sample_param v # sample_params m"

fun sample_unparams :: "parcel \<Rightarrow> (string, want_param) stdmap option" where
  "sample_unparams [] = Some []"
| "sample_unparams [x] = None"
| "sample_unparams (x # v # p) =
     do { (k, q) \<leftarrow> read_string [x]; y \<leftarrow> sample_unparam v; m \<leftarrow> sample_unparams p; Some ((k, y) # m) }"

definition sample_element :: "ElementName \<Rightarrow> parcel" where
  "sample_element e = [PString (el_deviceId e), PString (el_bundleName e), PString (el_abilityName e),
     PString (el_moduleName e)]"

definition sample_unelement :: "parcel \<Rightarrow> ElementName option" where
  "sample_unelement p =
     do { (a, p) \<leftarrow> read_string p; (b, p) \<leftarrow> read_string p; (c, p) \<leftarrow> read_string p;
          (d, p) \<leftarrow> read_string p;
          Some \<lparr>el_deviceId = a, el_bundleName = b, el_abilityName = c, el_moduleName = d\<rparr> }"

definition sample_want :: "Want \<Rightarrow> parcel" where
  "sample_want w = [PNested (sample_element (want_element w)), PUint32 (unat (want_flags w)),
     PNested (sample_params (want_params w))]"

definition sample_unwant :: "parcel \<Rightarrow> Want option" where
  "sample_unwant p =
     do { (e, p) \<leftarrow> read_nested p; (f, p) \<leftarrow> read_uint32 p; (m, p) \<leftarrow> read_nested p;
          e' \<leftarrow> sample_unelement e; m' \<leftarrow> sample_unparams m;
          Some \<lparr>want_element = e', want_flags = of_nat f, want_params = m'\<rparr> }"

lemma sample_unparams_params [simp]: "sample_unparams (sample_params m) = Some m"
proof (induction m)
  case (Cons e m)
  then show ?case by (cases e; cases "snd e") auto
qed simp

lemma sample_unelement_element [simp]: "sample_unelement (sample_element e) = Some e"
  by (simp add: sample_element_def sample_unelement_def)

lemma sample_unwant_want [simp]: "sample_unwant (sample_want w) = Some w"
  by (simp add: sample_want_def sample_unwant_def)

text \<open>Extra information: the numbers, separated by a slash.\<close>

definition sample_number :: "string \<Rightarrow> int" where
  "sample_number s = (if s \<noteq> [] \<and> hd s = CHR ''-'' then - int (digits_val (tl s)) else int (digits_val s))"

fun sample_dump :: "(string \<times> int) list \<Rightarrow> string" where
  "sample_dump [] = []"
| "sample_dump [(k, i)] = int_to_string i"
| "sample_dump ((k, i) # m) = int_to_string i @ ''/'' @ sample_dump m"

definition sample_parse :: "string \<Rightarrow> extra_json" where
  "sample_parse s =
     (let a = takeWhile (\<lambda>c. c \<noteq> CHR ''/'') s; b = tl (dropWhile (\<lambda>c. c \<noteq> CHR ''/'') s)
      in ExtraJson (\<lambda>k. if k = ''accessTokenID'' then Some (sample_number a)
                        else if k = ''requestCode'' \<and> b \<noteq> [] then Some (sample_number b) else None)
           (\<lambda>k. k = ''accessTokenID'' \<or> k = ''requestCode'' \<and> b \<noteq> []))"

lemma sample_number_print [simp]: "sample_number (int_to_string i) = i"
  by (simp add: sample_number_def int_to_string_def digits_val_to_string)

lemma int_to_string_no_slash: "c \<in> set (int_to_string i) \<Longrightarrow> c \<noteq> CHR ''/''"
  using int_to_string_chars by (fastforce simp: is_digit_def)

lemma split_slash [simp]:
  "takeWhile (\<lambda>c. c \<noteq> CHR ''/'') (int_to_string i) = int_to_string i"
  "dropWhile (\<lambda>c. c \<noteq> CHR ''/'') (int_to_string i) = []"
  "takeWhile (\<lambda>c. c \<noteq> CHR ''/'') (int_to_string i @ CHR ''/'' # t) = int_to_string i"
  "dropWhile (\<lambda>c. c \<noteq> CHR ''/'') (int_to_string i @ CHR ''/'' # t) = CHR ''/'' # t"
  by (simp_all add: takeWhile_append dropWhile_append int_to_string_no_slash)

definition ipc_sample :: env where
  "ipc_sample = sample_env\<lparr>marshal_want := sample_want, unmarshal_want := sample_unwant,
     marshal_element := sample_element, unmarshal_element := sample_unelement,
     marshal_params := sample_params, unmarshal_params := sample_unparams,
     parse_extra := sample_parse, dump_extra := sample_dump\<rparr>"

lemma ipc_sample_parcels: "good_parcels ipc_sample"
  by (simp add: good_parcels_def ipc_sample_def sample_env_def u16_inverse)

end
