(* ===== verification/MissionProps.thy ===== *)
theory MissionProps
  imports MissionInv IpcSample
begin

text \<open>
  The mission manager as a machine of requests, device events, deaths and task runs, its
  reachable states, and what following a device does.
\<close>

section \<open>The machine\<close>

datatype mission_req =
    MRegister u16string ptr
  | MUnregister u16string ptr
  | MStartSync string
  | MStopSync string
  | MStartFromRemote CallerInfo
  | MStopFromRemote string
  | MChangedFromRemote CallerInfo "DstbMissionInfo list"
  | MGetSnapshot string int
  | MEnqueue string int "Snapshot option"
  | MOnline string
  | MOffline string
  | MListenerDied ptr
  | MDmsDied ptr
  | MDmsProxyDied
  | MDnetDied
  | MInitStorage
  | MStopStorage
  | MKvDied robj
  | MCreated int
  | MDestroyed int
  | MSnapshotChanged int
  | MMovedToFront int
  | MChange "string list" "string list" "string list"
  | MRunMission nat
  | MRunChange nat
  | MRunDevice string
  | MRunStorage

fun mission_step :: "menv \<Rightarrow> missions \<Rightarrow> mission_req \<Rightarrow> missions" where
  "mission_step env s (MRegister d x) = snd (RegisterMissionListener env d x s)"
| "mission_step env s (MUnregister d x) = snd (UnRegisterMissionListener env d x s)"
| "mission_step env s (MStartSync d) = snd (StartSyncRemoteMissions env d s)"
| "mission_step env s (MStopSync d) = snd (StopSyncRemoteMissions env d False s)"
| "mission_step env s (MStartFromRemote c) = snd (snd (StartSyncMissionsFromRemote env c s))"
| "mission_step env s (MStopFromRemote d) = StopSyncMissionsFromRemote env d s"
| "mission_step env s (MChangedFromRemote c is) = snd (NotifyMissionsChangedFromRemote env c is s)"
| "mission_step env s (MGetSnapshot n i) =
     (case GetRemoteMissionSnapshotInfo env n i s of None \<Rightarrow> s | Some r \<Rightarrow> snd (snd r))"
| "mission_step env s (MEnqueue d i x) = EnqueueCachedSnapshotInfo d i x s"
| "mission_step env s (MOnline d) = mission_DeviceOnlineNotify env d s"
| "mission_step env s (MOffline d) = mission_DeviceOfflineNotify env d s"
| "mission_step env s (MListenerDied x) = mission_OnRemoteDied env x s"
| "mission_step env s (MDmsDied x) = mission_OnRemoteDmsDied env x s"
| "mission_step env s MDmsProxyDied = NotifyDmsProxyProcessDied env s"
| "mission_step env s MDnetDied = OnDnetDied env s"
| "mission_step env s MInitStorage = snd (InitDataStorage env s)"
| "mission_step env s MStopStorage = snd (StopDataStorage env s)"
| "mission_step env s (MKvDied x) = KvStore_OnRemoteDied env x s"
| "mission_step env s (MCreated i) = OnMissionCreated env i s"
| "mission_step env s (MDestroyed i) = OnMissionDestroyed env i s"
| "mission_step env s (MSnapshotChanged i) = OnMissionSnapshotChanged env i s"
| "mission_step env s (MMovedToFront i) = OnMissionMovedToFront env i s"
| "mission_step env s (MChange ins del upd) = OnChange env ins del upd s"
| "mission_step env s (MRunMission n) = run_mission env n s"
| "mission_step env s (MRunChange n) = run_change env n s"
| "mission_step env s (MRunDevice u) = run_device env u s"
| "mission_step env s MRunStorage = (case run_storage env s of None \<Rightarrow> s | Some s' \<Rightarrow> s')"

lemmas started_def = started_missions_def mission_Init_def new_missions_def

lemma mission_step_inv: "mission_inv s \<Longrightarrow> mission_inv (mission_step env s r)"
proof (cases r)
  case (MGetSnapshot n i)
  assume "mission_inv s"
  with GetRemoteMissionSnapshotInfo_inv[of s env n i] MGetSnapshot show ?thesis by auto
next
  case MRunStorage
  assume "mission_inv s"
  with run_storage_inv[of s env] MRunStorage show ?thesis by (auto split: option.splits)
qed (auto simp: mission_keeps mission_DeviceOnlineNotify_def mission_OnRemoteDied_def mission_OnRemoteDmsDied_def
    NotifyDmsProxyProcessDied_def OnDnetDied_def KvStore_OnRemoteDied_def OnMissionCreated_def
    OnMissionDestroyed_def OnMissionSnapshotChanged_def OnMissionMovedToFront_def
    NotifyLocalMissionsChanged_def NotifyMissionSnapshotCreated_def NotifyMissionSnapshotChanged_def
    NotifyMissionSnapshotDestroyed_def split: option.splits)

lemma mission_Init_inv: "mission_inv started_missions"
  by (simp add: mission_inv_def started_def listeners_ok_def cache_ok_def keyed_ok_def map_keys_def)

interpretation mission_m: machine "mission_step env" "\<lambda>s. s = started_missions" mission_inv for env
  by unfold_locales (simp_all add: mission_step_inv mission_Init_inv)


definition busy_missions :: "mission_req list" where
  "busy_missions = [MEnqueue ''B'' 3 (Some new_Snapshot), MRegister [66] (Some (Proxy 1))]"


section \<open>Following a device again\<close>

lemma GetUuid_const: "(\<And>h. m_uuid env h dev = u) \<Longrightarrow> GetUuid env dev s = u"
  by (simp add: GetUuid_def)

lemma delete_frame [simp]:
  "listenDeviceMap (DeleteDataStorage env dst b s) = listenDeviceMap s"
  "deviceMissionInfos (DeleteDataStorage env dst b s) = deviceMissionInfos s"
  by (simp_all add: DeleteDataStorage_def delete_data_def RemoveTask_def post_mission_def Let_def
      split: option.splits)

lemma cleaning_frame [simp]:
  "listenDeviceMap (DeleteCachedSnapshotInfo env dst s) = listenDeviceMap s"
  "deviceMissionInfos (DeleteCachedSnapshotInfo env dst s) = deviceMissionInfos s"
  "listenDeviceMap (CleanMissionCache env dst s) = listenDeviceMap s"
  by (simp_all add: DeleteCachedSnapshotInfo_def CleanMissionCache_def Let_def)

lemma GetRemoteDms_frame [simp]:
  "listenDeviceMap (snd (mission_GetRemoteDms env dst s)) = listenDeviceMap s"
  "deviceMissionInfos (snd (mission_GetRemoteDms env dst s)) = deviceMissionInfos s"
  by (auto simp: mission_GetRemoteDms_def Let_def split: option.split)

lemma StopSync_frame:
  "listenDeviceMap (snd (StopSyncRemoteMissions env dst b s)) = listenDeviceMap s"
  "deviceMissionInfos (snd (StopSyncRemoteMissions env dst b s)) = deviceMissionInfos (CleanMissionCache env dst s)"
proof -
  let ?s1 = "DeleteDataStorage env dst True (DeleteCachedSnapshotInfo env dst (CleanMissionCache env dst s))"
  obtain x s2 where g: "mission_GetRemoteDms env dst ?s1 = (x, s2)" by fastforce
  then have "listenDeviceMap s2 = listenDeviceMap s"
    "deviceMissionInfos s2 = deviceMissionInfos (CleanMissionCache env dst s)"
    using GetRemoteDms_frame[of env dst ?s1] by simp_all
  with g show "listenDeviceMap (snd (StopSyncRemoteMissions env dst b s)) = listenDeviceMap s"
    "deviceMissionInfos (snd (StopSyncRemoteMissions env dst b s)) = deviceMissionInfos (CleanMissionCache env dst s)"
    by (simp_all add: StopSyncRemoteMissions_def Let_def split: option.splits)
qed

lemma stop_cleans_cache:
  assumes "\<And>h. m_uuid env h dev = u" and "u \<noteq> []"
  shows "map_find u (deviceMissionInfos (snd (StopSyncRemoteMissions env dev b s))) = None"
  using assms by (simp add: StopSync_frame CleanMissionCache_def Let_def GetUuid_const[OF assms(1)])

text \<open>
  C39: Stopping and starting again loses the missions of the other device. While listeners stay
  registered for a device that is followed, stopping to follow it empties the cache of its
  missions but keeps the mark that it is followed; starting again then reports success without
  asking the device or changing anything, and reading its missions fails with the error for a
  null object.
\<close>

theorem sync_restart_lost:
  assumes "map_find (str16 (conv env) dev) (listenDeviceMap s) = Some i" and "called i"
    and "\<And>h. m_local env h = Some l" and "dev \<noteq> l" and "dev \<noteq> []"
    and "\<And>h. m_uuid env h dev = u" and "u \<noteq> []" and "\<And>h. m_online env h dev" and "0 < n"
  shows "let s1 = snd (StopSyncRemoteMissions env dev False s) in
    StartSyncRemoteMissions env dev s1 = (ERR_NONE, s1) \<and>
    GetMissionInfos env dev n s1 = Some (err_null_object (conv env), [])"
  using assms stop_cleans_cache[OF assms(6,7), of False s]
  by (simp add: Let_def StartSyncRemoteMissions_def StartSync_devices_def StopSync_frame(1)
      GetMissionInfos_def IsDeviceIdValidated_def FetchCachedRemoteMissions_def GetUuid_const[OF assms(6)]
      ConvertToMissionInfos_def)

definition followed_missions :: missions where
  "followed_missions = started_missions\<lparr>listenDeviceMap := [(u16 ''B'', \<lparr>called = True, listenerSet = [Proxy 1]\<rparr>)]\<rparr>"

theorem sync_restart_lost_witness:
  "let s1 = snd (StopSyncRemoteMissions sample_menv ''B'' False followed_missions) in
    StartSyncRemoteMissions sample_menv ''B'' s1 = (ERR_NONE, s1) \<and>
    GetMissionInfos sample_menv ''B'' 5 s1 = Some (1, [])"
  using sync_restart_lost[of sample_menv "''B''" followed_missions
      "\<lparr>called = True, listenerSet = [Proxy 1]\<rparr>" "''A''" "''B''" 5]
  by (simp add: sample_menv_def sample_env_def followed_missions_def started_def)


definition listened_missions :: missions where
  "listened_missions = started_missions\<lparr>listenDeviceMap := [(u16 ''B'', \<lparr>called = False, listenerSet = [Proxy 1]\<rparr>)]\<rparr>"


section \<open>Missions reach the other device\<close>

lemma convert_to_dstb_take: "convert_missions (take n (map to_dstb ms)) = Some (take n ms)"
  by (simp add: take_map convert_missions_to_dstb)

text \<open>
  C27: The missions of a device arrive at the devices that follow it. What the ability manager
  of one device lists is written to a message; another device that reads it, with the same
  conversions, caches the missions, and its applications asking for up to n missions get the
  first n of that list, unchanged.
\<close>

theorem missions_arrive:
  assumes "good_parcels (conv env)" and "conv env' = conv env"
    and "m_ams_connect env (mhistory s) = ERR_OK"
    and "m_ams_missions env (mhistory s) GET_MAX_MISSIONS = (ERR_OK, ms)" and "length ms < 2147483648"
    and "\<And>h. m_uuid env' h (sourceDeviceId caller) = u" and "u \<noteq> []" and "sourceDeviceId caller \<noteq> []"
    and "\<And>h. m_online env' h (sourceDeviceId caller)" and "0 < n"
  shows "\<exists>infos vs infos'. GetLocalMissionInfos env GET_MAX_MISSIONS s = (ERR_OK, infos) \<and>
    WriteDstbMissionInfosToParcel (conv env) infos [] = Some vs \<and>
    ReadDstbMissionInfosFromParcel (conv env') vs = Some (infos', []) \<and>
    GetMissionInfos env' (sourceDeviceId caller) n
      (snd (NotifyMissionsChangedFromRemote env' caller infos' r)) = Some (ERR_OK, take (nat n) ms)"
proof -
  let ?infos = "map to_dstb ms"
  have local: "GetLocalMissionInfos env GET_MAX_MISSIONS s = (ERR_OK, ?infos)"
    using assms(3,4) by (simp add: GetLocalMissionInfos_def ConvertToDstbMissionInfos_def)
  obtain vs where vs: "WriteDstbMissionInfosToParcel (conv env) ?infos [] = Some vs"
      "ReadDstbMissionInfosFromParcel (conv env) vs = Some (?infos, [])"
    using mission_infos_message[OF assms(1), of ?infos "[]"] assms(5) by (metis append_Nil append_Nil2 length_map)
  let ?r = "snd (NotifyMissionsChangedFromRemote env' caller ?infos r)"
  have cached: "map_find u (deviceMissionInfos ?r) = Some ?infos"
    using assms(7) by (auto simp: NotifyMissionsChangedFromRemote_def RebornMissionCache_def Let_def
        GetUuid_const[OF assms(6)] post_mission_def split: option.splits)
  have fetch: "FetchCachedRemoteMissions env' (sourceDeviceId caller) n ?r =
      (ERR_NONE, take (nat n) ?infos)"
    using cached assms(5,7,10)
    by (auto simp: FetchCachedRemoteMissions_def Let_def GetUuid_const[OF assms(6)] sint_of_nat_32)
  have "GetMissionInfos env' (sourceDeviceId caller) n ?r = Some (ERR_OK, take (nat n) ms)"
    using assms(8,9,10) convert_to_dstb_take[of "nat n" ms]
    by (auto simp: GetMissionInfos_def IsDeviceIdValidated_def fetch ConvertToMissionInfos_def)
  with local vs assms(2) show ?thesis by auto
qed

definition sample_mission :: MissionInfo where
  "sample_mission = \<lparr>ms_id = 3, ms_runningState = 0, ms_lockedState = False, ms_continuable = True,
     ms_label = ''mail'', ms_iconPath = [], ms_want = \<lparr>want_element = \<lparr>el_deviceId = [],
     el_bundleName = ''b'', el_abilityName = ''a'', el_moduleName = []\<rparr>, want_flags = 0, want_params = []\<rparr>\<rparr>"

definition mission_source :: menv where
  "mission_source = sample_menv\<lparr>conv := ipc_sample, m_ams_missions := \<lambda>h n. (0, [sample_mission])\<rparr>"

theorem missions_arrive_witness:
  "\<exists>infos vs infos'. GetLocalMissionInfos mission_source GET_MAX_MISSIONS started_missions = (ERR_OK, infos) \<and>
    WriteDstbMissionInfosToParcel ipc_sample infos [] = Some vs \<and>
    ReadDstbMissionInfosFromParcel ipc_sample vs = Some (infos', []) \<and>
    GetMissionInfos mission_source ''A'' 20
      (snd (NotifyMissionsChangedFromRemote mission_source (default_CallerInfo\<lparr>sourceDeviceId := ''A''\<rparr>)
        infos' started_missions)) = Some (ERR_OK, [sample_mission])"
  using missions_arrive[of mission_source mission_source started_missions "[sample_mission]"
      "default_CallerInfo\<lparr>sourceDeviceId := ''A''\<rparr>" "''A''" 20 started_missions]
  by (simp add: mission_source_def sample_menv_def ipc_sample_parcels)

end
