(* ===== verification/DeviceStorage.thy ===== *)
theory DeviceStorage
  imports RetryLoop StdMap StdString
begin

text \<open>
  The devices in the network, \<^verbatim>\<open>services/base/src/dtbschedmgr_device_info_storage.cpp\<close> with its
  listener \<^verbatim>\<open>distributed_device_node_listener.cpp\<close>: connecting to the soft bus, the table of
  online devices, and the two-way table of network ids and uuids. The soft bus
  (\<^verbatim>\<open>DnetworkAdapter\<close>) and the system ability manager are the fields of \<open>ds_env\<close>, functions of
  what happened before. Work posted to the two handlers is in the queues of the state and
  runs later, in order.
\<close>

section \<open>State\<close>

record DmsDeviceInfo =
  deviceName :: string
  deviceType :: int
  deviceId :: string

datatype ds_event =
    Sleep1s
  | AddDeviceChangeListener
  | RemoveDeviceChangeListener
  | ListenerOnline string
  | ListenerOffline string

type_synonym ds_hist = "ds_event list"

record ds_env =
  samgr_available :: "ds_hist \<Rightarrow> bool"
  softbus_alive :: "ds_hist \<Rightarrow> bool"
  dnetwork_available :: "ds_hist \<Rightarrow> bool"
  add_listener_ok :: "ds_hist \<Rightarrow> bool"
  dnet_uuid :: "ds_hist \<Rightarrow> string \<Rightarrow> string"
  dnet_local :: "ds_hist \<Rightarrow> string option"
  ds_post_ok :: "ds_hist \<Rightarrow> bool"

datatype node_task = NodeOnline DmsDeviceInfo | NodeOffline string

record device_storage =
  initHandler :: bool
  networkIdMgrHandler :: bool
  deviceNodeListener :: bool
  dmsListener :: bool
  remoteDevices :: "(string, DmsDeviceInfo) stdmap"
  uuidNetworkIdMap :: "(string, string) stdmap"
  connectTasks :: nat
  nodeTasks :: "node_task list"
  ds_history :: ds_hist

definition new_device_storage :: device_storage where
  "new_device_storage = \<lparr>initHandler = False, networkIdMgrHandler = False, deviceNodeListener = False,
     dmsListener = False, remoteDevices = [], uuidNetworkIdMap = [], connectTasks = 0,
     nodeTasks = [], ds_history = []\<rparr>"

definition ds_log :: "ds_event \<Rightarrow> device_storage \<Rightarrow> device_storage" where
  "ds_log e s = s\<lparr>ds_history := ds_history s @ [e]\<rparr>"

definition RETRY_TIMES :: int where "RETRY_TIMES = 30"
definition CONNECT_SOFTBUS_RETRY_TIMES :: int where "CONNECT_SOFTBUS_RETRY_TIMES = 60"

section \<open>Connecting to the soft bus\<close>

definition ClearAllDevices :: "device_storage \<Rightarrow> device_storage" where
  "ClearAllDevices s = s\<lparr>remoteDevices := []\<rparr>"

definition WaitForDnetworkReady :: "ds_env \<Rightarrow> device_storage \<Rightarrow> (bool \<times> device_storage) option" where
  "WaitForDnetworkReady env s =
     (if \<not> samgr_available env (ds_history s) then Some (False, s)
      else retry_loop (\<lambda>s. Some (softbus_alive env (ds_history s), s)) (ds_log Sleep1s) RETRY_TIMES s)"

definition InitNetworkIdManager :: "ds_env \<Rightarrow> device_storage \<Rightarrow> bool \<times> device_storage" where
  "InitNetworkIdManager env s =
     (let s1 = s\<lparr>networkIdMgrHandler := True, deviceNodeListener := True\<rparr>;
          s2 = ds_log AddDeviceChangeListener s1
      in if \<not> add_listener_ok env (ds_history s1) then (False, s2\<lparr>deviceNodeListener := False\<rparr>)
         else (True, s2))"

definition ConnectSoftbus :: "ds_env \<Rightarrow> device_storage \<Rightarrow> (bool \<times> device_storage) option" where
  "ConnectSoftbus env s =
     do { (isReady, s1) \<leftarrow> WaitForDnetworkReady env (ClearAllDevices s);
          if \<not> isReady then Some (False, s1)
          else if \<not> dnetwork_available env (ds_history s1) then Some (False, s1)
          else Some (InitNetworkIdManager env s1) }"

text \<open>The task \<^verbatim>\<open>Init\<close> posts: the counter runs from 0 to 60.\<close>

definition run_connect :: "ds_env \<Rightarrow> device_storage \<Rightarrow> (bool \<times> device_storage) option" where
  "run_connect env s =
     retry_loop (ConnectSoftbus env) (ds_log Sleep1s) (CONNECT_SOFTBUS_RETRY_TIMES + 1) s"

definition ds_Init :: "ds_env \<Rightarrow> device_storage \<Rightarrow> bool \<times> device_storage" where
  "ds_Init env s =
     (let s1 = s\<lparr>initHandler := True\<rparr>
      in if \<not> ds_post_ok env (ds_history s1) then (False, s1)
         else (True, s1\<lparr>connectTasks := Suc (connectTasks s1)\<rparr>))"

definition ds_Init_listener :: "ds_env \<Rightarrow> bool \<Rightarrow> device_storage \<Rightarrow> bool \<times> device_storage" where
  "ds_Init_listener env listener s = ds_Init env (s\<lparr>dmsListener := listener\<rparr>)"

definition ds_Stop :: "device_storage \<Rightarrow> device_storage" where
  "ds_Stop s =
     (let s1 = ClearAllDevices s
      in if deviceNodeListener s1
         then (ds_log RemoveDeviceChangeListener s1)\<lparr>deviceNodeListener := False\<rparr> else s1)"

section \<open>Network ids and uuids\<close>

definition RegisterUuidNetworkIdMap :: "ds_env \<Rightarrow> string \<Rightarrow> device_storage \<Rightarrow> device_storage" where
  "RegisterUuidNetworkIdMap env networkId s =
     s\<lparr>uuidNetworkIdMap := map_put (dnet_uuid env (ds_history s) networkId) networkId (uuidNetworkIdMap s)\<rparr>"

definition UnregisterUuidNetworkIdMap :: "ds_env \<Rightarrow> string \<Rightarrow> device_storage \<Rightarrow> device_storage" where
  "UnregisterUuidNetworkIdMap env networkId s =
     s\<lparr>uuidNetworkIdMap := map_erase (dnet_uuid env (ds_history s) networkId) (uuidNetworkIdMap s)\<rparr>"

text \<open>The loop of \<open>GetUuidByNetworkId\<close>: the first uuid with this network id.\<close>

fun uuid_with_network :: "string \<Rightarrow> (string, string) stdmap \<Rightarrow> string option" where
  "uuid_with_network networkId [] = None"
| "uuid_with_network networkId ((uuid, n) # m) =
     (if n = networkId then Some uuid else uuid_with_network networkId m)"

definition GetUuidByNetworkId :: "ds_env \<Rightarrow> string \<Rightarrow> device_storage \<Rightarrow> string" where
  "GetUuidByNetworkId env networkId s =
     (if networkId = [] then []
      else (case uuid_with_network networkId (uuidNetworkIdMap s) of
              Some uuid \<Rightarrow> uuid
            | None \<Rightarrow> dnet_uuid env (ds_history s) networkId))"

definition GetNetworkIdByUuid :: "string \<Rightarrow> device_storage \<Rightarrow> string" where
  "GetNetworkIdByUuid uuid s =
     (if uuid = [] then []
      else (case map_find uuid (uuidNetworkIdMap s) of Some n \<Rightarrow> n | None \<Rightarrow> []))"

section \<open>Devices\<close>

text \<open>A \<open>std::set\<close> filled from the keys of a map, which are in order already.\<close>

definition GetDeviceIdSet :: "device_storage \<Rightarrow> string list" where
  "GetDeviceIdSet s = foldl (\<lambda>ds d. set_emplace (fst d) ds) [] (remoteDevices s)"

definition GetLocalDeviceFromDnet :: "ds_env \<Rightarrow> device_storage \<Rightarrow> string option" where
  "GetLocalDeviceFromDnet env s =
     (if \<not> dnetwork_available env (ds_history s) then None else dnet_local env (ds_history s))"

definition ds_GetLocalDeviceId :: "ds_env \<Rightarrow> device_storage \<Rightarrow> string option" where
  "ds_GetLocalDeviceId env s = GetLocalDeviceFromDnet env s"

definition GetDeviceInfoById :: "string \<Rightarrow> device_storage \<Rightarrow> DmsDeviceInfo option" where
  "GetDeviceInfoById dev s = map_find dev (remoteDevices s)"

definition post_node :: "ds_env \<Rightarrow> node_task \<Rightarrow> device_storage \<Rightarrow> device_storage" where
  "post_node env t s =
     (if networkIdMgrHandler s \<and> ds_post_ok env (ds_history s) then s\<lparr>nodeTasks := nodeTasks s @ [t]\<rparr> else s)"

definition ds_DeviceOnlineNotify :: "ds_env \<Rightarrow> DmsDeviceInfo option \<Rightarrow> device_storage \<Rightarrow> device_storage" where
  "ds_DeviceOnlineNotify env devInfo s =
     (case devInfo of None \<Rightarrow> s | Some d \<Rightarrow> post_node env (NodeOnline d) s)"

definition ds_DeviceOfflineNotify :: "ds_env \<Rightarrow> string \<Rightarrow> device_storage \<Rightarrow> device_storage" where
  "ds_DeviceOfflineNotify env dev s = (if dev = [] then s else post_node env (NodeOffline dev) s)"

definition run_online :: "ds_env \<Rightarrow> DmsDeviceInfo \<Rightarrow> device_storage \<Rightarrow> device_storage" where
  "run_online env d s =
     (let dev = deviceId d;
          s1 = RegisterUuidNetworkIdMap env dev s;
          s2 = s1\<lparr>remoteDevices := map_put dev d (remoteDevices s1)\<rparr>
      in if dmsListener s2 then ds_log (ListenerOnline dev) s2 else s2)"

definition run_offline :: "ds_env \<Rightarrow> string \<Rightarrow> device_storage \<Rightarrow> device_storage" where
  "run_offline env dev s =
     (let s1 = (if dmsListener s then ds_log (ListenerOffline dev) s else s);
          s2 = UnregisterUuidNetworkIdMap env dev s1
      in s2\<lparr>remoteDevices := map_erase dev (remoteDevices s2)\<rparr>)"

fun run_node :: "ds_env \<Rightarrow> node_task \<Rightarrow> device_storage \<Rightarrow> device_storage" where
  "run_node env (NodeOnline d) s = run_online env d s"
| "run_node env (NodeOffline dev) s = run_offline env dev s"

definition run_nodes :: "ds_env \<Rightarrow> device_storage \<Rightarrow> device_storage" where
  "run_nodes env s = foldl (\<lambda>s t. run_node env t s) (s\<lparr>nodeTasks := []\<rparr>) (nodeTasks s)"

section \<open>The device listener\<close>

text \<open>\<^verbatim>\<open>NodeBasicInfo\<close> of the soft bus: name, type and network id.\<close>

definition OnDeviceOnline :: "ds_env \<Rightarrow> (string \<times> int \<times> string) option \<Rightarrow> device_storage \<Rightarrow> device_storage" where
  "OnDeviceOnline env node s =
     (case node of
        None \<Rightarrow> s
      | Some (name, typ, networkId) \<Rightarrow>
          ds_DeviceOnlineNotify env (Some \<lparr>deviceName = name, deviceType = typ, deviceId = networkId\<rparr>) s)"

definition OnDeviceOffline :: "ds_env \<Rightarrow> (string \<times> int \<times> string) option \<Rightarrow> device_storage \<Rightarrow> device_storage" where
  "OnDeviceOffline env node s =
     (case node of None \<Rightarrow> s | Some (name, typ, networkId) \<Rightarrow> ds_DeviceOfflineNotify env networkId s)"

text \<open>The soft bus service died: connect again.\<close>

definition dnet_OnRemoteDied :: "ds_env \<Rightarrow> device_storage \<Rightarrow> device_storage" where
  "dnet_OnRemoteDied env s = snd (ds_Init env s)"

section \<open>Connecting ends\<close>

definition sleeps :: "device_storage \<Rightarrow> nat" where
  "sleeps s = length (filter (\<lambda>e. e = Sleep1s) (ds_history s))"

lemma sleeps_simps [simp]:
  "sleeps (ds_log e s) = (if e = Sleep1s then Suc (sleeps s) else sleeps s)"
  "sleeps (s\<lparr>remoteDevices := m\<rparr>) = sleeps s"
  "sleeps (s\<lparr>deviceNodeListener := b\<rparr>) = sleeps s"
  "sleeps (s\<lparr>networkIdMgrHandler := c\<rparr>) = sleeps s"
  by (simp_all add: sleeps_def ds_log_def)

lemma ds_log_simps [simp]:
  "remoteDevices (ds_log e s) = remoteDevices s" "dmsListener (ds_log e s) = dmsListener s"
  "deviceNodeListener (ds_log e s) = deviceNodeListener s"
  "networkIdMgrHandler (ds_log e s) = networkIdMgrHandler s"
  "ds_history (ds_log e s) = ds_history s @ [e]" "uuidNetworkIdMap (ds_log e s) = uuidNetworkIdMap s"
  by (simp_all add: ds_log_def)

interpretation softbus: retry "\<lambda>s. Some (softbus_alive env (ds_history s), s)" "ds_log Sleep1s"
    "\<lambda>s. remoteDevices s = []" "\<lambda>s. remoteDevices s = []" sleeps 0 for env
  by unfold_locales auto

lemma WaitForDnetworkReady_returns:
  assumes "remoteDevices s = []"
  shows "\<exists>d s'. WaitForDnetworkReady env s = Some (d, s') \<and> sleeps s' \<le> sleeps s + 30 \<and> remoteDevices s' = []"
  using softbus.returns[of env RETRY_TIMES s] assms
  by (auto simp: WaitForDnetworkReady_def RETRY_TIMES_def)

definition connected :: "device_storage \<Rightarrow> bool" where
  "connected s = (deviceNodeListener s \<and> networkIdMgrHandler s \<and> remoteDevices s = [])"

lemma InitNetworkIdManager_facts:
  "sleeps (snd (InitNetworkIdManager env s)) = sleeps s"
  "fst (InitNetworkIdManager env s) \<Longrightarrow> remoteDevices s = [] \<Longrightarrow> connected (snd (InitNetworkIdManager env s))"
  by (auto simp: InitNetworkIdManager_def Let_def connected_def split: if_splits)

lemma ConnectSoftbus_returns:
  "\<exists>d s'. ConnectSoftbus env s = Some (d, s') \<and> sleeps s' \<le> sleeps s + 30 \<and> (d \<longrightarrow> connected s')"
proof -
  obtain d s1 where w: "WaitForDnetworkReady env (ClearAllDevices s) = Some (d, s1)"
      "sleeps s1 \<le> sleeps s + 30" "remoteDevices s1 = []"
    using WaitForDnetworkReady_returns[of "ClearAllDevices s" env] by (auto simp: ClearAllDevices_def)
  obtain d' s2 where i: "InitNetworkIdManager env s1 = (d', s2)"
    by fastforce
  then have "sleeps s2 = sleeps s1" "d' \<longrightarrow> connected s2"
    using InitNetworkIdManager_facts[of env s1] w(3) by auto
  with w i show ?thesis by (auto simp: ConnectSoftbus_def)
qed

interpretation connecting: retry "ConnectSoftbus env" "ds_log Sleep1s" "\<lambda>s. True" connected sleeps 30 for env
proof unfold_locales
  fix s d s'
  show "\<exists>d s'. ConnectSoftbus env s = Some (d, s')"
    using ConnectSoftbus_returns by blast
  show "connected s'" if "ConnectSoftbus env s = Some (True, s')"
    using that ConnectSoftbus_returns[of env s] by auto
  show "sleeps s' \<le> sleeps s + 30" if "ConnectSoftbus env s = Some (d, s')"
    using that ConnectSoftbus_returns[of env s] by auto
qed simp_all

text \<open>
  C38: Connecting to the soft bus always ends: whatever the soft bus and the system ability
  manager answer, the task returns after at most 1891 one-second sleeps (61 attempts of up to
  30 seconds, with a second between them), and when it reports success the device listener is
  registered, the handler for device changes exists and the device table is empty.
\<close>

theorem connect_softbus_ends:
  "\<exists>ok s'. run_connect env s = Some (ok, s') \<and> sleeps s' \<le> sleeps s + 1891 \<and> (ok \<longrightarrow> connected s')"
  using connecting.returns[of env "CONNECT_SOFTBUS_RETRY_TIMES + 1" s]
  by (auto simp: run_connect_def CONNECT_SOFTBUS_RETRY_TIMES_def)

text \<open>A soft bus that comes up after two seconds, in a network where device \<open>n\<close> has uuid \<open>n\<close>.\<close>

definition sample_ds_env :: ds_env where
  "sample_ds_env = \<lparr>samgr_available = (\<lambda>h. True), softbus_alive = (\<lambda>h. 2 \<le> length h),
     dnetwork_available = (\<lambda>h. True), add_listener_ok = (\<lambda>h. True), dnet_uuid = (\<lambda>h n. n),
     dnet_local = (\<lambda>h. Some ''A''), ds_post_ok = (\<lambda>h. True)\<rparr>"

theorem connect_softbus_ends_witness:
  "\<exists>s'. run_connect sample_ds_env new_device_storage = Some (True, s') \<and> sleeps s' \<le> 1891 \<and> connected s'"
proof -
  have "\<exists>s'. run_connect sample_ds_env new_device_storage = Some (True, s')"
    by (simp add: run_connect_def sample_ds_env_def new_device_storage_def ConnectSoftbus_def
        ClearAllDevices_def WaitForDnetworkReady_def InitNetworkIdManager_def Let_def
        CONNECT_SOFTBUS_RETRY_TIMES_def RETRY_TIMES_def retry_loop.simps[where n = 61]
        retry_loop.simps[where n = 30] retry_loop.simps[where n = 29] retry_loop.simps[where n = 28])
  then show ?thesis
    using connect_softbus_ends[of sample_ds_env new_device_storage]
    by (auto simp: sleeps_def new_device_storage_def)
qed

section \<open>Devices that come and go\<close>

text \<open>What the notifications mean for the set of devices, and what the listener is told.\<close>

fun apply_node :: "string set \<Rightarrow> node_task \<Rightarrow> string set" where
  "apply_node ds (NodeOnline d) = insert (deviceId d) ds"
| "apply_node ds (NodeOffline dev) = ds - {dev}"

fun notice :: "node_task \<Rightarrow> ds_event" where
  "notice (NodeOnline d) = ListenerOnline (deviceId d)"
| "notice (NodeOffline dev) = ListenerOffline dev"

lemma GetDeviceIdSet_keys: "set (GetDeviceIdSet s) = map_keys (remoteDevices s)"
proof -
  have "set (foldl (\<lambda>ds d. set_emplace (fst d) ds) acc m) = set acc \<union> map_keys m"
    for acc and m :: "(string, DmsDeviceInfo) stdmap"
    by (induction m arbitrary: acc) (auto simp: map_keys_def)
  then show ?thesis by (simp add: GetDeviceIdSet_def)
qed

lemma run_node_facts:
  "map_keys (remoteDevices (run_node env t s)) = apply_node (map_keys (remoteDevices s)) t"
  "ds_history (run_node env t s) = ds_history s @ (if dmsListener s then [notice t] else [])"
  "dmsListener (run_node env t s) = dmsListener s"
  by (cases t; auto simp: run_online_def run_offline_def Let_def 
      RegisterUuidNetworkIdMap_def UnregisterUuidNetworkIdMap_def)+

lemma run_nodes_facts:
  "map_keys (remoteDevices (foldl (\<lambda>s t. run_node env t s) s ts)) = foldl apply_node (map_keys (remoteDevices s)) ts"
  "ds_history (foldl (\<lambda>s t. run_node env t s) s ts) =
     ds_history s @ (if dmsListener s then map notice ts else [])"
  by (induction ts arbitrary: s) (simp_all add: run_node_facts)

text \<open>The uuid table holds exactly the online devices, under the uuids the soft bus gives them.\<close>

definition uuids_ok :: "(string \<Rightarrow> string) \<Rightarrow> device_storage \<Rightarrow> bool" where
  "uuids_ok u s = (\<forall>uuid n. map_find uuid (uuidNetworkIdMap s) = Some n \<longleftrightarrow>
     n \<in> map_keys (remoteDevices s) \<and> u n = uuid)"

lemma run_node_maps:
  assumes "\<And>h. dnet_uuid env h = u"
  shows "uuidNetworkIdMap (run_node env (NodeOnline d) s) =
      map_put (u (deviceId d)) (deviceId d) (uuidNetworkIdMap s)"
    "uuidNetworkIdMap (run_node env (NodeOffline n) s) = map_erase (u n) (uuidNetworkIdMap s)"
  by (simp_all add: run_online_def run_offline_def Let_def assms
      RegisterUuidNetworkIdMap_def UnregisterUuidNetworkIdMap_def)

lemma run_node_uuids_ok:
  assumes "\<And>h. dnet_uuid env h = u" and "inj u" and "uuids_ok u s"
  shows "uuids_ok u (run_node env t s)"
  using assms(3) injD[OF assms(2)]
  by (cases t) (auto simp: uuids_ok_def run_node_maps[OF assms(1)] run_node_facts(1) simp del: run_node.simps)

lemma run_nodes_uuids_ok:
  assumes "\<And>h. dnet_uuid env h = u" and "inj u"
  shows "uuids_ok u s \<Longrightarrow> uuids_ok u (foldl (\<lambda>s t. run_node env t s) s ts)"
  by (induction ts arbitrary: s) (simp_all add: run_node_uuids_ok[OF assms])

text \<open>
  C24: The device table follows the network. When the notifications waiting in the queue have
  been worked off, the set of device ids is the old one with every device that came online
  added and every device that went offline removed, in the order of the notifications, and the
  listener was told each of them once, in that order. If the soft bus gives each device one
  uuid, different for different devices, the uuid table still holds exactly the online devices.
\<close>

theorem devices_refine:
  assumes "\<And>h. dnet_uuid env h = u" and "inj u" and "uuids_ok u s"
  shows "set (GetDeviceIdSet (run_nodes env s)) = foldl apply_node (set (GetDeviceIdSet s)) (nodeTasks s) \<and>
    ds_history (run_nodes env s) = ds_history s @ (if dmsListener s then map notice (nodeTasks s) else []) \<and>
    uuids_ok u (run_nodes env s)"
  using run_nodes_uuids_ok[OF assms(1,2), of "s\<lparr>nodeTasks := []\<rparr>"] assms(3)
  by (simp add: run_nodes_def run_nodes_facts GetDeviceIdSet_keys uuids_ok_def)

definition busy_storage :: device_storage where
  "busy_storage = new_device_storage\<lparr>dmsListener := True, nodeTasks :=
     [NodeOnline \<lparr>deviceName = ''n'', deviceType = 1, deviceId = ''B''\<rparr>,
      NodeOnline \<lparr>deviceName = ''m'', deviceType = 1, deviceId = ''C''\<rparr>, NodeOffline ''B'']\<rparr>"

theorem devices_refine_witness:
  "set (GetDeviceIdSet (run_nodes sample_ds_env busy_storage)) = {''C''} \<and>
   ds_history (run_nodes sample_ds_env busy_storage) =
     [ListenerOnline ''B'', ListenerOnline ''C'', ListenerOffline ''B''] \<and>
   uuids_ok (\<lambda>n. n) (run_nodes sample_ds_env busy_storage)"
  using devices_refine[of sample_ds_env "\<lambda>n. n" busy_storage]
  by (auto simp: sample_ds_env_def busy_storage_def new_device_storage_def uuids_ok_def GetDeviceIdSet_def)

end
