(* ===== verification/DmsService.thy ===== *)
theory DmsService
  imports SchedContinue MissionSync
begin

text \<open>
  The whole service: the scheduler (\<open>sched\<close>), the mission manager (\<open>missions\<close>) and the
  handler of the adapter, through which devices going offline and deaths reach the scheduler
  (\<^verbatim>\<open>distributed_sched_adapter.cpp\<close>), with the entry points of the library
  (\<^verbatim>\<open>extern "C"\<close> functions of \<^verbatim>\<open>distributed_sched_service.cpp\<close>).
\<close>

section \<open>State\<close>

datatype adapter_task =
    TaskDeviceOffline string
  | TaskConnectDied robj
  | TaskCalleeDied robj
  | TaskCallerDied robj int

record dms =
  d_sched :: sched
  d_missions :: missions
  dmsAdapterHandler :: bool
  adapterTasks :: "(string \<times> adapter_task) list"

definition new_dms :: dms where
  "new_dms = \<lparr>d_sched = initial_sched, d_missions = new_missions, dmsAdapterHandler = False, adapterTasks = []\<rparr>"

definition adapter_Init :: "dms \<Rightarrow> dms" where
  "adapter_Init s = s\<lparr>dmsAdapterHandler := True\<rparr>"

text \<open>\<^verbatim>\<open>Init\<close> and \<^verbatim>\<open>OnStart\<close> of the service.\<close>

definition service_Init :: "menv \<Rightarrow> dms \<Rightarrow> dms" where
  "service_Init env s =
     (let s1 = adapter_Init (s\<lparr>d_missions := mission_Init (d_missions s)\<rparr>)
      in s1\<lparr>d_missions := snd (InitDataStorage env (d_missions s1))\<rparr>)"

definition dms_OnStart :: "menv \<Rightarrow> dms \<Rightarrow> dms" where
  "dms_OnStart env s = (let s1 = service_Init env s in s1\<lparr>d_sched := service_OnStart (d_sched s1)\<rparr>)"

section \<open>The adapter's handler\<close>

definition post_adapter :: "bool \<Rightarrow> string \<Rightarrow> adapter_task \<Rightarrow> dms \<Rightarrow> dms" where
  "post_adapter ok name t s =
     (if ok then s\<lparr>adapterTasks := adapterTasks s @ [(name, t)]\<rparr> else s)"

definition adapter_DeviceOnline :: "string \<Rightarrow> dms \<Rightarrow> dms" where
  "adapter_DeviceOnline dev s =
     (if \<not> dmsAdapterHandler s then s
      else if dev = [] then s
      else s\<lparr>adapterTasks := filter (\<lambda>(n, t). n \<noteq> dev) (adapterTasks s)\<rparr>)"

text \<open>\<open>ok\<close>: whether the handler takes the task.\<close>

definition adapter_DeviceOffline :: "bool \<Rightarrow> string \<Rightarrow> dms \<Rightarrow> dms" where
  "adapter_DeviceOffline ok dev s =
     (if \<not> dmsAdapterHandler s then s
      else if dev = [] then s
      else post_adapter ok dev (TaskDeviceOffline dev) s)"

definition adapter_ProcessDeviceOffline :: "env \<Rightarrow> string \<Rightarrow> dms \<Rightarrow> dms" where
  "adapter_ProcessDeviceOffline env dev s = s\<lparr>d_sched := ProcessDeviceOffline env dev (d_sched s)\<rparr>"

definition adapter_ProcessConnectDied :: "bool \<Rightarrow> ptr \<Rightarrow> dms \<Rightarrow> dms" where
  "adapter_ProcessConnectDied ok connect s =
     (if \<not> dmsAdapterHandler s then s
      else (case connect of None \<Rightarrow> s | Some c \<Rightarrow> post_adapter ok [] (TaskConnectDied c) s))"

definition adapter_ProcessCalleeDied :: "bool \<Rightarrow> ptr \<Rightarrow> dms \<Rightarrow> dms" where
  "adapter_ProcessCalleeDied ok connect s =
     (if \<not> dmsAdapterHandler s then s
      else (case connect of None \<Rightarrow> s | Some c \<Rightarrow> post_adapter ok [] (TaskCalleeDied c) s))"

definition adapter_ProcessCallerDied :: "bool \<Rightarrow> ptr \<Rightarrow> int \<Rightarrow> dms \<Rightarrow> dms" where
  "adapter_ProcessCallerDied ok connect deviceType s =
     (if \<not> dmsAdapterHandler s then s
      else (case connect of None \<Rightarrow> s | Some c \<Rightarrow> post_adapter ok [] (TaskCallerDied c deviceType) s))"

fun run_adapter_task :: "env \<Rightarrow> adapter_task \<Rightarrow> dms \<Rightarrow> dms" where
  "run_adapter_task env (TaskDeviceOffline dev) s = adapter_ProcessDeviceOffline env dev s"
| "run_adapter_task env (TaskConnectDied c) s = s\<lparr>d_sched := ProcessConnectDied env (Some c) (d_sched s)\<rparr>"
| "run_adapter_task env (TaskCalleeDied c) s = s\<lparr>d_sched := ProcessCalleeDied env (Some c) (d_sched s)\<rparr>"
| "run_adapter_task env (TaskCallerDied c typ) s = s\<lparr>d_sched := ProcessCallerDied env (Some c) typ (d_sched s)\<rparr>"

definition run_adapter :: "env \<Rightarrow> nat \<Rightarrow> dms \<Rightarrow> dms" where
  "run_adapter env n s =
     (if n < length (adapterTasks s)
      then run_adapter_task env (snd (adapterTasks s ! n))
             (s\<lparr>adapterTasks := take n (adapterTasks s) @ drop (Suc n) (adapterTasks s)\<rparr>)
      else s)"

section \<open>Devices\<close>

definition dms_DeviceOnlineNotify :: "menv \<Rightarrow> string \<Rightarrow> dms \<Rightarrow> dms" where
  "dms_DeviceOnlineNotify menv dev s =
     (let s1 = adapter_DeviceOnline dev s
      in s1\<lparr>d_missions := mission_DeviceOnlineNotify menv dev (d_missions s1)\<rparr>)"

definition dms_DeviceOfflineNotify :: "menv \<Rightarrow> bool \<Rightarrow> string \<Rightarrow> dms \<Rightarrow> dms" where
  "dms_DeviceOfflineNotify menv ok dev s =
     (let s1 = adapter_DeviceOffline ok dev s
      in s1\<lparr>d_missions := mission_DeviceOfflineNotify menv dev (d_missions s1)\<rparr>)"

section \<open>Mission requests of the service\<close>

definition svc_GetMissionInfos :: "menv \<Rightarrow> string \<Rightarrow> int \<Rightarrow> dms \<Rightarrow> (int \<times> MissionInfo list) option" where
  "svc_GetMissionInfos menv dev n s = GetMissionInfos menv dev n (d_missions s)"

definition on_missions :: "(missions \<Rightarrow> int \<times> missions) \<Rightarrow> dms \<Rightarrow> int \<times> dms" where
  "on_missions f s = (let (r, m) = f (d_missions s) in (r, s\<lparr>d_missions := m\<rparr>))"

definition svc_NotifyMissionsChangedFromRemote ::
  "menv \<Rightarrow> DstbMissionInfo list \<Rightarrow> CallerInfo \<Rightarrow> dms \<Rightarrow> int \<times> dms" where
  "svc_NotifyMissionsChangedFromRemote menv infos caller =
     on_missions (NotifyMissionsChangedFromRemote menv caller infos)"

definition svc_GetRemoteMissionSnapshotInfo ::
  "menv \<Rightarrow> string \<Rightarrow> int \<Rightarrow> dms \<Rightarrow> (int \<times> pixel_map option \<times> dms) option" where
  "svc_GetRemoteMissionSnapshotInfo menv networkId missionId s =
     map_option (\<lambda>(r, x, m). (r, x, s\<lparr>d_missions := m\<rparr>))
       (GetRemoteMissionSnapshotInfo menv networkId missionId (d_missions s))"

definition svc_RegisterMissionListener :: "menv \<Rightarrow> u16string \<Rightarrow> ptr \<Rightarrow> dms \<Rightarrow> int \<times> dms" where
  "svc_RegisterMissionListener menv dev x = on_missions (RegisterMissionListener menv dev x)"

definition svc_UnRegisterMissionListener :: "menv \<Rightarrow> u16string \<Rightarrow> ptr \<Rightarrow> dms \<Rightarrow> int \<times> dms" where
  "svc_UnRegisterMissionListener menv dev x = on_missions (UnRegisterMissionListener menv dev x)"

definition svc_StartSyncRemoteMissions :: "menv \<Rightarrow> string \<Rightarrow> dms \<Rightarrow> int \<times> dms" where
  "svc_StartSyncRemoteMissions menv dev = on_missions (StartSyncRemoteMissions menv dev)"

definition svc_StopSyncRemoteMissions :: "menv \<Rightarrow> string \<Rightarrow> dms \<Rightarrow> int \<times> dms" where
  "svc_StopSyncRemoteMissions menv dev = on_missions (StopSyncRemoteMissions menv dev False)"

definition svc_StartSyncMissionsFromRemote ::
  "menv \<Rightarrow> CallerInfo \<Rightarrow> dms \<Rightarrow> int \<times> DstbMissionInfo list \<times> dms" where
  "svc_StartSyncMissionsFromRemote menv caller s =
     (let (r, infos, m) = StartSyncMissionsFromRemote menv caller (d_missions s)
      in (r, infos, s\<lparr>d_missions := m\<rparr>))"

definition svc_StopSyncMissionsFromRemote :: "menv \<Rightarrow> CallerInfo \<Rightarrow> dms \<Rightarrow> int \<times> dms" where
  "svc_StopSyncMissionsFromRemote menv caller s =
     (ERR_NONE, s\<lparr>d_missions := StopSyncMissionsFromRemote menv (sourceDeviceId caller) (d_missions s)\<rparr>)"

end
