(* ===== verification/SchedStub.thy ===== *)
theory SchedStub
  imports DmsService
begin

text \<open>
  The scheduler's stub, \<^verbatim>\<open>dtbschedmgr/src/distributed_sched_stub.cpp\<close>: it checks who calls,
  reads the values of a request, runs the operation of the service and writes the reply. A
  handler returns the result of the request, the reply and the new state; \<open>None\<close> means that
  the process dies, of an exception nobody catches or a null pointer. Traces and behaviour
  events are left out. The two function maps are \<open>localFuncsMap\<close> and \<open>remoteFuncsMap\<close>.
\<close>

section \<open>Codes and helpers\<close>

definition HID_HAP :: int where "HID_HAP = 10000"
definition SCHED_STUB_INTERFACE_TOKEN :: u16string where
  "SCHED_STUB_INTERFACE_TOKEN = u16 ''ohos.distributedschedule.accessToken''"
definition EXTRO_INFO_JSON_KEY_ACCESS_TOKEN :: string where
  "EXTRO_INFO_JSON_KEY_ACCESS_TOKEN = ''accessTokenID''"
definition EXTRO_INFO_JSON_KEY_REQUEST_CODE :: string where
  "EXTRO_INFO_JSON_KEY_REQUEST_CODE = ''requestCode''"
definition PERMISSION_DISTRIBUTED_DATASYNC :: string where
  "PERMISSION_DISTRIBUTED_DATASYNC = ''ohos.permission.DISTRIBUTED_DATASYNC''"
definition FREE_INSTLL_CALLING_APP_ID :: string where
  "FREE_INSTLL_CALLING_APP_ID = ''freeInstallCallingAppId''"
definition FREE_INSTLL_CALLING_BUNDLENAMES :: string where
  "FREE_INSTLL_CALLING_BUNDLENAMES = ''freeInstallCallingBundleNames''"

datatype request_code =
    START_REMOTE_ABILITY | START_ABILITY_FROM_REMOTE | CONNECT_REMOTE_ABILITY
  | DISCONNECT_REMOTE_ABILITY | CONNECT_ABILITY_FROM_REMOTE | DISCONNECT_ABILITY_FROM_REMOTE
  | START_CONTINUATION | NOTIFY_COMPLETE_CONTINUATION | NOTIFY_CONTINUATION_RESULT_FROM_REMOTE
  | NOTIFY_PROCESS_DIED_FROM_REMOTE | SEND_RESULT_FROM_REMOTE | CONTINUE_MISSION
  | START_FREE_INSTALL_FROM_REMOTE | NOTIFY_COMPLETE_FREE_INSTALL_FROM_REMOTE
  | GET_MISSION_INFOS | REGISTER_MISSION_LISTENER | UNREGISTER_MISSION_LISTENER
  | START_SYNC_MISSIONS_FROM_REMOTE | STOP_SYNC_MISSIONS_FROM_REMOTE
  | NOTIFY_MISSIONS_CHANGED_FROM_REMOTE | START_SYNC_MISSIONS | STOP_SYNC_MISSIONS
  | GET_REMOTE_MISSION_SNAPSHOT_INFO | START_REMOTE_ABILITY_BY_CALL | RELEASE_REMOTE_ABILITY
  | START_ABILITY_BY_CALL_FROM_REMOTE | RELEASE_ABILITY_FROM_REMOTE | START_REMOTE_FREE_INSTALL
  | REGISTER_DISTRIBUTED_COMPONENT_LISTENER | GET_DISTRIBUTED_COMPONENT_LIST

fun code_of :: "request_code \<Rightarrow> nat" where
  "code_of START_REMOTE_ABILITY = 1"
| "code_of START_ABILITY_FROM_REMOTE = 4"
| "code_of CONNECT_REMOTE_ABILITY = 6"
| "code_of DISCONNECT_REMOTE_ABILITY = 7"
| "code_of CONNECT_ABILITY_FROM_REMOTE = 8"
| "code_of DISCONNECT_ABILITY_FROM_REMOTE = 9"
| "code_of START_CONTINUATION = 11"
| "code_of NOTIFY_COMPLETE_CONTINUATION = 12"
| "code_of NOTIFY_CONTINUATION_RESULT_FROM_REMOTE = 13"
| "code_of NOTIFY_PROCESS_DIED_FROM_REMOTE = 17"
| "code_of SEND_RESULT_FROM_REMOTE = 20"
| "code_of CONTINUE_MISSION = 36"
| "code_of START_FREE_INSTALL_FROM_REMOTE = 51"
| "code_of NOTIFY_COMPLETE_FREE_INSTALL_FROM_REMOTE = 52"
| "code_of GET_MISSION_INFOS = 80"
| "code_of REGISTER_MISSION_LISTENER = 84"
| "code_of UNREGISTER_MISSION_LISTENER = 85"
| "code_of START_SYNC_MISSIONS_FROM_REMOTE = 86"
| "code_of STOP_SYNC_MISSIONS_FROM_REMOTE = 87"
| "code_of NOTIFY_MISSIONS_CHANGED_FROM_REMOTE = 91"
| "code_of START_SYNC_MISSIONS = 92"
| "code_of STOP_SYNC_MISSIONS = 98"
| "code_of GET_REMOTE_MISSION_SNAPSHOT_INFO = 99"
| "code_of START_REMOTE_ABILITY_BY_CALL = 150"
| "code_of RELEASE_REMOTE_ABILITY = 151"
| "code_of START_ABILITY_BY_CALL_FROM_REMOTE = 152"
| "code_of RELEASE_ABILITY_FROM_REMOTE = 153"
| "code_of START_REMOTE_FREE_INSTALL = 200"
| "code_of REGISTER_DISTRIBUTED_COMPONENT_LISTENER = 160"
| "code_of GET_DISTRIBUTED_COMPONENT_LIST = 161"

declare code_of.simps [simp del]

type_synonym 's answer = "(int \<times> parcel \<times> 's) option"

definition refuse :: "int \<Rightarrow> 's \<Rightarrow> 's answer" where
  "refuse e s = Some (e, [], s)"

text \<open>\<^verbatim>\<open>PARCEL_READ_HELPER\<close>: a checked read and the rest of the handler.\<close>

definition need :: "env \<Rightarrow> 's \<Rightarrow> ('a \<times> parcel) option \<Rightarrow> ('a \<Rightarrow> parcel \<Rightarrow> 's answer) \<Rightarrow> 's answer" where
  "need env s r k = (case r of None \<Rightarrow> refuse (err_flatten_object env) s | Some (x, p) \<Rightarrow> k x p)"

text \<open>A pointer that is read and tested for null.\<close>

definition nonnull :: "int \<Rightarrow> 's \<Rightarrow> 'a option \<times> parcel \<Rightarrow> ('a \<Rightarrow> parcel \<Rightarrow> 's answer) \<Rightarrow> 's answer" where
  "nonnull e s r k = (case r of (None, p) \<Rightarrow> refuse e s | (Some x, p) \<Rightarrow> k x p)"

definition want_at :: "env \<Rightarrow> 's \<Rightarrow> parcel \<Rightarrow> (Want \<Rightarrow> parcel \<Rightarrow> 's answer) \<Rightarrow> 's answer" where
  "want_at env s p k = nonnull (err_null_object env) s (read_parcelable (unmarshal_want env) p) k"

text \<open>\<^verbatim>\<open>PARCEL_WRITE_REPLY_NOERROR\<close> ignores a failed write; \<^verbatim>\<open>PARCEL_WRITE_HELPER\<close> reports it.\<close>

definition reply_result :: "env \<Rightarrow> int \<times> 's \<Rightarrow> 's answer" where
  "reply_result env r = Some (ERR_NONE, write_ignore (writable env) [PInt32 (fst r)] [], snd r)"

definition reply_values :: "env \<Rightarrow> pval list \<Rightarrow> 's \<Rightarrow> 's answer" where
  "reply_values env vs s =
     (case write_all (writable env) vs [] of
        None \<Rightarrow> Some (err_flatten_object env, [], s)
      | Some p \<Rightarrow> Some (ERR_NONE, p, s))"

definition CheckCallingUid :: "env \<Rightarrow> sched \<Rightarrow> bool" where
  "CheckCallingUid env s = (calling_uid env (history s) < HID_HAP)"

definition EnforceInterfaceToken :: "parcel \<Rightarrow> bool \<times> parcel" where
  "EnforceInterfaceToken p = (let (t, q) = read_or [] read_token p in (t = SCHED_STUB_INTERFACE_TOKEN, q))"

text \<open>The guards most handlers begin with.\<close>

definition foundation :: "env \<Rightarrow> sched \<Rightarrow> bool" where
  "foundation env s = IsFoundationCall env (history s) (calling_token env (history s))"

definition data_sync :: "env \<Rightarrow> nat \<Rightarrow> sched \<Rightarrow> bool" where
  "data_sync env token s = (CheckPermission env (history s) token PERMISSION_DISTRIBUTED_DATASYNC = ERR_OK)"

text \<open>
  The access token in the extra information of a message: 0 when it is no JSON; \<open>None\<close> is the
  exception of a JSON without the number.
\<close>

definition extra_token :: "env \<Rightarrow> string \<Rightarrow> nat option" where
  "extra_token env info =
     (case parse_extra env info of
        ExtraDiscarded \<Rightarrow> Some 0
      | ExtraJson get has \<Rightarrow> map_option (\<lambda>i. nat (i mod 2 ^ 32)) (get EXTRO_INFO_JSON_KEY_ACCESS_TOKEN))"

definition reply_timed :: "env \<Rightarrow> int \<Rightarrow> int \<times> sched \<Rightarrow> pval list \<Rightarrow> sched answer" where
  "reply_timed env begin r vs =
     reply_values env ([PInt32 (fst r), PInt64 (tick_count env (history (snd r)) - begin)] @ vs) (snd r)"

section \<open>Requests of local applications\<close>

type_synonym handler = "env \<Rightarrow> parcel \<Rightarrow> sched \<Rightarrow> sched answer"

definition StartRemoteAbilityInner :: handler where
  "StartRemoteAbilityInner env data s =
     (if \<not> foundation env s then refuse DMS_PERMISSION_DENIED s
      else want_at env s data (\<lambda>want p.
        need env s (read_int32 p) (\<lambda>callerUid p.
        need env s (read_int32 p) (\<lambda>requestCode p.
        need env s (read_uint32 p) (\<lambda>accessTok p.
          if \<not> data_sync env accessTok s then refuse DMS_PERMISSION_DENIED s
          else reply_result env (StartRemoteAbility env want callerUid requestCode accessTok s))))))"

definition StartContinuationInner :: handler where
  "StartContinuationInner env data s =
     (if \<not> foundation env s then refuse DMS_PERMISSION_DENIED s
      else want_at env s data (\<lambda>want p.
        let (missionId, p) = read_or 0 read_int32 p;
            (callerUid, p) = read_or 0 read_int32 p;
            (status, p) = read_or 0 read_int32 p in
        need env s (read_uint32 p) (\<lambda>accessTok p.
          if \<not> data_sync env accessTok s then refuse DMS_PERMISSION_DENIED s
          else reply_result env (StartContinuation env want missionId callerUid status accessTok s))))"

definition NotifyCompleteContinuationInner :: handler where
  "NotifyCompleteContinuationInner env data s =
     (if \<not> foundation env s then refuse DMS_PERMISSION_DENIED s
      else let (devId, p) = read_or [] read_string16 data
           in if devId = [] then refuse INVALID_PARAMETERS_ERR s
              else need env s (read_int32 p) (\<lambda>sessionId p.
                need env s (read_bool p) (\<lambda>ok p.
                  Some (ERR_OK, [], NotifyCompleteContinuation env devId sessionId ok s))))"

definition ConnectRemoteAbilityInner :: handler where
  "ConnectRemoteAbilityInner env data s =
     (if \<not> foundation env s then refuse DMS_PERMISSION_DENIED s
      else want_at env s data (\<lambda>want p.
        let (connect, p) = read_remote p in
        need env s (read_int32 p) (\<lambda>callerUid p.
        need env s (read_int32 p) (\<lambda>callerPid p.
        need env s (read_uint32 p) (\<lambda>accessTok p.
          if \<not> data_sync env accessTok s then refuse DMS_PERMISSION_DENIED s
          else reply_result env (ConnectRemoteAbility env want connect callerUid callerPid accessTok s))))))"

definition DisconnectRemoteAbilityInner :: handler where
  "DisconnectRemoteAbilityInner env data s =
     (if \<not> foundation env s then refuse DMS_PERMISSION_DENIED s
      else let (connect, p) = read_remote data in
        need env s (read_int32 p) (\<lambda>callerUid p.
        need env s (read_uint32 p) (\<lambda>accessTok p.
          if \<not> data_sync env accessTok s then refuse DMS_PERMISSION_DENIED s
          else reply_result env (DisconnectRemoteAbility env connect s))))"

definition StartRemoteAbilityByCallInner :: handler where
  "StartRemoteAbilityByCallInner env data s =
     (if \<not> foundation env s then refuse DMS_PERMISSION_DENIED s
      else want_at env s data (\<lambda>want p.
        let (connect, p) = read_remote p in
        need env s (read_int32 p) (\<lambda>callerUid p.
        need env s (read_int32 p) (\<lambda>callerPid p.
        need env s (read_uint32 p) (\<lambda>accessTok p.
          if \<not> data_sync env accessTok s then refuse DMS_PERMISSION_DENIED s
          else reply_result env (StartRemoteAbilityByCall env want connect callerUid callerPid accessTok s))))))"

definition ReleaseRemoteAbilityInner :: handler where
  "ReleaseRemoteAbilityInner env data s =
     (if \<not> foundation env s then refuse DMS_PERMISSION_DENIED s
      else let (connect, p) = read_remote data in
        nonnull (err_invalid_value env) s (read_parcelable (unmarshal_element env) p) (\<lambda>element p.
          reply_result env (ReleaseRemoteAbility env connect element s)))"

definition StartRemoteFreeInstallInner :: handler where
  "StartRemoteFreeInstallInner env data s =
     (if \<not> foundation env s then refuse DMS_PERMISSION_DENIED s
      else want_at env s data (\<lambda>want p.
        need env s (read_int32 p) (\<lambda>callerUid p.
        need env s (read_int32 p) (\<lambda>requestCode p.
        need env s (read_uint32 p) (\<lambda>accessTok p.
        nonnull (err_null_object env) s (read_remote p) (\<lambda>callback p.
          if \<not> data_sync env accessTok s then refuse DMS_PERMISSION_DENIED s
          else reply_result env
            (StartRemoteFreeInstall env want callerUid requestCode accessTok (Some callback) s)))))))"

definition RegisterDistributedComponentListenerInner :: handler where
  "RegisterDistributedComponentListenerInner env data s =
     (if \<not> CheckCallingUid env s then refuse DMS_PERMISSION_DENIED s
      else let (callback, p) = read_remote data
           in reply_result env (RegisterDistributedComponentListener callback s))"

definition GetDistributedComponentListInner :: handler where
  "GetDistributedComponentListInner env data s =
     (if \<not> CheckCallingUid env s then refuse DMS_PERMISSION_DENIED s
      else let (result, components) = GetDistributedComponentList env s
           in reply_values env [PInt32 result, PStrings components] s)"

section \<open>Requests of other devices\<close>

text \<open>What several requests carry: the type of account, the groups, the application.\<close>

definition account_at ::
  "env \<Rightarrow> sched \<Rightarrow> parcel \<Rightarrow> (AccountInfo \<Rightarrow> string \<Rightarrow> parcel \<Rightarrow> sched answer) \<Rightarrow> sched answer" where
  "account_at env s p k =
     (let (typ, p) = read_or 0 read_int32 p in
      need env s (read_strings p) (\<lambda>groups p.
        let (appId, p) = read_or [] read_string p
        in k \<lparr>accountType = typ, groupIdList = groups\<rparr> appId p))"

definition StartAbilityFromRemoteInner :: handler where
  "StartAbilityFromRemoteInner env data s =
     (if \<not> CheckCallingUid env s then refuse DMS_PERMISSION_DENIED s
      else want_at env s data (\<lambda>want p.
        nonnull (err_null_object env) s (read_parcelable (unmarshal_ability env) p) (\<lambda>(package, deviceId) p.
        let begin = tick_count env (history s) in
        need env s (read_int32 p) (\<lambda>requestCode p.
        need env s (read_int32 p) (\<lambda>callerUid p.
        need env s (read_string p) (\<lambda>source p.
        account_at env s p (\<lambda>account appId p.
        let (info, p) = read_or [] read_string p in
        do { token \<leftarrow> extra_token env info;
             reply_timed env begin (StartAbilityFromRemote env want requestCode
               (default_CallerInfo\<lparr>uid := callerUid, sourceDeviceId := source,
                 callerType := CALLER_TYPE_HARMONY, callerAppId := appId, accessToken := token\<rparr>)
               account s) [PString package, PString deviceId] })))))))"

definition SendResultFromRemoteInner :: handler where
  "SendResultFromRemoteInner env data s =
     (if \<not> CheckCallingUid env s then refuse DMS_PERMISSION_DENIED s
      else want_at env s data (\<lambda>want p.
        let begin = tick_count env (history s) in
        need env s (read_int32 p) (\<lambda>requestCode p.
        need env s (read_int32 p) (\<lambda>callerUid p.
        need env s (read_string p) (\<lambda>source p.
        account_at env s p (\<lambda>account appId p.
        need env s (read_int32 p) (\<lambda>resultCode p.
          reply_timed env begin (SendResultFromRemote env want requestCode
            (default_CallerInfo\<lparr>uid := callerUid, sourceDeviceId := source,
              callerType := CALLER_TYPE_HARMONY, callerAppId := appId\<rparr>)
            account resultCode s) [])))))))"

definition NotifyContinuationResultFromRemoteInner :: handler where
  "NotifyContinuationResultFromRemoteInner env data s =
     (if \<not> CheckCallingUid env s then refuse DMS_PERMISSION_DENIED s
      else need env s (read_int32 data) (\<lambda>sessionId p.
        need env s (read_bool p) (\<lambda>ok p.
          let (result, s') = NotifyContinuationResultFromRemote env sessionId ok s
          in Some (result, [], s'))))"

text \<open>The result of \<open>ConnectAbilityFromRemote\<close> is \<open>None\<close> where the code is undefined.\<close>

definition ConnectAbilityFromRemoteInner :: handler where
  "ConnectAbilityFromRemoteInner env data s =
     (if \<not> CheckCallingUid env s then refuse DMS_PERMISSION_DENIED s
      else want_at env s data (\<lambda>want p.
        nonnull (err_null_object env) s (read_parcelable (unmarshal_ability env) p) (\<lambda>(package, deviceId) p.
        let (connect, p) = read_remote p in
        need env s (read_int32 p) (\<lambda>callerUid p.
        need env s (read_int32 p) (\<lambda>callerPid p.
        need env s (read_string p) (\<lambda>source p.
        account_at env s p (\<lambda>account appId p.
        let (info, p) = read_or [] read_string p in
        do { token \<leftarrow> extra_token env info;
             r \<leftarrow> ConnectAbilityFromRemote env want connect
               (default_CallerInfo\<lparr>uid := callerUid, pid := callerPid, sourceDeviceId := source,
                 callerType := CALLER_TYPE_HARMONY, callerAppId := appId, accessToken := token\<rparr>)
               account s;
             reply_timed env (tick_count env (history s)) r [PString package, PString deviceId] })))))))"

definition DisconnectAbilityFromRemoteInner :: handler where
  "DisconnectAbilityFromRemoteInner env data s =
     (if \<not> CheckCallingUid env s then refuse DMS_PERMISSION_DENIED s
      else let (connect, p) = read_remote data in
        need env s (read_int32 p) (\<lambda>callerUid p.
        need env s (read_string p) (\<lambda>source p.
          reply_result env (DisconnectAbilityFromRemote env connect source s))))"

definition NotifyProcessDiedFromRemoteInner :: handler where
  "NotifyProcessDiedFromRemoteInner env data s =
     (if \<not> CheckCallingUid env s then refuse DMS_PERMISSION_DENIED s
      else need env s (read_int32 data) (\<lambda>callerUid p.
        need env s (read_int32 p) (\<lambda>callerPid p.
        need env s (read_string p) (\<lambda>source p.
          reply_result env (NotifyProcessDiedFromRemote env
            (default_CallerInfo\<lparr>uid := callerUid, pid := callerPid, sourceDeviceId := source,
              callerType := CALLER_TYPE_HARMONY\<rparr>) s)))))"

definition StartAbilityByCallFromRemoteInner :: handler where
  "StartAbilityByCallFromRemoteInner env data s =
     (if \<not> CheckCallingUid env s then refuse DMS_PERMISSION_DENIED s
      else let (connect, p) = read_remote data in
        need env s (read_int32 p) (\<lambda>callerUid p.
        need env s (read_int32 p) (\<lambda>callerPid p.
        need env s (read_string p) (\<lambda>source p.
        account_at env s p (\<lambda>account appId p.
        let (info, p) = read_or [] read_string p in
        if info = [] then refuse (err_null_object env) s
        else do { token \<leftarrow> extra_token env info;
          want_at env s p (\<lambda>want p.
            let r = StartAbilityByCallFromRemote env want connect
               (default_CallerInfo\<lparr>uid := callerUid, pid := callerPid, sourceDeviceId := source,
                 callerAppId := appId, accessToken := token\<rparr>) account s
            in reply_values env [PInt32 (fst r)] (snd r)) })))))"

definition ReleaseAbilityFromRemoteInner :: handler where
  "ReleaseAbilityFromRemoteInner env data s =
     (if \<not> CheckCallingUid env s then refuse DMS_PERMISSION_DENIED s
      else let (connect, p) = read_remote data in
        nonnull (err_invalid_value env) s (read_parcelable (unmarshal_element env) p) (\<lambda>element p.
        need env s (read_string p) (\<lambda>source p.
        need env s (read_string p) (\<lambda>info p.
          reply_result env (ReleaseAbilityFromRemote env connect element
            (default_CallerInfo\<lparr>sourceDeviceId := source\<rparr>) s)))))"

text \<open>The request code is a 32-bit integer; the second want is dereferenced without a test.\<close>

definition extra_request_code :: "env \<Rightarrow> string \<Rightarrow> int option" where
  "extra_request_code env info =
     (case parse_extra env info of
        ExtraDiscarded \<Rightarrow> Some DEFAULT_REQUEST_CODE
      | ExtraJson get has \<Rightarrow>
          if has EXTRO_INFO_JSON_KEY_REQUEST_CODE
          then map_option (\<lambda>i. sint (of_int i :: int32)) (get EXTRO_INFO_JSON_KEY_REQUEST_CODE)
          else Some DEFAULT_REQUEST_CODE)"

definition StartFreeInstallFromRemoteInner :: handler where
  "StartFreeInstallFromRemoteInner env data s =
     (if \<not> CheckCallingUid env s then refuse DMS_PERMISSION_DENIED s
      else want_at env s data (\<lambda>want p.
        let begin = tick_count env (history s) in
        need env s (read_int32 p) (\<lambda>callerUid p.
        need env s (read_string p) (\<lambda>source p.
        account_at env s p (\<lambda>account appId p.
        need env s (read_int64 p) (\<lambda>taskId p.
        let (cmpWant, p) = read_parcelable (unmarshal_want env) p;
            (info, p) = read_or [] read_string p in
        do { token \<leftarrow> extra_token env info;
             requestCode \<leftarrow> extra_request_code env info;
             w \<leftarrow> cmpWant;
             let (result, callback, s') = StartFreeInstallFromRemote env
                \<lparr>fi_want = SetParam FREE_INSTLL_CALLING_BUNDLENAMES
                     (WStrings (GetStringArrayParam w FREE_INSTLL_CALLING_BUNDLENAMES))
                     (SetParam FREE_INSTLL_CALLING_APP_ID (WString appId) want),
                 fi_requestCode = requestCode,
                 fi_callerInfo = default_CallerInfo\<lparr>uid := callerUid, sourceDeviceId := source,
                   callerType := CALLER_TYPE_HARMONY, callerAppId := appId, accessToken := token\<rparr>,
                 fi_accountInfo = account\<rparr> taskId s
             in reply_timed env begin (result, s') [] }))))))"

definition NotifyCompleteFreeInstallFromRemoteInner :: handler where
  "NotifyCompleteFreeInstallFromRemoteInner env data s =
     (if \<not> CheckCallingUid env s then refuse DMS_PERMISSION_DENIED s
      else need env s (read_int64 data) (\<lambda>taskId p.
        need env s (read_int32 p) (\<lambda>resultCode p.
          reply_result env (NotifyCompleteFreeInstallFromRemote env taskId resultCode s))))"

text \<open>Local applications and other devices both ask to move a mission.\<close>

definition ContinueMissionInner :: handler where
  "ContinueMissionInner env data s =
     (let isLocal = local_calling env (history s)
      in if (isLocal \<and> \<not> foundation env s) \<or> (\<not> isLocal \<and> \<not> CheckCallingUid env s)
         then refuse DMS_PERMISSION_DENIED s
         else need env s (read_string data) (\<lambda>src p.
           need env s (read_string p) (\<lambda>dst p.
           need env s (read_int32 p) (\<lambda>missionId p.
           nonnull (err_null_object env) s (read_remote p) (\<lambda>callback p.
           nonnull (err_null_object env) s (read_parcelable (unmarshal_params env) p) (\<lambda>params p.
             reply_result env (ContinueMission env src dst missionId (Some callback) params s)))))))"

end
