(* ===== verification/SchedStubMap.thy ===== *)
theory SchedStubMap
  imports SchedStub
begin

text \<open>
  The rest of the scheduler's stub, \<^verbatim>\<open>dtbschedmgr/src/distributed_sched_stub.cpp\<close>: the
  requests about missions, which work on the whole service (\<open>dms\<close>), the two function maps
  and \<^verbatim>\<open>OnRemoteRequest\<close>. The library's answer to a code without a handler is
  \<open>base_request\<close>.
\<close>

section \<open>Requests about missions\<close>

type_synonym mission_handler = "menv \<Rightarrow> parcel \<Rightarrow> dms \<Rightarrow> dms answer"

definition CallerInfoUnmarshalling :: "parcel \<Rightarrow> (CallerInfo \<times> parcel) option" where
  "CallerInfoUnmarshalling p =
     do { (u, p) \<leftarrow> read_int32 p; (i, p) \<leftarrow> read_int32 p; (typ, p) \<leftarrow> read_int32 p;
          (source, p) \<leftarrow> read_string p; (d, p) \<leftarrow> read_int32 p; (appId, p) \<leftarrow> read_string p;
          (version, p) \<leftarrow> read_int32 p;
          Some (default_CallerInfo\<lparr>uid := u, pid := i, callerType := typ, sourceDeviceId := source,
            duid := d, callerAppId := appId, dmsVersion := version\<rparr>, p) }"

definition dms_foundation :: "menv \<Rightarrow> dms \<Rightarrow> bool" where
  "dms_foundation env s = foundation (conv env) (d_sched s)"

definition dms_system :: "menv \<Rightarrow> dms \<Rightarrow> bool" where
  "dms_system env s = CheckCallingUid (conv env) (d_sched s)"

definition GetMissionInfosInner :: mission_handler where
  "GetMissionInfosInner env data s =
     (if \<not> dms_foundation env s then refuse DMS_PERMISSION_DENIED s
      else let (deviceId, p) = read_or [] read_string16 data in
        need (conv env) s (read_int32 p) (\<lambda>numMissions p.
          do { (result, ms) \<leftarrow> svc_GetMissionInfos env (str8 (conv env) deviceId) numMissions s;
               if result = ERR_NONE
               then (case WriteMissionInfosToParcel (conv env) (marshal_mission env) ms [] of
                       None \<Rightarrow> refuse (err_flatten_object (conv env)) s
                     | Some reply \<Rightarrow> Some (ERR_NONE, reply, s))
               else refuse result s }))"

definition GetRemoteMissionSnapshotInfoInner :: mission_handler where
  "GetRemoteMissionSnapshotInfoInner env data s =
     (if \<not> dms_foundation env s then refuse DMS_PERMISSION_DENIED s
      else let (networkId, p) = read_or [] read_string data in
        if networkId = [] then refuse (err_flatten_object (conv env)) s
        else need (conv env) s (read_int32 p) (\<lambda>missionId p.
          if missionId < 0 then refuse INVALID_PARAMETERS_ERR s
          else do { (errCode, shot, s1) \<leftarrow> svc_GetRemoteMissionSnapshotInfo env networkId missionId s;
            if errCode \<noteq> ERR_NONE then refuse (err_null_object (conv env)) s1
            else (case write_all (writable (conv env)) [PNested (marshal_snapshot env shot)] [] of
                    None \<Rightarrow> refuse (err_flatten_object (conv env)) s1
                  | Some reply \<Rightarrow>
                      (let uuid = m_dnet_uuid env (mhistory (d_missions s1)) networkId
                       in if uuid = [] then Some (err_null_object (conv env), reply, s1)
                          else Some (ERR_NONE, reply, s1\<lparr>d_missions :=
                            EnqueueCachedSnapshotInfo uuid missionId
                              (Some (ConvertToSnapshot shot new_Snapshot)) (d_missions s1)\<rparr>))) }))"

text \<open>Both listener requests read a device and a listener.\<close>

definition listener_request ::
  "(menv \<Rightarrow> u16string \<Rightarrow> ptr \<Rightarrow> dms \<Rightarrow> int \<times> dms) \<Rightarrow> mission_handler" where
  "listener_request f env data s =
     (if \<not> dms_foundation env s then refuse DMS_PERMISSION_DENIED s
      else let (devId, p) = read_or [] read_string16 data in
        if devId = [] then refuse (err_flatten_object (conv env)) s
        else nonnull (err_flatten_object (conv env)) s (read_remote p) (\<lambda>listener p.
          reply_result (conv env) (f env devId (Some listener) s)))"

definition RegisterMissionListenerInner :: mission_handler where
  "RegisterMissionListenerInner = listener_request svc_RegisterMissionListener"

definition UnRegisterMissionListenerInner :: mission_handler where
  "UnRegisterMissionListenerInner = listener_request svc_UnRegisterMissionListener"

definition StartSyncRemoteMissionsInner :: mission_handler where
  "StartSyncRemoteMissionsInner env data s =
     (if \<not> dms_foundation env s then refuse DMS_PERMISSION_DENIED s
      else let (devId, p) = read_or [] read_string16 data in
        if devId = [] then refuse (err_flatten_object (conv env)) s
        else let (fixConflict, p) = read_or False read_bool p;
                 (tag, p) = read_or 0 read_int64 p
             in reply_result (conv env) (svc_StartSyncRemoteMissions env (str8 (conv env) devId) s))"

definition StopSyncRemoteMissionsInner :: mission_handler where
  "StopSyncRemoteMissionsInner env data s =
     (if \<not> dms_foundation env s then refuse DMS_PERMISSION_DENIED s
      else let (devId, p) = read_or [] read_string16 data in
        if devId = [] then refuse (err_flatten_object (conv env)) s
        else reply_result (conv env) (svc_StopSyncRemoteMissions env (str8 (conv env) devId) s))"

definition StartSyncMissionsFromRemoteInner :: mission_handler where
  "StartSyncMissionsFromRemoteInner env data s =
     (if \<not> dms_system env s then refuse DMS_PERMISSION_DENIED s
      else (case CallerInfoUnmarshalling data of
              None \<Rightarrow> refuse (err_flatten_object (conv env)) s
            | Some (caller, p) \<Rightarrow>
                (let (result, infos, s1) = svc_StartSyncMissionsFromRemote env caller s
                 in if result \<noteq> ERR_NONE then refuse (err_flatten_object (conv env)) s1
                    else (case Option.bind (write_all (writable (conv env)) [PInt32 DMS_VERSION] [])
                                 (WriteDstbMissionInfosToParcel (conv env) infos) of
                            None \<Rightarrow> refuse (err_flatten_object (conv env)) s1
                          | Some reply \<Rightarrow> Some (ERR_NONE, reply, s1)))))"

definition StopSyncMissionsFromRemoteInner :: mission_handler where
  "StopSyncMissionsFromRemoteInner env data s =
     (if \<not> dms_system env s then refuse DMS_PERMISSION_DENIED s
      else (case CallerInfoUnmarshalling data of
              None \<Rightarrow> refuse (err_flatten_object (conv env)) s
            | Some (caller, p) \<Rightarrow>
                reply_result (conv env) (svc_StopSyncMissionsFromRemote env caller s)))"

definition NotifyMissionsChangedFromRemoteInner :: mission_handler where
  "NotifyMissionsChangedFromRemoteInner env data s =
     (if \<not> dms_system env s then refuse DMS_PERMISSION_DENIED s
      else let (version, p) = read_or 0 read_int32 data in
        (case ReadDstbMissionInfosFromParcel (conv env) p of
           None \<Rightarrow> refuse (err_flatten_object (conv env)) s
         | Some (infos, p) \<Rightarrow>
             (let (source, p) = read_or [] read_string p;
                  (u, p) = read_or 0 read_int32 p;
                  (i, p) = read_or 0 read_int32 p;
                  (v, p) = read_or 0 read_int32 p
              in reply_result (conv env) (svc_NotifyMissionsChangedFromRemote env infos
                   (default_CallerInfo\<lparr>sourceDeviceId := source, uid := u, pid := i, dmsVersion := v\<rparr>) s))))"

section \<open>The function maps\<close>

text \<open>A handler of the scheduler's own requests, on the whole service.\<close>

definition on_sched :: "handler \<Rightarrow> mission_handler" where
  "on_sched f env data s =
     do { (r, reply, x) \<leftarrow> f (conv env) data (d_sched s); Some (r, reply, s\<lparr>d_sched := x\<rparr>) }"

fun localFuncsMap :: "request_code \<Rightarrow> mission_handler option" where
  "localFuncsMap START_REMOTE_ABILITY = Some (on_sched StartRemoteAbilityInner)"
| "localFuncsMap CONTINUE_MISSION = Some (on_sched ContinueMissionInner)"
| "localFuncsMap START_CONTINUATION = Some (on_sched StartContinuationInner)"
| "localFuncsMap NOTIFY_COMPLETE_CONTINUATION = Some (on_sched NotifyCompleteContinuationInner)"
| "localFuncsMap CONNECT_REMOTE_ABILITY = Some (on_sched ConnectRemoteAbilityInner)"
| "localFuncsMap DISCONNECT_REMOTE_ABILITY = Some (on_sched DisconnectRemoteAbilityInner)"
| "localFuncsMap GET_REMOTE_MISSION_SNAPSHOT_INFO = Some GetRemoteMissionSnapshotInfoInner"
| "localFuncsMap REGISTER_MISSION_LISTENER = Some RegisterMissionListenerInner"
| "localFuncsMap UNREGISTER_MISSION_LISTENER = Some UnRegisterMissionListenerInner"
| "localFuncsMap GET_MISSION_INFOS = Some GetMissionInfosInner"
| "localFuncsMap START_SYNC_MISSIONS = Some StartSyncRemoteMissionsInner"
| "localFuncsMap STOP_SYNC_MISSIONS = Some StopSyncRemoteMissionsInner"
| "localFuncsMap START_REMOTE_ABILITY_BY_CALL = Some (on_sched StartRemoteAbilityByCallInner)"
| "localFuncsMap RELEASE_REMOTE_ABILITY = Some (on_sched ReleaseRemoteAbilityInner)"
| "localFuncsMap REGISTER_DISTRIBUTED_COMPONENT_LISTENER =
     Some (on_sched RegisterDistributedComponentListenerInner)"
| "localFuncsMap GET_DISTRIBUTED_COMPONENT_LIST = Some (on_sched GetDistributedComponentListInner)"
| "localFuncsMap START_REMOTE_FREE_INSTALL = Some (on_sched StartRemoteFreeInstallInner)"
| "localFuncsMap c = None"

fun remoteFuncsMap :: "request_code \<Rightarrow> mission_handler option" where
  "remoteFuncsMap START_ABILITY_FROM_REMOTE = Some (on_sched StartAbilityFromRemoteInner)"
| "remoteFuncsMap SEND_RESULT_FROM_REMOTE = Some (on_sched SendResultFromRemoteInner)"
| "remoteFuncsMap NOTIFY_CONTINUATION_RESULT_FROM_REMOTE =
     Some (on_sched NotifyContinuationResultFromRemoteInner)"
| "remoteFuncsMap CONNECT_ABILITY_FROM_REMOTE = Some (on_sched ConnectAbilityFromRemoteInner)"
| "remoteFuncsMap DISCONNECT_ABILITY_FROM_REMOTE = Some (on_sched DisconnectAbilityFromRemoteInner)"
| "remoteFuncsMap NOTIFY_PROCESS_DIED_FROM_REMOTE = Some (on_sched NotifyProcessDiedFromRemoteInner)"
| "remoteFuncsMap START_SYNC_MISSIONS_FROM_REMOTE = Some StartSyncMissionsFromRemoteInner"
| "remoteFuncsMap STOP_SYNC_MISSIONS_FROM_REMOTE = Some StopSyncMissionsFromRemoteInner"
| "remoteFuncsMap NOTIFY_MISSIONS_CHANGED_FROM_REMOTE = Some NotifyMissionsChangedFromRemoteInner"
| "remoteFuncsMap CONTINUE_MISSION = Some (on_sched ContinueMissionInner)"
| "remoteFuncsMap START_ABILITY_BY_CALL_FROM_REMOTE = Some (on_sched StartAbilityByCallFromRemoteInner)"
| "remoteFuncsMap RELEASE_ABILITY_FROM_REMOTE = Some (on_sched ReleaseAbilityFromRemoteInner)"
| "remoteFuncsMap START_FREE_INSTALL_FROM_REMOTE = Some (on_sched StartFreeInstallFromRemoteInner)"
| "remoteFuncsMap NOTIFY_COMPLETE_FREE_INSTALL_FROM_REMOTE =
     Some (on_sched NotifyCompleteFreeInstallFromRemoteInner)"
| "remoteFuncsMap c = None"

definition all_codes :: "request_code list" where
  "all_codes = [START_REMOTE_ABILITY, START_ABILITY_FROM_REMOTE, CONNECT_REMOTE_ABILITY,
     DISCONNECT_REMOTE_ABILITY, CONNECT_ABILITY_FROM_REMOTE, DISCONNECT_ABILITY_FROM_REMOTE,
     START_CONTINUATION, NOTIFY_COMPLETE_CONTINUATION, NOTIFY_CONTINUATION_RESULT_FROM_REMOTE,
     NOTIFY_PROCESS_DIED_FROM_REMOTE, SEND_RESULT_FROM_REMOTE, CONTINUE_MISSION,
     START_FREE_INSTALL_FROM_REMOTE, NOTIFY_COMPLETE_FREE_INSTALL_FROM_REMOTE, GET_MISSION_INFOS,
     REGISTER_MISSION_LISTENER, UNREGISTER_MISSION_LISTENER, START_SYNC_MISSIONS_FROM_REMOTE,
     STOP_SYNC_MISSIONS_FROM_REMOTE, NOTIFY_MISSIONS_CHANGED_FROM_REMOTE, START_SYNC_MISSIONS,
     STOP_SYNC_MISSIONS, GET_REMOTE_MISSION_SNAPSHOT_INFO, START_REMOTE_ABILITY_BY_CALL,
     RELEASE_REMOTE_ABILITY, START_ABILITY_BY_CALL_FROM_REMOTE, RELEASE_ABILITY_FROM_REMOTE,
     START_REMOTE_FREE_INSTALL, REGISTER_DISTRIBUTED_COMPONENT_LISTENER,
     GET_DISTRIBUTED_COMPONENT_LIST]"

text \<open>The handler a code has in the map of the caller's kind.\<close>

definition handler_of :: "menv \<Rightarrow> nat \<Rightarrow> dms \<Rightarrow> mission_handler option" where
  "handler_of env code s =
     Option.bind (find (\<lambda>c. code_of c = code) all_codes)
       (if local_calling (conv env) (history (d_sched s)) then localFuncsMap else remoteFuncsMap)"

definition OnRemoteRequest :: "menv \<Rightarrow> nat \<Rightarrow> parcel \<Rightarrow> dms \<Rightarrow> dms answer" where
  "OnRemoteRequest env code data s =
     (case handler_of env code s of
        Some f \<Rightarrow>
          (let (ok, p) = EnforceInterfaceToken data
           in if \<not> ok then refuse DMS_PERMISSION_DENIED s else f env p s)
      | None \<Rightarrow> (let (r, reply) = base_request (conv env) code data in Some (r, reply, s)))"

lemma find_code [simp]: "find (\<lambda>d. code_of d = code_of c) all_codes = Some c"
  by (cases c) (simp_all add: all_codes_def code_of.simps)

lemma request_codes_distinct: "code_of c = code_of d \<Longrightarrow> c = d"
  by (metis find_code option.inject)

lemma handler_of_code [simp]:
  "handler_of env (code_of c) s =
     (if local_calling (conv env) (history (d_sched s)) then localFuncsMap c else remoteFuncsMap c)"
  by (simp add: handler_of_def)

lemma enforce_token [simp]: "EnforceInterfaceToken (PToken SCHED_STUB_INTERFACE_TOKEN # p) = (True, p)"
  by (simp add: EnforceInterfaceToken_def read_or_def)

lemma OnRemoteRequest_code:
  "OnRemoteRequest env (code_of c) (PToken SCHED_STUB_INTERFACE_TOKEN # p) s =
     (case (if local_calling (conv env) (history (d_sched s)) then localFuncsMap c else remoteFuncsMap c) of
        Some f \<Rightarrow> f env p s
      | None \<Rightarrow> (let (r, reply) = base_request (conv env) (code_of c)
                         (PToken SCHED_STUB_INTERFACE_TOKEN # p)
                  in Some (r, reply, s)))"
  by (simp add: OnRemoteRequest_def split: option.split)

section \<open>Callers that are refused\<close>

text \<open>
  A caller without the right to a request: on this device one that is not the foundation
  process, for the component reports an application; from another device an application.
\<close>

definition stranger :: "menv \<Rightarrow> request_code \<Rightarrow> dms \<Rightarrow> bool" where
  "stranger env c s =
     (if \<not> local_calling (conv env) (history (d_sched s)) then \<not> dms_system env s
      else if c = REGISTER_DISTRIBUTED_COMPONENT_LISTENER \<or> c = GET_DISTRIBUTED_COMPONENT_LIST
           then \<not> dms_system env s
           else \<not> dms_foundation env s)"

lemmas sched_handlers = StartRemoteAbilityInner_def ContinueMissionInner_def StartContinuationInner_def
  NotifyCompleteContinuationInner_def ConnectRemoteAbilityInner_def DisconnectRemoteAbilityInner_def
  StartRemoteAbilityByCallInner_def ReleaseRemoteAbilityInner_def
  RegisterDistributedComponentListenerInner_def GetDistributedComponentListInner_def
  StartRemoteFreeInstallInner_def StartAbilityFromRemoteInner_def SendResultFromRemoteInner_def
  NotifyContinuationResultFromRemoteInner_def ConnectAbilityFromRemoteInner_def
  DisconnectAbilityFromRemoteInner_def NotifyProcessDiedFromRemoteInner_def
  StartAbilityByCallFromRemoteInner_def ReleaseAbilityFromRemoteInner_def
  StartFreeInstallFromRemoteInner_def NotifyCompleteFreeInstallFromRemoteInner_def

lemmas mission_handlers = GetRemoteMissionSnapshotInfoInner_def RegisterMissionListenerInner_def
  UnRegisterMissionListenerInner_def listener_request_def GetMissionInfosInner_def
  StartSyncRemoteMissionsInner_def StopSyncRemoteMissionsInner_def
  StartSyncMissionsFromRemoteInner_def StopSyncMissionsFromRemoteInner_def
  NotifyMissionsChangedFromRemoteInner_def

lemma local_guard:
  assumes "localFuncsMap c = Some f" and "stranger env c s"
    and "local_calling (conv env) (history (d_sched s))"
  shows "f env p s = Some (DMS_PERMISSION_DENIED, [], s)"
  using assms by (cases c)
    (auto simp: stranger_def on_sched_def dms_foundation_def dms_system_def refuse_def
      sched_handlers mission_handlers)

lemma remote_guard:
  assumes "remoteFuncsMap c = Some f" and "stranger env c s"
    and "\<not> local_calling (conv env) (history (d_sched s))"
  shows "f env p s = Some (DMS_PERMISSION_DENIED, [], s)"
  using assms by (cases c)
    (auto simp: stranger_def on_sched_def dms_foundation_def dms_system_def refuse_def
      sched_handlers mission_handlers)

text \<open>
  C13: no request of a caller without the right to it does anything: whatever the message holds,
  a code that the caller's map has is answered with the permission error, and the scheduler, the
  missions and the tasks of the service are as before. An application of this device may not
  call as the foundation process does, and an application of another device may not call at all.
\<close>

theorem strangers_refused:
  assumes "handler_of env (code_of c) s \<noteq> None" and "stranger env c s"
  shows "OnRemoteRequest env (code_of c) data s = Some (DMS_PERMISSION_DENIED, [], s)"
  using assms local_guard [of c _ env s] remote_guard [of c _ env s]
  by (auto simp: OnRemoteRequest_def refuse_def split: prod.split)

definition app_menv :: menv where
  "app_menv = sample_menv\<lparr>conv := sample_env\<lparr>calling_uid := \<lambda>h. 20010041\<rparr>\<rparr>"

theorem strangers_refused_witness:
  "OnRemoteRequest app_menv (code_of CONNECT_ABILITY_FROM_REMOTE) [PInt32 1] new_dms =
     Some (DMS_PERMISSION_DENIED, [], new_dms)"
proof -
  have "\<not> local_calling (conv app_menv) h" and "calling_uid (conv app_menv) h = 20010041" for h
    by (simp_all add: app_menv_def sample_menv_def sample_env_def)
  then show ?thesis
    by (intro strangers_refused)
      (simp_all add: stranger_def dms_system_def CheckCallingUid_def HID_HAP_def)
qed

end
