(* ===== verification/SchedProxy.thy ===== *)
theory SchedProxy
  imports SchedStubMap IpcSample
begin

text \<open>
  The scheduler's proxy, \<^verbatim>\<open>dtbschedmgr/src/distributed_sched_proxy.cpp\<close>: the client side of a
  request, in an application's ability manager or in the scheduler of another device. A
  \<open>transport\<close> carries the request to a stub; it gives the error of the transport or of the
  handler, the reply and the state of the service behind it. \<open>live\<close> is whether there is a
  remote object. With the stub as the transport a request is the operation of the service.
  What the bundle framework makes of an ability info is the message \<open>ability\<close>.
\<close>

section \<open>Requests\<close>

type_synonym 's transport = "nat \<Rightarrow> parcel \<Rightarrow> 's \<Rightarrow> 's answer"

text \<open>Groups of writes, each with the error it fails with.\<close>

fun written :: "env \<Rightarrow> (pval list \<times> int) list \<Rightarrow> parcel \<Rightarrow> int + parcel" where
  "written env [] p = Inr p"
| "written env ((vs, e) # gs) p =
     (case write_all (writable env) vs p of None \<Rightarrow> Inl e | Some q \<Rightarrow> written env gs q)"

definition exchange ::
  "env \<Rightarrow> 's transport \<Rightarrow> bool \<Rightarrow> request_code \<Rightarrow> (pval list \<times> int) list \<Rightarrow> 's \<Rightarrow> ((int + parcel) \<times> 's) option" where
  "exchange env tr live code gs s =
     (if \<not> live then Some (Inl (err_null_object env), s)
      else (case written env (([PToken SCHED_STUB_INTERFACE_TOKEN], err_flatten_object env) # gs) [] of
              Inl e \<Rightarrow> Some (Inl e, s)
            | Inr data \<Rightarrow>
                do { (error, reply, s') \<leftarrow> tr (code_of code) data s;
                     Some (if error = ERR_NONE then Inr reply else Inl error, s') }))"

text \<open>\<^verbatim>\<open>PARCEL_TRANSACT_SYNC_RET_INT\<close>.\<close>

definition result_of :: "int + parcel \<Rightarrow> int" where
  "result_of x = (case x of Inl e \<Rightarrow> e | Inr reply \<Rightarrow> fst (read_or 0 read_int32 reply))"

definition transact ::
  "env \<Rightarrow> 's transport \<Rightarrow> bool \<Rightarrow> request_code \<Rightarrow> pval list \<Rightarrow> 's \<Rightarrow> (int \<times> 's) option" where
  "transact env tr live code vs s =
     map_option (\<lambda>(x, s'). (result_of x, s')) (exchange env tr live code [(vs, err_flatten_object env)] s)"

text \<open>A request about an object that must not be null.\<close>

definition with_object :: "env \<Rightarrow> ptr \<Rightarrow> 's \<Rightarrow> (robj \<Rightarrow> (int \<times> 's) option) \<Rightarrow> (int \<times> 's) option" where
  "with_object env x s f = (case x of None \<Rightarrow> Some (err_null_object env, s) | Some y \<Rightarrow> f y)"

definition want_value :: "env \<Rightarrow> Want \<Rightarrow> pval" where
  "want_value env w = PNested (marshal_want env w)"

definition account_values :: "AccountInfo \<Rightarrow> string \<Rightarrow> pval list" where
  "account_values account appId =
     [PInt32 (accountType account), PStrings (groupIdList account), PString appId]"

definition token_info :: "env \<Rightarrow> nat \<Rightarrow> pval" where
  "token_info env token = PString (dump_extra env [(EXTRO_INFO_JSON_KEY_ACCESS_TOKEN, int token)])"

section \<open>Requests of local applications\<close>

definition proxy_StartRemoteAbility ::
  "env \<Rightarrow> 's transport \<Rightarrow> bool \<Rightarrow> Want \<Rightarrow> int \<Rightarrow> int \<Rightarrow> nat \<Rightarrow> 's \<Rightarrow> (int \<times> 's) option" where
  "proxy_StartRemoteAbility env tr live want callerUid requestCode token =
     transact env tr live START_REMOTE_ABILITY
       [want_value env want, PInt32 callerUid, PInt32 requestCode, PUint32 token]"

definition proxy_StartContinuation ::
  "env \<Rightarrow> 's transport \<Rightarrow> bool \<Rightarrow> Want \<Rightarrow> int \<Rightarrow> int \<Rightarrow> int \<Rightarrow> nat \<Rightarrow> 's \<Rightarrow> (int \<times> 's) option" where
  "proxy_StartContinuation env tr live want missionId callerUid status token =
     transact env tr live START_CONTINUATION
       [want_value env want, PInt32 missionId, PInt32 callerUid, PInt32 status, PUint32 token]"

definition proxy_NotifyCompleteContinuation ::
  "env \<Rightarrow> 's transport \<Rightarrow> bool \<Rightarrow> u16string \<Rightarrow> int \<Rightarrow> bool \<Rightarrow> 's \<Rightarrow> 's option" where
  "proxy_NotifyCompleteContinuation env tr live devId sessionId ok s =
     map_option snd (exchange env tr live NOTIFY_COMPLETE_CONTINUATION
       [([PString16 devId, PInt32 sessionId, PBool ok], err_flatten_object env)] s)"

definition proxy_ConnectRemoteAbility ::
  "env \<Rightarrow> 's transport \<Rightarrow> bool \<Rightarrow> Want \<Rightarrow> ptr \<Rightarrow> int \<Rightarrow> int \<Rightarrow> nat \<Rightarrow> 's \<Rightarrow> (int \<times> 's) option" where
  "proxy_ConnectRemoteAbility env tr live want connect callerUid callerPid token s =
     with_object env connect s (\<lambda>c. transact env tr live CONNECT_REMOTE_ABILITY
       [want_value env want, PObject c, PInt32 callerUid, PInt32 callerPid, PUint32 token] s)"

definition proxy_DisconnectRemoteAbility ::
  "env \<Rightarrow> 's transport \<Rightarrow> bool \<Rightarrow> ptr \<Rightarrow> int \<Rightarrow> nat \<Rightarrow> 's \<Rightarrow> (int \<times> 's) option" where
  "proxy_DisconnectRemoteAbility env tr live connect callerUid token s =
     with_object env connect s (\<lambda>c. transact env tr live DISCONNECT_REMOTE_ABILITY
       [PObject c, PInt32 callerUid, PUint32 token] s)"

definition proxy_StartRemoteAbilityByCall ::
  "env \<Rightarrow> 's transport \<Rightarrow> bool \<Rightarrow> Want \<Rightarrow> ptr \<Rightarrow> int \<Rightarrow> int \<Rightarrow> nat \<Rightarrow> 's \<Rightarrow> (int \<times> 's) option" where
  "proxy_StartRemoteAbilityByCall env tr live want connect callerUid callerPid token s =
     with_object env connect s (\<lambda>c. transact env tr live START_REMOTE_ABILITY_BY_CALL
       [want_value env want, PObject c, PInt32 callerUid, PInt32 callerPid, PUint32 token] s)"

definition proxy_ReleaseRemoteAbility ::
  "env \<Rightarrow> 's transport \<Rightarrow> bool \<Rightarrow> ptr \<Rightarrow> ElementName \<Rightarrow> 's \<Rightarrow> (int \<times> 's) option" where
  "proxy_ReleaseRemoteAbility env tr live connect element s =
     with_object env connect s (\<lambda>c. map_option (\<lambda>(x, s'). (result_of x, s'))
       (exchange env tr live RELEASE_REMOTE_ABILITY
          [([PObject c], err_flatten_object env),
           ([PNested (marshal_element env element)], err_invalid_value env)] s))"

definition proxy_StartRemoteFreeInstall ::
  "env \<Rightarrow> 's transport \<Rightarrow> bool \<Rightarrow> Want \<Rightarrow> int \<Rightarrow> int \<Rightarrow> nat \<Rightarrow> ptr \<Rightarrow> 's \<Rightarrow> (int \<times> 's) option" where
  "proxy_StartRemoteFreeInstall env tr live want callerUid requestCode token callback s =
     with_object env callback s (\<lambda>c. transact env tr live START_REMOTE_FREE_INSTALL
       [want_value env want, PInt32 callerUid, PInt32 requestCode, PUint32 token, PObject c] s)"

definition proxy_RegisterDistributedComponentListener ::
  "env \<Rightarrow> 's transport \<Rightarrow> bool \<Rightarrow> ptr \<Rightarrow> 's \<Rightarrow> (int \<times> 's) option" where
  "proxy_RegisterDistributedComponentListener env tr live callback s =
     with_object env callback s (\<lambda>c. transact env tr live REGISTER_DISTRIBUTED_COMPONENT_LISTENER
       [PObject c] s)"

text \<open>The list is read only when the result is good.\<close>

definition proxy_GetDistributedComponentList ::
  "env \<Rightarrow> 's transport \<Rightarrow> bool \<Rightarrow> 's \<Rightarrow> (int \<times> string list \<times> 's) option" where
  "proxy_GetDistributedComponentList env tr live s =
     map_option (\<lambda>(x, s').
         (case x of
            Inl e \<Rightarrow> (e, [], s')
          | Inr reply \<Rightarrow>
              (let (result, p) = read_or 0 read_int32 reply
               in if result \<noteq> ERR_NONE then (result, [], s')
                  else (case read_strings p of
                          None \<Rightarrow> (err_flatten_object env, [], s')
                        | Some (cs, p') \<Rightarrow> (ERR_NONE, cs, s')))))
       (exchange env tr live GET_DISTRIBUTED_COMPONENT_LIST [] s)"

section \<open>Requests of other devices\<close>

definition proxy_StartAbilityFromRemote ::
  "env \<Rightarrow> 's transport \<Rightarrow> bool \<Rightarrow> Want \<Rightarrow> parcel \<Rightarrow> int \<Rightarrow> CallerInfo \<Rightarrow> AccountInfo \<Rightarrow> 's \<Rightarrow> (int \<times> 's) option" where
  "proxy_StartAbilityFromRemote env tr live want ability requestCode caller account =
     transact env tr live START_ABILITY_FROM_REMOTE
       ([want_value env want, PNested ability, PInt32 requestCode, PInt32 (uid caller),
         PString (sourceDeviceId caller)] @ account_values account (callerAppId caller)
        @ [token_info env (accessToken caller)])"

text \<open>The JSON object of the caller info is the null value: no caller of the proxy sets it.\<close>

definition proxy_SendResultFromRemote ::
  "env \<Rightarrow> 's transport \<Rightarrow> bool \<Rightarrow> Want \<Rightarrow> int \<Rightarrow> CallerInfo \<Rightarrow> AccountInfo \<Rightarrow> int \<Rightarrow> 's \<Rightarrow> (int \<times> 's) option" where
  "proxy_SendResultFromRemote env tr live want requestCode caller account resultCode =
     transact env tr live SEND_RESULT_FROM_REMOTE
       ([want_value env want, PInt32 requestCode, PInt32 (uid caller), PString (sourceDeviceId caller)]
        @ account_values account (callerAppId caller) @ [PInt32 resultCode, PString (dump_null env)])"

definition proxy_ContinueMission ::
  "env \<Rightarrow> 's transport \<Rightarrow> bool \<Rightarrow> string \<Rightarrow> string \<Rightarrow> int \<Rightarrow> ptr \<Rightarrow> (string, want_param) stdmap \<Rightarrow> 's \<Rightarrow> (int \<times> 's) option" where
  "proxy_ContinueMission env tr live src dst missionId callback params s =
     with_object env callback s (\<lambda>c. transact env tr live CONTINUE_MISSION
       [PString src, PString dst, PInt32 missionId, PObject c, PNested (marshal_params env params)] s)"

definition proxy_NotifyContinuationResultFromRemote ::
  "env \<Rightarrow> 's transport \<Rightarrow> bool \<Rightarrow> int \<Rightarrow> bool \<Rightarrow> 's \<Rightarrow> (int \<times> 's) option" where
  "proxy_NotifyContinuationResultFromRemote env tr live sessionId ok =
     transact env tr live NOTIFY_CONTINUATION_RESULT_FROM_REMOTE [PInt32 sessionId, PBool ok]"

definition proxy_ConnectAbilityFromRemote ::
  "env \<Rightarrow> 's transport \<Rightarrow> bool \<Rightarrow> Want \<Rightarrow> parcel \<Rightarrow> ptr \<Rightarrow> CallerInfo \<Rightarrow> AccountInfo \<Rightarrow> 's \<Rightarrow> (int \<times> 's) option" where
  "proxy_ConnectAbilityFromRemote env tr live want ability connect caller account s =
     with_object env connect s (\<lambda>c. transact env tr live CONNECT_ABILITY_FROM_REMOTE
       ([want_value env want, PNested ability, PObject c, PInt32 (uid caller), PInt32 (pid caller),
         PString (sourceDeviceId caller)] @ account_values account (callerAppId caller)
        @ [token_info env (accessToken caller)]) s)"

definition proxy_DisconnectAbilityFromRemote ::
  "env \<Rightarrow> 's transport \<Rightarrow> bool \<Rightarrow> ptr \<Rightarrow> int \<Rightarrow> string \<Rightarrow> 's \<Rightarrow> (int \<times> 's) option" where
  "proxy_DisconnectAbilityFromRemote env tr live connect callerUid source s =
     with_object env connect s (\<lambda>c. transact env tr live DISCONNECT_ABILITY_FROM_REMOTE
       [PObject c, PInt32 callerUid, PString source] s)"

definition proxy_NotifyProcessDiedFromRemote ::
  "env \<Rightarrow> 's transport \<Rightarrow> bool \<Rightarrow> CallerInfo \<Rightarrow> 's \<Rightarrow> (int \<times> 's) option" where
  "proxy_NotifyProcessDiedFromRemote env tr live caller =
     transact env tr live NOTIFY_PROCESS_DIED_FROM_REMOTE
       [PInt32 (uid caller), PInt32 (pid caller), PString (sourceDeviceId caller)]"

definition proxy_StartAbilityByCallFromRemote ::
  "env \<Rightarrow> 's transport \<Rightarrow> bool \<Rightarrow> Want \<Rightarrow> ptr \<Rightarrow> CallerInfo \<Rightarrow> AccountInfo \<Rightarrow> 's \<Rightarrow> (int \<times> 's) option" where
  "proxy_StartAbilityByCallFromRemote env tr live want connect caller account s =
     with_object env connect s (\<lambda>c. transact env tr live START_ABILITY_BY_CALL_FROM_REMOTE
       ([PObject c, PInt32 (uid caller), PInt32 (pid caller), PString (sourceDeviceId caller)]
        @ account_values account (callerAppId caller)
        @ [token_info env (accessToken caller), want_value env want]) s)"

definition proxy_ReleaseAbilityFromRemote ::
  "env \<Rightarrow> 's transport \<Rightarrow> bool \<Rightarrow> ptr \<Rightarrow> ElementName \<Rightarrow> CallerInfo \<Rightarrow> 's \<Rightarrow> (int \<times> 's) option" where
  "proxy_ReleaseAbilityFromRemote env tr live connect element caller s =
     with_object env connect s (\<lambda>c. map_option (\<lambda>(x, s'). (result_of x, s'))
       (exchange env tr live RELEASE_ABILITY_FROM_REMOTE
          [([PObject c], err_flatten_object env),
           ([PNested (marshal_element env element)], err_invalid_value env),
           ([PString (sourceDeviceId caller), PString []], err_flatten_object env)] s))"

definition proxy_StartFreeInstallFromRemote ::
  "env \<Rightarrow> 's transport \<Rightarrow> bool \<Rightarrow> FreeInstallInfo \<Rightarrow> int \<Rightarrow> 's \<Rightarrow> (int \<times> 's) option" where
  "proxy_StartFreeInstallFromRemote env tr live info taskId =
     (let caller = fi_callerInfo info;
          cmpWant = SetParam FREE_INSTLL_CALLING_BUNDLENAMES (WStrings (bundleNames caller)) default_Want
      in transact env tr live START_FREE_INSTALL_FROM_REMOTE
           ([want_value env (fi_want info), PInt32 (uid caller), PString (sourceDeviceId caller)]
            @ account_values (fi_accountInfo info) (callerAppId caller)
            @ [PInt64 taskId, want_value env cmpWant,
               PString (dump_extra env [(EXTRO_INFO_JSON_KEY_ACCESS_TOKEN, int (accessToken caller)),
                 (EXTRO_INFO_JSON_KEY_REQUEST_CODE, fi_requestCode info)])]))"

definition proxy_NotifyCompleteFreeInstallFromRemote ::
  "env \<Rightarrow> 's transport \<Rightarrow> bool \<Rightarrow> int \<Rightarrow> int \<Rightarrow> 's \<Rightarrow> (int \<times> 's) option" where
  "proxy_NotifyCompleteFreeInstallFromRemote env tr live taskId resultCode =
     transact env tr live NOTIFY_COMPLETE_FREE_INSTALL_FROM_REMOTE [PInt64 taskId, PInt32 resultCode]"

section \<open>Requests about missions\<close>

definition proxy_StartSyncRemoteMissions ::
  "env \<Rightarrow> 's transport \<Rightarrow> bool \<Rightarrow> string \<Rightarrow> bool \<Rightarrow> int \<Rightarrow> 's \<Rightarrow> (int \<times> 's) option" where
  "proxy_StartSyncRemoteMissions env tr live devId fixConflict tag =
     transact env tr live START_SYNC_MISSIONS [PString16 (str16 env devId), PBool fixConflict, PInt64 tag]"

definition proxy_StopSyncRemoteMissions ::
  "env \<Rightarrow> 's transport \<Rightarrow> bool \<Rightarrow> string \<Rightarrow> 's \<Rightarrow> (int \<times> 's) option" where
  "proxy_StopSyncRemoteMissions env tr live devId =
     transact env tr live STOP_SYNC_MISSIONS [PString16 (str16 env devId)]"

definition CallerInfoMarshalling :: "CallerInfo \<Rightarrow> pval list" where
  "CallerInfoMarshalling caller =
     [PInt32 (uid caller), PInt32 (pid caller), PInt32 (callerType caller),
      PString (sourceDeviceId caller), PInt32 (duid caller), PString (callerAppId caller),
      PInt32 (dmsVersion caller)]"

definition proxy_StartSyncMissionsFromRemote ::
  "env \<Rightarrow> 's transport \<Rightarrow> bool \<Rightarrow> CallerInfo \<Rightarrow> 's \<Rightarrow> (int \<times> DstbMissionInfo list \<times> 's) option" where
  "proxy_StartSyncMissionsFromRemote env tr live caller s =
     map_option (\<lambda>(x, s').
         (case x of
            Inl e \<Rightarrow> (e, [], s')
          | Inr reply \<Rightarrow>
              (let (version, p) = read_or 0 read_int32 reply
               in (case ReadDstbMissionInfosFromParcel env p of
                     None \<Rightarrow> (err_flatten_object env, [], s')
                   | Some (infos, p') \<Rightarrow> (ERR_NONE, infos, s')))))
       (exchange env tr live START_SYNC_MISSIONS_FROM_REMOTE
          [(CallerInfoMarshalling caller, err_flatten_object env)] s)"

definition proxy_StopSyncMissionsFromRemote ::
  "env \<Rightarrow> 's transport \<Rightarrow> bool \<Rightarrow> CallerInfo \<Rightarrow> 's \<Rightarrow> (int \<times> 's) option" where
  "proxy_StopSyncMissionsFromRemote env tr live caller =
     transact env tr live STOP_SYNC_MISSIONS_FROM_REMOTE (CallerInfoMarshalling caller)"

definition proxy_RegisterMissionListener ::
  "env \<Rightarrow> 's transport \<Rightarrow> bool \<Rightarrow> u16string \<Rightarrow> ptr \<Rightarrow> 's \<Rightarrow> (int \<times> 's) option" where
  "proxy_RegisterMissionListener env tr live devId obj =
     transact env tr live REGISTER_MISSION_LISTENER [PString16 devId, write_remote obj]"

definition proxy_UnRegisterMissionListener ::
  "env \<Rightarrow> 's transport \<Rightarrow> bool \<Rightarrow> u16string \<Rightarrow> ptr \<Rightarrow> 's \<Rightarrow> (int \<times> 's) option" where
  "proxy_UnRegisterMissionListener env tr live devId obj =
     transact env tr live UNREGISTER_MISSION_LISTENER [PString16 devId, write_remote obj]"

definition proxy_GetMissionInfos ::
  "menv \<Rightarrow> 's transport \<Rightarrow> bool \<Rightarrow> string \<Rightarrow> int \<Rightarrow> 's \<Rightarrow> (int \<times> MissionInfo list \<times> 's) option" where
  "proxy_GetMissionInfos menv tr live deviceId numMissions s =
     (let env = conv menv in
      map_option (\<lambda>(x, s').
         (case x of
            Inl e \<Rightarrow> (e, [], s')
          | Inr reply \<Rightarrow>
              (case ReadMissionInfosFromParcel env (unmarshal_mission menv) reply of
                 None \<Rightarrow> (err_flatten_object env, [], s')
               | Some (ms, p') \<Rightarrow> (ERR_NONE, ms, s'))))
       (exchange env tr live GET_MISSION_INFOS
          [([PString16 (str16 env deviceId), PInt32 numMissions], err_flatten_object env)] s))"

text \<open>The missions are written between two copies of the version.\<close>

definition proxy_NotifyMissionsChangedFromRemote ::
  "env \<Rightarrow> 's transport \<Rightarrow> bool \<Rightarrow> DstbMissionInfo list \<Rightarrow> CallerInfo \<Rightarrow> 's \<Rightarrow> (int \<times> 's) option" where
  "proxy_NotifyMissionsChangedFromRemote env tr live infos caller s =
     (if \<not> live then Some (err_null_object env, s)
      else (case do { p1 \<leftarrow> write_all (writable env)
                          [PToken SCHED_STUB_INTERFACE_TOKEN, PInt32 (dmsVersion caller)] [];
                      p2 \<leftarrow> WriteDstbMissionInfosToParcel env infos p1;
                      write_all (writable env) [PString (sourceDeviceId caller), PInt32 (uid caller),
                        PInt32 (pid caller), PInt32 (dmsVersion caller)] p2 } of
              None \<Rightarrow> Some (err_flatten_object env, s)
            | Some data \<Rightarrow>
                do { (error, reply, s') \<leftarrow> tr (code_of NOTIFY_MISSIONS_CHANGED_FROM_REMOTE) data s;
                     Some (if error \<noteq> ERR_NONE then error else fst (read_or 0 read_int32 reply), s') }))"

definition proxy_GetRemoteMissionSnapshotInfo ::
  "menv \<Rightarrow> 's transport \<Rightarrow> bool \<Rightarrow> string \<Rightarrow> int \<Rightarrow> 's \<Rightarrow> (int \<times> pixel_map option option \<times> 's) option" where
  "proxy_GetRemoteMissionSnapshotInfo menv tr live networkId missionId s =
     (let env = conv menv in
      if networkId = [] then Some (err_null_object env, None, s)
      else if missionId < 0 then Some (INVALID_PARAMETERS_ERR, None, s)
      else map_option (\<lambda>(x, s').
             (case x of
                Inl e \<Rightarrow> (e, None, s')
              | Inr reply \<Rightarrow> (ERR_NONE, fst (read_parcelable (unmarshal_snapshot menv) reply), s')))
           (exchange env tr live GET_REMOTE_MISSION_SNAPSHOT_INFO
              [([PString networkId, PInt32 missionId], err_flatten_object env)] s))"

end
