(* ===== verification/SchedMessages.thy ===== *)
theory SchedMessages
  imports SchedProxy
begin

text \<open>
  The two sides of a request together: a request the scheduler sends to another device
  (\<open>rpc\<close>), taken through the proxy, a message and the stub there, is the operation of the
  scheduler it asks for.
\<close>

section \<open>Requests between devices arrive\<close>

text \<open>
  The scheduler's model logs a request to another device as an \<open>rpc\<close>; \<open>deliver\<close> is the proxy's
  call for it, and \<open>serve\<close> the operation of the service it asks for. The caller of a request
  is what the message says of it: the parts that are not sent have their defaults.
\<close>

fun deliver :: "env \<Rightarrow> 's transport \<Rightarrow> rpc \<Rightarrow> 's \<Rightarrow> (int \<times> 's) option" where
  "deliver env tr (RpcStartAbility want code caller account) =
     proxy_StartAbilityFromRemote env tr True want (marshal_ability env) code caller account"
| "deliver env tr (RpcContinueMission src dst missionId callback params) =
     proxy_ContinueMission env tr True src dst missionId callback params"
| "deliver env tr (RpcContinuationResult sessionId ok) =
     proxy_NotifyContinuationResultFromRemote env tr True sessionId ok"
| "deliver env tr (RpcConnectAbility want connect caller account) =
     proxy_ConnectAbilityFromRemote env tr True want (marshal_ability env) (Some connect) caller account"
| "deliver env tr (RpcDisconnectAbility connect callerUid source) =
     proxy_DisconnectAbilityFromRemote env tr True (Some connect) callerUid source"
| "deliver env tr (RpcProcessDied caller) = proxy_NotifyProcessDiedFromRemote env tr True caller"
| "deliver env tr (RpcStartByCall want connect caller account) =
     proxy_StartAbilityByCallFromRemote env tr True want (Some connect) caller account"
| "deliver env tr (RpcRelease connect element caller) =
     proxy_ReleaseAbilityFromRemote env tr True (Some connect) element caller"
| "deliver env tr (RpcStartFreeInstall info taskId) =
     proxy_StartFreeInstallFromRemote env tr True info taskId"
| "deliver env tr (RpcCompleteFreeInstall taskId code) =
     proxy_NotifyCompleteFreeInstallFromRemote env tr True taskId code"
| "deliver env tr (RpcSendResult want code caller account result) =
     proxy_SendResultFromRemote env tr True want code caller account result"

definition sender :: "CallerInfo \<Rightarrow> CallerInfo" where
  "sender c = default_CallerInfo\<lparr>uid := uid c, sourceDeviceId := sourceDeviceId c,
     callerType := CALLER_TYPE_HARMONY, callerAppId := callerAppId c\<rparr>"

definition received_install :: "FreeInstallInfo \<Rightarrow> FreeInstallInfo" where
  "received_install info =
     (let c = fi_callerInfo info
      in info\<lparr>fi_want := SetParam FREE_INSTLL_CALLING_BUNDLENAMES (WStrings (bundleNames c))
                 (SetParam FREE_INSTLL_CALLING_APP_ID (WString (callerAppId c)) (fi_want info)),
              fi_callerInfo := (sender c)\<lparr>accessToken := accessToken c\<rparr>\<rparr>)"

fun serve :: "env \<Rightarrow> rpc \<Rightarrow> sched \<Rightarrow> (int \<times> sched) option" where
  "serve env (RpcStartAbility want code c account) s =
     Some (StartAbilityFromRemote env want code ((sender c)\<lparr>accessToken := accessToken c\<rparr>) account s)"
| "serve env (RpcContinueMission src dst missionId callback params) s =
     Some (case callback of
             None \<Rightarrow> (err_null_object env, s)
           | Some x \<Rightarrow> ContinueMission env src dst missionId (Some x) params s)"
| "serve env (RpcContinuationResult sessionId ok) s =
     Some (NotifyContinuationResultFromRemote env sessionId ok s)"
| "serve env (RpcConnectAbility want connect c account) s =
     ConnectAbilityFromRemote env want (Some connect)
       ((sender c)\<lparr>pid := pid c, accessToken := accessToken c\<rparr>) account s"
| "serve env (RpcDisconnectAbility connect callerUid source) s =
     Some (DisconnectAbilityFromRemote env (Some connect) source s)"
| "serve env (RpcProcessDied c) s =
     Some (NotifyProcessDiedFromRemote env ((sender c)\<lparr>pid := pid c, callerAppId := []\<rparr>) s)"
| "serve env (RpcStartByCall want connect c account) s =
     Some (StartAbilityByCallFromRemote env want (Some connect)
       ((sender c)\<lparr>pid := pid c, accessToken := accessToken c, callerType := CALLER_TYPE_NONE\<rparr>) account s)"
| "serve env (RpcRelease connect element c) s =
     Some (ReleaseAbilityFromRemote env (Some connect) element
       (default_CallerInfo\<lparr>sourceDeviceId := sourceDeviceId c\<rparr>) s)"
| "serve env (RpcStartFreeInstall info taskId) s =
     Some (case StartFreeInstallFromRemote env (received_install info) taskId s of (r, cb, s') \<Rightarrow> (r, s'))"
| "serve env (RpcCompleteFreeInstall taskId code) s =
     Some (NotifyCompleteFreeInstallFromRemote env taskId code s)"
| "serve env (RpcSendResult want code c account result) s =
     Some (SendResultFromRemote env want code (sender c) account result s)"

text \<open>Tokens and request codes that fit the integers they are read into.\<close>

fun rpc_fits :: "rpc \<Rightarrow> bool" where
  "rpc_fits (RpcStartAbility want code c account) = (accessToken c < 2 ^ 32)"
| "rpc_fits (RpcConnectAbility want connect c account) = (accessToken c < 2 ^ 32)"
| "rpc_fits (RpcStartByCall want connect c account) = (accessToken c < 2 ^ 32)"
| "rpc_fits (RpcStartFreeInstall info taskId) =
     (accessToken (fi_callerInfo info) < 2 ^ 32 \<and> - (2 ^ 31) \<le> fi_requestCode info \<and>
      fi_requestCode info < 2 ^ 31)"
| "rpc_fits r = True"

text \<open>A JSON library that reads back the objects it prints, and the default ability info.\<close>

definition good_extra :: "env \<Rightarrow> bool" where
  "good_extra env =
     ((\<forall>t. \<exists>get has. parse_extra env (dump_extra env [(EXTRO_INFO_JSON_KEY_ACCESS_TOKEN, t)]) = ExtraJson get has \<and>
         get EXTRO_INFO_JSON_KEY_ACCESS_TOKEN = Some t) \<and>
      (\<forall>t c. \<exists>get has. parse_extra env (dump_extra env [(EXTRO_INFO_JSON_KEY_ACCESS_TOKEN, t),
           (EXTRO_INFO_JSON_KEY_REQUEST_CODE, c)]) = ExtraJson get has \<and>
         get EXTRO_INFO_JSON_KEY_ACCESS_TOKEN = Some t \<and>
         has EXTRO_INFO_JSON_KEY_REQUEST_CODE \<and> get EXTRO_INFO_JSON_KEY_REQUEST_CODE = Some c) \<and>
      (\<forall>m. m \<noteq> [] \<longrightarrow> dump_extra env m \<noteq> []) \<and>
      unmarshal_ability env (marshal_ability env) \<noteq> None)"

lemma extra_token_sent:
  assumes "good_extra env" and "t < 2 ^ 32"
  shows "extra_token env (dump_extra env [(EXTRO_INFO_JSON_KEY_ACCESS_TOKEN, int t)]) = Some t"
    "extra_token env (dump_extra env [(EXTRO_INFO_JSON_KEY_ACCESS_TOKEN, int t),
       (EXTRO_INFO_JSON_KEY_REQUEST_CODE, c)]) = Some t"
proof -
  have t: "nat (int t mod 2 ^ 32) = t"
    using assms(2) by simp
  obtain g h g' h' where
    "parse_extra env (dump_extra env [(EXTRO_INFO_JSON_KEY_ACCESS_TOKEN, int t)]) = ExtraJson g h"
    "g EXTRO_INFO_JSON_KEY_ACCESS_TOKEN = Some (int t)"
    "parse_extra env (dump_extra env [(EXTRO_INFO_JSON_KEY_ACCESS_TOKEN, int t),
       (EXTRO_INFO_JSON_KEY_REQUEST_CODE, c)]) = ExtraJson g' h'"
    "g' EXTRO_INFO_JSON_KEY_ACCESS_TOKEN = Some (int t)"
    using assms(1) unfolding good_extra_def by metis
  then show "extra_token env (dump_extra env [(EXTRO_INFO_JSON_KEY_ACCESS_TOKEN, int t)]) = Some t"
    "extra_token env (dump_extra env [(EXTRO_INFO_JSON_KEY_ACCESS_TOKEN, int t),
       (EXTRO_INFO_JSON_KEY_REQUEST_CODE, c)]) = Some t"
    using t by (simp_all add: extra_token_def)
qed

lemma extra_request_code_sent:
  assumes "good_extra env" and "- (2 ^ 31) \<le> c" and "c < 2 ^ 31"
  shows "extra_request_code env (dump_extra env [(EXTRO_INFO_JSON_KEY_ACCESS_TOKEN, t),
       (EXTRO_INFO_JSON_KEY_REQUEST_CODE, c)]) = Some c"
proof -
  have c: "sint (of_int c :: int32) = c"
    using assms(2,3) by (simp add: sint_sbintrunc' signed_take_bit_int_eq_self)
  obtain g h where
    "parse_extra env (dump_extra env [(EXTRO_INFO_JSON_KEY_ACCESS_TOKEN, t),
       (EXTRO_INFO_JSON_KEY_REQUEST_CODE, c)]) = ExtraJson g h"
    "h EXTRO_INFO_JSON_KEY_REQUEST_CODE" "g EXTRO_INFO_JSON_KEY_REQUEST_CODE = Some c"
    using assms(1) unfolding good_extra_def by metis
  then show ?thesis
    using c by (simp add: extra_request_code_def)
qed

section \<open>The proxy and the stub\<close>

lemma written_good:
  assumes "good_parcels env"
  shows "written env gs p = Inr (p @ concat (map fst gs))"
  using assms by (induction env gs p rule: written.induct) (auto split: option.splits)

lemma exchange_good:
  assumes "good_parcels env"
  shows "exchange env tr True code gs s =
     do { (error, reply, s') \<leftarrow> tr (code_of code) (PToken SCHED_STUB_INTERFACE_TOKEN # concat (map fst gs)) s;
          Some (if error = ERR_NONE then Inr reply else Inl error, s') }"
  using assms by (simp add: exchange_def written_good)

text \<open>The answer of a handler, as the proxy gives it to its caller.\<close>

definition received :: "dms answer \<Rightarrow> (int \<times> dms) option" where
  "received a = map_option (\<lambda>(error, reply, s).
     (if error = ERR_NONE then fst (read_or 0 read_int32 reply) else error, s)) a"

lemma transact_good:
  assumes "good_parcels env"
  shows "transact env tr True code vs s =
     received (tr (code_of code) (PToken SCHED_STUB_INTERFACE_TOKEN # vs) s)"
  using assms by (cases "tr (code_of code) (PToken SCHED_STUB_INTERFACE_TOKEN # vs) s")
    (auto simp: transact_def exchange_good received_def result_of_def)

lemma exchange_result_good:
  assumes "good_parcels env"
  shows "map_option (\<lambda>(x, s'). (result_of x, s')) (exchange env tr True code gs s) =
     received (tr (code_of code) (PToken SCHED_STUB_INTERFACE_TOKEN # concat (map fst gs)) s)"
  using assms by (cases "tr (code_of code) (PToken SCHED_STUB_INTERFACE_TOKEN # concat (map fst gs)) s")
    (auto simp: exchange_good received_def result_of_def)

lemma received_refuse [simp]: "received (refuse e s) = Some (if e = ERR_NONE then 0 else e, s)"
  by (simp add: received_def refuse_def read_or_def)

definition lift :: "dms \<Rightarrow> (int \<times> sched) option \<Rightarrow> (int \<times> dms) option" where
  "lift s r = map_option (\<lambda>(e, x). (e, s\<lparr>d_sched := x\<rparr>)) r"

lemma lift_simps [simp]: "lift s None = None" "lift s (Some (e, x)) = Some (e, s\<lparr>d_sched := x\<rparr>)"
  by (simp_all add: lift_def)

lemma received_on_sched:
  "received (on_sched f env data s) =
     lift s (map_option (\<lambda>(e, reply, x). (if e = ERR_NONE then fst (read_or 0 read_int32 reply) else e, x))
       (f (conv env) data (d_sched s)))"
  by (cases "f (conv env) data (d_sched s)") (auto simp: on_sched_def received_def)

lemma need_Some [simp]: "need env s (Some (x, p)) k = k x p"
  by (simp add: need_def)

lemma nonnull_simps [simp]:
  "nonnull e s (Some x, p) k = k x p" "nonnull e s (None, p) k = refuse e s"
  by (simp_all add: nonnull_def)

lemma read_or_Some [simp]:
  "read_or d read_int32 (PInt32 i # p) = (i, p)"
  "read_or d' read_string (PString t # p) = (t, p)"
  by (simp_all add: read_or_def)

lemma want_at_good [simp]:
  "good_parcels env \<Longrightarrow> want_at env s (PNested (marshal_want env w) # p) k = k w p"
  by (simp add: want_at_def)

lemma account_at_good [simp]:
  "account_at env s (PInt32 (accountType a) # PStrings (groupIdList a) # PString t # p) k = k a t p"
  by (cases a) (simp add: account_at_def)

lemma reply_good:
  assumes "good_parcels env"
  shows "reply_result env r = Some (ERR_NONE, [PInt32 (fst r)], snd r)"
    "reply_values env vs s = Some (ERR_NONE, vs, s)"
  using assms by (simp_all add: reply_result_def reply_values_def)

lemmas message_simps = exchange_result_good transact_good received_on_sched reply_good reply_timed_def
  extra_token_sent extra_request_code_sent want_value_def account_values_def token_info_def
  OnRemoteRequest_code with_object_def sender_def

lemma good_extra_ability:
  assumes "good_extra env"
  obtains a b where "unmarshal_ability env (marshal_ability env) = Some (a, b)"
  using assms unfolding good_extra_def by fastforce

text \<open>A scheduler that is asked by a system process of another device.\<close>

definition asked_by_peer :: "menv \<Rightarrow> dms \<Rightarrow> bool" where
  "asked_by_peer env s =
     (\<not> local_calling (conv env) (history (d_sched s)) \<and> CheckCallingUid (conv env) (d_sched s))"

lemmas sent_simps = message_simps asked_by_peer_def proxy_StartAbilityFromRemote_def
  proxy_SendResultFromRemote_def proxy_ContinueMission_def proxy_NotifyContinuationResultFromRemote_def
  proxy_ConnectAbilityFromRemote_def proxy_DisconnectAbilityFromRemote_def
  proxy_NotifyProcessDiedFromRemote_def proxy_StartAbilityByCallFromRemote_def
  proxy_ReleaseAbilityFromRemote_def proxy_StartFreeInstallFromRemote_def
  proxy_NotifyCompleteFreeInstallFromRemote_def

lemma map_option_bind_Some: "map_option f (x \<bind> (\<lambda>r. Some (g r))) = map_option (\<lambda>r. f (g r)) x"
  by (cases x) simp_all

lemma bundle_names_sent [simp]:
  "GetStringArrayParam (SetParam k (WStrings ss) w) k = ss"
  by (simp add: GetStringArrayParam_def SetParam_def)

lemma default_caller_fields [simp]:
  "pid default_CallerInfo = - 1" "callerType default_CallerInfo = CALLER_TYPE_NONE"
  by (simp_all add: default_CallerInfo_def)

lemma rpc_received:
  assumes "good_parcels (conv env)" and "good_extra (conv env)" and "asked_by_peer env s" and "rpc_fits r"
  shows "deliver (conv env) (OnRemoteRequest env) r s = lift s (serve (conv env) r (d_sched s))"
proof -
  obtain a b where ability: "unmarshal_ability (conv env) (marshal_ability (conv env)) = Some (a, b)"
    using good_extra_ability [OF assms(2)] .
  have info: "dump_extra (conv env) (x # m) \<noteq> []" for x m
    using assms(2) by (simp add: good_extra_def)
  note facts = assms ability info
  show ?thesis
  proof (cases r)
    case (RpcContinueMission src dst missionId callback params)
    then show ?thesis
      using facts by (cases callback) (auto simp: sent_simps ContinueMissionInner_def)
  next
    case (RpcContinuationResult sessionId ok)
    then show ?thesis
      using facts by (auto simp: sent_simps NotifyContinuationResultFromRemoteInner_def read_or_def split: prod.splits)
  next
    case (RpcStartFreeInstall info taskId)
    then show ?thesis
      using facts by (cases info; cases "fi_callerInfo info")
        (auto simp: sent_simps StartFreeInstallFromRemoteInner_def received_install_def Let_def split: prod.splits)
  next
    case (RpcConnectAbility want connect c account)
    then show ?thesis
      using facts by (auto simp: sent_simps ConnectAbilityFromRemoteInner_def default_CallerInfo_def
        map_option_bind_Some option.map_ident)
  next
    case (RpcStartByCall want connect c account)
    then show ?thesis
      using facts by (auto simp: sent_simps StartAbilityByCallFromRemoteInner_def default_CallerInfo_def Let_def)
  next
    case (RpcProcessDied c)
    then show ?thesis
      using facts by (auto simp: sent_simps NotifyProcessDiedFromRemoteInner_def default_CallerInfo_def)
  qed (use facts in \<open>auto simp: sent_simps sched_handlers\<close>)
qed

text \<open>
  C1: what a scheduler sends, the other one does. A request between two devices that is written
  by the proxy, read by the stub of a scheduler that accepts the caller and answered, has
  exactly the effect and the result of the operation of that scheduler, on the values that were
  sent: the caller, the account, the token and the application for starts and connections, the
  bundle names as a parameter of the want for free installs. Tokens and request codes survive as
  numbers of the extra information, whatever the JSON text is.
\<close>

theorem rpc_arrives:
  assumes "good_parcels (conv env)" and "good_extra (conv env)" and "asked_by_peer env s" and "rpc_fits r"
  shows "deliver (conv env) (OnRemoteRequest env) r s = lift s (serve (conv env) r (d_sched s))"
  using assms by (rule rpc_received)

definition ipc_menv :: menv where
  "ipc_menv = sample_menv\<lparr>conv := ipc_sample\<rparr>"

lemma ipc_sample_extra: "good_extra ipc_sample"
proof -
  have dump: "sample_dump m \<noteq> []" if "m \<noteq> []" for m
    using that by (cases m rule: sample_dump.cases) (auto simp: int_to_string_def)
  show ?thesis
    using dump by (auto simp: good_extra_def ipc_sample_def sample_env_def sample_parse_def
        EXTRO_INFO_JSON_KEY_ACCESS_TOKEN_def EXTRO_INFO_JSON_KEY_REQUEST_CODE_def Let_def)
qed

definition sample_install :: FreeInstallInfo where
  "sample_install = \<lparr>fi_want = default_Want, fi_requestCode = - 7,
     fi_callerInfo = default_CallerInfo\<lparr>uid := 5, sourceDeviceId := ''B'', bundleNames := [''b''],
       accessToken := 9\<rparr>, fi_accountInfo = default_AccountInfo\<rparr>"

theorem rpc_arrives_witness:
  "deliver (conv ipc_menv) (OnRemoteRequest ipc_menv) (RpcStartFreeInstall sample_install 4) new_dms =
     lift new_dms (serve (conv ipc_menv) (RpcStartFreeInstall sample_install 4) (d_sched new_dms))"
  by (rule rpc_arrives)
    (simp_all add: ipc_menv_def ipc_sample_parcels ipc_sample_extra asked_by_peer_def CheckCallingUid_def
      HID_HAP_def sample_install_def, simp_all add: ipc_sample_def sample_env_def sample_menv_def)

section \<open>Requests about missions\<close>

text \<open>The caller of a request to follow missions, and of one that brings missions.\<close>

definition follower :: "CallerInfo \<Rightarrow> CallerInfo" where
  "follower c = c\<lparr>bundleNames := [], accessToken := 0\<rparr>"

definition notifier :: "CallerInfo \<Rightarrow> CallerInfo" where
  "notifier c = default_CallerInfo\<lparr>uid := uid c, pid := pid c, sourceDeviceId := sourceDeviceId c,
     dmsVersion := dmsVersion c\<rparr>"

lemma caller_info_roundtrip [simp]:
  "CallerInfoUnmarshalling (CallerInfoMarshalling c) = Some (follower c, [])"
  by (cases c) (simp add: CallerInfoUnmarshalling_def CallerInfoMarshalling_def follower_def default_CallerInfo_def)

lemma start_sync_arrives:
  assumes "good_parcels (conv env)" and "asked_by_peer env s"
    and "svc_StartSyncMissionsFromRemote env (follower c) s = (ERR_NONE, infos, s')"
    and "length infos < 2147483648"
  shows "proxy_StartSyncMissionsFromRemote (conv env) (OnRemoteRequest env) True c s =
     Some (ERR_NONE, infos, s')"
proof -
  obtain vs where "WriteDstbMissionInfosToParcel (conv env) infos [PInt32 DMS_VERSION] =
      Some (PInt32 DMS_VERSION # vs)"
    and "ReadDstbMissionInfosFromParcel (conv env) vs = Some (infos, [])"
    using mission_infos_message [OF assms(1,4), of "[PInt32 DMS_VERSION]"]
    by (metis append_Cons append_Nil append_Nil2)
  then show ?thesis
    using assms
    by (simp add: proxy_StartSyncMissionsFromRemote_def exchange_good OnRemoteRequest_code asked_by_peer_def
        StartSyncMissionsFromRemoteInner_def dms_system_def)
qed

lemma start_sync_failed_arrives:
  assumes "good_parcels (conv env)" and "asked_by_peer env s" and "err_flatten_object (conv env) \<noteq> ERR_NONE"
    and "svc_StartSyncMissionsFromRemote env (follower c) s = (r, infos, s')" and "r \<noteq> ERR_NONE"
  shows "proxy_StartSyncMissionsFromRemote (conv env) (OnRemoteRequest env) True c s =
     Some (err_flatten_object (conv env), [], s')"
  using assms
  by (simp add: proxy_StartSyncMissionsFromRemote_def exchange_good OnRemoteRequest_code asked_by_peer_def
      StartSyncMissionsFromRemoteInner_def dms_system_def refuse_def)

lemma stop_sync_arrives:
  assumes "good_parcels (conv env)" and "asked_by_peer env s"
  shows "proxy_StopSyncMissionsFromRemote (conv env) (OnRemoteRequest env) True c s =
     Some (svc_StopSyncMissionsFromRemote env (follower c) s)"
  using assms
  by (simp add: proxy_StopSyncMissionsFromRemote_def transact_good OnRemoteRequest_code asked_by_peer_def
      StopSyncMissionsFromRemoteInner_def dms_system_def reply_good received_def)

lemma missions_changed_arrives:
  assumes "good_parcels (conv env)" and "asked_by_peer env s" and "length infos < 2147483648"
  shows "proxy_NotifyMissionsChangedFromRemote (conv env) (OnRemoteRequest env) True infos c s =
     Some (svc_NotifyMissionsChangedFromRemote env infos (notifier c) s)"
proof -
  let ?head = "[PToken SCHED_STUB_INTERFACE_TOKEN, PInt32 (dmsVersion c)]"
  let ?rest = "[PString (sourceDeviceId c), PInt32 (uid c), PInt32 (pid c), PInt32 (dmsVersion c)]"
  obtain vs where "WriteDstbMissionInfosToParcel (conv env) infos ?head = Some (?head @ vs)"
    and "\<And>q. ReadDstbMissionInfosFromParcel (conv env) (vs @ q) = Some (infos, q)"
    using mission_infos_message [OF assms(1,3), of ?head] by metis
  then show ?thesis
    using assms
    by (simp add: proxy_NotifyMissionsChangedFromRemote_def OnRemoteRequest_code asked_by_peer_def
        NotifyMissionsChangedFromRemoteInner_def dms_system_def reply_good notifier_def default_CallerInfo_def)
qed

text \<open>
  C26: the requests by which two schedulers keep each other's missions. A device that asks to
  follow the missions of another one gets the list its service answers with, and that service
  files the device that asked, with every part of its caller info that a message carries; when
  it has no list the device gets the error of a broken message. A device that stops is taken
  out. A list sent to a follower reaches its mission manager unchanged, with the device it is
  from.
\<close>

theorem mission_requests_arrive:
  assumes "good_parcels (conv env)" and "asked_by_peer env s" and "err_flatten_object (conv env) \<noteq> ERR_NONE"
    and "svc_StartSyncMissionsFromRemote env (follower c) s = (r, infos, s1)"
    and "length infos < 2147483648" and "length infos' < 2147483648"
  shows "proxy_StartSyncMissionsFromRemote (conv env) (OnRemoteRequest env) True c s =
      Some (if r = ERR_NONE then (ERR_NONE, infos, s1) else (err_flatten_object (conv env), [], s1)) \<and>
    sourceDeviceId c \<in> set (remoteSyncDeviceSet (d_missions s1)) \<and>
    proxy_StopSyncMissionsFromRemote (conv env) (OnRemoteRequest env) True c s =
      Some (svc_StopSyncMissionsFromRemote env (follower c) s) \<and>
    proxy_NotifyMissionsChangedFromRemote (conv env) (OnRemoteRequest env) True infos' c s =
      Some (svc_NotifyMissionsChangedFromRemote env infos' (notifier c) s)"
proof -
  have "sourceDeviceId c \<in> set (remoteSyncDeviceSet (d_missions s1))"
    using assms(4) by (auto simp: svc_StartSyncMissionsFromRemote_def StartSyncMissionsFromRemote_def
        Let_def follower_def post_mission_def set_emplace_def set_insort_key split: prod.splits if_splits)
  then show ?thesis
    using assms start_sync_arrives [of env s c infos s1] start_sync_failed_arrives [of env s c r infos s1]
      stop_sync_arrives [of env s c] missions_changed_arrives [of env s infos' c] by auto
qed

definition follow_menv :: menv where
  "follow_menv = ipc_menv\<lparr>m_ams_missions := \<lambda>h n. (0, [\<lparr>ms_id = 3, ms_runningState = 0,
     ms_lockedState = False, ms_continuable = True, ms_label = ''mail'', ms_iconPath = [],
     ms_want = default_Want\<rparr>])\<rparr>"

theorem mission_requests_arrive_witness:
  "\<exists>i s1. proxy_StartSyncMissionsFromRemote (conv follow_menv) (OnRemoteRequest follow_menv) True
      (default_CallerInfo\<lparr>sourceDeviceId := ''B''\<rparr>) new_dms = Some (ERR_NONE, [i], s1) \<and>
    ''B'' \<in> set (remoteSyncDeviceSet (d_missions s1))"
proof -
  let ?c = "default_CallerInfo\<lparr>sourceDeviceId := ''B''\<rparr>"
  obtain r infos s1 where start: "svc_StartSyncMissionsFromRemote follow_menv (follower ?c) new_dms = (r, infos, s1)"
    by (cases "svc_StartSyncMissionsFromRemote follow_menv (follower ?c) new_dms")
  then have "r = ERR_NONE \<and> length infos = 1"
    by (auto simp: svc_StartSyncMissionsFromRemote_def StartSyncMissionsFromRemote_def Let_def
        GetLocalMissionInfos_def follow_menv_def ipc_menv_def sample_menv_def ConvertToDstbMissionInfos_def
        err_defs split: prod.splits if_splits)
  moreover have "asked_by_peer follow_menv new_dms" "err_flatten_object (conv follow_menv) \<noteq> ERR_NONE"
    by (simp_all add: asked_by_peer_def follow_menv_def ipc_menv_def sample_menv_def ipc_sample_def
        sample_env_def CheckCallingUid_def HID_HAP_def)
  moreover have "good_parcels (conv follow_menv)"
    using ipc_sample_parcels by (simp add: follow_menv_def ipc_menv_def sample_menv_def)
  ultimately show ?thesis
    using mission_requests_arrive [of follow_menv new_dms ?c r infos s1 "[]"] start
    by (auto simp: length_Suc_conv)
qed

end
