(* ===== verification/SchedCallbacks.thy ===== *)
theory SchedCallbacks
  imports AbilityManagerRun SchedMessages MigrationProps
begin

text \<open>
  Objects the scheduler hands out and is called back through: the wrapper it presents to the
  ability manager for a connection of another device
  (\<^verbatim>\<open>ability_connection_wrapper_stub.cpp\<close>, \<^verbatim>\<open>ability_connection_wrapper_proxy.cpp\<close>), the
  connection to the device panel (\<^verbatim>\<open>app_connection_stub.cpp\<close>, \<open>ConnectAbility\<close> of the service),
  the callback of a free install (\<^verbatim>\<open>dms_free_install_callback_stub.cpp\<close> and \<^verbatim>\<open>_proxy.cpp\<close>) and
  the answer of the bundle manager to an installation query
  (\<^verbatim>\<open>bundle_manager_callback_stub.cpp\<close>); the dump of the connections
  (\<^verbatim>\<open>distributed_sched_dumper.cpp\<close>). Constants of other repositories are fields of \<open>cb_env\<close>.
\<close>

record cb_env =
  cb :: env
  connection_descriptor :: u16string
  on_connect_done :: nat
  err_invalid_state :: int
  err_invalid_data :: int
  panel_name :: string
  split_panel :: "string \<Rightarrow> string \<Rightarrow> string list"

section \<open>Connections of abilities\<close>

text \<open>
  The requests of the ability manager to a connection object: both connection stubs decode them
  the same way and differ in what they do. \<open>done\<close> and \<open>gone\<close> are the two virtual functions.
\<close>

definition connection_OnRemoteRequest ::
  "cb_env \<Rightarrow> (ElementName \<Rightarrow> robj \<Rightarrow> int \<Rightarrow> 's \<Rightarrow> 's) \<Rightarrow> (ElementName \<Rightarrow> int \<Rightarrow> 's \<Rightarrow> 's) \<Rightarrow>
   nat \<Rightarrow> parcel \<Rightarrow> 's \<Rightarrow> int \<times> parcel \<times> 's" where
  "connection_OnRemoteRequest e done gone code data s =
     (let (remoteDescriptor, p) = read_or [] read_token data
      in if connection_descriptor e \<noteq> remoteDescriptor then (err_invalid_state e, [], s)
         else (case read_parcelable (unmarshal_element (cb e)) p of
                 (None, p) \<Rightarrow> (err_invalid_value (cb e), [], s)
               | (Some element, p) \<Rightarrow>
                   if code = on_connect_done e then
                     (case read_remote p of
                        (Some remoteObject, p) \<Rightarrow>
                          (let (resultCode, p) = read_or 0 read_int32 p
                           in (ERR_NONE, [], done element remoteObject resultCode s))
                      | (None, p) \<Rightarrow> (err_invalid_data e, [], s))
                   else if code = on_disconnect_done (cb e) then
                     (let (resultCode, p) = read_or 0 read_int32 p
                      in (ERR_NONE, [], gone element resultCode s))
                   else (let (r, reply) = base_request (cb e) code p in (r, reply, s))))"

text \<open>The calls of the object of the other device; their results are only logged.\<close>

definition proxy_OnAbilityConnectDone ::
  "cb_env \<Rightarrow> robj \<Rightarrow> ElementName \<Rightarrow> robj \<Rightarrow> int \<Rightarrow> sched \<Rightarrow> sched" where
  "proxy_OnAbilityConnectDone e target element remoteObject resultCode s =
     (case write_all (writable (cb e)) [PToken CONNECTION_CALLBACK_INTERFACE_TOKEN,
             PNested (marshal_element (cb e) element), PObject remoteObject, PInt32 resultCode] [] of
        None \<Rightarrow> s
      | Some data \<Rightarrow> log_ext [SendObject target (on_connect_done e) data] s)"

definition proxy_OnAbilityDisconnectDone ::
  "cb_env \<Rightarrow> robj \<Rightarrow> ElementName \<Rightarrow> int \<Rightarrow> sched \<Rightarrow> sched" where
  "proxy_OnAbilityDisconnectDone e target element resultCode s =
     (case write_all (writable (cb e)) [PToken CONNECTION_CALLBACK_INTERFACE_TOKEN,
             PNested (marshal_element (cb e) element), PInt32 resultCode] [] of
        None \<Rightarrow> s
      | Some data \<Rightarrow> log_ext [SendObject target (on_disconnect_done (cb e)) data] s)"

text \<open>The wrapper of a connection, or of a call, which has the local device.\<close>

record AbilityConnectionWrapper =
  distributedConnection :: robj
  isCall :: bool
  wrapperDevice :: string

definition new_wrapper :: "robj \<Rightarrow> AbilityConnectionWrapper" where
  "new_wrapper c = \<lparr>distributedConnection = c, isCall = False, wrapperDevice = []\<rparr>"

definition new_call_wrapper :: "robj \<Rightarrow> string \<Rightarrow> AbilityConnectionWrapper" where
  "new_call_wrapper c dev = \<lparr>distributedConnection = c, isCall = True, wrapperDevice = dev\<rparr>"

definition wrapper_OnAbilityConnectDone ::
  "cb_env \<Rightarrow> AbilityConnectionWrapper \<Rightarrow> ElementName \<Rightarrow> robj \<Rightarrow> int \<Rightarrow> dms \<Rightarrow> dms" where
  "wrapper_OnAbilityConnectDone e w element remoteObject resultCode s =
     (let element' = (if isCall w
            then \<lparr>el_deviceId = wrapperDevice w, el_bundleName = el_bundleName element,
                  el_abilityName = el_abilityName element, el_moduleName = []\<rparr>
            else element)
      in s\<lparr>d_sched := proxy_OnAbilityConnectDone e (distributedConnection w) element' remoteObject
                        resultCode (d_sched s)\<rparr>)"

text \<open>\<open>ok\<close>: whether the adapter's handler takes the task.\<close>

definition wrapper_OnAbilityDisconnectDone ::
  "cb_env \<Rightarrow> bool \<Rightarrow> AbilityConnectionWrapper \<Rightarrow> ElementName \<Rightarrow> int \<Rightarrow> dms \<Rightarrow> dms" where
  "wrapper_OnAbilityDisconnectDone e ok w element resultCode s =
     (if isCall w then adapter_ProcessCalleeDied ok (Some (distributedConnection w)) s
      else s\<lparr>d_sched := proxy_OnAbilityDisconnectDone e (distributedConnection w) element resultCode
                          (d_sched s)\<rparr>)"

definition wrapper_OnRemoteRequest ::
  "cb_env \<Rightarrow> bool \<Rightarrow> AbilityConnectionWrapper \<Rightarrow> nat \<Rightarrow> parcel \<Rightarrow> dms \<Rightarrow> int \<times> parcel \<times> dms" where
  "wrapper_OnRemoteRequest e ok w =
     connection_OnRemoteRequest e (wrapper_OnAbilityConnectDone e w) (wrapper_OnAbilityDisconnectDone e ok w)"

section \<open>The device panel\<close>

text \<open>
  The connection object the panel is connected with knows the continuation manager and the
  token of the application that wants to choose a device; the continuation manager's
  \<open>ScheduleStartDeviceManager\<close> is its only call.
\<close>

record AppConnection =
  dmsNotifier :: bool
  app_token :: int
  app_params :: "ContinuationExtraParams option"

definition app_OnAbilityConnectDone ::
  "dams_env \<Rightarrow> AppConnection \<Rightarrow> ElementName \<Rightarrow> robj \<Rightarrow> int \<Rightarrow> dams \<Rightarrow> dams" where
  "app_OnAbilityConnectDone env c element remoteObject resultCode s =
     (if \<not> dmsNotifier c then s
      else ScheduleStartDeviceManager env (Some remoteObject) (app_token c) (app_params c) s)"

definition app_OnAbilityDisconnectDone ::
  "dams_env \<Rightarrow> AppConnection \<Rightarrow> ElementName \<Rightarrow> int \<Rightarrow> dams \<Rightarrow> dams" where
  "app_OnAbilityDisconnectDone env c element resultCode s =
     (if \<not> dmsNotifier c then s
      else ScheduleStartDeviceManager env nullptr (app_token c) (app_params c) s)"

definition panel_OnRemoteRequest ::
  "cb_env \<Rightarrow> dams_env \<Rightarrow> AppConnection \<Rightarrow> nat \<Rightarrow> parcel \<Rightarrow> dams \<Rightarrow> int \<times> parcel \<times> dams" where
  "panel_OnRemoteRequest e env c =
     connection_OnRemoteRequest e (app_OnAbilityConnectDone env c) (app_OnAbilityDisconnectDone env c)"

definition PANEL_SPLIT_VARS :: nat where "PANEL_SPLIT_VARS = 2"

text \<open>
  The object is made once and kept until a disconnection, with the token it was made for. The
  result has the object's data when it is new.
\<close>

definition svc_ConnectAbility ::
  "cb_env \<Rightarrow> AppConnection \<Rightarrow> sched \<Rightarrow> int \<times> (robj \<times> AppConnection) option \<times> sched" where
  "svc_ConnectAbility e c s =
     (if panel_name e = [] then (PANEL_NAME_NOT_CONFIGURED, None, s)
      else
        let nameVector = split_panel e (panel_name e) ''_''
        in if length nameVector \<noteq> PANEL_SPLIT_VARS then (PANEL_NAME_NOT_CONFIGURED, None, s)
           else
             let want = default_Want\<lparr>want_element := \<lparr>el_deviceId = [], el_bundleName = nameVector ! 0,
                   el_abilityName = nameVector ! 1, el_moduleName = []\<rparr>\<rparr>;
                 (conn, new, s1) =
                   (case panelConnect s of
                      Some x \<Rightarrow> (x, None, s)
                    | None \<Rightarrow> (let (x, s1) = new_local s in (x, Some (x, c), s1\<lparr>panelConnect := Some x\<rparr>)));
                 (errCode, s2) = adapter_ConnectAbility (cb e) want conn s1
             in if errCode \<noteq> ERR_OK then (CONNECT_ABILITY_FAILED, new, s2\<lparr>panelConnect := nullptr\<rparr>)
                else (ERR_OK, new, s2))"

definition svc_DisconnectAbility :: "cb_env \<Rightarrow> sched \<Rightarrow> int \<times> sched" where
  "svc_DisconnectAbility e s =
     (case panelConnect s of
        None \<Rightarrow> (err_null_object (cb e), s)
      | Some x \<Rightarrow>
          (let (errCode, s1) = adapter_DisconnectAbility (cb e) x s;
               s2 = s1\<lparr>panelConnect := nullptr\<rparr>
           in if errCode \<noteq> ERR_OK then (DISCONNECT_ABILITY_FAILED, s2) else (ERR_OK, s2)))"

section \<open>Free installs\<close>

definition FREE_INSTALL_DESCRIPTOR :: u16string where
  "FREE_INSTALL_DESCRIPTOR = u16 ''ohos.DistributedSchedule.IDmsFreeInstallCallback''"

definition ON_FREE_INSTALL_DONE :: nat where "ON_FREE_INSTALL_DONE = 0"

text \<open>The callback is given to the ability manager; its request runs \<open>OnInstallFinished\<close>.\<close>

definition OnInstallFinishedInner ::
  "cb_env \<Rightarrow> parcel \<Rightarrow> DmsFreeInstallCallback \<Rightarrow> sched \<Rightarrow> int \<times> DmsFreeInstallCallback \<times> sched" where
  "OnInstallFinishedInner e data c s =
     (let (resultCode, p) = read_or 0 read_int32 data
      in (case read_parcelable (unmarshal_want (cb e)) p of
            (None, p) \<Rightarrow> (err_invalid_value (cb e), c, s)
          | (Some want, p) \<Rightarrow>
              (let (requestCode, p) = read_or 0 read_int32 p;
                   (c', s') = OnInstallFinished (cb e) want requestCode resultCode c s
               in (ERR_NONE, c', s'))))"

definition install_OnRemoteRequest ::
  "cb_env \<Rightarrow> nat \<Rightarrow> parcel \<Rightarrow> DmsFreeInstallCallback \<Rightarrow> sched \<Rightarrow> int \<times> DmsFreeInstallCallback \<times> sched" where
  "install_OnRemoteRequest e code data c s =
     (let (remoteDescriptor, p) = read_or [] read_token data
      in if FREE_INSTALL_DESCRIPTOR \<noteq> remoteDescriptor then (err_invalid_state e, c, s)
         else if code = ON_FREE_INSTALL_DONE then OnInstallFinishedInner e p c s
         else (err_invalid_state e, c, s))"

text \<open>The values the proxy sends, and the call.\<close>

definition proxy_OnInstallFinished ::
  "cb_env \<Rightarrow> (nat \<Rightarrow> parcel \<Rightarrow> 's \<Rightarrow> 's) \<Rightarrow> Want \<Rightarrow> int \<Rightarrow> int \<Rightarrow> 's \<Rightarrow> 's" where
  "proxy_OnInstallFinished e send want requestCode resultCode s =
     (case write_all (writable (cb e)) [PToken FREE_INSTALL_DESCRIPTOR, PInt32 resultCode,
             PNested (marshal_want (cb e) want), PInt32 requestCode] [] of
        None \<Rightarrow> s
      | Some data \<Rightarrow> send ON_FREE_INSTALL_DONE data s)"

section \<open>Installation queries\<close>

definition CONTINUATION_FREE_INSTALL_TIMEOUT :: int where "CONTINUATION_FREE_INSTALL_TIMEOUT = 50000"
definition BUNDLE_CALLBACK_DESCRIPTOR :: u16string where
  "BUNDLE_CALLBACK_DESCRIPTOR = u16 ''ohos.DistributedSchedule.IDmsBundleManagerCallback''"
definition ON_QUERY_INSTALLATION_DONE :: nat where "ON_QUERY_INSTALLATION_DONE = 1"

definition OnQueryInstallationFinished :: "env \<Rightarrow> int \<Rightarrow> int \<Rightarrow> nat \<Rightarrow> sched \<Rightarrow> int \<times> sched" where
  "OnQueryInstallationFinished env resultCode missionId versionCode s =
     (if resultCode \<noteq> ERR_OK then
        (let result = CONTINUE_REMOTE_UNINSTALLED_CANNOT_FREEINSTALL
         in (result, NotifyContinuationCallbackResult env missionId result s))
      else
        let s1 = RemoveContinuationTimeout missionId s;
            deviceId = GetContinuaitonDevice missionId s1;
            s2 = SetContinuationTimeout missionId CONTINUATION_FREE_INSTALL_TIMEOUT s1
        in call_ams env (AmsContinueAbility deviceId missionId versionCode) s2)"

definition OnQueryInstallationFinishedInner :: "env \<Rightarrow> parcel \<Rightarrow> sched \<Rightarrow> int \<times> sched" where
  "OnQueryInstallationFinishedInner env data s =
     (let (resultCode, p) = read_or 0 read_int32 data;
          (versionCode, p) = read_or 0 read_uint32 p;
          (missionId, p) = read_or 0 read_int32 p
      in OnQueryInstallationFinished env resultCode missionId versionCode s)"

definition query_OnRemoteRequest :: "cb_env \<Rightarrow> nat \<Rightarrow> parcel \<Rightarrow> sched \<Rightarrow> int \<times> sched" where
  "query_OnRemoteRequest e code data s =
     (let (remoteDescriptor, p) = read_or [] read_token data
      in if BUNDLE_CALLBACK_DESCRIPTOR \<noteq> remoteDescriptor then (err_invalid_state e, s)
         else if code = ON_QUERY_INSTALLATION_DONE then OnQueryInstallationFinishedInner (cb e) p s
         else (err_invalid_state e, s))"

section \<open>The dump of the connections\<close>

definition DumpElementLocked :: "ElementName list \<Rightarrow> string" where
  "DumpElementLocked es = concat (map (\<lambda>x. '', '' @ ''BundleName: '' @ el_bundleName x
     @ '', '' @ ''AbilityName: '' @ el_abilityName x) es)"

definition DumpSessionsLocked :: "ConnectAbilitySession list \<Rightarrow> string" where
  "DumpSessionsLocked ss = concat (map (\<lambda>x. ''  '' @ ''SourceDeviceId: '' @ ses_sourceDeviceId x
     @ '', '' @ ''DestinationDeviceId: '' @ ses_destinationDeviceId x
     @ '', '' @ ''CallerUid: '' @ int_to_string (uid (ses_callerInfo x))
     @ '', '' @ ''CallerPid: '' @ int_to_string (pid (ses_callerInfo x))
     @ '', '' @ ''CallerType: '' @ int_to_string (callerType (ses_callerInfo x))
     @ DumpElementLocked (ses_elementsList x) @ ''\<newline>'') ss)"

definition DumpConnectInfo :: "sched \<Rightarrow> string" where
  "DumpConnectInfo s = ''connected remote abilities:\<newline>'' @
     (if distributedConnectAbilityMap s \<noteq> []
      then concat (map (\<lambda>(c, ss). DumpSessionsLocked ss) (distributedConnectAbilityMap s))
      else ''  <none info>\<newline>'')"

definition UID_ROOT :: int where "UID_ROOT = 0"

definition ShowHelp :: string where
  "ShowHelp = ''DistributedSched Dump options:\<newline>'' @ ''  [-h] [cmd]...\<newline>''
     @ ''cmd maybe one of:\<newline>'' @ ''  -connect: show all connected remote abilities.\<newline>''"

definition IllegalInput :: string where
  "IllegalInput = ''The arguments are illegal and you can enter '' @ [CHR 0x27] @ ''-h'' @ [CHR 0x27]
     @ '' for help.\<newline>''"

definition DumpDefault :: "sched \<Rightarrow> string" where
  "DumpDefault s = ''DistributedSched Dump\<newline>'' @ ''\<newline>'' @ DumpConnectInfo s"

definition dumper_Dump :: "env \<Rightarrow> string list \<Rightarrow> sched \<Rightarrow> bool \<times> string" where
  "dumper_Dump env args s =
     (if calling_uid env (history s) \<noteq> UID_ROOT then (False, ''Dump failed, not allowed'')
      else if length args < 1 then (True, DumpDefault s)
      else if length args = 1 \<and> args ! 0 = ''-h'' then (True, ShowHelp)
      else if length args = 1 \<and> args ! 0 = ''-connect'' then (True, DumpConnectInfo s)
      else (False, IllegalInput))"

definition svc_Dump :: "cb_env \<Rightarrow> int \<Rightarrow> u16string list \<Rightarrow> sched \<Rightarrow> int \<times> sched" where
  "svc_Dump e fd args s =
     (let result = snd (dumper_Dump (cb e) (map (str8 (cb e)) args) s);
          s1 = log_ext [SaveToFd fd result] s
      in if \<not> save_fd_ok (cb e) (history s) then (DMS_WRITE_FILE_FAILED_ERR, s1) else (ERR_OK, s1))"

section \<open>What arrives\<close>

lemma read_string_token [simp]: "read_or d read_token (PToken t # p) = (t, p)"
  by (simp add: read_or_def)

lemma connection_done_message:
  assumes "good_parcels (cb e)"
  shows "connection_OnRemoteRequest e done gone (on_connect_done e)
      [PToken (connection_descriptor e), PNested (marshal_element (cb e) element), PObject x, PInt32 r] s =
    (ERR_NONE, [], done element x r s)"
  using assms by (simp add: connection_OnRemoteRequest_def)

lemma connection_gone_message:
  assumes "good_parcels (cb e)" and "on_disconnect_done (cb e) \<noteq> on_connect_done e"
  shows "connection_OnRemoteRequest e done gone (on_disconnect_done (cb e))
      [PToken (connection_descriptor e), PNested (marshal_element (cb e) element), PInt32 r] s =
    (ERR_NONE, [], gone element r s)"
  using assms by (simp add: connection_OnRemoteRequest_def)

lemma install_finished_arrives:
  assumes "good_parcels (cb e)"
  shows "proxy_OnInstallFinished e (\<lambda>code data (c, s). snd (install_OnRemoteRequest e code data c s))
      want requestCode resultCode (c, s) = OnInstallFinished (cb e) want requestCode resultCode c s"
  using assms by (simp add: proxy_OnInstallFinished_def install_OnRemoteRequest_def OnInstallFinishedInner_def
      ON_FREE_INSTALL_DONE_def split: prod.split)

lemma panel_connected_starts:
  assumes "good_parcels (cb e)" and "dmsNotifier c"
  shows "panel_OnRemoteRequest e env c (on_connect_done e)
      [PToken (connection_descriptor e), PNested (marshal_element (cb e) element), PObject x, PInt32 r] s =
    (ERR_NONE, [], ScheduleStartDeviceManager env (Some x) (app_token c) (app_params c) s)"
  using assms by (simp add: panel_OnRemoteRequest_def connection_done_message app_OnAbilityConnectDone_def)

text \<open>The panel stays connected with the object, and so the token, of the first request.\<close>

lemma panel_keeps_first_token:
  assumes "panelConnect s = Some x" and "svc_ConnectAbility e c s = (r, new, s')"
  shows "new = None" and "r = ERR_OK \<Longrightarrow> panelConnect s' = Some x"
  using assms by (auto simp: svc_ConnectAbility_def Let_def adapter_ConnectAbility_def call_ams_def log_ext_def
      err_defs split: if_splits prod.splits option.splits)


definition sample_cb :: cb_env where
  "sample_cb = \<lparr>cb = ipc_sample, connection_descriptor = u16 ''c'', on_connect_done = 1,
     err_invalid_state = 5, err_invalid_data = 6, panel_name = ''b_a'', split_panel = (\<lambda>s d. [''b'', ''a''])\<rparr>"


section \<open>The answer to an installation query\<close>

definition query_answer :: "int \<Rightarrow> nat \<Rightarrow> int \<Rightarrow> parcel" where
  "query_answer resultCode versionCode missionId =
     [PToken BUNDLE_CALLBACK_DESCRIPTOR, PInt32 resultCode, PUint32 versionCode, PInt32 missionId]"

lemma query_answer_arrives:
  "query_OnRemoteRequest e ON_QUERY_INSTALLATION_DONE (query_answer r v m) s =
     OnQueryInstallationFinished (cb e) r m v s"
  by (simp add: query_OnRemoteRequest_def OnQueryInstallationFinishedInner_def query_answer_def read_or_def)

text \<open>
  C29: when the bundle manager answers whether the other device can install the application of
  a mission, a mission in progress goes one of two ways. If it cannot, the callback of the
  mission is told so in one message and the mission is over. If it can, the tables stay, the
  timer starts again with fifty seconds, and the ability manager is asked once to continue the
  mission on the device that was registered for it, with the version of the answer.
\<close>

theorem installation_query_answered:
  assumes "dschedContinuation s = Some c" and "contHandler c" and "\<And>p v. writable (cb e) p v"
    and "map_find m (contCallbackMap c) = Some x" and "map_find m (continuationDevices c) = Some dev"
  shows "let s' = snd (query_OnRemoteRequest e ON_QUERY_INSTALLATION_DONE (query_answer r v m) s)
    in if r = ERR_OK
       then s' = s\<lparr>history := history s @ [RemoveEvent ContinuationTimer m,
              SendEvent ContinuationTimer m CONTINUATION_FREE_INSTALL_TIMEOUT, Ams (AmsContinueAbility dev m v)]\<rparr>
       else sends (history s') =
              sends (history s) @ [mission_message x CONTINUE_REMOTE_UNINSTALLED_CANNOT_FREEINSTALL] \<and>
            dschedContinuation s' = Some (snd (cont_PopCallback m c)) \<and>
            \<not> IsInContinuationProgress m (snd (cont_PopCallback m c))"
proof (cases "r = ERR_OK")
  case True
  then show ?thesis
    using assms by (cases s) (simp add: query_answer_arrives OnQueryInstallationFinished_def call_ams_def log_ext_def
        RemoveContinuationTimeout_def SetContinuationTimeout_def GetContinuaitonDevice_def GetTargetDevice_def
        RemoveTimeOut_def SetTimeOut_def)
next
  case False
  have "\<not> IsInContinuationProgress m (snd (cont_PopCallback m c))"
    using assms(4) by (simp add: IsInContinuationProgress_def cont_PopCallback_def)
  with False show ?thesis
    using Notify_in_progress [OF assms(1,4,3), of CONTINUE_REMOTE_UNINSTALLED_CANNOT_FREEINSTALL]
    by (auto simp: query_answer_arrives OnQueryInstallationFinished_def Let_def)
qed

definition moving_sched :: sched where
  "moving_sched = started\<lparr>dschedContinuation := Some ((cont_Init new_continuation)
     \<lparr>contCallbackMap := [(5, Proxy 3)], continuationDevices := [(5, ''B'')]\<rparr>)\<rparr>"

theorem installation_query_answered_witness:
  "Ams (AmsContinueAbility ''B'' 5 7) \<in> set (history (snd
     (query_OnRemoteRequest sample_cb ON_QUERY_INSTALLATION_DONE (query_answer ERR_OK 7 5) moving_sched)))"
proof -
  have "writable (cb sample_cb) p v" for p v
    by (simp add: sample_cb_def ipc_sample_def sample_env_def)
  from installation_query_answered [OF _ _ this, of moving_sched _ 5 "Proxy 3" "''B''" ERR_OK 7]
  show ?thesis by (simp add: moving_sched_def cont_Init_def)
qed

end
