(* ===== verification/TwoDevices.thy ===== *)
theory TwoDevices
  imports SchedMessages SchedRemote
begin

text \<open>
  Two schedulers together: the scheduler of device \<open>A\<close>, whose applications connect to
  abilities of device \<open>B\<close>, and the scheduler of \<open>B\<close>, which serves the requests it gets. The
  state of \<open>B\<close> is what the requests in the history of \<open>A\<close>, each written by the proxy and read
  by the stub, have made of it; the answers \<open>A\<close> gets are those \<open>B\<close> gives.
\<close>

section \<open>The scheduler at the other end\<close>

definition requests_to :: "string \<Rightarrow> hist \<Rightarrow> rpc list" where
  "requests_to dev h = map snd (filter (\<lambda>(d, r). d = dev) (rpc_calls h))"

definition peer_step :: "menv \<Rightarrow> dms option \<Rightarrow> rpc \<Rightarrow> dms option" where
  "peer_step peer st r =
     do { d \<leftarrow> st; (x, d') \<leftarrow> deliver (conv peer) (OnRemoteRequest peer) r d; Some d' }"

definition peer_after :: "menv \<Rightarrow> string \<Rightarrow> dms \<Rightarrow> hist \<Rightarrow> dms option" where
  "peer_after peer dev d0 h = run (peer_step peer) (Some d0) (requests_to dev h)"

text \<open>
  \<open>A\<close> and \<open>B\<close> are linked: they know their names, each request from \<open>A\<close> gets the answer of
  \<open>B\<close>, messages are read back, and \<open>B\<close> takes requests of the schedulers of other devices.
\<close>

definition linked :: "env \<Rightarrow> menv \<Rightarrow> string \<Rightarrow> string \<Rightarrow> dms \<Rightarrow> bool" where
  "linked env peer A B d0 =
     (A \<noteq> [] \<and> B \<noteq> [] \<and> A \<noteq> B \<and>
      (\<forall>h. local_device env h = Some A) \<and> (\<forall>h. local_device (conv peer) h = Some B) \<and>
      (\<forall>h r d x d'. peer_after peer B d0 h = Some d \<longrightarrow>
         deliver (conv peer) (OnRemoteRequest peer) r d = Some (x, d') \<longrightarrow> rpc_result env h B r = x) \<and>
      good_parcels (conv peer) \<and> good_extra (conv peer) \<and> (\<forall>d. asked_by_peer peer d))"

lemma requests_to_simps [simp]:
  "requests_to dev [] = []" "requests_to dev (h @ h') = requests_to dev h @ requests_to dev h'"
  by (simp_all add: requests_to_def)

lemma peer_after_cong: "rpc_calls h' = rpc_calls h \<Longrightarrow> peer_after peer B d0 h' = peer_after peer B d0 h"
  by (simp add: peer_after_def requests_to_def)

lemma peer_after_one [simp]:
  "peer_after peer B d0 (h @ [Rpc dev r]) =
     (if dev = B then peer_step peer (peer_after peer B d0 h) r else peer_after peer B d0 h)"
  by (simp add: peer_after_def requests_to_def)

text \<open>A request from \<open>A\<close> to \<open>B\<close> is the operation of \<open>B\<close>, and \<open>A\<close> gets its result.\<close>

lemma linked_request:
  assumes "linked env peer A B d0" and "peer_after peer B d0 h = Some d" and "rpc_fits r"
    and "serve (conv peer) r (d_sched d) = Some (x, s')"
  shows "rpc_result env h B r = x" and "peer_after peer B d0 (h @ [Rpc B r]) = Some (d\<lparr>d_sched := s'\<rparr>)"
proof -
  have "deliver (conv peer) (OnRemoteRequest peer) r d = Some (x, d\<lparr>d_sched := s'\<rparr>)"
    using assms by (simp add: rpc_received linked_def)
  with assms(1,2) show "rpc_result env h B r = x"
    "peer_after peer B d0 (h @ [Rpc B r]) = Some (d\<lparr>d_sched := s'\<rparr>)"
    by (auto simp: linked_def peer_step_def)
qed

section \<open>What the requests do to the connections of the other device\<close>

text \<open>A caller info that says \<open>A\<close> and the process the object belongs to.\<close>

definition from_owner :: "(robj \<Rightarrow> int \<times> int) \<Rightarrow> string \<Rightarrow> robj \<Rightarrow> CallerInfo \<Rightarrow> bool" where
  "from_owner owner A c k =
     (owner c = (uid k, pid k) \<and> sourceDeviceId k = A \<and> callerType k = CALLER_TYPE_HARMONY)"

lemma connect_from_remote:
  assumes "callerType k = CALLER_TYPE_HARMONY"
  shows "\<exists>x s'. ConnectAbilityFromRemote env want (Some c) k account s = Some (x, s') \<and>
    (if x = ERR_OK then \<exists>i. ci_callerInfo i = k \<and> connectAbilityMap s' = map_emplace c i (connectAbilityMap s)
     else connectAbilityMap s' = connectAbilityMap s)"
proof (cases "GetLocalDeviceId env s")
  case None
  then show ?thesis by (simp add: ConnectAbilityFromRemote_def err_defs)
next
  case (Some l)
  define w where "w = (case map_find c (connectAbilityMap s) of Some i \<Rightarrow> (ci_callbackWrapper i, s) | None \<Rightarrow> new_local s)"
  define a where "a = adapter_ConnectAbility env want (fst w) (snd w)"
  let ?i = "\<lparr>ci_callerInfo = k, ci_callbackWrapper = fst w, ci_element = want_element want\<rparr>"
  have w: "connectAbilityMap (snd w) = connectAbilityMap s"
    by (simp add: w_def new_local_def split: option.split)
  then have a: "connectAbilityMap (snd a) = connectAbilityMap s"
    by (simp add: a_def)
  have old: "map_emplace c ?i (connectAbilityMap s) = connectAbilityMap s"
    if "c \<in> map_keys (connectAbilityMap s)"
    using that by (auto simp: map_emplace_def split: option.split)
  have "ConnectAbilityFromRemote env want (Some c) k account s =
      (if \<not> CheckDeviceIdFromRemote l (el_deviceId (want_element want)) (sourceDeviceId k)
       then Some (INVALID_REMOTE_PARAMETERS_ERR, s)
       else if CheckDPermission env (history s) want k account l True \<noteq> ERR_OK
       then Some (CheckDPermission env (history s) want k account l True, s)
       else if fst a \<noteq> ERR_OK then Some a
       else if map_find c (connectAbilityMap s) = None then
         Some (fst a, (ReportCallee env ?i DISTRIBUTED_COMPONENT_ADD CONNECT CALLEE (snd a))
           \<lparr>connectAbilityMap := map_emplace c ?i (connectAbilityMap s)\<rparr>)
       else Some a)"
    using assms Some a
    by (cases "map_find c (connectAbilityMap s)")
      (auto simp: ConnectAbilityFromRemote_def Let_def split_beta w_def a_def prod_eq_iff)
  then show ?thesis
    using a old by (cases a) (auto simp: err_defs intro!: exI [of _ ?i])
qed

lemma serve_connect:
  assumes "from_owner owner A c k"
  obtains x s' where "serve env (RpcConnectAbility want c k account) s = Some (x, s')"
    and "x \<noteq> ERR_OK \<Longrightarrow> connectAbilityMap s' = connectAbilityMap s"
    and "x = ERR_OK \<Longrightarrow> \<exists>i. connectAbilityMap s' = map_emplace c i (connectAbilityMap s) \<and>
      from_owner owner A c (ci_callerInfo i)"
proof -
  let ?k = "(sender k)\<lparr>pid := pid k, accessToken := accessToken k\<rparr>"
  have k: "callerType ?k = CALLER_TYPE_HARMONY" "from_owner owner A c ?k"
    using assms by (simp_all add: sender_def from_owner_def)
  from connect_from_remote [OF k(1), of env want c account s] obtain x s' where
    "ConnectAbilityFromRemote env want (Some c) ?k account s = Some (x, s')"
    "if x = ERR_OK then \<exists>i. ci_callerInfo i = ?k \<and> connectAbilityMap s' = map_emplace c i (connectAbilityMap s)
     else connectAbilityMap s' = connectAbilityMap s"
    by blast
  with k(2) show thesis by (intro that [of x s']) (auto split: if_splits)
qed

lemma serve_disconnect:
  assumes "\<And>h. local_device env h = Some B" and "A \<noteq> []" and "B \<noteq> []" and "A \<noteq> B"
  obtains x s' where "serve env (RpcDisconnectAbility c u A) s = Some (x, s')"
    and "connectAbilityMap s' = map_erase c (connectAbilityMap s)"
proof -
  obtain x s' where r: "DisconnectAbilityFromRemote env (Some c) A s = (x, s')"
    by (cases "DisconnectAbilityFromRemote env (Some c) A s")
  then have "connectAbilityMap s' = map_erase c (connectAbilityMap s)"
    using assms by (auto simp: DisconnectAbilityFromRemote_def GetLocalDeviceId_def Let_def prod_eq_iff
        split: option.splits if_splits)
  with r show thesis by (intro that) auto
qed

lemma serve_died:
  obtains x s' where "serve env (RpcProcessDied k) s = Some (x, s')"
    and "connectAbilityMap s' =
      filter (\<lambda>(c, i). \<not> same_process ((sender k)\<lparr>pid := pid k, callerAppId := []\<rparr>) i) (connectAbilityMap s)"
proof -
  let ?k = "(sender k)\<lparr>pid := pid k, callerAppId := []\<rparr>"
  obtain x s' where "NotifyProcessDiedFromRemote env ?k s = (x, s')"
    by (cases "NotifyProcessDiedFromRemote env ?k s")
  moreover from this have "connectAbilityMap s' = filter (\<lambda>(c, i). \<not> same_process ?k i) (connectAbilityMap s)"
    using died_loop_fst [of env ?k "connectAbilityMap s" ERR_OK s]
    by (auto simp: NotifyProcessDiedFromRemote_def split_beta)
  ultimately show thesis by (intro that) auto
qed

lemma died_of_owner:
  "from_owner owner A c (ci_callerInfo i) \<Longrightarrow> sourceDeviceId k = A \<Longrightarrow> callerType k = CALLER_TYPE_HARMONY \<Longrightarrow>
   same_process ((sender k)\<lparr>pid := pid k, callerAppId := []\<rparr>) i \<longleftrightarrow> owner c = (uid k, pid k)"
  by (auto simp: same_process_def sender_def from_owner_def)

section \<open>Both ends\<close>

text \<open>
  The sessions of \<open>A\<close> and the connections of \<open>B\<close> agree: \<open>B\<close> has the objects \<open>A\<close> has a session
  with \<open>B\<close> for, and both know the process each object belongs to.
\<close>

definition ends_agree ::
  "(robj \<Rightarrow> int \<times> int) \<Rightarrow> string \<Rightarrow> string \<Rightarrow> connect_map \<Rightarrow> (robj, ConnectInfo) stdmap \<Rightarrow> bool" where
  "ends_agree owner A B m p =
     (table_wf m \<and> map_ok p \<and>
      (\<forall>(c, ss) \<in> set m. \<forall>x \<in> set ss. ses_sourceDeviceId x = A \<and> from_owner owner A c (ses_callerInfo x)) \<and>
      (\<forall>(c, i) \<in> set p. from_owner owner A c (ci_callerInfo i)) \<and>
      (\<forall>c. c \<in> map_keys p \<longleftrightarrow> (c, B) \<in> device_links m))"

definition pair_inv ::
  "(robj \<Rightarrow> int \<times> int) \<Rightarrow> menv \<Rightarrow> string \<Rightarrow> string \<Rightarrow> dms \<Rightarrow> sched \<Rightarrow> bool" where
  "pair_inv owner peer A B d0 s =
     (\<exists>d. peer_after peer B d0 (history s) = Some d \<and>
        ends_agree owner A B (distributedConnectAbilityMap s) (connectAbilityMap (d_sched d)))"

lemma pair_inv_frame:
  assumes "pair_inv owner peer A B d0 s" and "rpc_calls (history s') = rpc_calls (history s)"
    and "distributedConnectAbilityMap s' = distributedConnectAbilityMap s"
  shows "pair_inv owner peer A B d0 s'"
  using assms(1,3) peer_after_cong [OF assms(2), of peer B d0] by (simp add: pair_inv_def)

lemma add_to_sessions_mem:
  assumes "x \<in> set (add_to_sessions env src dst e k tc ss)"
  shows "(ses_sourceDeviceId x = src \<and> ses_callerInfo x = k) \<or>
    (\<exists>y \<in> set ss. ses_sourceDeviceId x = ses_sourceDeviceId y \<and> ses_callerInfo x = ses_callerInfo y)"
  using assms
proof (induction ss)
  case Nil
  then show ?case by (simp add: new_session_def AddElement_def)
qed (auto split: if_splits)

text \<open>A session more at \<open>A\<close>, with the connection at \<open>B\<close> when the session is with \<open>B\<close>.\<close>

lemma ends_agree_add:
  assumes "ends_agree owner A B m p" and "from_owner owner A c k"
    and "dev = B \<Longrightarrow> \<exists>i. p' = map_emplace c i p \<and> from_owner owner A c (ci_callerInfo i)"
    and "dev \<noteq> B \<Longrightarrow> p' = p"
  shows "ends_agree owner A B (map_put c (add_to_sessions env A dev e k tc
    (case map_find c m of None \<Rightarrow> [] | Some ss \<Rightarrow> ss)) m) p'"
proof -
  let ?ss = "case map_find c m of None \<Rightarrow> [] | Some ss \<Rightarrow> ss"
  let ?m = "map_put c (add_to_sessions env A dev e k tc ?ss) m"
  have wf: "table_wf m" "table_wf ?m" using assms(1) by (auto simp: ends_agree_def intro: table_wf_add)
  have m: "ses_sourceDeviceId x = A \<and> from_owner owner A c' (ses_callerInfo x)"
    if "(c', ss) \<in> set m" "x \<in> set ss" for c' ss x
    using assms(1) that unfolding ends_agree_def by blast
  have old: "ses_sourceDeviceId x = A \<and> from_owner owner A c (ses_callerInfo x)" if "x \<in> set ?ss" for x
    using that m map_find_Some_mem by (cases "map_find c m") fastforce+
  have "ses_sourceDeviceId x = A \<and> from_owner owner A c' (ses_callerInfo x)"
    if "(c', ss) \<in> set ?m" "x \<in> set ss" for c' ss x
  proof (cases "c' = c")
    case True
    with that have "x \<in> set (add_to_sessions env A dev e k tc ?ss)" by auto
    from add_to_sessions_mem [OF this] show ?thesis using old assms(2) True by metis
  next
    case False
    with that m show ?thesis by auto
  qed
  moreover have "map_ok p' \<and> (\<forall>(c, i) \<in> set p'. from_owner owner A c (ci_callerInfo i)) \<and>
      map_keys p' = (if dev = B then insert c (map_keys p) else map_keys p)"
  proof (cases "dev = B")
    case True
    from assms(3) [OF this] obtain i where i: "p' = map_emplace c i p" "from_owner owner A c (ci_callerInfo i)"
      by blast
    have "set p' \<subseteq> insert (c, i) (set p)"
      unfolding i(1) by (auto simp: map_emplace_def split: option.split)
    with i assms(1) True show ?thesis by (auto simp: ends_agree_def)
  qed (use assms(1,4) in \<open>auto simp: ends_agree_def\<close>)
  ultimately show ?thesis
    using assms(1) wf(2) by (auto simp: ends_agree_def device_links_add split: if_splits)
qed

lemma ends_agree_erase:
  assumes "ends_agree owner A B m p"
  shows "ends_agree owner A B (map_erase c m) (map_erase c p)"
    and "(c, B) \<notin> device_links m \<Longrightarrow> ends_agree owner A B (map_erase c m) p"
proof -
  have "set (map_erase c m) \<subseteq> set m" "set (map_erase c p) \<subseteq> set p"
    by (auto simp: map_erase_def)
  with assms show "ends_agree owner A B (map_erase c m) (map_erase c p)"
    unfolding ends_agree_def by (fastforce simp: device_links_erase)
  from \<open>set (map_erase c m) \<subseteq> set m\<close> assms
  show "(c, B) \<notin> device_links m \<Longrightarrow> ends_agree owner A B (map_erase c m) p"
    unfolding ends_agree_def by (fastforce simp: device_links_erase)
qed

section \<open>The operations of the connecting device\<close>

lemma connect_loop_pair:
  assumes "linked env peer A B d0" and "from_owner owner A c k" and "accessToken k < 2 ^ 32"
    and "pair_inv owner peer A B d0 s"
  shows "pair_inv owner peer A B d0 (snd (connect_loop env n r want c k account dev s))"
  using assms(4)
proof (induction n arbitrary: r s)
  case (Suc n)
  let ?q = "RpcConnectAbility want c k account"
  let ?s1 = "log_ext [Rpc dev ?q] s"
  let ?s2 = "RemoteConnectAbilityMappingLocked env (Some c) (sourceDeviceId k) dev (want_element want) k
    HARMONY_COMPONENT ?s1"
  let ?x = "rpc_result env (history s) dev ?q"
  have src: "sourceDeviceId k = A" using assms(2) by (simp add: from_owner_def)
  obtain d where d: "peer_after peer B d0 (history s) = Some d"
    "ends_agree owner A B (distributedConnectAbilityMap s) (connectAbilityMap (d_sched d))"
    using Suc.prems by (auto simp: pair_inv_def)
  have "(?x \<noteq> ERR_OK \<longrightarrow> pair_inv owner peer A B d0 ?s1) \<and> (?x = ERR_OK \<longrightarrow> pair_inv owner peer A B d0 ?s2)"
  proof (cases "dev = B")
    case True
    obtain x s' where x: "serve (conv peer) ?q (d_sched d) = Some (x, s')"
      "x \<noteq> ERR_OK \<Longrightarrow> connectAbilityMap s' = connectAbilityMap (d_sched d)"
      "x = ERR_OK \<Longrightarrow> \<exists>i. connectAbilityMap s' = map_emplace c i (connectAbilityMap (d_sched d)) \<and>
        from_owner owner A c (ci_callerInfo i)"
      using serve_connect [OF assms(2), of "conv peer" want account "d_sched d"] by metis
    have fits: "rpc_fits ?q" using assms(3) by simp
    note req = linked_request [OF assms(1) d(1) fits x(1)]
    have "pair_inv owner peer A B d0 ?s1" if "x \<noteq> ERR_OK"
      using req(2) d(2) x(2) [OF that] True by (simp add: pair_inv_def)
    moreover have "pair_inv owner peer A B d0 ?s2" if "x = ERR_OK"
    proof -
      have "peer_after peer B d0 (history ?s2) = peer_after peer B d0 (history ?s1)"
        by (rule peer_after_cong) simp
      moreover have "peer_after peer B d0 (history ?s1) = Some (d\<lparr>d_sched := s'\<rparr>)"
        using req(2) True by simp
      moreover have "ends_agree owner A B (distributedConnectAbilityMap ?s2) (connectAbilityMap s')"
        unfolding Mapping_tables src log_ext_frame
        by (rule ends_agree_add [OF d(2) assms(2)]) (use x(3) that True in auto)
      ultimately show ?thesis by (simp add: pair_inv_def)
    qed
    ultimately show ?thesis using req(1) True by auto
  next
    case False
    have "peer_after peer B d0 (history ?s2) = peer_after peer B d0 (history ?s1)"
      by (rule peer_after_cong) simp
    moreover have "peer_after peer B d0 (history ?s1) = Some d"
      using d(1) False by simp
    moreover have "ends_agree owner A B (distributedConnectAbilityMap ?s2) (connectAbilityMap (d_sched d))"
      unfolding Mapping_tables src log_ext_frame
      by (rule ends_agree_add [OF d(2) assms(2)]) (use False in auto)
    ultimately show ?thesis using d(2) by (simp add: pair_inv_def)
  qed
  with Suc.IH show ?case by (auto simp: call_eq Let_def)
qed simp

lemma connect_pair:
  assumes "linked env peer A B d0" and "owner c = (u, p)" and "tok < 2 ^ 32" and "pair_inv owner peer A B d0 s"
  shows "pair_inv owner peer A B d0 (snd (ConnectRemoteAbility env want (Some c) u p tok s))"
proof -
  have "from_owner owner A c k \<and> accessToken k < 2 ^ 32"
    if "caller_with_bundles env (history s) (default_CallerInfo\<lparr>uid := u, pid := p,
      callerType := CALLER_TYPE_HARMONY, sourceDeviceId := A, accessToken := tok\<rparr>) = Some k" for k
    using that assms(2,3) by (auto simp: caller_with_bundles_def from_owner_def split: option.splits)
  with assms(1,4) show ?thesis
    using connect_loop_pair [OF assms(1) _ _ assms(4)]
    by (auto simp: ConnectRemoteAbility_def TryConnectRemoteAbility_def Let_def linked_def GetLocalDeviceId_def
        split: option.split prod.split)
qed

text \<open>Disconnecting tells \<open>B\<close> when one of the sessions was with it.\<close>

lemma disconnect_sessions_pair:
  assumes "linked env peer A B d0" and "steady env up" and "up B"
    and "\<forall>x \<in> set ss. ses_sourceDeviceId x = A" and "peer_after peer B d0 (history s) = Some d"
  shows "\<exists>d'. peer_after peer B d0 (history (disconnect_sessions env c ss s)) = Some d' \<and>
    connectAbilityMap (d_sched d') = (if B \<in> set (devices ss) then map_erase c (connectAbilityMap (d_sched d))
      else connectAbilityMap (d_sched d))"
  using assms(4,5)
proof (induction ss arbitrary: s d)
  case (Cons x ss)
  let ?dev = "ses_destinationDeviceId x"
  let ?s1 = "snd (DisconnectEachRemoteAbilityLocked env (ses_sourceDeviceId x) ?dev c s)"
  have src: "ses_sourceDeviceId x = A" using Cons.prems(1) by simp
  have "\<exists>d1. peer_after peer B d0 (history ?s1) = Some d1 \<and>
      connectAbilityMap (d_sched d1) =
        (if ?dev = B then map_erase c (connectAbilityMap (d_sched d)) else connectAbilityMap (d_sched d))"
  proof (cases "?dev = B")
    case True
    have l: "A \<noteq> []" "B \<noteq> []" "A \<noteq> B" "\<And>h. local_device (conv peer) h = Some B"
      using assms(1) by (simp_all add: linked_def)
    let ?q = "RpcDisconnectAbility c (calling_uid env (history s)) A"
    obtain y s' where y: "serve (conv peer) ?q (d_sched d) = Some (y, s')"
      "connectAbilityMap s' = map_erase c (connectAbilityMap (d_sched d))"
      using serve_disconnect [OF l(4) l(1,2,3)] by metis
    have "rpc_fits ?q" by simp
    from linked_request(2) [OF assms(1) Cons.prems(2) this y(1)] y(2) True src l(2) assms(3)
    show ?thesis by (simp add: DisconnectEachRemoteAbilityLocked_def steady_dms [OF assms(2)] call_eq)
  next
    case False
    with Cons.prems(2) show ?thesis
      by (simp add: DisconnectEachRemoteAbilityLocked_def steady_dms [OF assms(2)] call_eq)
  qed
  then obtain d1 where d1: "peer_after peer B d0 (history ?s1) = Some d1"
    "connectAbilityMap (d_sched d1) =
      (if ?dev = B then map_erase c (connectAbilityMap (d_sched d)) else connectAbilityMap (d_sched d))"
    by blast
  have erase2: "map_erase c (map_erase c p) = map_erase c p" for p :: "(robj, ConnectInfo) stdmap"
    by (simp add: map_erase_def)
  from Cons.IH [OF _ d1(1)] Cons.prems(1) show ?case
    by (auto simp: d1(2) erase2)
qed simp

lemma disconnect_pair:
  assumes "linked env peer A B d0" and "steady env up" and "up B" and "pair_inv owner peer A B d0 s"
  shows "pair_inv owner peer A B d0 (snd (DisconnectRemoteAbility env connect s))"
proof (cases "\<exists>c ss. connect = Some c \<and> map_find c (distributedConnectAbilityMap s) = Some ss")
  case True
  then obtain c ss where c: "connect = Some c" "map_find c (distributedConnectAbilityMap s) = Some ss"
    by blast
  obtain d where d: "peer_after peer B d0 (history s) = Some d"
    "ends_agree owner A B (distributedConnectAbilityMap s) (connectAbilityMap (d_sched d))"
    using assms(4) by (auto simp: pair_inv_def)
  have ss: "ss \<noteq> []" "\<forall>x \<in> set ss. ses_sourceDeviceId x = A"
    using d(2) map_find_Some_mem [OF c(2)] table_wf_find [OF _ c(2)] unfolding ends_agree_def by blast+
  let ?s4 = "(ReportCaller env (ses_callerInfo (hd ss)) DISTRIBUTED_COMPONENT_REMOVE CONNECT CALLER
      (log_ext [RemoveDeathRecipientFrom c ConnectRecipient] (DecreaseConnectLocked (GetUidLocked ss) s)))
      \<lparr>distributedConnectAbilityMap := map_erase c (distributedConnectAbilityMap s)\<rparr>"
  have run: "snd (DisconnectRemoteAbility env connect s) = disconnect_sessions env c ss ?s4"
    using c ss(1) by (simp add: DisconnectRemoteAbility_def Let_def DecreaseConnectLocked_dec)
  have "peer_after peer B d0 (history ?s4) = Some d"
    using d(1) peer_after_cong [of "history ?s4" "history s"] by simp
  from disconnect_sessions_pair [OF assms(1-3) ss(2) this, of c]
  obtain d' where d': "peer_after peer B d0 (history (disconnect_sessions env c ss ?s4)) = Some d'"
    "connectAbilityMap (d_sched d') = (if B \<in> set (devices ss) then map_erase c (connectAbilityMap (d_sched d))
      else connectAbilityMap (d_sched d))"
    by blast
  have "(c, B) \<in> device_links (distributedConnectAbilityMap s) \<longleftrightarrow> B \<in> set (devices ss)"
    using c(2) by (simp add: device_links_def)
  with ends_agree_erase [OF d(2), of c] d' show ?thesis
    unfolding run by (auto simp: pair_inv_def)
next
  case False
  then have "snd (DisconnectRemoteAbility env connect s) = s"
    by (auto simp: DisconnectRemoteAbility_def split: option.split)
  with assms(4) show ?thesis by simp
qed

text \<open>When a process dies its objects leave both ends.\<close>

lemma ends_agree_died:
  assumes "ends_agree owner A B m p"
  shows "ends_agree owner A B (filter (\<lambda>(c, ss). owner c \<noteq> o') m) (filter (\<lambda>(c, i). owner c \<noteq> o') p)"
proof -
  have find: "map_find c (filter (\<lambda>(c, ss). owner c \<noteq> o') q) = (if owner c = o' then None else map_find c q)"
    for c and q :: "(robj, 'x) stdmap"
    by (induction q) auto
  have "c \<in> map_keys (filter (\<lambda>(c, i). owner c \<noteq> o') p) \<longleftrightarrow> owner c \<noteq> o' \<and> c \<in> map_keys p" for c
    using find [of c p] map_find_None_iff [of c p] map_find_None_iff [of c "filter (\<lambda>(c, i). owner c \<noteq> o') p"]
    by (auto split: if_splits simp del: map_find_None_iff)
  moreover have "table_wf (filter (\<lambda>(c, ss). owner c \<noteq> o') m)"
    using assms by (auto simp: ends_agree_def table_wf_def)
  ultimately show ?thesis
    using assms by (auto simp: ends_agree_def device_links_def find)
qed

lemma died_pair:
  assumes "linked env peer A B d0" and "steady env up" and "up B" and "pair_inv owner peer A B d0 s"
  shows "pair_inv owner peer A B d0 (ProcessConnectDied env connect s)"
proof (cases "\<exists>c x xs. connect = Some c \<and> map_find c (distributedConnectAbilityMap s) = Some (x # xs)")
  case True
  then obtain c x xs where c: "connect = Some c" "map_find c (distributedConnectAbilityMap s) = Some (x # xs)"
    by blast
  let ?m = "distributedConnectAbilityMap s" and ?k = "ses_callerInfo x"
  let ?o = "(uid ?k, pid ?k)" and ?s = "ProcessConnectDied env (Some c) s"
  obtain d where d: "peer_after peer B d0 (history s) = Some d" "ends_agree owner A B ?m (connectAbilityMap (d_sched d))"
    using assms(4) by (auto simp: pair_inv_def)
  have sess: "from_owner owner A c' (ses_callerInfo y)" if "(c', ss) \<in> set ?m" "y \<in> set ss" for c' ss y
    using d(2) that unfolding ends_agree_def by blast
  have k: "from_owner owner A c ?k" using sess map_find_Some_mem [OF c(2)] by simp
  have same: "(ss \<noteq> [] \<and> IsSameCaller ?k (hd ss)) \<longleftrightarrow> owner c' = ?o" if "(c', ss) \<in> set ?m" for c' ss
  proof -
    have "ss \<noteq> []" using d(2) that by (auto simp: ends_agree_def table_wf_def)
    with sess [OF that, of "hd ss"] k show ?thesis by (auto simp: IsSameCaller_def from_owner_def)
  qed
  obtain ds where ds: "distinct ds"
    "set ds = {e. \<exists>(c, ss) \<in> set ?m. ss \<noteq> [] \<and> IsSameCaller ?k (hd ss) \<and> e \<in> set (devices ss)}"
    "rpc_calls (history ?s) = rpc_calls (history s) @ map (\<lambda>d. (d, RpcProcessDied ?k)) (reachable_of up ds)"
    and m: "distributedConnectAbilityMap ?s = filter (\<lambda>(c, ss). \<not> (ss \<noteq> [] \<and> IsSameCaller ?k (hd ss))) ?m"
    using ProcessConnectDied_requests [OF assms(2) c(2)] unfolding Let_def by blast
  have m: "distributedConnectAbilityMap ?s = filter (\<lambda>(c, ss). owner c \<noteq> ?o) ?m"
    unfolding m by (rule filter_cong) (use same in auto)
  have told: "B \<in> set ds \<longleftrightarrow> (\<exists>c'. owner c' = ?o \<and> (c', B) \<in> device_links ?m)"
  proof -
    have "map_find c' ?m = Some ss \<longleftrightarrow> (c', ss) \<in> set ?m" for c' ss
      using d(2) by (auto simp: ends_agree_def table_wf_def map_find_def map_of_eq_Some_iff map_ok_distinct)
    moreover have "B \<in> set ds \<longleftrightarrow> (\<exists>c' ss. (c', ss) \<in> set ?m \<and> owner c' = ?o \<and> B \<in> set (devices ss))"
    proof -
      have "B \<in> set ds \<longleftrightarrow> (\<exists>c' ss. (c', ss) \<in> set ?m \<and> (ss \<noteq> [] \<and> IsSameCaller ?k (hd ss)) \<and> B \<in> set (devices ss))"
        unfolding ds(2) mem_Collect_eq by (simp only: Bex_def split_paired_Ex case_prod_conv conj_assoc)
      then show ?thesis using same by (simp cong: conj_cong)
    qed
    ultimately show ?thesis by (auto simp: device_links_def)
  qed
  have B: "B \<noteq> []" using assms(1) by (simp add: linked_def)
  have "requests_to B (history ?s) = requests_to B (history s) @ (if B \<in> set ds then [RpcProcessDied ?k] else [])"
  proof -
    have "map snd (filter (\<lambda>(d, r). d = B) (map (\<lambda>d. (d, RpcProcessDied ?k)) (reachable_of up es))) =
        (if B \<in> set es then [RpcProcessDied ?k] else [])" if "distinct es" for es
      using that assms(3) B by (induction es) (auto simp: reachable_of_def)
    from this [OF ds(1)] show ?thesis by (simp add: requests_to_def ds(3))
  qed
  then have after: "peer_after peer B d0 (history ?s) =
      (if B \<in> set ds then peer_after peer B d0 (history s @ [Rpc B (RpcProcessDied ?k)]) else Some d)"
    using d(1) by (simp add: peer_after_def requests_to_def)
  let ?p = "connectAbilityMap (d_sched d)"
  have p: "owner c' \<noteq> ?o" if "B \<notin> set ds" "(c', i) \<in> set ?p" for c' i
  proof -
    have "c' \<in> map_keys ?p" using that(2) by (force simp: map_keys_def)
    then have "(c', B) \<in> device_links ?m" using d(2) by (simp add: ends_agree_def)
    with told that(1) show ?thesis by blast
  qed
  have "\<exists>d'. peer_after peer B d0 (history ?s) = Some d' \<and>
      connectAbilityMap (d_sched d') = filter (\<lambda>(c, i). owner c \<noteq> ?o) ?p"
  proof (cases "B \<in> set ds")
    case True
    obtain y s' where y: "serve (conv peer) (RpcProcessDied ?k) (d_sched d) = Some (y, s')"
      "connectAbilityMap s' =
        filter (\<lambda>(c, i). \<not> same_process ((sender ?k)\<lparr>pid := pid ?k, callerAppId := []\<rparr>) i) ?p"
      using serve_died [of "conv peer" ?k "d_sched d"] by metis
    have "connectAbilityMap s' = filter (\<lambda>(c, i). owner c \<noteq> ?o) ?p"
      unfolding y(2)
    proof (rule filter_cong)
      fix e assume "e \<in> set ?p"
      then have "from_owner owner A (fst e) (ci_callerInfo (snd e))"
        using d(2) by (auto simp: ends_agree_def)
      with k show "(case e of (c, i) \<Rightarrow> \<not> same_process ((sender ?k)\<lparr>pid := pid ?k, callerAppId := []\<rparr>) i) =
          (case e of (c, i) \<Rightarrow> owner c \<noteq> ?o)"
        using died_of_owner [of owner A "fst e" "snd e" ?k] by (auto simp: from_owner_def split: prod.split)
    qed simp
    with linked_request(2) [OF assms(1) d(1) _ y(1)] show ?thesis
      using True by (simp add: after)
  next
    case False
    with p have "filter (\<lambda>(c, i). owner c \<noteq> ?o) ?p = ?p" by (auto intro!: filter_True)
    with False show ?thesis by (simp add: after)
  qed
  with ends_agree_died [OF d(2), of ?o] m show ?thesis
    unfolding c(1) by (auto simp: pair_inv_def)
next
  case False
  then have "ProcessConnectDied env connect s = s"
    by (auto simp: ProcessConnectDied_def split: option.split list.split)
  with assms(4) show ?thesis by simp
qed

text \<open>A third device that goes offline.\<close>

lemma report_free_install_rpc [simp]:
  "rpc_calls (snd (NotifyFreeInstallResult env item r h)) = rpc_calls h"
  by (auto simp: NotifyFreeInstallResult_def split: option.split)

lemma offline_loop_rpc: "rpc_calls (fst (offline_loop env handler dev m h)) = rpc_calls h"
  by (induction env handler dev m h rule: offline_loop.induct) (auto simp: Let_def split_beta)

lemma adapter_rpc [simp]: "rpc_calls (history (snd (adapter_DisconnectAbility env c s))) = rpc_calls (history s)"
  by (simp add: adapter_DisconnectAbility_def call_eq Let_def)

lemma tell_offline_rpc [simp]:
  "rpc_calls (history (NotifyDeviceOfflineToAppLocked env c es s)) = rpc_calls (history s)"
  by (induction env c es s rule: NotifyDeviceOfflineToAppLocked.induct) (auto simp: NotifyApp_def split: option.split)

lemma offline_connects_rpc:
  "rpc_calls (history (snd (offline_connects env dev m s))) = rpc_calls (history s)"
  by (induction m arbitrary: s) (auto simp: Let_def split_beta split: option.split)

lemma offline_callees_rpc:
  "rpc_calls (history (snd (offline_callees env dev m s))) = rpc_calls (history s)"
  by (induction m arbitrary: s) (auto simp: Let_def split_beta split: option.split)

lemma offline_callers_rpc:
  "rpc_calls (history (snd (offline_callers env dev m s))) = rpc_calls (history s)"
  by (induction m arbitrary: s) (auto simp: Let_def split_beta split: option.split)

lemma offline_rpc: "rpc_calls (history (ProcessDeviceOffline env dev s)) = rpc_calls (history s)"
  by (simp add: ProcessDeviceOffline_def ProcessFreeInstallOffline_def ProcessCalleeOffline_def Let_def split_beta
      task_NotifyDeviceOffline_def offline_loop_rpc offline_callers_rpc offline_callees_rpc offline_connects_rpc
      split: option.split)

lemma offline_table:
  assumes "table_wf (distributedConnectAbilityMap s)"
  shows "distributedConnectAbilityMap (ProcessDeviceOffline env dev s) \<in>
    {distributedConnectAbilityMap s, without_device dev (distributedConnectAbilityMap s)}"
proof -
  have "fst (offline_connects env dev m s') = without_device dev m" if "table_wf m" for m s'
    using that by (induction m arbitrary: s') (auto simp: table_wf_Cons take_session_distinct Let_def split_beta)
  from this [OF assms, of s] show ?thesis
    by (auto simp: ProcessDeviceOffline_def ProcessCalleeOffline_def Let_def split_beta
        offline_callees_frame offline_callers_frame split: option.split)
qed

lemma offline_pair:
  assumes "dev \<noteq> B" and "pair_inv owner peer A B d0 s"
  shows "pair_inv owner peer A B d0 (ProcessDeviceOffline env dev s)"
proof -
  let ?m = "distributedConnectAbilityMap s"
  obtain d where d: "peer_after peer B d0 (history s) = Some d" "ends_agree owner A B ?m (connectAbilityMap (d_sched d))"
    using assms(2) by (auto simp: pair_inv_def)
  have wf: "table_wf ?m" using d(2) by (simp add: ends_agree_def)
  have "\<exists>ss'. (c, ss') \<in> set ?m \<and> set ss \<subseteq> set ss'" if "(c, ss) \<in> set (without_device dev ?m)" for c ss
    using that by (auto simp: without_device_def)
  then have "ends_agree owner A B (without_device dev ?m) (connectAbilityMap (d_sched d))"
    using d(2) assms(1) without_device_wf [OF wf, of dev] device_links_without [OF wf, of dev]
    unfolding ends_agree_def by (fastforce simp del: without_device_simps)
  with offline_table [OF wf, of env dev] d peer_after_cong [OF offline_rpc, of peer B d0 env dev s] show ?thesis
    by (auto simp: pair_inv_def)
qed

section \<open>All runs\<close>

text \<open>
  What \<open>A\<close> may be asked: to connect an object for the process it belongs to, with a token that
  fits, to disconnect, to forget a process that died or a device other than \<open>B\<close> that left, and
  to report components.
\<close>

fun pair_request :: "(robj \<Rightarrow> int \<times> int) \<Rightarrow> string \<Rightarrow> sched_req \<Rightarrow> bool" where
  "pair_request owner B (ReqConnect w (Some c) u p t) = (owner c = (u, p) \<and> t < 2 ^ 32)"
| "pair_request owner B (ReqConnect w None u p t) = True"
| "pair_request owner B (ReqDisconnect c) = True"
| "pair_request owner B (ReqConnectDied c) = True"
| "pair_request owner B (ReqDeviceOffline dev) = (dev \<noteq> B)"
| "pair_request owner B (ReqRegisterListener l) = True"
| "pair_request owner B ReqComponentTask = True"
| "pair_request owner B r = False"

definition paired ::
  "(robj \<Rightarrow> int \<times> int) \<Rightarrow> env \<Rightarrow> menv \<Rightarrow> string \<Rightarrow> string \<Rightarrow> (string \<Rightarrow> bool) \<Rightarrow> dms \<Rightarrow> sched option \<Rightarrow> bool" where
  "paired owner env peer A B up d0 st =
     (linked env peer A B d0 \<and> steady env up \<and> up B \<and> (\<exists>s. st = Some s \<and> pair_inv owner peer A B d0 s))"

lemma connect_null: "snd (ConnectRemoteAbility env want None u p tok s) = s"
  by (auto simp: ConnectRemoteAbility_def TryConnectRemoteAbility_def Let_def split: option.split)

lemma component_rpc:
  "rpc_calls (history (snd (RegisterDistributedComponentListener l s))) = rpc_calls (history s)"
  "rpc_calls (history (run_component_task env s)) = rpc_calls (history s)"
  "distributedConnectAbilityMap (snd (RegisterDistributedComponentListener l s)) = distributedConnectAbilityMap s"
  "distributedConnectAbilityMap (run_component_task env s) = distributedConnectAbilityMap s"
  by (auto simp: RegisterDistributedComponentListener_def run_component_task_def Let_def
      split: list.splits option.splits)

interpretation pair_m: guarded_machine "sched_step env" "paired owner env peer A B up d0" "pair_request owner B"
  for owner env peer A B up d0
proof unfold_locales
  fix st r
  assume "paired owner env peer A B up d0 st" and r: "pair_request owner B r"
  then obtain s where s: "linked env peer A B d0" "steady env up" "up B" "st = Some s" "pair_inv owner peer A B d0 s"
    by (auto simp: paired_def)
  show "paired owner env peer A B up d0 (sched_step env st r)"
    using r s(1-3) connect_pair [OF s(1) _ _ s(5)] disconnect_pair [OF s(1-3,5)] died_pair [OF s(1-3,5)]
      offline_pair [OF _ s(5)] pair_inv_frame [OF s(5)] s(5)
    by (cases "(owner, B, r)" rule: pair_request.cases)
      (simp_all add: paired_def s(4) connect_null component_rpc)
qed

text \<open>
  C3: two schedulers agree on their connections. When device \<open>A\<close> runs any sequence of requests
  to connect and disconnect objects, of processes that die and of other devices that leave, and
  every message to device \<open>B\<close> is written by its proxy, read by the stub of \<open>B\<close>, run there and
  answered, then \<open>B\<close> always holds connections for exactly the objects that have a session
  with \<open>B\<close> at \<open>A\<close>, each filed under \<open>A\<close> and the process the object belongs to: retries, refusals
  and errors leave no connection at one end only, and disconnecting or dying leaves none behind.
\<close>

theorem both_ends_agree:
  assumes "linked env peer A B d0" and "connectAbilityMap (d_sched d0) = []" and "steady env up" and "up B"
    and "list_all (pair_request owner B) rs"
  shows "\<exists>s d. run (sched_step env) (Some initial_sched) rs = Some s \<and>
    peer_after peer B d0 (history s) = Some d \<and>
    map_keys (connectAbilityMap (d_sched d)) = {c. (c, B) \<in> device_links (distributedConnectAbilityMap s)} \<and>
    (\<forall>(c, i) \<in> set (connectAbilityMap (d_sched d)).
       owner c = (uid (ci_callerInfo i), pid (ci_callerInfo i)) \<and> sourceDeviceId (ci_callerInfo i) = A)"
proof -
  have "pair_inv owner peer A B d0 initial_sched"
    using assms(2) by (simp add: pair_inv_def initial_sched_def peer_after_def ends_agree_def)
  then have "paired owner env peer A B up d0 (Some initial_sched)"
    using assms(1,3,4) by (simp add: paired_def)
  from pair_m.run_allowed_inv [OF this assms(5)] obtain s d where
    "run (sched_step env) (Some initial_sched) rs = Some s" "peer_after peer B d0 (history s) = Some d"
    "ends_agree owner A B (distributedConnectAbilityMap s) (connectAbilityMap (d_sched d))"
    by (auto simp: paired_def pair_inv_def)
  moreover from this(3) have "map_keys (connectAbilityMap (d_sched d)) =
      {c. (c, B) \<in> device_links (distributedConnectAbilityMap s)}"
    "\<forall>(c, i) \<in> set (connectAbilityMap (d_sched d)).
       owner c = (uid (ci_callerInfo i), pid (ci_callerInfo i)) \<and> sourceDeviceId (ci_callerInfo i) = A"
    unfolding ends_agree_def from_owner_def by blast+
  ultimately show ?thesis by blast
qed

text \<open>Two linked schedulers.\<close>

definition pair_peer :: menv where
  "pair_peer = ipc_menv\<lparr>conv := ipc_sample\<lparr>local_device := \<lambda>h. Some ''B''\<rparr>\<rparr>"

definition pair_env :: env where
  "pair_env = ipc_sample\<lparr>rpc_result := \<lambda>h dev r.
     if dev = ''B'' then
       (case peer_after pair_peer ''B'' new_dms h of
          None \<Rightarrow> 0
        | Some d \<Rightarrow> (case deliver (conv pair_peer) (OnRemoteRequest pair_peer) r d of None \<Rightarrow> 0 | Some (x, d') \<Rightarrow> x))
     else 0\<rparr>"

lemma pair_env_fields:
  "local_device pair_env h = Some ''A''" "remote_dms pair_env h dev"
  "rpc_result pair_env h ''B'' r =
     (case peer_after pair_peer ''B'' new_dms h of
        None \<Rightarrow> 0
      | Some d \<Rightarrow> (case deliver (conv pair_peer) (OnRemoteRequest pair_peer) r d of None \<Rightarrow> 0 | Some (x, d') \<Rightarrow> x))"
  by (simp add: pair_env_def ipc_sample_def sample_env_def, simp add: pair_env_def ipc_sample_def sample_env_def,
      simp add: pair_env_def)

lemma pair_peer_fields: "local_device (conv pair_peer) h = Some ''B''" "asked_by_peer pair_peer d"
  by (simp add: pair_peer_def, simp add: pair_peer_def asked_by_peer_def CheckCallingUid_def HID_HAP_def
      ipc_sample_def sample_env_def)

lemma pair_linked: "linked pair_env pair_peer ''A'' ''B'' new_dms"
proof -
  have "good_parcels (e\<lparr>local_device := l\<rparr>) = good_parcels e" "good_extra (e\<lparr>local_device := l\<rparr>) = good_extra e"
    for e and l :: "hist \<Rightarrow> string option"
    by (cases e, simp only: good_parcels_def env.select_convs env.update_convs,
        cases e, simp only: good_extra_def env.select_convs env.update_convs)
  then have "good_parcels (conv pair_peer) = good_parcels ipc_sample" "good_extra (conv pair_peer) = good_extra ipc_sample"
    by (simp_all add: pair_peer_def)
  then have "good_parcels (conv pair_peer)" "good_extra (conv pair_peer)"
    using ipc_sample_parcels ipc_sample_extra by blast+
  moreover have "rpc_result pair_env h ''B'' r = x"
    if "peer_after pair_peer ''B'' new_dms h = Some d"
      "deliver (conv pair_peer) (OnRemoteRequest pair_peer) r d = Some (x, d')" for h r d x d'
    using that by (simp add: pair_env_fields(3))
  ultimately show ?thesis
    unfolding linked_def using pair_env_fields(1) pair_peer_fields by blast
qed

definition pair_caller :: CallerInfo where
  "pair_caller = default_CallerInfo\<lparr>uid := 5, pid := 7, callerType := CALLER_TYPE_HARMONY, sourceDeviceId := ''A'',
     callerAppId := ''app'', bundleNames := [''b'']\<rparr>"

definition pair_account :: AccountInfo where
  "pair_account = \<lparr>accountType = SAME_ACCOUNT_TYPE, groupIdList = [''g'']\<rparr>"

lemma pair_served:
  "\<exists>s'. serve (conv pair_peer) (RpcConnectAbility (SchedProps.sample_want ''B'') (Proxy 2) pair_caller pair_account)
     (d_sched new_dms) = Some (ERR_OK, s')"
  by (simp add: pair_peer_def new_dms_def sender_def pair_caller_def ConnectAbilityFromRemote_def call_from_remote_defs
      remote_sample_defs ipc_sample_def pair_account_def adapter_ConnectAbility_def call_eq
      CALLER_TYPE_HARMONY_def CALLER_TYPE_NONE_def Let_def)

lemma pair_connected:
  "fst (ConnectRemoteAbility pair_env (SchedProps.sample_want ''B'') (Some (Proxy 2)) 5 7 0 initial_sched) = ERR_OK"
proof -
  obtain s' where s': "serve (conv pair_peer) (RpcConnectAbility (SchedProps.sample_want ''B'') (Proxy 2) pair_caller
      pair_account) (d_sched new_dms) = Some (ERR_OK, s')"
    using pair_served by blast
  have "rpc_fits (RpcConnectAbility w x pair_caller pair_account)" for w x
    by (simp add: pair_caller_def default_CallerInfo_def)
  with linked_request(1) [OF pair_linked _ _ s', of "[]"]
  have "rpc_result pair_env [] ''B'' (RpcConnectAbility (SchedProps.sample_want ''B'') (Proxy 2) pair_caller
      pair_account) = ERR_OK"
    by (simp add: peer_after_def)
  moreover have "caller_with_bundles pair_env [] (default_CallerInfo\<lparr>uid := 5, pid := 7,
      callerType := CALLER_TYPE_HARMONY, sourceDeviceId := ''A'', accessToken := 0\<rparr>) = Some pair_caller"
    by (simp add: caller_with_bundles_def account_defs pair_caller_def pair_env_def ipc_sample_def sample_env_def
        default_CallerInfo_def err_defs)
  moreover have "GetAccountInfo pair_env [] ''B'' pair_caller = (ERR_OK, pair_account)"
    by (simp add: account_defs pair_caller_def pair_env_def ipc_sample_def sample_env_def pair_account_def
        default_AccountInfo_def err_defs Let_def)
  moreover have "history initial_sched = []" "trackingUidMap initial_sched = []"
    by (simp_all add: initial_sched_def)
  ultimately show ?thesis
    by (simp add: ConnectRemoteAbility_def TryConnectRemoteAbility_def GetLocalDeviceId_def pair_env_fields
        SchedProps.sample_want_def CheckDeviceId_def CheckDistributedConnectLocked_def GetRemoteDms_def
        BIND_CONNECT_RETRY_TIMES_def numeral_3_eq_3 call_eq Let_def err_defs)
qed

theorem both_ends_agree_witness:
  "\<exists>s d. run (sched_step pair_env) (Some initial_sched)
      [ReqConnect (SchedProps.sample_want ''B'') (Some (Proxy 2)) 5 7 0] = Some s \<and>
    peer_after pair_peer ''B'' new_dms (history s) = Some d \<and> map_keys (connectAbilityMap (d_sched d)) = {Proxy 2}"
proof -
  let ?w = "SchedProps.sample_want ''B''"
  obtain s' where c: "ConnectRemoteAbility pair_env ?w (Some (Proxy 2)) 5 7 0 initial_sched = (ERR_OK, s')"
    using pair_connected by (metis prod.collapse)
  have up: "steady pair_env (\<lambda>d. True)" by (simp add: steady_def pair_env_fields)
  have new: "connectAbilityMap (d_sched new_dms) = []" by (simp add: new_dms_def initial_sched_def)
  from both_ends_agree [OF pair_linked new up TrueI, of "\<lambda>c. (5, 7)" "[ReqConnect ?w (Some (Proxy 2)) 5 7 0]"]
  obtain d where "peer_after pair_peer ''B'' new_dms (history s') = Some d"
    "map_keys (connectAbilityMap (d_sched d)) = {c. (c, ''B'') \<in> device_links (distributedConnectAbilityMap s')}"
    by (auto simp: c)
  moreover have "device_links (distributedConnectAbilityMap s') = {(Proxy 2, ''B'')}"
    using ConnectRemoteAbility_links [OF c] by (simp add: initial_sched_def SchedProps.sample_want_def)
  ultimately show ?thesis by (auto simp: c)
qed

end
