(* ===== verification/ContinuationClient.thy ===== *)
theory ContinuationClient
  imports AbilityManagerIpc
begin

text \<open>
  The client library of the continuation manager,
  \<^verbatim>\<open>dtbabilitymgr/src/distributed_ability_manager_client.cpp\<close>: every operation looks the
  service up and goes through its proxy. \<open>samgr\<close> is whether there is a system ability manager,
  \<open>dms\<close> whether it has the service.
\<close>

definition GetDmsProxy :: "bool \<Rightarrow> bool \<Rightarrow> bool" where
  "GetDmsProxy samgr dms = (if \<not> samgr then False else dms)"

definition client_Register ::
  "dams_env \<Rightarrow> 's transport \<Rightarrow> bool \<Rightarrow> bool \<Rightarrow> ContinuationExtraParams option \<Rightarrow> 's \<Rightarrow>
   (int \<times> int option \<times> 's) option" where
  "client_Register env send samgr dms x s =
     (if \<not> GetDmsProxy samgr dms then Some (ipc_null_object env, None, s)
      else proxy_Register env send True x s)"

definition client_Unregister ::
  "dams_env \<Rightarrow> 's transport \<Rightarrow> bool \<Rightarrow> bool \<Rightarrow> int \<Rightarrow> 's \<Rightarrow> (int \<times> 's) option" where
  "client_Unregister env send samgr dms token s =
     (if \<not> GetDmsProxy samgr dms then Some (ipc_null_object env, s)
      else proxy_Unregister env send True token s)"

definition client_RegisterDeviceSelectionCallback ::
  "dams_env \<Rightarrow> 's transport \<Rightarrow> bool \<Rightarrow> bool \<Rightarrow> int \<Rightarrow> string \<Rightarrow> ptr \<Rightarrow> 's \<Rightarrow> (int \<times> 's) option" where
  "client_RegisterDeviceSelectionCallback env send samgr dms token cbType notifier s =
     (if \<not> GetDmsProxy samgr dms then Some (ipc_null_object env, s)
      else proxy_RegisterDeviceSelectionCallback env send True token cbType notifier s)"

definition client_UnregisterDeviceSelectionCallback ::
  "dams_env \<Rightarrow> 's transport \<Rightarrow> bool \<Rightarrow> bool \<Rightarrow> int \<Rightarrow> string \<Rightarrow> 's \<Rightarrow> (int \<times> 's) option" where
  "client_UnregisterDeviceSelectionCallback env send samgr dms token cbType s =
     (if \<not> GetDmsProxy samgr dms then Some (ipc_null_object env, s)
      else proxy_UnregisterDeviceSelectionCallback env send True token cbType s)"

definition client_UpdateConnectStatus ::
  "dams_env \<Rightarrow> 's transport \<Rightarrow> bool \<Rightarrow> bool \<Rightarrow> int \<Rightarrow> string \<Rightarrow> int \<Rightarrow> 's \<Rightarrow> (int \<times> 's) option" where
  "client_UpdateConnectStatus env send samgr dms token dev st s =
     (if \<not> GetDmsProxy samgr dms then Some (ipc_null_object env, s)
      else proxy_UpdateConnectStatus env send True token dev st s)"

definition client_StartDeviceManager ::
  "dams_env \<Rightarrow> 's transport \<Rightarrow> bool \<Rightarrow> bool \<Rightarrow> int \<Rightarrow> ContinuationExtraParams option \<Rightarrow> 's \<Rightarrow> (int \<times> 's) option" where
  "client_StartDeviceManager env send samgr dms token x s =
     (if \<not> GetDmsProxy samgr dms then Some (ipc_null_object env, s)
      else proxy_StartDeviceManager env send True token x s)"

text \<open>With the service behind it, a call of the client is the operation of the service.\<close>

lemma client_calls_service:
  assumes "good_ipc env" and "cbType \<noteq> []"
  shows "client_Register env (OnRemoteRequest env acc) True True x s = Some (Register env acc x s)"
    "client_Unregister env (OnRemoteRequest env acc) True True token s = Unregister env acc token s"
    "client_RegisterDeviceSelectionCallback env (OnRemoteRequest env acc) True True token cbType (Some n) s =
      RegisterDeviceSelectionCallback env acc token cbType (Some n) s"
    "client_UnregisterDeviceSelectionCallback env (OnRemoteRequest env acc) True True token cbType s =
      UnregisterDeviceSelectionCallback env acc token cbType s"
    "client_UpdateConnectStatus env (OnRemoteRequest env acc) True True token dev st s =
      Some (UpdateConnectStatus env acc token dev st s)"
    "client_StartDeviceManager env (OnRemoteRequest env acc) True True token x s =
      Some (StartDeviceManager env acc token x s)"
  using assms by (simp_all add: client_Register_def client_Unregister_def
      client_RegisterDeviceSelectionCallback_def client_UnregisterDeviceSelectionCallback_def
      client_UpdateConnectStatus_def client_StartDeviceManager_def GetDmsProxy_def
      proxy_Register_agrees proxy_simple_agree proxy_StartDeviceManager_agrees)

end
