(* ===== verification/JsBindings.thy ===== *)
theory JsBindings
  imports ContinuationClient
begin

text \<open>
  The JavaScript interface of the continuation manager,
  \<^verbatim>\<open>interfaces/kits/napi/continuation_manager/\<close>: \<^verbatim>\<open>js_continuation_manager.cpp\<close> reads the
  arguments of a call and calls the client library, in a task when the call is asynchronous;
  \<^verbatim>\<open>js_device_selection_listener.cpp\<close> is the notifier that calls the application's functions
  back. The engine is a parameter (\<open>js_engine\<close>) over the type of its values: what it converts
  and makes is not under the control of this code. A null pointer that is followed is \<open>None\<close>.
\<close>

section \<open>The engine\<close>

text \<open>The kinds of values the code tells apart; the others are one.\<close>

datatype js_type =
    NapiUndefined
  | NapiBoolean
  | NapiNumber
  | NapiString
  | NapiObject
  | NapiOther

text \<open>An entry of the JSON objects the code builds.\<close>

datatype json_value = JsonString string | JsonBool bool | JsonInt int

text \<open>
  \<open>to_int32\<close>, \<open>to_text\<close> and \<open>to_status\<close> are \<^verbatim>\<open>ConvertFromJsValue\<close>, the properties
  \<open>strings_property\<close>, \<open>string_property\<close>, \<open>int_property\<close> the helpers of \<^verbatim>\<open>napi_common_util.h\<close>.
  The names of the properties of a value that is no object are none. \<open>dump_json\<close> is the text
  of an object by keys; with no entry it is the text of null.
\<close>

record 'v js_engine =
  type_of :: "'v \<Rightarrow> js_type"
  is_callable :: "'v \<Rightarrow> bool"
  to_int32 :: "'v \<Rightarrow> int option"
  to_text :: "'v \<Rightarrow> string option"
  to_status :: "'v \<Rightarrow> int option"
  named_property :: "'v \<Rightarrow> string \<Rightarrow> 'v"
  property_names :: "'v \<Rightarrow> 'v list"
  value_text :: "'v \<Rightarrow> string"
  value_bool :: "'v \<Rightarrow> bool"
  value_int32 :: "'v \<Rightarrow> int option"
  strings_property :: "'v \<Rightarrow> string \<Rightarrow> string list option"
  string_property :: "'v \<Rightarrow> string \<Rightarrow> string option"
  int_property :: "'v \<Rightarrow> string \<Rightarrow> int option"
  dump_json :: "(string, json_value) stdmap \<Rightarrow> string"
  undefined_value :: 'v
  number_value :: "int \<Rightarrow> 'v"
  string_value :: "string \<Rightarrow> 'v"
  error_value :: "int \<Rightarrow> string \<Rightarrow> 'v"
  new_object :: 'v
  with_property :: "'v \<Rightarrow> string \<Rightarrow> 'v \<Rightarrow> 'v"
  array_value :: "'v list \<Rightarrow> 'v"
  napi_object :: "'v option"
  napi_text :: "string \<Rightarrow> 'v option"
  napi_int32 :: "int \<Rightarrow> 'v option"
  napi_set :: "'v \<Rightarrow> 'v \<Rightarrow> 'v \<Rightarrow> 'v option"
  stub_object :: "nat \<Rightarrow> robj"

text \<open>How the client library reaches the service; availability may change with its state.\<close>

record 's dms_link =
  link_env :: dams_env
  link_send :: "'s transport"
  link_samgr :: "'s \<Rightarrow> bool"
  link_dms :: "'s \<Rightarrow> bool"

section \<open>State\<close>

text \<open>
  A task of the engine: the completion of an asynchronous call, with what its lambda has
  captured and the last argument (the application's function, or none for a promise), or
  the notice of a listener.
\<close>

datatype 'v js_task =
    CompleteRegister ContinuationExtraParams nat int "'v option"
  | CompleteUnregister int int "'v option"
  | CompleteUpdate int string int int "'v option"
  | CompleteStart int ContinuationExtraParams nat int "'v option"
  | CallListenerConnect nat string "ContinuationResult list"
  | CallListenerDisconnect nat string "string list"

datatype 'v js_event =
    Resolved "'v option" 'v
  | Rejected "'v option" 'v
  | Called 'v "'v list"

text \<open>
  \<open>jsCbMap\<close>: per token and callback type the function and the listener, a number into
  \<open>listenerMaps\<close>, which has the functions of each listener.
\<close>

record 'v js_state =
  jsCbMap :: "(int, (string, 'v \<times> nat) stdmap) stdmap"
  listenerMaps :: "(nat, (string, 'v) stdmap) stdmap"
  listener_count :: nat
  js_tasks :: "'v js_task list"
  js_log :: "'v js_event list"

definition new_js :: "'v js_state" where
  "new_js = \<lparr>jsCbMap = [], listenerMaps = [], listener_count = 0, js_tasks = [], js_log = []\<rparr>"

definition Schedule :: "'v js_task \<Rightarrow> 'v js_state \<Rightarrow> 'v js_state" where
  "Schedule t j = j\<lparr>js_tasks := js_tasks j @ [t]\<rparr>"

definition js_emit :: "'v js_event \<Rightarrow> 'v js_state \<Rightarrow> 'v js_state" where
  "js_emit e j = j\<lparr>js_log := js_log j @ [e]\<rparr>"

definition ERR_NOT_OK :: int where "ERR_NOT_OK = - 1"
definition ARG_COUNT_ONE :: nat where "ARG_COUNT_ONE = 1"
definition ARG_COUNT_TWO :: nat where "ARG_COUNT_TWO = 2"
definition ARG_COUNT_THREE :: nat where "ARG_COUNT_THREE = 3"

section \<open>Extra parameters\<close>

text \<open>The loop over the names of the properties; an unsupported value is skipped.\<close>

fun PraseJson ::
  "'v js_engine \<Rightarrow> 'v \<Rightarrow> 'v list \<Rightarrow> (string, json_value) stdmap \<Rightarrow> (string, json_value) stdmap" where
  "PraseJson e jsonField [] json = json"
| "PraseJson e jsonField (n # ns) json =
     (let name = value_text e n;
          v = named_property e jsonField name;
          json' =
            (case type_of e v of
               NapiString \<Rightarrow> map_put name (JsonString (value_text e v)) json
             | NapiBoolean \<Rightarrow> map_put name (JsonBool (value_bool e v)) json
             | NapiNumber \<Rightarrow>
                 (case value_int32 e v of
                    None \<Rightarrow> json
                  | Some i \<Rightarrow> map_put name (JsonInt i) json)
             | _ \<Rightarrow> json)
      in PraseJson e jsonField ns json')"

definition UnwrapJsonByPropertyName ::
  "'v js_engine \<Rightarrow> 'v \<Rightarrow> string \<Rightarrow> (string, json_value) stdmap option" where
  "UnwrapJsonByPropertyName e param field =
     (if type_of e param \<noteq> NapiObject then None
      else
        let jsonField = named_property e param field
        in if type_of e jsonField \<noteq> NapiObject \<and> type_of e jsonField \<noteq> NapiUndefined then None
           else Some (PraseJson e jsonField
                  (if type_of e jsonField = NapiObject then property_names e jsonField else []) []))"

definition new_extra :: ContinuationExtraParams where
  "new_extra = \<lparr>extra_deviceTypeVec = [], extra_targetBundle = [], extra_description = [],
     extra_filter = [], extra_continuationMode = 0, extra_authInfo = []\<rparr>"

definition UnWrapContinuationExtraParams ::
  "'v js_engine \<Rightarrow> 'v \<Rightarrow> ContinuationExtraParams \<Rightarrow> bool \<times> ContinuationExtraParams" where
  "UnWrapContinuationExtraParams e options x =
     (if type_of e options \<noteq> NapiObject then (False, x)
      else
        let x1 = (case strings_property e options ''deviceType'' of
                    None \<Rightarrow> x | Some ts \<Rightarrow> x\<lparr>extra_deviceTypeVec := ts\<rparr>);
            x2 = (case string_property e options ''targetBundle'' of
                    None \<Rightarrow> x1 | Some t \<Rightarrow> x1\<lparr>extra_targetBundle := t\<rparr>);
            x3 = (case string_property e options ''description'' of
                    None \<Rightarrow> x2 | Some t \<Rightarrow> x2\<lparr>extra_description := t\<rparr>)
        in (case UnwrapJsonByPropertyName e options ''filter'' of
              None \<Rightarrow> (False, x3)
            | Some flt \<Rightarrow>
                let x4 = x3\<lparr>extra_filter := dump_json e flt\<rparr>;
                    x5 = (case int_property e options ''continuationMode'' of
                            None \<Rightarrow> x4 | Some m \<Rightarrow> x4\<lparr>extra_continuationMode := m\<rparr>);
                    x6 = (case UnwrapJsonByPropertyName e options ''authInfo'' of
                            None \<Rightarrow> x5 | Some auth \<Rightarrow> x5\<lparr>extra_authInfo := dump_json e auth\<rparr>)
                in (True, x6)))"

section \<open>Asynchronous calls\<close>

text \<open>
  The code checks argument by argument; once \<open>errCode\<close> is set, the rest is not read. What a
  call returns at once, a promise or undefined, is made by the runtime.
\<close>

definition last_param :: "nat \<Rightarrow> 'v list \<Rightarrow> 'v option" where
  "last_param n argv = (if length argv \<le> n then None else Some (argv ! n))"

definition read_arg :: "int \<Rightarrow> 'a \<Rightarrow> ('v \<Rightarrow> 'a option) \<Rightarrow> 'v list \<Rightarrow> nat \<Rightarrow> int \<times> 'a" where
  "read_arg errCode d convert argv i =
     (if errCode \<noteq> 0 then (errCode, d)
      else (case convert (argv ! i) of None \<Rightarrow> (ERR_NOT_OK, d) | Some a \<Rightarrow> (errCode, a)))"

definition OnRegister :: "'v js_engine \<Rightarrow> 'v list \<Rightarrow> 'v js_state \<Rightarrow> 'v js_state" where
  "OnRegister e argv j =
     (let (x, unwrapArgc, errCode) =
            (if 0 < length argv \<and> type_of e (argv ! 0) = NapiObject then
               (let (ok, x) = UnWrapContinuationExtraParams e (argv ! 0) new_extra
                in (x, 1, if ok then 0 else ERR_NOT_OK))
             else (new_extra, 0, 0))
      in Schedule (CompleteRegister x unwrapArgc errCode (last_param unwrapArgc argv)) j)"

definition OnUnregister :: "'v js_engine \<Rightarrow> 'v list \<Rightarrow> 'v js_state \<Rightarrow> 'v js_state" where
  "OnUnregister e argv j =
     (let errCode = (if length argv = 0 then ERR_NOT_OK else 0);
          (errCode, token) = read_arg errCode (- 1) (to_int32 e) argv 0
      in Schedule (CompleteUnregister token errCode (last_param ARG_COUNT_ONE argv)) j)"

definition OnUpdateConnectStatus :: "'v js_engine \<Rightarrow> 'v list \<Rightarrow> 'v js_state \<Rightarrow> 'v js_state" where
  "OnUpdateConnectStatus e argv j =
     (let errCode = (if length argv < ARG_COUNT_THREE then ERR_NOT_OK else 0);
          (errCode, token) = read_arg errCode (- 1) (to_int32 e) argv 0;
          (errCode, dev) = read_arg errCode [] (to_text e) argv ARG_COUNT_ONE;
          (errCode, st) = read_arg errCode IDLE (to_status e) argv ARG_COUNT_TWO
      in Schedule (CompleteUpdate token dev st errCode (last_param ARG_COUNT_THREE argv)) j)"

definition OnStartDeviceManager :: "'v js_engine \<Rightarrow> 'v list \<Rightarrow> 'v js_state \<Rightarrow> 'v js_state" where
  "OnStartDeviceManager e argv j =
     (let errCode = (if length argv < ARG_COUNT_ONE then ERR_NOT_OK else 0);
          (errCode, token) = read_arg errCode (- 1) (to_int32 e) argv 0;
          (x, unwrapArgc, errCode) =
            (if ARG_COUNT_ONE < length argv \<and> type_of e (argv ! ARG_COUNT_ONE) = NapiObject then
               (let (ok, x) = UnWrapContinuationExtraParams e (argv ! ARG_COUNT_ONE) new_extra
                in (x, ARG_COUNT_ONE + 1, if ok then errCode else ERR_NOT_OK))
             else (new_extra, ARG_COUNT_ONE, errCode))
      in Schedule (CompleteStart token x unwrapArgc errCode (last_param unwrapArgc argv)) j)"

text \<open>Settling the call: by its last argument, a function, or the promise.\<close>

definition settle :: "'v js_engine \<Rightarrow> 'v option \<Rightarrow> int \<Rightarrow> 'v \<Rightarrow> string \<Rightarrow> 'v js_state \<Rightarrow> 'v js_state" where
  "settle e lastParam ret v msg j =
     js_emit (if ret = ERR_OK then Resolved lastParam v else Rejected lastParam (error_value e ret msg)) j"

definition invalid_params :: "'v js_engine \<Rightarrow> 'v option \<Rightarrow> int \<Rightarrow> 'v js_state \<Rightarrow> 'v js_state" where
  "invalid_params e lastParam errCode j = js_emit (Rejected lastParam (error_value e errCode ''Invalidate params.'')) j"

type_synonym ('v, 's) js_op = "'v js_state \<Rightarrow> 's \<Rightarrow> ('v js_state \<times> 's) option"

definition complete_register ::
  "'v js_engine \<Rightarrow> 's dms_link \<Rightarrow> ContinuationExtraParams \<Rightarrow> nat \<Rightarrow> int \<Rightarrow> 'v option \<Rightarrow> ('v, 's) js_op" where
  "complete_register e l x unwrapArgc errCode lastParam j s =
     (if errCode \<noteq> 0 then Some (invalid_params e lastParam errCode j, s)
      else do {
        (ret, out, s') \<leftarrow> client_Register (link_env l) (link_send l) (link_samgr l s) (link_dms l s)
                            (if unwrapArgc = 0 then None else Some x) s;
        let token = (case out of None \<Rightarrow> - 1 | Some t \<Rightarrow> t);
        Some (settle e lastParam ret (number_value e token) ''Register failed.'' j, s') })"

definition complete_unregister ::
  "'v js_engine \<Rightarrow> 's dms_link \<Rightarrow> int \<Rightarrow> int \<Rightarrow> 'v option \<Rightarrow> ('v, 's) js_op" where
  "complete_unregister e l token errCode lastParam j s =
     (if errCode \<noteq> 0 then Some (invalid_params e lastParam errCode j, s)
      else do {
        (ret, s') \<leftarrow> client_Unregister (link_env l) (link_send l) (link_samgr l s) (link_dms l s) token s;
        Some (settle e lastParam ret (undefined_value e) ''Unregister failed.'' j, s') })"

definition complete_update ::
  "'v js_engine \<Rightarrow> 's dms_link \<Rightarrow> int \<Rightarrow> string \<Rightarrow> int \<Rightarrow> int \<Rightarrow> 'v option \<Rightarrow> ('v, 's) js_op" where
  "complete_update e l token dev st errCode lastParam j s =
     (if errCode \<noteq> 0 then Some (invalid_params e lastParam errCode j, s)
      else do {
        (ret, s') \<leftarrow> client_UpdateConnectStatus (link_env l) (link_send l) (link_samgr l s) (link_dms l s)
                       token dev st s;
        Some (settle e lastParam ret (undefined_value e) ''UpdateConnectStatus failed.'' j, s') })"

definition complete_start ::
  "'v js_engine \<Rightarrow> 's dms_link \<Rightarrow> int \<Rightarrow> ContinuationExtraParams \<Rightarrow> nat \<Rightarrow> int \<Rightarrow> 'v option \<Rightarrow> ('v, 's) js_op" where
  "complete_start e l token x unwrapArgc errCode lastParam j s =
     (if errCode \<noteq> 0 then Some (invalid_params e lastParam errCode j, s)
      else do {
        (ret, s') \<leftarrow> client_StartDeviceManager (link_env l) (link_send l) (link_samgr l s) (link_dms l s)
                       token (if unwrapArgc = ARG_COUNT_ONE then None else Some x) s;
        Some (settle e lastParam ret (undefined_value e) ''StartDeviceManager failed.'' j, s') })"

section \<open>Registering and removing functions\<close>

definition IsCallbackValid :: "'v js_engine \<Rightarrow> 'v option \<Rightarrow> bool" where
  "IsCallbackValid e listenerObj = (case listenerObj of None \<Rightarrow> False | Some v \<Rightarrow> is_callable e v)"

lemma IsCallbackValid_Some [simp]: "IsCallbackValid e (Some v) = is_callable e v"
  by (simp add: IsCallbackValid_def)

definition IsCallbackRegistered :: "int \<Rightarrow> string \<Rightarrow> 'v js_state \<Rightarrow> bool" where
  "IsCallbackRegistered token cbType j =
     (case map_find token (jsCbMap j) of
        None \<Rightarrow> False
      | Some m \<Rightarrow> m \<noteq> [] \<and> map_find cbType m \<noteq> None)"

definition AddCallback :: "nat \<Rightarrow> string \<Rightarrow> 'v \<Rightarrow> 'v js_state \<Rightarrow> 'v js_state" where
  "AddCallback n cbType f j =
     j\<lparr>listenerMaps := map_put n (map_put cbType f
          (case map_find n (listenerMaps j) of None \<Rightarrow> [] | Some m \<Rightarrow> m)) (listenerMaps j)\<rparr>"

definition RemoveCallback :: "nat \<Rightarrow> string \<Rightarrow> 'v js_state \<Rightarrow> 'v js_state" where
  "RemoveCallback n cbType j =
     j\<lparr>listenerMaps := map_put n (map_erase cbType
          (case map_find n (listenerMaps j) of None \<Rightarrow> [] | Some m \<Rightarrow> m)) (listenerMaps j)\<rparr>"

definition new_listener :: "'v js_state \<Rightarrow> nat \<times> 'v js_state" where
  "new_listener j =
     (listener_count j, j\<lparr>listener_count := Suc (listener_count j),
        listenerMaps := map_put (listener_count j) [] (listenerMaps j)\<rparr>)"

text \<open>Both calls return undefined, whatever happens.\<close>

definition OnRegisterDeviceSelectionCallback ::
  "'v js_engine \<Rightarrow> 's dms_link \<Rightarrow> 'v list \<Rightarrow> ('v, 's) js_op" where
  "OnRegisterDeviceSelectionCallback e l argv j s =
     (if length argv \<noteq> ARG_COUNT_THREE then Some (j, s)
      else (case to_text e (argv ! 0) of
              None \<Rightarrow> Some (j, s)
            | Some cbType \<Rightarrow>
                (case to_int32 e (argv ! ARG_COUNT_ONE) of
                   None \<Rightarrow> Some (j, s)
                 | Some token \<Rightarrow>
                     let f = argv ! ARG_COUNT_TWO
                     in if \<not> IsCallbackValid e (Some f) then Some (j, s)
                        else if IsCallbackRegistered token cbType j then Some (j, s)
                        else
                          let (n, j1) = new_listener j
                          in do {
                            (ret, s') \<leftarrow> client_RegisterDeviceSelectionCallback (link_env l) (link_send l)
                                           (link_samgr l s) (link_dms l s) token cbType
                                           (Some (stub_object e n)) s;
                            Some (if ret = ERR_OK then
                                    (let j2 = AddCallback n cbType f j1;
                                         m = (case map_find token (jsCbMap j2) of None \<Rightarrow> [] | Some m \<Rightarrow> m)
                                     in j2\<lparr>jsCbMap := map_put token (map_put cbType (f, n) m) (jsCbMap j2)\<rparr>)
                                  else j1, s') })))"

definition OnUnregisterDeviceSelectionCallback ::
  "'v js_engine \<Rightarrow> 's dms_link \<Rightarrow> 'v list \<Rightarrow> ('v, 's) js_op" where
  "OnUnregisterDeviceSelectionCallback e l argv j s =
     (if length argv \<noteq> ARG_COUNT_TWO then Some (j, s)
      else (case to_text e (argv ! 0) of
              None \<Rightarrow> Some (j, s)
            | Some cbType \<Rightarrow>
                if cbType \<noteq> EVENT_CONNECT \<and> cbType \<noteq> EVENT_DISCONNECT then Some (j, s)
                else (case to_int32 e (argv ! ARG_COUNT_ONE) of
                        None \<Rightarrow> Some (j, s)
                      | Some token \<Rightarrow>
                          (case map_find token (jsCbMap j) of
                             None \<Rightarrow> Some (j, s)
                           | Some m \<Rightarrow>
                               (case map_find cbType m of
                                  None \<Rightarrow> Some (j, s)
                                | Some (f, n) \<Rightarrow>
                                    do {
                                      (ret, s') \<leftarrow> client_UnregisterDeviceSelectionCallback (link_env l)
                                                     (link_send l) (link_samgr l s) (link_dms l s) token cbType s;
                                      Some (if ret = ERR_OK then
                                              (let j1 = RemoveCallback n cbType j; m' = map_erase cbType m
                                               in j1\<lparr>jsCbMap :=
                                                    (if m' = [] then map_erase token (jsCbMap j1)
                                                     else map_put token m' (jsCbMap j1))\<rparr>)
                                            else j, s') })))))"

section \<open>The listener\<close>

text \<open>The calls run in the thread of the engine, so a listener schedules them.\<close>

definition CallJsMethod_results :: "nat \<Rightarrow> string \<Rightarrow> ContinuationResult list \<Rightarrow> 'v js_state \<Rightarrow> 'v js_state" where
  "CallJsMethod_results n methodName rs j = Schedule (CallListenerConnect n methodName rs) j"

definition CallJsMethod_ids :: "nat \<Rightarrow> string \<Rightarrow> string list \<Rightarrow> 'v js_state \<Rightarrow> 'v js_state" where
  "CallJsMethod_ids n methodName ids j = Schedule (CallListenerDisconnect n methodName ids) j"

definition OnDeviceConnect_js :: "nat \<Rightarrow> ContinuationResult list \<Rightarrow> 'v js_state \<Rightarrow> 'v js_state" where
  "OnDeviceConnect_js n rs j = CallJsMethod_results n EVENT_CONNECT rs j"

definition OnDeviceDisconnect_js :: "nat \<Rightarrow> string list \<Rightarrow> 'v js_state \<Rightarrow> 'v js_state" where
  "OnDeviceDisconnect_js n ids j = CallJsMethod_ids n EVENT_DISCONNECT ids j"

text \<open>A message of the service to a listener, through its stub.\<close>

definition listener_message ::
  "dams_env \<Rightarrow> int \<Rightarrow> (parcel \<Rightarrow> nat) \<Rightarrow> (nat \<Rightarrow> int) \<Rightarrow> nat \<Rightarrow> nat \<Rightarrow> parcel \<Rightarrow> 'v js_state \<Rightarrow> int \<times> 'v js_state" where
  "listener_message env invalid readable unknown n code data j =
     (let (r, ev) = notifier_OnRemoteRequest env invalid readable unknown code data
      in (r, case ev of
               None \<Rightarrow> j
             | Some (DeviceConnected rs) \<Rightarrow> OnDeviceConnect_js n rs j
             | Some (DeviceDisconnected ids) \<Rightarrow> OnDeviceDisconnect_js n ids j))"

definition WrapContinuationResult :: "'v js_engine \<Rightarrow> ContinuationResult \<Rightarrow> 'v" where
  "WrapContinuationResult e r =
     (let obj = new_object e;
          obj = with_property e obj ''id'' (string_value e (res_deviceId r));
          obj = with_property e obj ''type'' (string_value e (res_deviceType r))
      in with_property e obj ''name'' (string_value e (res_deviceName r)))"

definition WrapContinuationResultArray :: "'v js_engine \<Rightarrow> ContinuationResult list \<Rightarrow> 'v" where
  "WrapContinuationResultArray e rs = array_value e (map (WrapContinuationResult e) rs)"

definition WrapDeviceIdArray :: "'v js_engine \<Rightarrow> string list \<Rightarrow> 'v" where
  "WrapDeviceIdArray e ids = array_value e (map (string_value e) ids)"

text \<open>
  The function is looked up when the task runs: a function that was removed meanwhile leaves a
  null reference, which is followed.
\<close>

definition call_method :: "nat \<Rightarrow> string \<Rightarrow> 'v \<Rightarrow> 'v js_state \<Rightarrow> 'v js_state option" where
  "call_method n methodName arg j =
     (case map_find n (listenerMaps j) of
        None \<Rightarrow> None
      | Some m \<Rightarrow>
          (case map_find methodName m of
             None \<Rightarrow> None
           | Some f \<Rightarrow> Some (js_emit (Called f [arg]) j)))"

definition CallJsMethodInner_results ::
  "'v js_engine \<Rightarrow> nat \<Rightarrow> string \<Rightarrow> ContinuationResult list \<Rightarrow> 'v js_state \<Rightarrow> 'v js_state option" where
  "CallJsMethodInner_results e n methodName rs j = call_method n methodName (WrapContinuationResultArray e rs) j"

definition CallJsMethodInner_ids ::
  "'v js_engine \<Rightarrow> nat \<Rightarrow> string \<Rightarrow> string list \<Rightarrow> 'v js_state \<Rightarrow> 'v js_state option" where
  "CallJsMethodInner_ids e n methodName ids j = call_method n methodName (WrapDeviceIdArray e ids) j"

fun run_js_task :: "'v js_engine \<Rightarrow> 's dms_link \<Rightarrow> 'v js_task \<Rightarrow> ('v, 's) js_op" where
  "run_js_task e l (CompleteRegister x unwrapArgc errCode lastParam) j s =
     complete_register e l x unwrapArgc errCode lastParam j s"
| "run_js_task e l (CompleteUnregister token errCode lastParam) j s =
     complete_unregister e l token errCode lastParam j s"
| "run_js_task e l (CompleteUpdate token dev st errCode lastParam) j s =
     complete_update e l token dev st errCode lastParam j s"
| "run_js_task e l (CompleteStart token x unwrapArgc errCode lastParam) j s =
     complete_start e l token x unwrapArgc errCode lastParam j s"
| "run_js_task e l (CallListenerConnect n methodName rs) j s =
     map_option (\<lambda>j'. (j', s)) (CallJsMethodInner_results e n methodName rs j)"
| "run_js_task e l (CallListenerDisconnect n methodName ids) j s =
     map_option (\<lambda>j'. (j', s)) (CallJsMethodInner_ids e n methodName ids j)"

definition run_js_next :: "'v js_engine \<Rightarrow> 's dms_link \<Rightarrow> ('v, 's) js_op" where
  "run_js_next e l j s =
     (case js_tasks j of [] \<Rightarrow> Some (j, s) | t # ts \<Rightarrow> run_js_task e l t (j\<lparr>js_tasks := ts\<rparr>) s)"

section \<open>The enumerations\<close>

definition SetEnumItem :: "'v js_engine \<Rightarrow> 'v \<Rightarrow> string \<Rightarrow> int \<Rightarrow> 'v option" where
  "SetEnumItem e obj name value =
     do {
       itemName \<leftarrow> napi_text e name;
       itemValue \<leftarrow> napi_int32 e value;
       obj \<leftarrow> napi_set e obj itemName itemValue;
       napi_set e obj itemValue itemName }"

definition OnInitDeviceConnectStateObject :: "'v js_engine \<Rightarrow> 'v option" where
  "OnInitDeviceConnectStateObject e =
     do {
       obj \<leftarrow> napi_object e;
       obj \<leftarrow> SetEnumItem e obj ''IDLE'' IDLE;
       obj \<leftarrow> SetEnumItem e obj ''CONNECTING'' CONNECTING;
       obj \<leftarrow> SetEnumItem e obj ''CONNECTED'' CONNECTED;
       SetEnumItem e obj ''DISCONNECTING'' DISCONNECTING }"

definition OnInitContinuationModeObject :: "'v js_engine \<Rightarrow> 'v option" where
  "OnInitContinuationModeObject e =
     do {
       obj \<leftarrow> napi_object e;
       obj \<leftarrow> SetEnumItem e obj ''COLLABORATION_SINGLE'' COLLABORATION_SINGLE;
       SetEnumItem e obj ''COLLABORATION_MULTIPLE'' COLLABORATION_MUTIPLE }"

section \<open>Calls of an application\<close>

text \<open>
  The functions the module binds. \<open>this\<close> is whether the call has the native object; without it
  \<^verbatim>\<open>CheckParamsAndGetThis\<close> gives null and nothing happens.
\<close>

definition bound_functions :: "'v js_engine \<Rightarrow> 's dms_link \<Rightarrow> 'v list \<Rightarrow> (string \<times> ('v, 's) js_op) list" where
  "bound_functions e l argv =
     [(''register'', \<lambda>j s. Some (OnRegister e argv j, s)),
      (''unregister'', \<lambda>j s. Some (OnUnregister e argv j, s)),
      (''on'', OnRegisterDeviceSelectionCallback e l argv),
      (''off'', OnUnregisterDeviceSelectionCallback e l argv),
      (''updateConnectStatus'', \<lambda>j s. Some (OnUpdateConnectStatus e argv j, s)),
      (''startDeviceManager'', \<lambda>j s. Some (OnStartDeviceManager e argv j, s))]"

definition js_call :: "'v js_engine \<Rightarrow> 's dms_link \<Rightarrow> bool \<Rightarrow> string \<Rightarrow> 'v list \<Rightarrow> ('v, 's) js_op" where
  "js_call e l this name argv j s =
     (if \<not> this then Some (j, s)
      else (case map_of (bound_functions e l argv) name of None \<Rightarrow> Some (j, s) | Some f \<Rightarrow> f j s))"

text \<open>The properties the module binds; a null result is \<open>None\<close>.\<close>

definition bound_properties :: "'v js_engine \<Rightarrow> (string \<times> 'v option) list" where
  "bound_properties e =
     [(''DeviceConnectState'', OnInitDeviceConnectStateObject e),
      (''ContinuationMode'', OnInitContinuationModeObject e)]"

definition js_property :: "'v js_engine \<Rightarrow> bool \<Rightarrow> string \<Rightarrow> 'v option" where
  "js_property e this name =
     (if \<not> this then None
      else (case map_of (bound_properties e) name of None \<Rightarrow> None | Some v \<Rightarrow> v))"

section \<open>Types\<close>

text \<open>Which arguments have the types a call asks for.\<close>

definition options_ok :: "'v js_engine \<Rightarrow> 'v \<Rightarrow> bool" where
  "options_ok e v = (type_of e v = NapiObject \<longrightarrow>
     type_of e (named_property e v ''filter'') \<in> {NapiObject, NapiUndefined})"

datatype js_async = JsRegister | JsUnregister | JsUpdate | JsStart

fun js_name :: "js_async \<Rightarrow> string" where
  "js_name JsRegister = ''register''"
| "js_name JsUnregister = ''unregister''"
| "js_name JsUpdate = ''updateConnectStatus''"
| "js_name JsStart = ''startDeviceManager''"

fun well_typed :: "'v js_engine \<Rightarrow> js_async \<Rightarrow> 'v list \<Rightarrow> bool" where
  "well_typed e JsRegister (v # vs) = options_ok e v"
| "well_typed e JsRegister [] = True"
| "well_typed e JsUnregister (v # vs) = (to_int32 e v \<noteq> None)"
| "well_typed e JsUpdate (v # d # st # vs) = (to_int32 e v \<noteq> None \<and> to_text e d \<noteq> None \<and> to_status e st \<noteq> None)"
| "well_typed e JsStart (v # x # vs) = (to_int32 e v \<noteq> None \<and> options_ok e x)"
| "well_typed e JsStart [v] = (to_int32 e v \<noteq> None)"
| "well_typed e a vs = False"

text \<open>
  What a call is for the service: its operation on the converted arguments, with the value the
  call is resolved with and the message it is rejected with.
\<close>

definition options_of :: "'v js_engine \<Rightarrow> 'v list \<Rightarrow> ContinuationExtraParams option" where
  "options_of e vs =
     (case vs of
        v # _ \<Rightarrow> if type_of e v = NapiObject then Some (snd (UnWrapContinuationExtraParams e v new_extra)) else None
      | [] \<Rightarrow> None)"

fun service_call ::
  "'v js_engine \<Rightarrow> dams_env \<Rightarrow> nat \<Rightarrow> js_async \<Rightarrow> 'v list \<Rightarrow> dams \<Rightarrow> (int \<times> 'v \<times> string \<times> dams) option" where
  "service_call e env acc JsRegister vs s =
     (case Register env acc (options_of e vs) s of
        (r, out, s') \<Rightarrow> Some (r, number_value e (case out of None \<Rightarrow> - 1 | Some t \<Rightarrow> t), ''Register failed.'', s'))"
| "service_call e env acc JsUnregister vs s =
     map_option (\<lambda>(r, s'). (r, undefined_value e, ''Unregister failed.'', s'))
       (Unregister env acc (the (to_int32 e (hd vs))) s)"
| "service_call e env acc JsUpdate vs s =
     (case UpdateConnectStatus env acc (the (to_int32 e (vs ! 0))) (the (to_text e (vs ! 1)))
             (the (to_status e (vs ! 2))) s of
        (r, s') \<Rightarrow> Some (r, undefined_value e, ''UpdateConnectStatus failed.'', s'))"
| "service_call e env acc JsStart vs s =
     (case StartDeviceManager env acc (the (to_int32 e (hd vs))) (options_of e (tl vs)) s of
        (r, s') \<Rightarrow> Some (r, undefined_value e, ''StartDeviceManager failed.'', s'))"

text \<open>An application that reaches the service, and its call with the task it leaves.\<close>

definition service_link :: "dams_env \<Rightarrow> nat \<Rightarrow> dams dms_link" where
  "service_link env acc = \<lparr>link_env = env, link_send = OnRemoteRequest env acc, link_samgr = (\<lambda>s. True),
     link_dms = (\<lambda>s. True)\<rparr>"

definition js_finish :: "'v js_engine \<Rightarrow> 's dms_link \<Rightarrow> string \<Rightarrow> 'v list \<Rightarrow> ('v, 's) js_op" where
  "js_finish e l name argv j s = do { (j1, s1) \<leftarrow> js_call e l True name argv j s; run_js_next e l j1 s1 }"

lemma unwrap_ok:
  "type_of e v = NapiObject \<Longrightarrow> fst (UnWrapContinuationExtraParams e v x) = options_ok e v"
  by (auto simp: UnWrapContinuationExtraParams_def UnwrapJsonByPropertyName_def options_ok_def Let_def)

lemmas js_defs = Let_def numeral_2_eq_2 js_finish_def js_call_def bound_functions_def run_js_next_def Schedule_def
  OnRegister_def OnUnregister_def OnUpdateConnectStatus_def OnStartDeviceManager_def
  complete_register_def complete_unregister_def complete_update_def complete_start_def
  read_arg_def invalid_params_def ERR_NOT_OK_def ARG_COUNT_ONE_def ARG_COUNT_TWO_def ARG_COUNT_THREE_def

lemma link_simps [simp]:
  "link_env (service_link env acc) = env" "link_send (service_link env acc) = OnRemoteRequest env acc"
  "link_samgr (service_link env acc) s" "link_dms (service_link env acc) s"
  by (simp_all add: service_link_def)

text \<open>How many arguments a call uses; the next one, if any, is the function to call back.\<close>

fun args_used :: "'v js_engine \<Rightarrow> js_async \<Rightarrow> 'v list \<Rightarrow> nat" where
  "args_used e JsRegister vs = (if vs \<noteq> [] \<and> type_of e (hd vs) = NapiObject then 1 else 0)"
| "args_used e JsUnregister vs = 1"
| "args_used e JsUpdate vs = 3"
| "args_used e JsStart vs = (if 1 < length vs \<and> type_of e (vs ! 1) = NapiObject then 2 else 1)"

lemma no_tasks [simp]: "js_tasks j = [] \<Longrightarrow> j\<lparr>js_tasks := []\<rparr> = j"
  by (cases j) simp

lemma js_ill_typed:
  assumes "js_tasks j = []" and "\<not> well_typed e a argv"
  shows "js_finish e l (js_name a) argv j s =
    Some (js_emit (Rejected (last_param (args_used e a argv) argv)
      (error_value e ERR_NOT_OK ''Invalidate params.'')) j, s)"
  using assms
  by (cases "(e, a, argv)" rule: well_typed.cases)
    (auto simp: js_defs options_ok_def split_beta unwrap_ok split: option.splits)

lemma js_well_typed:
  assumes "good_ipc env" and "js_tasks j = []" and "well_typed e a argv"
  shows "js_finish e (service_link env acc) (js_name a) argv j s =
    map_option (\<lambda>(r, v, msg, s'). (js_emit (if r = ERR_OK then Resolved (last_param (args_used e a argv) argv) v
        else Rejected (last_param (args_used e a argv) argv) (error_value e r msg)) j, s'))
      (service_call e env acc a argv s)"
  using assms
  by (cases "(e, a, argv)" rule: well_typed.cases)
    (auto simp: js_defs split_beta unwrap_ok options_of_def settle_def client_Register_def client_Unregister_def
      client_UpdateConnectStatus_def client_StartDeviceManager_def GetDmsProxy_def proxy_Register_agrees
      proxy_simple_agree proxy_StartDeviceManager_agrees split: option.splits bind_splits)

end
