(* ===== verification/JsProps.thy ===== *)
theory JsProps
  imports JsBindings "HOL-Library.AList"
begin

text \<open>
  What holds of the JavaScript interface: which calls reach the service, that the functions an
  application has registered are those the listeners call, and that a selection of devices
  arrives at the function that was registered for it.
\<close>

section \<open>A sample engine\<close>

datatype sample_value =
    SUndefined
  | SBool bool
  | SNumber int
  | SText string
  | SFunction nat
  | SObject "(string \<times> sample_value) list"
  | SArray "sample_value list"
  | SError int string

fun sample_type :: "sample_value \<Rightarrow> js_type" where
  "sample_type SUndefined = NapiUndefined"
| "sample_type (SBool b) = NapiBoolean"
| "sample_type (SNumber i) = NapiNumber"
| "sample_type (SText t) = NapiString"
| "sample_type (SObject ps) = NapiObject"
| "sample_type v = NapiOther"

fun sample_property :: "sample_value \<Rightarrow> string \<Rightarrow> sample_value" where
  "sample_property (SObject ps) k = (case map_of ps k of None \<Rightarrow> SUndefined | Some v \<Rightarrow> v)"
| "sample_property v k = SUndefined"

fun sample_int :: "sample_value \<Rightarrow> int option" where
  "sample_int (SNumber i) = Some i"
| "sample_int v = None"

fun sample_text :: "sample_value \<Rightarrow> string option" where
  "sample_text (SText t) = Some t"
| "sample_text v = None"

fun sample_texts :: "sample_value \<Rightarrow> string list option" where
  "sample_texts (SArray vs) = Some (List.map_filter sample_text vs)"
| "sample_texts v = None"

fun sample_with :: "sample_value \<Rightarrow> string \<Rightarrow> sample_value \<Rightarrow> sample_value" where
  "sample_with (SObject ps) k v = SObject (AList.update k v ps)"
| "sample_with w k v = w"

definition sample_engine :: "sample_value js_engine" where
  "sample_engine = \<lparr>type_of = sample_type, is_callable = (\<lambda>v. case v of SFunction n \<Rightarrow> True | _ \<Rightarrow> False),
     to_int32 = sample_int, to_text = sample_text, to_status = sample_int, named_property = sample_property,
     property_names = (\<lambda>v. case v of SObject ps \<Rightarrow> map (\<lambda>(k, x). SText k) ps | _ \<Rightarrow> []),
     value_text = (\<lambda>v. case v of SText t \<Rightarrow> t | _ \<Rightarrow> []), value_bool = (\<lambda>v. v = SBool True),
     value_int32 = sample_int, strings_property = (\<lambda>v k. sample_texts (sample_property v k)),
     string_property = (\<lambda>v k. sample_text (sample_property v k)),
     int_property = (\<lambda>v k. sample_int (sample_property v k)),
     dump_json = (\<lambda>m. if m = [] then ''null'' else concat (map fst m)), undefined_value = SUndefined,
     number_value = SNumber, string_value = SText, error_value = SError, new_object = SObject [],
     with_property = sample_with, array_value = SArray, napi_object = Some (SObject []),
     napi_text = (\<lambda>t. Some (SText t)), napi_int32 = (\<lambda>i. Some (SNumber i)),
     napi_set = (\<lambda>w k v. Some (sample_with w (case k of SText t \<Rightarrow> t | SNumber i \<Rightarrow> int_to_string i | _ \<Rightarrow> []) v)),
     stub_object = Proxy\<rparr>"

text \<open>The enumerations read both ways: from the names to the numbers and back.\<close>

lemma sample_enumeration:
  "map_option (\<lambda>v. (sample_property v ''CONNECTED'', sample_property v ''2'')) (js_property sample_engine True ''DeviceConnectState'') =
     Some (SNumber 2, SText ''CONNECTED'')"
  "map_option (\<lambda>v. (sample_property v ''COLLABORATION_MULTIPLE'', sample_property v ''1''))
     (js_property sample_engine True ''ContinuationMode'') = Some (SNumber 1, SText ''COLLABORATION_MULTIPLE'')"
  by code_simp+

section \<open>Typed calls\<close>



section \<open>Functions and listeners\<close>

definition registered :: "'v js_state \<Rightarrow> int \<Rightarrow> string \<Rightarrow> ('v \<times> nat) option" where
  "registered j token cbType =
     (case map_find token (jsCbMap j) of None \<Rightarrow> None | Some m \<Rightarrow> map_find cbType m)"

definition listener_function :: "'v js_state \<Rightarrow> nat \<Rightarrow> string \<Rightarrow> 'v option" where
  "listener_function j n cbType =
     (case map_find n (listenerMaps j) of None \<Rightarrow> None | Some m \<Rightarrow> map_find cbType m)"

definition js_inv :: "'v js_state \<Rightarrow> bool" where
  "js_inv j =
     ((\<forall>n \<in> map_keys (listenerMaps j). n < listener_count j) \<and>
      (\<forall>n cb f. listener_function j n cb = Some f \<longleftrightarrow> (\<exists>t. registered j t cb = Some (f, n))) \<and>
      (\<forall>t cb f n t' cb' f'. registered j t cb = Some (f, n) \<longrightarrow> registered j t' cb' = Some (f', n) \<longrightarrow>
         t = t' \<and> cb = cb'))"

lemma IsCallbackRegistered_iff: "IsCallbackRegistered token cbType j \<longleftrightarrow> registered j token cbType \<noteq> None"
proof (cases "map_find token (jsCbMap j)")
  case (Some m)
  then show ?thesis by (cases "map_find cbType m") (auto simp: IsCallbackRegistered_def registered_def)
qed (simp add: IsCallbackRegistered_def registered_def)

lemma js_inv_frame:
  "js_inv (j\<lparr>js_tasks := ts\<rparr>) = js_inv j" "js_inv (js_emit ev j) = js_inv j" "js_inv (Schedule t j) = js_inv j"
  by (simp_all add: js_inv_def js_emit_def Schedule_def listener_function_def registered_def)

lemmas call_defs = OnDeviceConnect_js_def OnDeviceDisconnect_js_def CallJsMethod_results_def CallJsMethod_ids_def
  CallJsMethodInner_results_def CallJsMethodInner_ids_def call_method_def

text \<open>What registering and removing leave of the tables.\<close>

definition add_function :: "int \<Rightarrow> string \<Rightarrow> 'v \<Rightarrow> 'v js_state \<Rightarrow> 'v js_state" where
  "add_function token cb f j =
     (let j2 = AddCallback (listener_count j) cb f (snd (new_listener j));
          m = (case map_find token (jsCbMap j2) of None \<Rightarrow> [] | Some m \<Rightarrow> m)
      in j2\<lparr>jsCbMap := map_put token (map_put cb (f, listener_count j) m) (jsCbMap j2)\<rparr>)"

definition drop_function :: "int \<Rightarrow> string \<Rightarrow> nat \<Rightarrow> 'v js_state \<Rightarrow> 'v js_state" where
  "drop_function token cb n j =
     (let m' = map_erase cb (case map_find token (jsCbMap j) of None \<Rightarrow> [] | Some m \<Rightarrow> m);
          j1 = RemoveCallback n cb j
      in j1\<lparr>jsCbMap := (if m' = [] then map_erase token (jsCbMap j1) else map_put token m' (jsCbMap j1))\<rparr>)"

lemma on_cases:
  assumes "OnRegisterDeviceSelectionCallback e l argv j s = Some (j', s')"
  shows "j' = j \<or> j' = snd (new_listener j) \<or>
    (\<exists>token cb f. registered j token cb = None \<and> j' = add_function token cb f j)"
proof (cases "j' = j \<or> j' = snd (new_listener j)")
  case False
  with assms obtain cb token where a:
    "length argv = ARG_COUNT_THREE" "to_text e (argv ! 0) = Some cb" "to_int32 e (argv ! ARG_COUNT_ONE) = Some token"
    "is_callable e (argv ! ARG_COUNT_TWO)" "\<not> IsCallbackRegistered token cb j"
    "client_RegisterDeviceSelectionCallback (link_env l) (link_send l) (link_samgr l s) (link_dms l s) token cb
      (Some (stub_object e (listener_count j))) s = Some (ERR_OK, s')"
    by (auto simp: OnRegisterDeviceSelectionCallback_def new_listener_def Let_def
        split: if_split_asm option.split_asm bind_split_asm)
  with assms have "j' = add_function token cb (argv ! ARG_COUNT_TWO) j"
    by (auto simp: OnRegisterDeviceSelectionCallback_def new_listener_def add_function_def Let_def)
  moreover have "registered j token cb = None"
    using a(5) by (cases "registered j token cb") (auto simp: IsCallbackRegistered_iff)
  ultimately show ?thesis by blast
qed auto

lemma off_cases:
  assumes "OnUnregisterDeviceSelectionCallback e l argv j s = Some (j', s')"
  shows "j' = j \<or> (\<exists>token cb f n. registered j token cb = Some (f, n) \<and> j' = drop_function token cb n j)"
proof (cases "j' = j")
  case False
  with assms obtain cb token m f n where
    "length argv = ARG_COUNT_TWO" "to_text e (argv ! 0) = Some cb" "cb = EVENT_CONNECT \<or> cb = EVENT_DISCONNECT"
    "to_int32 e (argv ! ARG_COUNT_ONE) = Some token" "map_find token (jsCbMap j) = Some m" "map_find cb m = Some (f, n)"
    "client_UnregisterDeviceSelectionCallback (link_env l) (link_send l) (link_samgr l s) (link_dms l s) token cb s =
      Some (ERR_OK, s')"
    by (auto simp: OnUnregisterDeviceSelectionCallback_def split: if_split_asm option.split_asm bind_split_asm)
  with assms have "registered j token cb = Some (f, n)" "j' = drop_function token cb n j"
    by (auto simp: OnUnregisterDeviceSelectionCallback_def drop_function_def registered_def Let_def)
  then show ?thesis by blast
qed simp

lemma add_function_tables:
  "registered (add_function token cb f j) t c =
     (if t = token \<and> c = cb then Some (f, listener_count j) else registered j t c)"
  "listener_function (add_function token cb f j) n c =
     (if n = listener_count j then (if c = cb then Some f else None) else listener_function j n c)"
  "map_keys (listenerMaps (add_function token cb f j)) = insert (listener_count j) (map_keys (listenerMaps j))"
  "listener_count (add_function token cb f j) = Suc (listener_count j)"
  by (auto simp: add_function_def AddCallback_def new_listener_def registered_def listener_function_def Let_def
      split: option.split)

lemma new_listener_tables:
  "registered (snd (new_listener j)) t c = registered j t c"
  "listener_function (snd (new_listener j)) n c = (if n = listener_count j then None else listener_function j n c)"
  "map_keys (listenerMaps (snd (new_listener j))) = insert (listener_count j) (map_keys (listenerMaps j))"
  "listener_count (snd (new_listener j)) = Suc (listener_count j)"
  by (auto simp: new_listener_def registered_def listener_function_def split: option.split)

lemma map_erase_Nil_find: "map_erase k m = [] \<Longrightarrow> map_find k' m = None \<or> k' = k"
  by (metis map_find_Nil map_find_erase)

lemma drop_function_tables:
  assumes "registered j token cb = Some (f, n)"
  shows "registered (drop_function token cb n j) t c =
     (if t = token \<and> c = cb then None else registered j t c)"
    "listener_function (drop_function token cb n j) n' c =
     (if n' = n \<and> c = cb then None else listener_function j n' c)"
    "map_keys (listenerMaps (drop_function token cb n j)) = insert n (map_keys (listenerMaps j))"
    "listener_count (drop_function token cb n j) = listener_count j"
proof -
  obtain m where m: "map_find token (jsCbMap j) = Some m" "map_find cb m = Some (f, n)"
    using assms by (auto simp: registered_def split: option.splits)
  have none: "map_find c m = None" if "map_erase cb m = []" "c \<noteq> cb"
    using map_erase_Nil_find [OF that(1), of c] that(2) by blast
  show "registered (drop_function token cb n j) t c = (if t = token \<and> c = cb then None else registered j t c)"
    using m none by (auto simp: drop_function_def RemoveCallback_def registered_def Let_def)
  show "listener_function (drop_function token cb n j) n' c =
      (if n' = n \<and> c = cb then None else listener_function j n' c)"
    by (auto simp: drop_function_def RemoveCallback_def listener_function_def Let_def split: option.split)
  show "map_keys (listenerMaps (drop_function token cb n j)) = insert n (map_keys (listenerMaps j))"
    "listener_count (drop_function token cb n j) = listener_count j"
    by (simp_all add: drop_function_def RemoveCallback_def Let_def)
qed

lemma js_inv_new: "js_inv new_js"
  by (simp add: js_inv_def new_js_def listener_function_def registered_def)

lemma js_inv_fresh:
  assumes "js_inv j"
  shows "registered j t cb = Some (f, n) \<Longrightarrow> n < listener_count j"
    "listener_function j (listener_count j) cb = None"
proof -
  show none: "listener_function j (listener_count j) c = None" for c
    using assms by (auto simp: js_inv_def listener_function_def dest: map_find_Some_key split: option.split)
  assume "registered j t cb = Some (f, n)"
  then have "listener_function j n cb = Some f" using assms by (auto simp: js_inv_def)
  then have "n \<in> map_keys (listenerMaps j)"
    by (auto simp: listener_function_def dest: map_find_Some_key split: option.splits)
  then show "n < listener_count j" using assms by (simp add: js_inv_def)
qed

lemma js_inv_add:
  assumes "js_inv j" and "registered j token cb = None"
  shows "js_inv (add_function token cb f j)"
proof -
  note fresh = js_inv_fresh [OF assms(1)]
  let ?n = "listener_count j"
  have old: "registered j t c \<noteq> Some (g, ?n)" for t c g using fresh(1) by blast
  have iff: "listener_function j n c = Some g \<longleftrightarrow> (\<exists>t. registered j t c = Some (g, n))" for n c g
    using assms(1) by (simp add: js_inv_def)
  have inj: "t = t' \<and> c = c'" if "registered j t c = Some (g, n)" "registered j t' c' = Some (g', n)"
    for t c g n t' c' g'
    using assms(1) that unfolding js_inv_def by blast
  have "(if n = ?n then if c = cb then Some f else None else listener_function j n c) = Some g \<longleftrightarrow>
      (\<exists>t. (if t = token \<and> c = cb then Some (f, ?n) else registered j t c) = Some (g, n))" (is "?l \<longleftrightarrow> ?r") for n c g
  proof
    assume l: ?l
    show ?r
    proof (cases "n = ?n")
      case True
      with l show ?thesis by (intro exI [of _ token]) (auto split: if_splits)
    next
      case False
      with l iff obtain t where "registered j t c = Some (g, n)" by auto
      with assms(2) show ?thesis by (intro exI [of _ t]) auto
    qed
  next
    assume ?r
    with iff old show ?l by (auto split: if_splits)
  qed
  then show ?thesis
    using assms(1) old inj unfolding js_inv_def add_function_tables
    by (auto simp: less_Suc_eq split: if_splits)
qed

lemma js_inv_drop:
  assumes "js_inv j" and "registered j token cb = Some (f, n)"
  shows "js_inv (drop_function token cb n j)"
proof -
  have "listener_function j n cb = Some f" using assms by (auto simp: js_inv_def)
  then have n: "n \<in> map_keys (listenerMaps j)"
    by (auto simp: listener_function_def dest: map_find_Some_key split: option.splits)
  have iff: "listener_function j n' c = Some g \<longleftrightarrow> (\<exists>t. registered j t c = Some (g, n'))" for n' c g
    using assms(1) by (simp add: js_inv_def)
  have inj: "t = t' \<and> c = c'" if "registered j t c = Some (g, n')" "registered j t' c' = Some (g', n')"
    for t c g n' t' c' g'
    using assms(1) that unfolding js_inv_def by blast
  have "(if n' = n \<and> c = cb then None else listener_function j n' c) = Some g \<longleftrightarrow>
      (\<exists>t. (if t = token \<and> c = cb then None else registered j t c) = Some (g, n'))" (is "?l \<longleftrightarrow> ?r") for n' c g
  proof
    assume l: ?l
    then obtain t where t: "registered j t c = Some (g, n')" using iff by (auto split: if_splits)
    with l assms(2) have "\<not> (t = token \<and> c = cb)" by (auto split: if_splits)
    with t show ?r by auto
  next
    assume ?r
    then obtain t where t: "registered j t c = Some (g, n')" "\<not> (t = token \<and> c = cb)" by (auto split: if_splits)
    have "\<not> (n' = n \<and> c = cb)"
    proof
      assume "n' = n \<and> c = cb"
      with t(1) have "registered j t cb = Some (g, n)" by simp
      from inj [OF this assms(2)] \<open>n' = n \<and> c = cb\<close> t(2) show False by simp
    qed
    moreover have "listener_function j n' c = Some g" using iff t(1) by blast
    ultimately show ?l by auto
  qed
  then have "\<forall>n' c g. (if n' = n \<and> c = cb then None else listener_function j n' c) = Some g \<longleftrightarrow>
      (\<exists>t. (if t = token \<and> c = cb then None else registered j t c) = Some (g, n'))"
    by blast
  moreover have "\<forall>n' \<in> insert n (map_keys (listenerMaps j)). n' < listener_count j"
    using assms(1) n by (simp add: js_inv_def insert_absorb)
  moreover have "\<forall>t c g n' t' c' g'. (if t = token \<and> c = cb then None else registered j t c) = Some (g, n') \<longrightarrow>
      (if t' = token \<and> c' = cb then None else registered j t' c') = Some (g', n') \<longrightarrow> t = t' \<and> c = c'"
  proof (intro allI impI)
    fix t c g n' t' c' g'
    assume "(if t = token \<and> c = cb then None else registered j t c) = Some (g, n')"
      and "(if t' = token \<and> c' = cb then None else registered j t' c') = Some (g', n')"
    then have "registered j t c = Some (g, n')" "registered j t' c' = Some (g', n')"
      by (simp_all split: if_split_asm)
    then show "t = t' \<and> c = c'" by (rule inj)
  qed
  ultimately show ?thesis
    unfolding js_inv_def drop_function_tables [OF assms(2)] by (intro conjI)
qed

lemma js_inv_new_listener: "js_inv j \<Longrightarrow> js_inv (snd (new_listener j))"
  using js_inv_fresh [of j] unfolding js_inv_def new_listener_tables
  by (auto simp: less_Suc_eq)

section \<open>The interface as a machine\<close>

text \<open>
  A request is a call of the application, a message of the service to a listener, the next task,
  or a move of the service, which leaves it in any state.
\<close>

datatype ('v, 's) js_req =
    JsCall bool string "'v list"
  | JsMessage nat nat parcel
  | JsRunNext
  | JsService 's

text \<open>The answers the notifier's stub gives for what it cannot read.\<close>

record js_ipc =
  js_invalid :: int
  js_readable :: "parcel \<Rightarrow> nat"
  js_unknown :: "nat \<Rightarrow> int"

fun js_exec ::
  "'v js_engine \<Rightarrow> 's dms_link \<Rightarrow> js_ipc \<Rightarrow> ('v, 's) js_req \<Rightarrow> 'v js_state \<times> 's \<Rightarrow> ('v js_state \<times> 's) option" where
  "js_exec e l ipc (JsCall this name argv) (j, s) = js_call e l this name argv j s"
| "js_exec e l ipc (JsMessage n code data) (j, s) =
     Some (snd (listener_message (link_env l) (js_invalid ipc) (js_readable ipc) (js_unknown ipc) n code data j), s)"
| "js_exec e l ipc JsRunNext (j, s) = run_js_next e l j s"
| "js_exec e l ipc (JsService s') (j, s) = Some (j, s')"

definition js_step ::
  "'v js_engine \<Rightarrow> 's dms_link \<Rightarrow> js_ipc \<Rightarrow> ('v js_state \<times> 's) option \<Rightarrow> ('v, 's) js_req \<Rightarrow>
   ('v js_state \<times> 's) option" where
  "js_step e l ipc st r = do { x \<leftarrow> st; js_exec e l ipc r x }"

definition js_state_inv :: "('v js_state \<times> 's) option \<Rightarrow> bool" where
  "js_state_inv st = (case st of None \<Rightarrow> True | Some (j, s) \<Rightarrow> js_inv j)"

lemma js_call_inv:
  assumes "js_call e l this name argv j s = Some (j', s')" and "js_inv j"
  shows "js_inv j'"
proof -
  have reg: "js_inv j'" if "OnRegisterDeviceSelectionCallback e l argv j s = Some (j', s')"
    using on_cases [OF that] by (elim disjE exE conjE) (simp_all add: assms(2) js_inv_add js_inv_new_listener)
  have unreg: "js_inv j'" if "OnUnregisterDeviceSelectionCallback e l argv j s = Some (j', s')"
    using off_cases [OF that] by (elim disjE exE conjE) (simp_all add: assms(2) js_inv_drop)
  show ?thesis
    using assms reg unreg
    by (auto simp: js_call_def bound_functions_def OnRegister_def OnUnregister_def OnUpdateConnectStatus_def
        OnStartDeviceManager_def js_inv_frame Let_def split_beta split: if_splits)
qed

lemma run_js_task_inv: "run_js_task e l t j s = Some (j', s') \<Longrightarrow> js_inv j \<Longrightarrow> js_inv j'"
  by (cases t)
    (auto simp: complete_register_def complete_unregister_def complete_update_def complete_start_def
      invalid_params_def settle_def call_defs js_inv_frame Let_def
      split: if_splits option.splits bind_splits)

lemma js_exec_inv:
  assumes "js_exec e l ipc r (j, s) = Some (j', s')" and "js_inv j"
  shows "js_inv j'"
proof (cases r)
  case JsRunNext
  show ?thesis
  proof (cases "js_tasks j")
    case (Cons t ts)
    with assms(1) JsRunNext have "run_js_task e l t (j\<lparr>js_tasks := ts\<rparr>) s = Some (j', s')"
      by (simp add: run_js_next_def)
    from run_js_task_inv [OF this] assms(2) show ?thesis by (simp add: js_inv_frame)
  qed (use assms JsRunNext in \<open>simp add: run_js_next_def\<close>)
qed (use assms in \<open>auto simp: listener_message_def call_defs js_inv_frame
    intro: js_call_inv split: prod.splits option.splits selection_event.splits\<close>)

interpretation js_m: machine "js_step e l ipc" "\<lambda>st. \<exists>s. st = Some (new_js, s)" js_state_inv for e l ipc
proof unfold_locales
  fix st :: "('a js_state \<times> 'b) option" and r
  assume st: "js_state_inv st"
  show "js_state_inv (js_step e l ipc st r)"
  proof (cases st)
    case (Some x)
    with st show ?thesis
      by (cases x; cases "js_exec e l ipc r x") (auto simp: js_state_inv_def js_step_def dest: js_exec_inv)
  qed (simp add: js_state_inv_def js_step_def)
qed (auto simp: js_state_inv_def js_inv_new)

text \<open>
  C23: the functions an application has registered and those its listeners hold stay the same.
  In every state that calls, messages, tasks and moves of the service lead to, a listener holds
  a function for a type of callback if and only if that function and that listener are entered
  for some token under that type, and two entries never share a listener: removing one
  function never takes another's listener away.
\<close>

theorem js_tables_agree:
  assumes "run (js_step e l ipc) (Some (new_js, s)) rs = Some (j, s')"
  shows "(\<forall>n cb f. listener_function j n cb = Some f \<longleftrightarrow> (\<exists>t. registered j t cb = Some (f, n))) \<and>
    (\<forall>t cb f n t' cb' f'. registered j t cb = Some (f, n) \<longrightarrow> registered j t' cb' = Some (f', n) \<longrightarrow>
       t = t' \<and> cb = cb')"
proof -
  have "js_state_inv (run (js_step e l ipc) (Some (new_js, s)) rs)" by (rule js_m.reachable_inv) blast
  then have "js_inv j" by (simp add: assms js_state_inv_def)
  then show ?thesis unfolding js_inv_def by blast
qed

section \<open>A selection reaches its function\<close>

lemma selected_task:
  assumes "OnDeviceConnect env token rs s = (ERR_OK, s2)" and "registered_notifier token EVENT_CONNECT s = Some n"
  shows "\<exists>ts. tasks s2 = ts @ [TaskDeviceConnect (Some n) rs]"
  using assms
  by (auto simp: OnDeviceConnect_def handle_defs post_to_handler_def PostTask_def Let_def registered_notifier_def
      err_defs split: if_splits prod.splits option.splits)

text \<open>
  A notice is a task of the engine; the function is looked up when the task runs. When it was
  removed in between, the reference that is followed is null.
\<close>

lemma notice_called:
  assumes "js_tasks j = []" and "listener_function j n EVENT_CONNECT = Some f"
  shows "run_js_next e l (OnDeviceConnect_js n rs j) s =
    Some (js_emit (Called f [WrapContinuationResultArray e rs]) j, s)"
  using assms by (auto simp: run_js_next_def call_defs Schedule_def
      listener_function_def dest: map_find_Some_key split: option.splits)

lemma removed_function_crashes:
  assumes "js_tasks j = []" and "listener_function j n EVENT_CONNECT = None"
  shows "run_js_next e l (OnDeviceConnect_js n rs j) s = None"
  using assms by (auto simp: run_js_next_def call_defs Schedule_def
      listener_function_def split: option.splits)

lemma function_registered:
  assumes "good_ipc env" and "dams_inv s" and "(acc, token) \<in> abs_tokens s"
    and "registered_notifier token EVENT_CONNECT s = nullptr" and "registered j token EVENT_CONNECT = None"
    and "to_text e cb = Some EVENT_CONNECT" and "to_int32 e tk = Some token" and "is_callable e f"
  shows "\<exists>s1. js_call e (service_link env acc) True ''on'' [cb, tk, f] j s =
      Some (add_function token EVENT_CONNECT f j, s1) \<and>
    registered_notifier token EVENT_CONNECT s1 = Some (stub_object e (listener_count j))"
proof -
  have "EVENT_CONNECT \<in> {EVENT_CONNECT, EVENT_DISCONNECT}" by simp
  from callback_registered [OF assms(2) this assms(3,4), of env "stub_object e (listener_count j)"] obtain s1 where
    s1: "RegisterDeviceSelectionCallback env acc token EVENT_CONNECT (Some (stub_object e (listener_count j))) s =
        Some (ERR_OK, s1)"
      "registered_notifier token EVENT_CONNECT s1 = Some (stub_object e (listener_count j))"
    by auto
  have "EVENT_CONNECT \<noteq> []" by (simp add: EVENT_CONNECT_def)
  then show ?thesis
    using assms(5-8) s1 client_calls_service(3) [OF assms(1), of EVENT_CONNECT]
    by (simp add: js_call_def bound_functions_def OnRegisterDeviceSelectionCallback_def ARG_COUNT_ONE_def
        ARG_COUNT_TWO_def ARG_COUNT_THREE_def IsCallbackRegistered_iff new_listener_def add_function_def Let_def)
qed

text \<open>A sample application that holds token 1 registers a function for connections.\<close>

lemma sample_facts:
  "(7, 1) \<in> abs_tokens two_callers" "registered_notifier 1 EVENT_CONNECT two_callers = nullptr"
  "registered new_js 1 EVENT_CONNECT = None" "js_tasks new_js = []"
  "to_text sample_engine (SText ''deviceConnect'') = Some EVENT_CONNECT"
  "to_int32 sample_engine (SNumber 1) = Some 1" "is_callable sample_engine (SFunction 5)"
  "stub_object sample_engine n = Proxy n"
  by (simp_all add: two_callers_abs)
    (simp_all add: registered_notifier_def two_callers_def registered_def new_js_def sample_engine_def EVENT_CONNECT_def)

theorem js_tables_agree_witness:
  "\<exists>j s'. run (js_step sample_engine (service_link ipc_env 7) \<lparr>js_invalid = 1, js_readable = length, js_unknown = (\<lambda>c. 2)\<rparr>)
      (Some (new_js, two_callers)) [JsCall True ''on'' [SText ''deviceConnect'', SNumber 1, SFunction 5]] = Some (j, s') \<and>
    listener_function j 0 EVENT_CONNECT = Some (SFunction 5)"
proof -
  let ?j = "add_function 1 EVENT_CONNECT (SFunction 5) new_js"
  obtain s1 where "js_call sample_engine (service_link ipc_env 7) True ''on''
      [SText ''deviceConnect'', SNumber 1, SFunction 5] new_js two_callers = Some (?j, s1)"
    using function_registered [OF ipc_env_good two_callers_inv sample_facts(1,2,3,5-7)] by blast
  then have run: "run (js_step sample_engine (service_link ipc_env 7)
      \<lparr>js_invalid = 1, js_readable = length, js_unknown = (\<lambda>c. 2)\<rparr>)
      (Some (new_js, two_callers)) [JsCall True ''on'' [SText ''deviceConnect'', SNumber 1, SFunction 5]] = Some (?j, s1)"
    by (simp add: js_step_def)
  have "registered ?j 1 EVENT_CONNECT = Some (SFunction 5, 0)"
    by (simp only: add_function_tables) (simp add: new_js_def)
  with js_tables_agree [OF run] run show ?thesis by blast
qed

text \<open>
  C21: a selection of devices reaches the function registered for it, across the JavaScript
  interface, the service and both directions of the IPC. An application that holds a token and
  calls \<^verbatim>\<open>on\<close> with the type of connections, the token and a function becomes the notifier of the
  token. From then on, whenever the panel's selection is accepted for this notifier, the task
  the service leaves sends one message to the application's listener; that message is read
  without an error, and the engine's next task calls the function, once, with the selected
  devices in their order.
\<close>

theorem selection_reaches_function:
  assumes "good_ipc env" and "dams_inv s" and "(acc, token) \<in> abs_tokens s"
    and "registered_notifier token EVENT_CONNECT s = nullptr"
    and "registered j token EVENT_CONNECT = None" and "js_tasks j = []"
    and "to_text e cb = Some EVENT_CONNECT" and "to_int32 e tk = Some token" and "is_callable e f"
    and "length rs < 2147483648" and "\<And>p. length p \<le> readable p"
  shows "\<exists>n j1 s1. js_call e (service_link env acc) True ''on'' [cb, tk, f] j s = Some (j1, s1) \<and>
    registered_notifier token EVENT_CONNECT s1 = Some (stub_object e n) \<and>
    (\<forall>s2 s3 s4. registered_notifier token EVENT_CONNECT s2 = Some (stub_object e n) \<longrightarrow>
       OnDeviceConnect env token rs s2 = (ERR_OK, s3) \<longrightarrow>
       (\<exists>data. run_task env (last (tasks s3)) s4 =
            Some (emit [Send (stub_object e n) EVENT_DEVICE_CONNECT data] s4) \<and>
          (let (r, j2) = listener_message env iv readable unknown n EVENT_DEVICE_CONNECT data j1
           in r = ERR_OK \<and> run_js_next e l j2 s' =
                Some (js_emit (Called f [WrapContinuationResultArray e rs]) j1, s'))))"
proof -
  let ?n = "listener_count j" and ?j1 = "add_function token EVENT_CONNECT f j"
  obtain s1 where s1: "js_call e (service_link env acc) True ''on'' [cb, tk, f] j s = Some (?j1, s1)"
      "registered_notifier token EVENT_CONNECT s1 = Some (stub_object e ?n)"
    using function_registered [OF assms(1-5,7-9)] by blast
  have j1: "js_tasks ?j1 = []" "listener_function ?j1 ?n EVENT_CONNECT = Some f"
    using assms(6) by (simp_all add: add_function_tables)
      (simp add: add_function_def AddCallback_def new_listener_def Let_def)
  have "\<exists>data. run_task env (last (tasks s3)) s4 =
          Some (emit [Send (stub_object e ?n) EVENT_DEVICE_CONNECT data] s4) \<and>
        (let (r, j2) = listener_message env iv readable unknown ?n EVENT_DEVICE_CONNECT data ?j1
         in r = ERR_OK \<and> run_js_next e l j2 s' = Some (js_emit (Called f [WrapContinuationResultArray e rs]) ?j1, s'))"
    if "registered_notifier token EVENT_CONNECT s2 = Some (stub_object e ?n)"
      "OnDeviceConnect env token rs s2 = (ERR_OK, s3)" for s2 s3 s4
  proof -
    from selected_task [OF that(2,1)] have "last (tasks s3) = TaskDeviceConnect (Some (stub_object e ?n)) rs" by auto
    with selection_sent [OF assms(1,10,11), of "stub_object e ?n" s4 iv unknown]
    show ?thesis by (auto simp: listener_message_def notice_called [OF j1])
  qed
  with s1 show ?thesis by blast
qed

definition demo_result :: ContinuationResult where
  "demo_result = \<lparr>res_deviceId = ''id'', res_deviceType = ''tv'', res_deviceName = ''TV''\<rparr>"

theorem selection_reaches_function_witness:
  "\<exists>n j1 s1. js_call sample_engine (service_link ipc_env 7) True ''on''
      [SText ''deviceConnect'', SNumber 1, SFunction 5] new_js two_callers = Some (j1, s1) \<and>
    registered_notifier 1 EVENT_CONNECT s1 = Some (Proxy n)"
proof -
  have small: "length [demo_result] < 2147483648" by simp
  have len: "length p \<le> length p" for p :: parcel by simp
  from selection_reaches_function [where iv = 0 and unknown = "\<lambda>c. 0" and l = "service_link ipc_env 7" and s' = two_callers,
      OF ipc_env_good two_callers_inv sample_facts(1-7) small len]
  show ?thesis unfolding sample_facts(8) by blast
qed

end
