(* ===== verification/SoftBus.thy ===== *)
theory SoftBus
  imports DeviceStorage DmsTypes
begin

text \<open>
  The adapter of the soft bus, \<^verbatim>\<open>services/base/src/adapter/dnetwork_adapter.cpp\<close>: it registers
  with the soft bus for devices that come and go, in a task with retries, and tells its
  listeners of them in tasks of its own thread. The soft bus is a parameter (\<open>dn_env\<close>), a
  listener a number; the object the soft bus calls back is the adapter's own. Device infos as
  they are sent (\<^verbatim>\<open>dms_device_info.cpp\<close>) come last.
\<close>

type_synonym node = "string \<times> int \<times> string"

datatype dn_event =
    RegNode
  | UnregNode
  | DnSleep
  | TellOnline nat node
  | TellOffline nat node

type_synonym dn_hist = "dn_event list"

record dn_env =
  reg_result :: "dn_hist \<Rightarrow> int"
  unreg_result :: "dn_hist \<Rightarrow> int"
  dn_post_ok :: "dn_hist \<Rightarrow> bool"
  local_node :: "dn_hist \<Rightarrow> int \<times> node"
  node_key :: "dn_hist \<Rightarrow> string \<Rightarrow> nat \<Rightarrow> int \<times> string"
  key_udid :: nat
  key_uuid :: nat

datatype dn_task = DnRegister | DnOnline node | DnOffline node

record dnetwork =
  dnetworkHandler :: bool
  listenerSet :: "nat list"
  dn_tasks :: "dn_task list"
  dn_history :: dn_hist

definition new_dnetwork :: dnetwork where
  "new_dnetwork = \<lparr>dnetworkHandler = False, listenerSet = [], dn_tasks = [], dn_history = []\<rparr>"

definition RETRY_REGISTER_CALLBACK_TIMES :: nat where "RETRY_REGISTER_CALLBACK_TIMES = 5"
definition NON_ANONYMIZED_LENGTH :: nat where "NON_ANONYMIZED_LENGTH = 6"

definition dn_Init :: "dnetwork \<Rightarrow> dnetwork" where
  "dn_Init s = s\<lparr>dnetworkHandler := True\<rparr>"

section \<open>Notices of the soft bus\<close>

definition post_dn :: "dn_env \<Rightarrow> dn_task \<Rightarrow> dnetwork \<Rightarrow> bool \<times> dnetwork" where
  "post_dn env t s =
     (if dn_post_ok env (dn_history s) then (True, s\<lparr>dn_tasks := dn_tasks s @ [t]\<rparr>) else (False, s))"

text \<open>The soft bus calls back only after \<open>Init\<close>, so there is a handler.\<close>

definition OnNodeOnline :: "dn_env \<Rightarrow> node option \<Rightarrow> dnetwork \<Rightarrow> dnetwork" where
  "OnNodeOnline env info s = (case info of None \<Rightarrow> s | Some n \<Rightarrow> snd (post_dn env (DnOnline n) s))"

definition OnNodeOffline :: "dn_env \<Rightarrow> node option \<Rightarrow> dnetwork \<Rightarrow> dnetwork" where
  "OnNodeOffline env info s = (case info of None \<Rightarrow> s | Some n \<Rightarrow> snd (post_dn env (DnOffline n) s))"

section \<open>Registration\<close>

text \<open>
  \<open>n\<close> attempts are left. Between two attempts the callback is taken back; the result is that of
  the last call, which is the taking back when every attempt failed.
\<close>

fun register_loop :: "dn_env \<Rightarrow> nat \<Rightarrow> int \<Rightarrow> dn_hist \<Rightarrow> int \<times> dn_hist" where
  "register_loop env 0 errCode h = (errCode, h)"
| "register_loop env (Suc n) errCode h =
     (let e = reg_result env h; h1 = h @ [RegNode]
      in if e = ERR_OK then (e, h1)
         else register_loop env n (unreg_result env h1) (h1 @ [UnregNode, DnSleep]))"

definition registerTask :: "dn_env \<Rightarrow> dn_hist \<Rightarrow> int \<times> dn_hist" where
  "registerTask env h = register_loop env RETRY_REGISTER_CALLBACK_TIMES ERR_OK h"

definition dn_AddDeviceChangeListener :: "dn_env \<Rightarrow> nat \<Rightarrow> dnetwork \<Rightarrow> bool \<times> dnetwork" where
  "dn_AddDeviceChangeListener env l s =
     (if \<not> dnetworkHandler s then (False, s)
      else
        let s1 = s\<lparr>listenerSet := set_emplace l (listenerSet s)\<rparr>
        in if 1 < length (listenerSet s1) then (True, s1) else post_dn env DnRegister s1)"

definition dn_RemoveDeviceChangeListener :: "dn_env \<Rightarrow> nat \<Rightarrow> dnetwork \<Rightarrow> dnetwork" where
  "dn_RemoveDeviceChangeListener env l s =
     (let s1 = s\<lparr>listenerSet := set_erase l (listenerSet s)\<rparr>
      in if listenerSet s1 \<noteq> [] then s1 else s1\<lparr>dn_history := dn_history s1 @ [UnregNode]\<rparr>)"

fun run_dn :: "dn_env \<Rightarrow> dn_task \<Rightarrow> dnetwork \<Rightarrow> dnetwork" where
  "run_dn env DnRegister s = s\<lparr>dn_history := snd (registerTask env (dn_history s))\<rparr>"
| "run_dn env (DnOnline n) s = s\<lparr>dn_history := dn_history s @ map (\<lambda>l. TellOnline l n) (listenerSet s)\<rparr>"
| "run_dn env (DnOffline n) s = s\<lparr>dn_history := dn_history s @ map (\<lambda>l. TellOffline l n) (listenerSet s)\<rparr>"

definition run_dn_next :: "dn_env \<Rightarrow> dnetwork \<Rightarrow> dnetwork" where
  "run_dn_next env s =
     (case dn_tasks s of [] \<Rightarrow> s | t # ts \<Rightarrow> run_dn env t (s\<lparr>dn_tasks := ts\<rparr>))"

section \<open>Queries\<close>

definition GetLocalBasicInfo :: "dn_env \<Rightarrow> dn_hist \<Rightarrow> node option" where
  "GetLocalBasicInfo env h = (let (errCode, n) = local_node env h in if errCode \<noteq> ERR_OK then None else Some n)"

definition GetUuidOrUdidByNetworkId :: "dn_env \<Rightarrow> dn_hist \<Rightarrow> string \<Rightarrow> nat \<Rightarrow> string" where
  "GetUuidOrUdidByNetworkId env h networkId key =
     (if networkId = [] then []
      else (let (ret, x) = node_key env h networkId key in if ret = ERR_OK then x else []))"

definition dn_GetUdidByNetworkId :: "dn_env \<Rightarrow> dn_hist \<Rightarrow> string \<Rightarrow> string" where
  "dn_GetUdidByNetworkId env h networkId = GetUuidOrUdidByNetworkId env h networkId (key_udid env)"

definition dn_GetUuidByNetworkId :: "dn_env \<Rightarrow> dn_hist \<Rightarrow> string \<Rightarrow> string" where
  "dn_GetUuidByNetworkId env h networkId = GetUuidOrUdidByNetworkId env h networkId (key_uuid env)"

definition AnonymizeDeviceId :: "string \<Rightarrow> string" where
  "AnonymizeDeviceId dev =
     (if length dev < NON_ANONYMIZED_LENGTH then [] else take NON_ANONYMIZED_LENGTH dev @ ''******'')"

definition ONLINE :: int where "ONLINE = 1"

definition device_info_values :: "env \<Rightarrow> DmsDeviceInfo \<Rightarrow> int \<Rightarrow> pval list" where
  "device_info_values env d deviceState =
     [PString16 (str16 env (deviceId d)), PString16 (str16 env (deviceName d)), PInt32 (deviceType d),
      PInt32 deviceState]"

definition device_info_Marshalling :: "env \<Rightarrow> DmsDeviceInfo \<Rightarrow> int \<Rightarrow> parcel \<Rightarrow> parcel option" where
  "device_info_Marshalling env d deviceState p = write_all (writable env) (device_info_values env d deviceState) p"

section \<open>What holds\<close>

text \<open>A log shows six characters of a device id, and ids of the same beginning look the same.\<close>

lemma anonymize_same_prefix:
  "take 6 a = take 6 b \<Longrightarrow> 6 \<le> length a \<Longrightarrow> 6 \<le> length b \<Longrightarrow> AnonymizeDeviceId a = AnonymizeDeviceId b"
  by (simp add: AnonymizeDeviceId_def NON_ANONYMIZED_LENGTH_def)

definition registrations :: "dn_hist \<Rightarrow> nat" where
  "registrations h = length (filter (\<lambda>x. x = RegNode) h)"

lemma register_loop_attempts:
  "registrations (snd (register_loop env n e h)) \<le> registrations h + n"
proof (induction n arbitrary: e h)
  case (Suc n)
  from Suc.IH [of "unreg_result env (h @ [RegNode])" "(h @ [RegNode]) @ [UnregNode, DnSleep]"]
  show ?case by (auto simp: Let_def registrations_def)
qed simp

text \<open>When the registration never succeeds, the task ends with the result of a call that took it back.\<close>

lemma register_loop_fails:
  assumes "\<And>h. reg_result env h \<noteq> ERR_OK" and "0 < n"
  shows "\<exists>h'. fst (register_loop env n e h) = unreg_result env h'"
  using assms(2)
proof (induction n arbitrary: e h)
  case (Suc n)
  show ?case
  proof (cases "n = 0")
    case False
    with Suc.IH [of "unreg_result env (h @ [RegNode])" "(h @ [RegNode]) @ [UnregNode, DnSleep]"] assms(1)
    show ?thesis by (simp add: Let_def)
  qed (use assms(1) in \<open>auto simp: Let_def\<close>)
qed simp

text \<open>Notices reach the listener of the device storage in the order of the soft bus.\<close>

fun posted_tells :: "nat \<Rightarrow> dn_task list \<Rightarrow> dn_hist" where
  "posted_tells l [] = []"
| "posted_tells l (DnRegister # ts) = posted_tells l ts"
| "posted_tells l (DnOnline n # ts) = TellOnline l n # posted_tells l ts"
| "posted_tells l (DnOffline n # ts) = TellOffline l n # posted_tells l ts"

fun tells_of :: "dn_event \<Rightarrow> bool" where
  "tells_of (TellOnline l n) = True"
| "tells_of (TellOffline l n) = True"
| "tells_of e = False"

lemma register_loop_tells: "filter tells_of (snd (register_loop env n e h)) = filter tells_of h"
  by (induction n arbitrary: e h) (simp_all add: Let_def)

definition tells :: "dnetwork \<Rightarrow> dn_hist" where
  "tells s = filter tells_of (dn_history s)"

lemma run_dn_next_tells:
  assumes "listenerSet s = [l]"
  shows "tells (run_dn_next env s) @ posted_tells l (dn_tasks (run_dn_next env s)) =
      tells s @ posted_tells l (dn_tasks s) \<and> listenerSet (run_dn_next env s) = [l]"
proof (cases "dn_tasks s")
  case (Cons t ts)
  then show ?thesis
    using assms by (cases t) (simp_all add: run_dn_next_def tells_def registerTask_def register_loop_tells)
qed (use assms in \<open>simp add: run_dn_next_def\<close>)

end
