(* ===== verification/NetworkChanges.thy ===== *)
theory NetworkChanges
  imports SoftBus DmsService SchedProps
begin

text \<open>
  Devices that come and go, from the notice of the soft bus to the tables of the scheduler,
  through the queues of three handlers: that of the adapter of the soft bus
  (\<^verbatim>\<open>dnetwork_adapter.cpp\<close>), that of the device storage
  (\<^verbatim>\<open>dtbschedmgr_device_info_storage.cpp\<close>) and that of the adapter of the scheduler
  (\<^verbatim>\<open>distributed_sched_adapter.cpp\<close>). The queues run in any interleaving.
\<close>

section \<open>The three queues\<close>

record network =
  net_bus :: dnetwork
  net_storage :: device_storage
  net_dms :: dms

record net_env =
  bus_env :: dn_env
  storage_env :: ds_env
  dms_env :: menv

text \<open>
  What a task says to its listeners are direct calls: the adapter of the soft bus calls the
  listener of the storage, number \<open>node_listener\<close>, and the storage calls the service.
\<close>

definition node_listener :: nat where "node_listener = 0"

fun tell_storage :: "ds_env \<Rightarrow> device_storage \<Rightarrow> dn_event \<Rightarrow> device_storage" where
  "tell_storage env s (TellOnline l n) = (if l = node_listener then OnDeviceOnline env (Some n) s else s)"
| "tell_storage env s (TellOffline l n) = (if l = node_listener then OnDeviceOffline env (Some n) s else s)"
| "tell_storage env s RegNode = s"
| "tell_storage env s UnregNode = s"
| "tell_storage env s DnSleep = s"

fun tell_dms :: "menv \<Rightarrow> dms \<Rightarrow> ds_event \<Rightarrow> dms" where
  "tell_dms env d (ListenerOnline dev) = dms_DeviceOnlineNotify env dev d"
| "tell_dms env d (ListenerOffline dev) = dms_DeviceOfflineNotify env True dev d"
| "tell_dms env d Sleep1s = d"
| "tell_dms env d AddDeviceChangeListener = d"
| "tell_dms env d RemoveDeviceChangeListener = d"

definition bus_turn :: "net_env \<Rightarrow> network \<Rightarrow> network" where
  "bus_turn e st =
     (let b = run_dn_next (bus_env e) (net_bus st);
          said = drop (length (dn_history (net_bus st))) (dn_history b)
      in st\<lparr>net_bus := b, net_storage := foldl (tell_storage (storage_env e)) (net_storage st) said\<rparr>)"

definition next_node :: "ds_env \<Rightarrow> device_storage \<Rightarrow> device_storage" where
  "next_node env s = (case nodeTasks s of [] \<Rightarrow> s | t # ts \<Rightarrow> run_node env t (s\<lparr>nodeTasks := ts\<rparr>))"

definition storage_turn :: "net_env \<Rightarrow> network \<Rightarrow> network" where
  "storage_turn e st =
     (let s = next_node (storage_env e) (net_storage st);
          said = drop (length (ds_history (net_storage st))) (ds_history s)
      in st\<lparr>net_storage := s, net_dms := foldl (tell_dms (dms_env e)) (net_dms st) said\<rparr>)"

datatype net_event =
    NetOnline node
  | NetOffline node
  | NetBusTask
  | NetStorageTask
  | NetAdapterTask

fun net_step :: "net_env \<Rightarrow> network \<Rightarrow> net_event \<Rightarrow> network" where
  "net_step e st (NetOnline n) = st\<lparr>net_bus := OnNodeOnline (bus_env e) (Some n) (net_bus st)\<rparr>"
| "net_step e st (NetOffline n) = st\<lparr>net_bus := OnNodeOffline (bus_env e) (Some n) (net_bus st)\<rparr>"
| "net_step e st NetBusTask = bus_turn e st"
| "net_step e st NetStorageTask = storage_turn e st"
| "net_step e st NetAdapterTask = st\<lparr>net_dms := run_adapter (conv (dms_env e)) 0 (net_dms st)\<rparr>"

section \<open>What was noticed and what is waiting\<close>

text \<open>A notice: whether the device came, and its network id.\<close>

type_synonym change = "bool \<times> string"

abbreviation network_id :: "node \<Rightarrow> string" where
  "network_id n \<equiv> snd (snd n)"

fun noticed :: "net_event \<Rightarrow> change list" where
  "noticed (NetOnline n) = [(True, network_id n)]"
| "noticed (NetOffline n) = [(False, network_id n)]"
| "noticed NetBusTask = []"
| "noticed NetStorageTask = []"
| "noticed NetAdapterTask = []"

definition notices :: "net_event list \<Rightarrow> change list" where
  "notices es = concat (map noticed es)"

fun bus_change :: "dn_task \<Rightarrow> change list" where
  "bus_change DnRegister = []"
| "bus_change (DnOnline n) = [(True, network_id n)]"
| "bus_change (DnOffline n) = [(False, network_id n)]"

fun node_change :: "node_task \<Rightarrow> change" where
  "node_change (NodeOnline d) = (True, deviceId d)"
| "node_change (NodeOffline dev) = (False, dev)"

text \<open>
  The changes the storage has yet to make, the devices whose end the scheduler has yet to see,
  and both together, the older first.
\<close>

definition upstream :: "network \<Rightarrow> change list" where
  "upstream st = map node_change (nodeTasks (net_storage st)) @ concat (map bus_change (dn_tasks (net_bus st)))"

definition leaving :: "network \<Rightarrow> string list" where
  "leaving st = map fst (adapterTasks (net_dms st))"

definition waiting :: "network \<Rightarrow> change list" where
  "waiting st = map (Pair False) (leaving st) @ upstream st"

fun change_set :: "string set \<Rightarrow> change \<Rightarrow> string set" where
  "change_set ds (True, dev) = insert dev ds"
| "change_set ds (False, dev) = ds - {dev}"

text \<open>The last change of a device, if there was one.\<close>

fun latest :: "string \<Rightarrow> change list \<Rightarrow> bool option" where
  "latest dev [] = None"
| "latest dev ((b, d) # cs) = (case latest dev cs of None \<Rightarrow> if d = dev then Some b else None | Some b' \<Rightarrow> Some b')"

lemma latest_append: "latest dev (xs @ ys) = (case latest dev ys of None \<Rightarrow> latest dev xs | Some b \<Rightarrow> Some b)"
  by (induction dev xs rule: latest.induct) (auto split: option.split)

lemma latest_None: "latest dev cs = None \<longleftrightarrow> dev \<notin> snd ` set cs"
  by (induction dev cs rule: latest.induct) (auto split: option.split)

lemma latest_filter_others: "latest dev (filter (\<lambda>(b, d). d \<noteq> x) cs) = (if x = dev then None else latest dev cs)"
  by (induction dev cs rule: latest.induct) (auto split: option.split)

section \<open>One step\<close>

definition net_env_ok :: "net_env \<Rightarrow> string \<Rightarrow> bool" where
  "net_env_ok e me =
     ((\<forall>h. dn_post_ok (bus_env e) h) \<and> (\<forall>h. ds_post_ok (storage_env e) h) \<and> me \<noteq> [] \<and>
      (\<forall>h. local_device (conv (dms_env e)) h = Some me))"

definition net_ready :: "(robj \<Rightarrow> int) \<Rightarrow> network \<Rightarrow> bool" where
  "net_ready owner st =
     (dnetwork.listenerSet (net_bus st) = [node_listener] \<and> networkIdMgrHandler (net_storage st) \<and>
      dmsListener (net_storage st) \<and> dmsAdapterHandler (net_dms st) \<and>
      (\<forall>(n, t) \<in> set (adapterTasks (net_dms st)). t = TaskDeviceOffline n) \<and>
      (\<forall>n \<in> set (leaving st). n \<noteq> []) \<and> (\<forall>(b, d) \<in> set (upstream st). d \<noteq> []) \<and>
      conn_inv owner (d_sched (net_dms st)) \<and> call_inv (d_sched (net_dms st)))"

definition devices_in :: "network \<Rightarrow> string set" where
  "devices_in st = map_keys (remoteDevices (net_storage st))"

lemma register_said:
  "\<exists>x. snd (register_loop env n e h) = h @ x \<and> list_all (\<lambda>ev. ev \<in> {RegNode, UnregNode, DnSleep}) x"
proof (induction n arbitrary: e h)
  case (Suc n)
  show ?case
  proof (cases "reg_result env h = ERR_OK")
    case False
    from Suc.IH [of "unreg_result env (h @ [RegNode])" "h @ [RegNode, UnregNode, DnSleep]"] obtain x where
      "snd (register_loop env n (unreg_result env (h @ [RegNode])) (h @ [RegNode, UnregNode, DnSleep])) =
        (h @ [RegNode, UnregNode, DnSleep]) @ x" "list_all (\<lambda>ev. ev \<in> {RegNode, UnregNode, DnSleep}) x"
      by blast
    with False show ?thesis by (intro exI [of _ "[RegNode, UnregNode, DnSleep] @ x"]) (simp add: Let_def)
  qed (auto simp: Let_def)
qed simp

lemma unheard: "list_all (\<lambda>ev. ev \<in> {RegNode, UnregNode, DnSleep}) x \<Longrightarrow> foldl (tell_storage env) s x = s"
  by (induction x) auto

lemma node_said:
  "networkIdMgrHandler s \<Longrightarrow> \<forall>h. ds_post_ok env h \<Longrightarrow>
   tell_storage env s (TellOnline node_listener n) =
     s\<lparr>nodeTasks := nodeTasks s @ [NodeOnline \<lparr>deviceName = fst n, deviceType = fst (snd n), deviceId = network_id n\<rparr>]\<rparr>"
  "networkIdMgrHandler s \<Longrightarrow> \<forall>h. ds_post_ok env h \<Longrightarrow> network_id n \<noteq> [] \<Longrightarrow>
   tell_storage env s (TellOffline node_listener n) = s\<lparr>nodeTasks := nodeTasks s @ [NodeOffline (network_id n)]\<rparr>"
  by (cases n; simp add: OnDeviceOnline_def OnDeviceOffline_def ds_DeviceOnlineNotify_def ds_DeviceOfflineNotify_def
      post_node_def)+

lemma bus_task:
  assumes "net_env_ok e me" and "net_ready owner st"
  shows "upstream (bus_turn e st) = upstream st" "net_dms (bus_turn e st) = net_dms st"
    "devices_in (bus_turn e st) = devices_in st" "net_ready owner (bus_turn e st)"
    "length (dn_tasks (net_bus (bus_turn e st))) = length (dn_tasks (net_bus st)) - 1"
    "length (nodeTasks (net_storage (bus_turn e st))) \<le> length (nodeTasks (net_storage st)) +
       (if dn_tasks (net_bus st) = [] then 0 else 1)"
proof -
  have ready: "dnetwork.listenerSet (net_bus st) = [node_listener]" "networkIdMgrHandler (net_storage st)"
    "\<forall>h. ds_post_ok (storage_env e) h" "\<forall>(b, d) \<in> set (upstream st). d \<noteq> []"
    using assms by (auto simp: net_ready_def net_env_ok_def)
  have "upstream (bus_turn e st) = upstream st \<and> net_dms (bus_turn e st) = net_dms st \<and>
      devices_in (bus_turn e st) = devices_in st \<and> dnetwork.listenerSet (net_bus (bus_turn e st)) = dnetwork.listenerSet (net_bus st) \<and>
      networkIdMgrHandler (net_storage (bus_turn e st)) \<and>
      dmsListener (net_storage (bus_turn e st)) = dmsListener (net_storage st) \<and>
      length (dn_tasks (net_bus (bus_turn e st))) = length (dn_tasks (net_bus st)) - 1 \<and>
      length (nodeTasks (net_storage (bus_turn e st))) \<le> length (nodeTasks (net_storage st)) +
        (if dn_tasks (net_bus st) = [] then 0 else 1)"
  proof (cases "dn_tasks (net_bus st)")
    case Nil
    with ready show ?thesis by (simp add: bus_turn_def run_dn_next_def)
  next
    case (Cons t ts)
    show ?thesis
    proof (cases t)
      case DnRegister
      obtain x where "snd (registerTask (bus_env e) (dn_history (net_bus st))) = dn_history (net_bus st) @ x"
        "list_all (\<lambda>ev. ev \<in> {RegNode, UnregNode, DnSleep}) x"
        using register_said unfolding registerTask_def by blast
      with Cons DnRegister ready show ?thesis
        by (simp add: bus_turn_def run_dn_next_def upstream_def devices_in_def unheard)
    next
      case (DnOnline n)
      with Cons ready show ?thesis
        by (simp add: bus_turn_def run_dn_next_def upstream_def devices_in_def node_said(1) del: tell_storage.simps)
    next
      case (DnOffline n)
      with Cons ready(4) have "network_id n \<noteq> []" by (auto simp: upstream_def)
      with Cons DnOffline ready show ?thesis
        by (simp add: bus_turn_def run_dn_next_def upstream_def devices_in_def node_said(2) del: tell_storage.simps)
    qed
  qed
  with assms(2) show "upstream (bus_turn e st) = upstream st" "net_dms (bus_turn e st) = net_dms st"
    "devices_in (bus_turn e st) = devices_in st" "net_ready owner (bus_turn e st)"
    "length (dn_tasks (net_bus (bus_turn e st))) = length (dn_tasks (net_bus st)) - 1"
    "length (nodeTasks (net_storage (bus_turn e st))) \<le> length (nodeTasks (net_storage st)) +
       (if dn_tasks (net_bus st) = [] then 0 else 1)"
    by (simp_all add: net_ready_def leaving_def)
qed

lemma dms_told:
  shows "dmsAdapterHandler d \<Longrightarrow> dev \<noteq> [] \<Longrightarrow>
      adapterTasks (dms_DeviceOnlineNotify env dev d) = filter (\<lambda>(n, t). n \<noteq> dev) (adapterTasks d)"
    and "dmsAdapterHandler d \<Longrightarrow> dev \<noteq> [] \<Longrightarrow>
      adapterTasks (dms_DeviceOfflineNotify env True dev d) = adapterTasks d @ [(dev, TaskDeviceOffline dev)]"
    and "d_sched (dms_DeviceOnlineNotify env dev d) = d_sched d"
    and "d_sched (dms_DeviceOfflineNotify env ok dev d) = d_sched d"
    and "dmsAdapterHandler (dms_DeviceOnlineNotify env dev d) = dmsAdapterHandler d"
    and "dmsAdapterHandler (dms_DeviceOfflineNotify env ok dev d) = dmsAdapterHandler d"
  by (simp_all add: dms_DeviceOnlineNotify_def dms_DeviceOfflineNotify_def adapter_DeviceOnline_def
      adapter_DeviceOffline_def post_adapter_def Let_def)

lemma node_run:
  "nodeTasks (run_node env t s) = nodeTasks s" "networkIdMgrHandler (run_node env t s) = networkIdMgrHandler s"
  by (cases t; simp add: run_online_def run_offline_def ds_log_def Let_def RegisterUuidNetworkIdMap_def
      UnregisterUuidNetworkIdMap_def)+

lemma notice_told:
  "d_sched (tell_dms env d (notice t)) = d_sched d"
  "dmsAdapterHandler (tell_dms env d (notice t)) = dmsAdapterHandler d"
  by (cases t; simp add: dms_told)+

lemma storage_task:
  assumes "net_ready owner st" and "nodeTasks (net_storage st) = t # ts" and "node_change t = (b, d)"
  shows "upstream st = (b, d) # upstream (storage_turn e st)"
    "devices_in (storage_turn e st) = change_set (devices_in st) (b, d)"
    "leaving (storage_turn e st) = (if b then filter (\<lambda>n. n \<noteq> d) (leaving st) else leaving st @ [d])"
    "d_sched (net_dms (storage_turn e st)) = d_sched (net_dms st)"
    "net_bus (storage_turn e st) = net_bus st" "nodeTasks (net_storage (storage_turn e st)) = ts"
    "net_ready owner (storage_turn e st)"
proof -
  have facts: "dmsListener (net_storage st)" "dmsAdapterHandler (net_dms st)" "d \<noteq> []"
    using assms by (auto simp: net_ready_def upstream_def)
  have run: "storage_turn e st = st\<lparr>net_storage := run_node (storage_env e) t ((net_storage st)\<lparr>nodeTasks := ts\<rparr>),
      net_dms := tell_dms (dms_env e) (net_dms st) (notice t)\<rparr>"
    using assms(2) facts(1) by (simp add: storage_turn_def next_node_def run_node_facts)
  have queue: "adapterTasks (net_dms (storage_turn e st)) =
      (if b then filter (\<lambda>(n, t). n \<noteq> d) (adapterTasks (net_dms st))
       else adapterTasks (net_dms st) @ [(d, TaskDeviceOffline d)])"
    using assms(3) facts(2,3) by (cases t) (auto simp: run dms_told)
  show up: "upstream st = (b, d) # upstream (storage_turn e st)"
    using assms(2,3) by (simp add: upstream_def run node_run)
  show "devices_in (storage_turn e st) = change_set (devices_in st) (b, d)"
    using assms(3) by (cases t) (auto simp: devices_in_def run run_node_facts simp del: run_node.simps)
  show leave: "leaving (storage_turn e st) = (if b then filter (\<lambda>n. n \<noteq> d) (leaving st) else leaving st @ [d])"
    by (simp add: leaving_def queue filter_map comp_def case_prod_unfold)
  show sched: "d_sched (net_dms (storage_turn e st)) = d_sched (net_dms st)" by (simp add: run notice_told)
  show "net_bus (storage_turn e st) = net_bus st" "nodeTasks (net_storage (storage_turn e st)) = ts"
    by (simp_all add: run node_run)
  have "dmsListener (net_storage (storage_turn e st))" "networkIdMgrHandler (net_storage (storage_turn e st))"
    "dmsAdapterHandler (net_dms (storage_turn e st))" "net_bus (storage_turn e st) = net_bus st"
    using assms(1) by (simp_all add: run net_ready_def run_node_facts node_run notice_told)
  then show "net_ready owner (storage_turn e st)"
    using assms(1) up facts(3) unfolding net_ready_def leave sched queue by (auto split: if_splits)
qed

text \<open>What the scheduler holds of a device: sessions, calls and connections of it.\<close>

definition held :: "string \<Rightarrow> sched \<Rightarrow> robj set \<times> robj set \<times> (robj \<times> ConnectInfo) list" where
  "held dev s =
     ({c. (c, dev) \<in> device_links (distributedConnectAbilityMap s)}, {c. (c, dev) \<in> device_links (callerMap s)},
      filter (\<lambda>(c, i). sourceDeviceId (ci_callerInfo i) = dev) (connectAbilityMap s))"

lemma offline_held:
  assumes "conn_inv owner s" and "call_inv s" and "\<forall>h. local_device env h = Some me" and "me \<noteq> []" and "dev \<noteq> []"
  shows "held d (ProcessDeviceOffline env dev s) = (if d = dev \<and> dev \<noteq> me then ({}, {}, []) else held d s)"
proof (cases "dev = me")
  case True
  then have "\<not> offline_applies env dev s"
    using assms(3) by (simp add: offline_applies_def GetLocalDeviceId_def CheckDeviceId_def)
  with True show ?thesis by (simp add: ProcessDeviceOffline_skip)
next
  case False
  then have "offline_applies env dev s"
    using assms(3-5) by (simp add: offline_applies_def GetLocalDeviceId_def CheckDeviceId_def)
  with False offline_links [OF assms(1,2), of env dev] show ?thesis
    by (auto simp: held_def Let_def filter_empty_conv intro!: filter_cong)
qed

lemma adapter_task:
  assumes "net_env_ok e me" and "net_ready owner st" and "leaving st = d # ds"
  shows "leaving (net_step e st NetAdapterTask) = ds" "upstream (net_step e st NetAdapterTask) = upstream st"
    "devices_in (net_step e st NetAdapterTask) = devices_in st" "net_ready owner (net_step e st NetAdapterTask)"
    "held x (d_sched (net_dms (net_step e st NetAdapterTask))) =
      (if x = d \<and> d \<noteq> me then ({}, {}, []) else held x (d_sched (net_dms st)))"
proof -
  obtain ts where ts: "adapterTasks (net_dms st) = (d, TaskDeviceOffline d) # ts" "map fst ts = ds"
    using assms(2,3) by (auto simp: leaving_def net_ready_def)
  have inv: "conn_inv owner (d_sched (net_dms st))" "call_inv (d_sched (net_dms st))" "d \<noteq> []"
    using assms(2,3) by (auto simp: net_ready_def)
  have step: "net_step e st NetAdapterTask = st\<lparr>net_dms := (net_dms st)\<lparr>adapterTasks := ts,
      d_sched := ProcessDeviceOffline (conv (dms_env e)) d (d_sched (net_dms st))\<rparr>\<rparr>"
    by (simp add: run_adapter_def ts adapter_ProcessDeviceOffline_def)
  have kept: "conn_inv owner (ProcessDeviceOffline env d (d_sched (net_dms st)))"
    "call_inv (ProcessDeviceOffline env d (d_sched (net_dms st)))" for env
    using ProcessDeviceOffline_inv [OF inv(1)] sched_exec_call_inv [of "d_sched (net_dms st)" env "ReqDeviceOffline d"] inv(2) by auto
  show "leaving (net_step e st NetAdapterTask) = ds" "upstream (net_step e st NetAdapterTask) = upstream st"
    "devices_in (net_step e st NetAdapterTask) = devices_in st"
    unfolding step by (simp_all add: leaving_def upstream_def devices_in_def ts)
  show "net_ready owner (net_step e st NetAdapterTask)"
    unfolding step using assms(2) kept by (simp add: net_ready_def leaving_def upstream_def ts)
  show "held x (d_sched (net_dms (net_step e st NetAdapterTask))) =
      (if x = d \<and> d \<noteq> me then ({}, {}, []) else held x (d_sched (net_dms st)))"
    unfolding step using offline_held [OF inv(1,2) _ _ inv(3)] assms(1) by (simp add: net_env_ok_def)
qed

section \<open>Every interleaving\<close>

text \<open>
  With the notices so far: what waits for a device ends with its last notice, a device that left
  and for which nothing waits has nothing at the scheduler, one that never left lost nothing, and
  the table of the storage is the notices behind.
\<close>

definition net_inv ::
  "(robj \<Rightarrow> int) \<Rightarrow> net_env \<Rightarrow> string \<Rightarrow> string set \<Rightarrow> sched \<Rightarrow> network \<times> change list \<Rightarrow> bool" where
  "net_inv owner e me D0 s0 x =
     (case x of (st, N) \<Rightarrow>
        net_env_ok e me \<and> net_ready owner st \<and>
        (\<forall>dev. latest dev (waiting st) = None \<or> latest dev (waiting st) = latest dev N) \<and>
        (\<forall>dev. dev \<noteq> me \<longrightarrow> latest dev (waiting st) = None \<longrightarrow> latest dev N = Some False \<longrightarrow>
           held dev (d_sched (net_dms st)) = ({}, {}, [])) \<and>
        (\<forall>dev. (False, dev) \<notin> set N \<longrightarrow>
           (False, dev) \<notin> set (waiting st) \<and> held dev (d_sched (net_dms st)) = held dev s0) \<and>
        foldl change_set (devices_in st) (upstream st) = foldl change_set D0 N)"

fun named :: "net_event \<Rightarrow> bool" where
  "named (NetOnline n) = (network_id n \<noteq> [])"
| "named (NetOffline n) = (network_id n \<noteq> [])"
| "named NetBusTask = True"
| "named NetStorageTask = True"
| "named NetAdapterTask = True"

definition noted_step :: "net_env \<Rightarrow> network \<times> change list \<Rightarrow> net_event \<Rightarrow> network \<times> change list" where
  "noted_step e x ev = (case x of (st, N) \<Rightarrow> (net_step e st ev, N @ noticed ev))"

lemma notice_step:
  assumes "net_inv owner e me D0 s0 (st, N)" and "upstream st' = upstream st @ [(b, d)]" and "net_dms st' = net_dms st"
    and "net_storage st' = net_storage st" and "dnetwork.listenerSet (net_bus st') = dnetwork.listenerSet (net_bus st)"
    and "d \<noteq> []"
  shows "net_inv owner e me D0 s0 (st', N @ [(b, d)])"
proof -
  have w: "waiting st' = waiting st @ [(b, d)]" "leaving st' = leaving st" "devices_in st' = devices_in st"
    using assms(2-4) by (simp_all add: waiting_def leaving_def devices_in_def)
  have "net_ready owner st'" using assms by (auto simp: net_inv_def net_ready_def leaving_def)
  with assms(1) show ?thesis
    unfolding net_inv_def by (auto simp: w assms(2,3) latest_append split: option.splits)
qed

lemma latest_back:
  "latest dev (map (Pair False) (filter (\<lambda>n. n \<noteq> d) xs) @ ys) =
     (if d = dev \<and> latest dev ys = None then None else latest dev (map (Pair False) xs @ (True, d) # ys))"
proof -
  have "map (Pair False) (filter (\<lambda>n. n \<noteq> d) xs) = filter (\<lambda>(b, n). n \<noteq> d) (map (Pair False) xs)"
    by (induction xs) auto
  then show ?thesis by (simp add: latest_append latest_filter_others split: option.split)
qed

lemma storage_step:
  assumes "net_inv owner e me D0 s0 (st, N)" 
  shows "net_inv owner e me D0 s0 (storage_turn e st, N)"
proof (cases "nodeTasks (net_storage st)")
  case Nil
  then have "storage_turn e st = st" by (simp add: storage_turn_def next_node_def)
  with assms show ?thesis by simp
next
  case (Cons t ts)
  obtain b d where bd: "node_change t = (b, d)" by force
  have ready: "net_ready owner st" using assms by (simp add: net_inv_def)
  note task = storage_task [OF ready Cons bd, of e]
  let ?st = "storage_turn e st"
  have w0: "waiting st = map (Pair False) (leaving st) @ (b, d) # upstream ?st" by (simp add: waiting_def task(1))
  have table: "foldl change_set (devices_in ?st) (upstream ?st) = foldl change_set D0 N"
    using assms by (simp add: net_inv_def task(1,2))
  show ?thesis
  proof (cases b)
    case False
    have "waiting ?st = waiting st" unfolding w0 by (simp add: waiting_def task(3) False)
    with assms table task(7) show ?thesis by (simp add: net_inv_def task(4))
  next
    case True
    then have w: "waiting ?st = map (Pair False) (filter (\<lambda>n. n \<noteq> d) (leaving st)) @ upstream ?st"
      by (simp add: waiting_def task(3))
    have old: "latest dev (waiting st) = None \<or> latest dev (waiting st) = latest dev N"
      "dev \<noteq> me \<Longrightarrow> latest dev (waiting st) = None \<Longrightarrow> latest dev N = Some False \<Longrightarrow>
        held dev (d_sched (net_dms st)) = ({}, {}, [])"
      "(False, dev) \<notin> set N \<Longrightarrow> (False, dev) \<notin> set (waiting st) \<and> held dev (d_sched (net_dms st)) = held dev s0"
      for dev using assms by (auto simp: net_inv_def)
    have came: "latest d N = Some True" if "latest d (upstream ?st) = None"
      using old(1) [of d] that unfolding w0 by (simp add: latest_append True)
    have now: "latest dev (waiting ?st) =
        (if d = dev \<and> latest dev (upstream ?st) = None then None else latest dev (waiting st))" for dev
      using True by (simp add: w w0 latest_back)
    have "set (waiting ?st) \<subseteq> set (waiting st)" unfolding w w0 by auto
    moreover have "net_env_ok e me" using assms by (simp add: net_inv_def)
    ultimately show ?thesis
      using old came table task(7) unfolding net_inv_def by (auto simp: now task(4))
  qed
qed

lemma adapter_step:
  assumes "net_inv owner e me D0 s0 (st, N)"
  shows "net_inv owner e me D0 s0 (net_step e st NetAdapterTask, N)"
proof (cases "leaving st")
  case Nil
  then have "net_step e st NetAdapterTask = st" by (simp add: leaving_def run_adapter_def)
  with assms show ?thesis by simp
next
  case (Cons d ds)
  have env: "net_env_ok e me" "net_ready owner st" using assms by (simp_all add: net_inv_def)
  note task = adapter_task [OF env Cons]
  let ?st = "net_step e st NetAdapterTask"
  have w: "waiting st = (False, d) # waiting ?st" by (simp add: waiting_def task(1,2) Cons del: net_step.simps)
  have old: "latest dev (waiting st) = None \<or> latest dev (waiting st) = latest dev N"
    "dev \<noteq> me \<Longrightarrow> latest dev (waiting st) = None \<Longrightarrow> latest dev N = Some False \<Longrightarrow>
      held dev (d_sched (net_dms st)) = ({}, {}, [])"
    "(False, dev) \<notin> set N \<Longrightarrow> (False, dev) \<notin> set (waiting st) \<and> held dev (d_sched (net_dms st)) = held dev s0"
    for dev using assms by (auto simp: net_inv_def)
  have "latest dev (waiting ?st) = None \<or> latest dev (waiting ?st) = latest dev N" for dev
    using old(1) [of dev] unfolding w by (auto split: option.splits)
  moreover have "held dev (d_sched (net_dms ?st)) = ({}, {}, [])"
    if "dev \<noteq> me" "latest dev (waiting ?st) = None" "latest dev N = Some False" for dev
    using old(2) [OF that(1) _ that(3)] that unfolding task(5) w by (auto split: if_splits)
  moreover have "(False, dev) \<notin> set (waiting ?st) \<and> held dev (d_sched (net_dms ?st)) = held dev s0"
    if "(False, dev) \<notin> set N" for dev
    using old(3) [OF that] unfolding task(5) w by auto
  moreover have "foldl change_set (devices_in ?st) (upstream ?st) = foldl change_set D0 N"
    using assms unfolding net_inv_def task(2,3) by simp
  ultimately show ?thesis unfolding net_inv_def using env task(4) by simp
qed

interpretation net_m: guarded_machine "noted_step e" "net_inv owner e me D0 s0" named for owner e me D0 s0
proof unfold_locales
  fix x ev
  assume inv: "net_inv owner e me D0 s0 x" and ev: "named ev"
  obtain st N where x: "x = (st, N)" by force
  have env: "net_env_ok e me" "net_ready owner st" "\<forall>h. dn_post_ok (bus_env e) h"
    using inv by (simp_all add: x net_inv_def net_env_ok_def)
  show "net_inv owner e me D0 s0 (noted_step e x ev)"
  proof (cases ev)
    case (NetOnline n)
    with inv ev env(3) show ?thesis
      by (auto simp: x noted_step_def OnNodeOnline_def post_dn_def upstream_def intro: notice_step)
  next
    case (NetOffline n)
    with inv ev env(3) show ?thesis
      by (auto simp: x noted_step_def OnNodeOffline_def post_dn_def upstream_def intro: notice_step)
  next
    case NetBusTask
    note task = bus_task [OF env(1,2)]
    have "waiting (bus_turn e st) = waiting st" by (simp add: waiting_def leaving_def task(1,2))
    with inv NetBusTask task show ?thesis by (simp add: x noted_step_def net_inv_def)
  next
    case NetStorageTask
    with inv show ?thesis by (simp add: x noted_step_def storage_step)
  next
    case NetAdapterTask
    with inv show ?thesis by (simp add: x noted_step_def adapter_step del: net_step.simps(5))
  qed
qed

lemma noted_run: "run (noted_step e) (st, N) es = (run (net_step e) st es, N @ notices es)"
  by (induction es arbitrary: st N) (simp_all add: noted_step_def notices_def)

section \<open>The queues run empty\<close>

lemma run_drains:
  fixes m :: "'s \<Rightarrow> nat"
  assumes "\<And>s. P s \<Longrightarrow> P (step s e) \<and> m (step s e) = m s - 1" and "P s" and "m s \<le> n"
  shows "P (run step s (replicate n e)) \<and> m (run step s (replicate n e)) = 0"
  using assms(2,3)
proof (induction n arbitrary: s)
  case (Suc n)
  with assms(1) [OF Suc.prems(1)] show ?case by simp
qed simp

definition in_queues :: "network \<Rightarrow> nat" where
  "in_queues st = length (dn_tasks (net_bus st)) + length (nodeTasks (net_storage st)) + length (leaving st)"

lemma inv_ready: "net_inv owner e me D0 s0 (st, N) \<Longrightarrow> net_env_ok e me \<and> net_ready owner st"
  by (simp add: net_inv_def)

lemma task_inv:
  assumes "net_inv owner e me D0 s0 (st, N)" and "noticed ev = []" and "named ev"
  shows "net_inv owner e me D0 s0 (net_step e st ev, N)"
  using net_m.inv_allowed [OF assms(1,3)] assms(2) by (simp add: noted_step_def)

lemma task_queues:
  assumes "net_inv owner e me D0 s0 (st, N)"
  shows "in_queues (net_step e st ev) \<le> in_queues st + length (noticed ev)"
proof -
  have env: "net_env_ok e me" "net_ready owner st" "\<forall>h. dn_post_ok (bus_env e) h"
    using inv_ready [OF assms] by (simp_all add: net_env_ok_def)
  show ?thesis
  proof (cases ev)
    case NetBusTask
    with bus_task(2,5,6) [OF env(1,2)] show ?thesis
      by (cases "dn_tasks (net_bus st)") (auto simp: in_queues_def leaving_def)
  next
    case NetStorageTask
    show ?thesis
    proof (cases "nodeTasks (net_storage st)")
      case (Cons t ts)
      obtain b d where "node_change t = (b, d)" by force
      from storage_task(3,5,6) [OF env(2) Cons this, of e] show ?thesis
        by (simp add: NetStorageTask in_queues_def Cons le_SucI length_filter_le)
    qed (simp add: NetStorageTask storage_turn_def next_node_def in_queues_def leaving_def)
  next
    case NetAdapterTask
    show ?thesis
    proof (cases "leaving st")
      case (Cons d ds)
      from adapter_task(1) [OF env(1,2) Cons] show ?thesis by (simp add: NetAdapterTask in_queues_def Cons)
    qed (simp add: NetAdapterTask leaving_def run_adapter_def in_queues_def)
  qed (use env(3) in \<open>auto simp: in_queues_def leaving_def OnNodeOnline_def OnNodeOffline_def post_dn_def\<close>)
qed

lemma run_queues:
  assumes "net_inv owner e me D0 s0 (st, N)" and "list_all named es"
  shows "in_queues (run (net_step e) st es) \<le> in_queues st + length es"
  using assms
proof (induction es arbitrary: st N)
  case (Cons ev es)
  have "net_inv owner e me D0 s0 (net_step e st ev, N @ noticed ev)"
    using net_m.inv_allowed [OF Cons.prems(1)] Cons.prems(2) by (simp add: noted_step_def)
  from Cons.IH [OF this] Cons.prems(2) task_queues [OF Cons.prems(1), of ev] show ?case by (cases ev) auto
qed simp

definition settling :: "nat \<Rightarrow> net_event list" where
  "settling k = replicate k NetBusTask @ replicate k NetStorageTask @ replicate k NetAdapterTask"

lemma settling_drains:
  assumes "net_inv owner e me D0 s0 (st, N)" and "in_queues st \<le> k"
  shows "net_inv owner e me D0 s0 (run (net_step e) st (settling k), N) \<and> waiting (run (net_step e) st (settling k)) = []"
proof -
  let ?ok = "\<lambda>st. net_inv owner e me D0 s0 (st, N) \<and> in_queues st \<le> k"
  have ok: "?ok (net_step e st ev)" if "?ok st" "noticed ev = []" "named ev" for st ev
    using task_inv [of owner e me D0 s0 st N ev] task_queues [of owner e me D0 s0 st N ev] that by auto
  let ?s1 = "run (net_step e) st (replicate k NetBusTask)"
  have 1: "?ok ?s1 \<and> length (dn_tasks (net_bus ?s1)) = 0"
  proof (rule run_drains)
    show "?ok (net_step e s NetBusTask) \<and>
        length (dn_tasks (net_bus (net_step e s NetBusTask))) = length (dn_tasks (net_bus s)) - 1" if "?ok s" for s
      using ok [OF that, of NetBusTask] bus_task(5) [of e me owner s] inv_ready that by auto
  qed (use assms in \<open>auto simp: in_queues_def\<close>)
  let ?s2 = "run (net_step e) ?s1 (replicate k NetStorageTask)"
  let ?ok2 = "\<lambda>st. ?ok st \<and> dn_tasks (net_bus st) = []"
  have 2: "?ok2 ?s2 \<and> length (nodeTasks (net_storage ?s2)) = 0"
  proof (rule run_drains)
    show "?ok2 (net_step e s NetStorageTask) \<and>
        length (nodeTasks (net_storage (net_step e s NetStorageTask))) = length (nodeTasks (net_storage s)) - 1"
      if "?ok2 s" for s
    proof (cases "nodeTasks (net_storage s)")
      case (Cons t ts)
      obtain b d where "node_change t = (b, d)" by force
      with storage_task(5,6) [OF _ Cons, of owner b d e] inv_ready that ok [of s NetStorageTask] Cons show ?thesis by auto
    qed (use ok [of s NetStorageTask] that in \<open>auto simp: storage_turn_def next_node_def\<close>)
  qed (use 1 in \<open>auto simp: in_queues_def\<close>)
  let ?s3 = "run (net_step e) ?s2 (replicate k NetAdapterTask)"
  let ?ok3 = "\<lambda>st. ?ok2 st \<and> nodeTasks (net_storage st) = []"
  have 3: "?ok3 ?s3 \<and> length (leaving ?s3) = 0"
  proof (rule run_drains)
    show "?ok3 (net_step e s NetAdapterTask) \<and> length (leaving (net_step e s NetAdapterTask)) = length (leaving s) - 1"
      if "?ok3 s" for s
    proof (cases "leaving s")
      case Nil
      then have "net_step e s NetAdapterTask = s" by (simp add: leaving_def run_adapter_def)
      with that Nil show ?thesis by simp
    next
      case (Cons d ds)
      with adapter_task(1) [OF _ _ Cons, of e me owner] inv_ready that ok [of s NetAdapterTask] show ?thesis by auto
    qed
  qed (use 2 in \<open>auto simp: in_queues_def\<close>)
  have "run (net_step e) st (settling k) = ?s3" by (simp add: settling_def)
  with 3 show ?thesis by (simp add: waiting_def upstream_def)
qed

text \<open>A service that has started, with empty queues.\<close>

definition net_idle :: "network \<Rightarrow> bool" where
  "net_idle st =
     (dnetwork.listenerSet (net_bus st) = [node_listener] \<and> networkIdMgrHandler (net_storage st) \<and>
      dmsListener (net_storage st) \<and> dmsAdapterHandler (net_dms st) \<and> in_queues st = 0)"

lemma idle_inv:
  assumes "net_env_ok e me" and "net_idle st" and "conn_inv owner (d_sched (net_dms st))"
    and "call_inv (d_sched (net_dms st))"
  shows "net_inv owner e me (devices_in st) (d_sched (net_dms st)) (st, [])"
  using assms by (auto simp: net_inv_def net_ready_def net_idle_def in_queues_def waiting_def upstream_def leaving_def)


text \<open>Devices \<open>B\<close> and \<open>C\<close>, both connected; \<open>C\<close> leaves and comes back, \<open>B\<close> leaves.\<close>

definition net_sample_env :: net_env where
  "net_sample_env = \<lparr>bus_env = \<lparr>reg_result = (\<lambda>h. 0), unreg_result = (\<lambda>h. 0), dn_post_ok = (\<lambda>h. True),
       local_node = (\<lambda>h. (0, ''A'', 1, ''A'')), node_key = (\<lambda>h n k. (0, n)), key_udid = 0, key_uuid = 1\<rparr>,
     storage_env = sample_ds_env, dms_env = sample_menv\<rparr>"

definition net_sample :: network where
  "net_sample = \<lparr>net_bus = \<lparr>dnetworkHandler = True, listenerSet = [node_listener], dn_tasks = [], dn_history = []\<rparr>,
     net_storage = new_device_storage\<lparr>networkIdMgrHandler := True, dmsListener := True\<rparr>,
     net_dms = new_dms\<lparr>dmsAdapterHandler := True, d_sched := sample_sched\<rparr>\<rparr>"

definition net_sample_events :: "net_event list" where
  "net_sample_events = [NetOnline (''c'', 1, ''C''), NetBusTask, NetOffline (''c'', 1, ''C''), NetOffline (''b'', 1, ''B''),
     NetBusTask, NetStorageTask, NetOnline (''c'', 1, ''C''), NetStorageTask]"


end
