(* ===== verification/ServiceInv.thy ===== *)
theory ServiceInv
  imports SchedCallbacks SchedProps ContinueProps MissionProps
begin

text \<open>
  The whole service as one machine: requests that any caller sends it, devices that come and
  go, callbacks, deaths, timers and the tasks it posts, in any order. The tables of its parts
  stay consistent through all of them, because every operation keeps the part of the state it
  works on and leaves the rest alone.
\<close>

section \<open>Operations that leave the tables of the connect and call managers alone\<close>

definition same_tables :: "sched \<Rightarrow> sched \<Rightarrow> bool" where
  "same_tables s s' = (distributedConnectAbilityMap s' = distributedConnectAbilityMap s \<and> same_calls s s')"

lemma same_tables_simps [simp]:
  "same_tables s s" "same_tables s (log_ext es s') = same_tables s s'"
  "same_tables s (s'\<lparr>history := h\<rparr>) = same_tables s s'"
  "same_tables s (s'\<lparr>dschedContinuation := c\<rparr>) = same_tables s s'"
  "same_tables s (s'\<lparr>dmsCallbackTask := t\<rparr>) = same_tables s s'"
  "same_tables s (snd (new_local s')) = same_tables s s'"
  by (auto simp: same_tables_def same_calls_def new_local_def)

lemma same_tables_trans: "same_tables s t \<Longrightarrow> same_tables t u \<Longrightarrow> same_tables s u"
  by (simp add: same_tables_def same_calls_def)

lemma start_tables:
  "same_tables s (snd (StartRemoteAbility env want u r tok s))"
  "same_tables s (snd (StartAbility env want r s))"
  "same_tables s (snd (SendResultFromRemote env want r caller account code s))"
  "same_tables s (snd (SendResult env ct want u r tok code s))"
  by (auto simp: StartRemoteAbility_def StartAbility_def SendResultFromRemote_def SendResult_def
      Let_def call_eq split_beta split: option.split)

lemma StartAbilityFromRemote_tables: "same_tables s (snd (StartAbilityFromRemote env want r caller account s))"
  by (auto simp: StartAbilityFromRemote_def Let_def start_tables split: option.split)

lemma Notify_tables: "same_tables s (NotifyContinuationCallbackResult env m code s)"
  by (auto simp: NotifyContinuationCallbackResult_def Let_def split_beta call_eq split: option.split)

lemma complete_tables:
  "same_tables s (NotifyCompleteContinuation env devId i ok s)"
  "same_tables s (snd (NotifyContinuationResultFromRemote env i ok s))"
  "same_tables s (continuation_timeout env m s)"
  by (auto simp: NotifyCompleteContinuation_def NotifyContinuationResultFromRemote_def
      continuation_timeout_def Let_def call_eq Notify_tables)

lemma StartRemoteFreeInstall_tables: "same_tables s (snd (StartRemoteFreeInstall env w u r tok callback s))"
  by (auto simp: StartRemoteFreeInstall_def Let_def split_beta call_eq split: option.split)

lemma install_tables:
  "same_tables s (snd (snd (StartFreeInstallFromRemote env info i s)))"
  "same_tables s (snd (HandleRemoteNotify env info i code s))"
  "same_tables s (snd (StartLocalAbility env info s))"
  by (auto simp: StartFreeInstallFromRemote_def HandleRemoteNotify_def StartLocalAbility_def Let_def
      split_beta call_eq start_tables split: option.split)

lemma OnInstallFinished_tables: "same_tables s (snd (OnInstallFinished env want r code callback s))"
  using same_tables_trans [OF install_tables(3) install_tables(2)]
  by (auto simp: OnInstallFinished_def NotifyCompleteFreeInstall_def Let_def split_beta install_tables)

lemma InstallResult_tables: "same_tables s (snd (NotifyCompleteFreeInstallFromRemote env i code s))"
proof -
  have "same_tables s (NotifyContinuationCallbackResult env m c (s\<lparr>history := h, dmsCallbackTask := t\<rparr>))" for m c h t
    by (rule same_tables_trans [OF _ Notify_tables]) simp
  then show ?thesis
    by (auto simp: NotifyCompleteFreeInstallFromRemote_def Let_def split_beta split: option.split)
qed

lemma timeout_tables: "same_tables s (free_install_timed_out env i s)"
  by (simp add: free_install_timed_out_def InstallResult_tables)

lemma push_pop_tables [simp]:
  "same_tables s (push_continuation m callback d f s') = same_tables s s'"
  "same_tables s (pop_continuation m s') = same_tables s s'"
  "same_tables s (SetContinuationTimeout m t s') = same_tables s s'"
  "same_tables s (RemoveContinuationTimeout m s') = same_tables s s'"
  by (simp_all add: push_continuation_def pop_continuation_def SetContinuationTimeout_def
      RemoveContinuationTimeout_def split: option.split)

lemma ContinueMission_tables: "same_tables s (snd (ContinueMission env src dst m callback ps s))"
  by (auto simp: ContinueMission_def ContinueRemoteMission_def ContinueLocalMission_def call_eq Let_def
      split_beta split: option.split sum.split)

lemma StartContinuation_tables: "same_tables s (snd (StartContinuation env w m u st tok s))"
proof -
  have "same_tables s (snd (StartRemoteFreeInstall env w' u r tok callback (s\<lparr>history := h\<rparr>)))" 
    "same_tables s (snd (StartRemoteAbility env w' u r tok (s\<lparr>history := h\<rparr>)))" for w' r callback h
    by (rule same_tables_trans [OF _ StartRemoteFreeInstall_tables], simp)
      (rule same_tables_trans [OF _ start_tables(1)], simp)
  then show ?thesis
    by (auto simp: StartContinuation_def Let_def Notify_tables StartRemoteFreeInstall_tables start_tables(1)
        split: option.split sum.split)
qed

section \<open>Operations that leave continuations and free installs alone\<close>

definition same_tasks :: "sched \<Rightarrow> sched \<Rightarrow> bool" where
  "same_tasks s s' =
     (dschedContinuation s' = dschedContinuation s \<and> dmsCallbackTask s' = dmsCallbackTask s)"

lemma same_tasks_inv: "same_tasks s s' \<Longrightarrow> cs_inv s \<Longrightarrow> cs_inv s'"
  by (simp add: same_tasks_def cs_inv_def)

lemma same_tasks_simps [simp]:
  "same_tasks s s" "same_tasks s (log_ext es s') = same_tasks s s'"
  "same_tasks s (s'\<lparr>distributedConnectAbilityMap := m\<rparr>) = same_tasks s s'"
  "same_tasks s (s'\<lparr>connectAbilityMap := m'\<rparr>) = same_tasks s s'"
  "same_tasks s (s'\<lparr>trackingUidMap := n\<rparr>) = same_tasks s s'"
  "same_tasks s (s'\<lparr>calleeMap := m'\<rparr>) = same_tasks s s'"
  "same_tasks s (s'\<lparr>callerMap := m\<rparr>) = same_tasks s s'"
  "same_tasks s (s'\<lparr>distributedComponentListener := l\<rparr>) = same_tasks s s'"
  "same_tasks s (s'\<lparr>componentTasks := ts\<rparr>) = same_tasks s s'"
  "same_tasks s (snd (new_local s')) = same_tasks s s'"
  "same_tasks s (ReportCaller env c ch co de s') = same_tasks s s'"
  "same_tasks s (ReportCallee env i ch co de s') = same_tasks s s'"
  by (simp_all add: same_tasks_def new_local_def)

lemma same_tasks_trans: "same_tasks s t \<Longrightarrow> same_tasks t u \<Longrightarrow> same_tasks s u"
  by (simp add: same_tasks_def)

lemma only_logs_tasks: "only_logs s' s'' \<Longrightarrow> same_tasks s s'' = same_tasks s s'"
  by (auto simp: only_logs_def)

lemmas logs_tasks [simp] = adapter_logs [THEN only_logs_tasks]
  NotifyDeviceOfflineToAppLocked_logs [THEN only_logs_tasks]
  disconnect_sessions_logs [THEN only_logs_tasks] NotifyProcessDiedAll_logs [THEN only_logs_tasks]

lemma DecreaseConnect_tasks [simp]: "same_tasks s (DecreaseConnectLocked u s') = same_tasks s s'"
  by (simp add: DecreaseConnectLocked_dec)

lemma Mapping_tasks [simp]:
  "same_tasks s (RemoteConnectAbilityMappingLocked env c src dst e caller tc s') = same_tasks s s'"
  by (simp add: RemoteConnectAbilityMappingLocked_def Let_def split: option.split)

lemma connect_loop_tasks: "same_tasks s (snd (connect_loop env n r want c caller account dev s))"
proof (induction n arbitrary: r s)
  case (Suc n)
  have "same_tasks s (snd (connect_loop env n r' want c caller account dev (log_ext es s)))" for r' es
    by (rule same_tasks_trans [OF _ Suc.IH]) simp
  then show ?case by (simp add: call_eq Let_def)
qed simp

lemma connect_tasks:
  "same_tasks s (snd (ConnectRemoteAbility env want connect u p tok s))"
  "same_tasks s (snd (DisconnectRemoteAbility env connect s))"
  "same_tasks s (snd (DisconnectAbilityFromRemote env connect source s))"
  by (auto simp: ConnectRemoteAbility_def TryConnectRemoteAbility_def DisconnectRemoteAbility_def
      DisconnectAbilityFromRemote_def Let_def connect_loop_tasks split: option.split prod.split)

lemma ConnectAbilityFromRemote_tasks:
  "ConnectAbilityFromRemote env want connect caller account s = Some (r, s') \<Longrightarrow> same_tasks s s'"
proof -
  have step: "adapter_ConnectAbility env want w s1 = (e, s2) \<Longrightarrow> same_tasks s s2 = same_tasks s s1" for w s1 e s2
    using logs_tasks(1) [of s env want w s1] by simp
  assume "ConnectAbilityFromRemote env want connect caller account s = Some (r, s')"
  then show ?thesis
    by (auto simp: ConnectAbilityFromRemote_def Let_def split_beta dest: step split: option.splits if_splits prod.splits)
qed

lemma died_loop_tasks: "same_tasks s (snd (snd (died_loop env caller m e s)))"
proof (induction env caller m e s rule: died_loop.induct)
  case (2 env caller c info m e s)
  let ?s1 = "snd (adapter_DisconnectAbility env (ci_callbackWrapper info) s)"
  have "same_tasks s (ReportCallee env info DISTRIBUTED_COMPONENT_REMOVE CONNECT CALLEE ?s1)" by simp
  then show ?case
    using same_tasks_trans [OF _ 2(1) [OF _ refl]] 2(2)
    by (auto simp: Let_def split_beta)
qed simp

lemma NotifyProcessDiedFromRemote_tasks: "same_tasks s (snd (NotifyProcessDiedFromRemote env caller s))"
  by (simp add: NotifyProcessDiedFromRemote_def split_beta died_loop_tasks)

lemma died_connects_tasks: "same_tasks s (snd (snd (died_connects env caller m acc s)))"
proof (induction env caller m acc s rule: died_connects.induct)
  case (2 env caller c ss m acc s)
  let ?s3 = "ReportCaller env caller DISTRIBUTED_COMPONENT_REMOVE CONNECT CALLER
    (log_ext [RemoveDeathRecipientFrom c ConnectRecipient] (DecreaseConnectLocked (uid caller) s))"
  have "same_tasks s ?s3" by simp
  then have "same_tasks s (snd (snd (died_connects env caller m acc' ?s3)))"
    if "ss \<noteq> [] \<and> IsSameCaller caller (hd ss)" "acc' = collect_notify caller ss acc" for acc'
    using same_tasks_trans [OF _ 2(1) [OF that refl refl refl]] by simp
  then show ?case
    using 2(2) by (simp add: Let_def split_beta)
qed simp

lemma ProcessConnectDied_tasks: "same_tasks s (ProcessConnectDied env connect s)"
  by (auto simp: ProcessConnectDied_def split_beta died_connects_tasks split: option.split list.split)

lemma caller_component_tasks [simp]:
  "same_tasks s (SaveCallerComponent env want c caller s') = same_tasks s s'"
  "same_tasks s (RemoveCallerComponent env c s') = same_tasks s s'"
  "same_tasks s (HandleLocalCallerDied env c s') = same_tasks s s'"
  by (auto simp: SaveCallerComponent_def RemoveCallerComponent_def HandleLocalCallerDied_def Let_def
      split: option.split)

lemma call_tasks:
  "same_tasks s (snd (StartRemoteAbilityByCall env want connect u p tok s))"
  "same_tasks s (snd (ReleaseRemoteAbility env connect element s))"
  "same_tasks s (snd (StartAbilityByCallFromRemote env want connect caller account s))"
  "same_tasks s (snd (ReleaseAbilityFromRemote env connect element caller s))"
  "same_tasks s (ProcessCalleeDied env connect s)"
  "same_tasks s (ProcessCallerDied env connect ty s)"
  by (auto simp: StartRemoteAbilityByCall_def TryStartRemoteAbilityByCall_def ReleaseRemoteAbility_def
      StartAbilityByCallFromRemote_def ReleaseAbilityFromRemote_def ProcessCalleeDied_def
      ProcessCallerDied_def Let_def call_eq split_beta split: option.split)

lemma component_tasks:
  "same_tasks s (snd (RegisterDistributedComponentListener callback s))"
  "same_tasks s (run_component_task env s)"
  by (auto simp: RegisterDistributedComponentListener_def run_component_task_def Let_def
      split: list.splits option.splits)

lemma start_tasks:
  "same_tasks s (snd (StartAbility env want r s))"
  "same_tasks s (snd (SendResultFromRemote env want r caller account code s))"
  "same_tasks s (snd (SendResult env ct want u r tok code s))"
  "same_tasks s (NotifyCompleteContinuation env devId i ok s)"
  "same_tasks s (snd (snd (StartFreeInstallFromRemote env info i s)))"
  "same_tasks s (snd (HandleRemoteNotify env info i code s))"
  by (auto simp: StartAbility_def SendResultFromRemote_def SendResult_def NotifyCompleteContinuation_def
      StartFreeInstallFromRemote_def HandleRemoteNotify_def Let_def call_eq split_beta split: option.split)

lemma StartAbilityFromRemote_tasks: "same_tasks s (snd (StartAbilityFromRemote env want r caller account s))"
  by (auto simp: StartAbilityFromRemote_def Let_def start_tasks split: option.split)

lemma StartLocalAbility_tasks: "same_tasks s (snd (StartLocalAbility env info s))"
  by (auto simp: StartLocalAbility_def Let_def start_tasks split: option.split)

lemma OnInstallFinished_tasks: "same_tasks s (snd (OnInstallFinished env want r code callback s))"
  using same_tasks_trans [OF StartLocalAbility_tasks start_tasks(6)]
  by (auto simp: OnInstallFinished_def NotifyCompleteFreeInstall_def Let_def split_beta start_tasks StartLocalAbility_tasks)

section \<open>The table of connections\<close>

lemma Mapping_wf:
  assumes "table_wf (distributedConnectAbilityMap s)"
  shows "table_wf (distributedConnectAbilityMap (RemoteConnectAbilityMappingLocked env c src dst e caller tc s))"
proof (cases c)
  case None
  with assms show ?thesis by (simp add: RemoteConnectAbilityMappingLocked_def)
next
  case (Some x)
  with table_wf_add [OF assms, of x] show ?thesis by (simp add: Mapping_tables)
qed

lemma connect_loop_wf:
  "table_wf (distributedConnectAbilityMap s) \<Longrightarrow>
   table_wf (distributedConnectAbilityMap (snd (connect_loop env n r want c caller account dev s)))"
  by (induction n arbitrary: r s) (auto simp: call_eq Let_def Mapping_wf)

lemma ConnectRemoteAbility_wf:
  "table_wf (distributedConnectAbilityMap s) \<Longrightarrow>
   table_wf (distributedConnectAbilityMap (snd (ConnectRemoteAbility env want connect u p tok s)))"
  by (auto simp: ConnectRemoteAbility_def TryConnectRemoteAbility_def Let_def connect_loop_wf
      split: option.split prod.split)

lemma DisconnectRemoteAbility_wf:
  "table_wf (distributedConnectAbilityMap s) \<Longrightarrow>
   table_wf (distributedConnectAbilityMap (snd (DisconnectRemoteAbility env connect s)))"
  by (cases connect) (simp_all add: DisconnectRemoteAbility_table, simp add: DisconnectRemoteAbility_def)

lemma table_wf_filter: "table_wf m \<Longrightarrow> table_wf (filter P m)"
  by (auto simp: table_wf_def)

lemma ProcessConnectDied_wf:
  "table_wf (distributedConnectAbilityMap s) \<Longrightarrow>
   table_wf (distributedConnectAbilityMap (ProcessConnectDied env connect s))"
  by (auto simp: ProcessConnectDied_def split_beta died_connects_fst other_callers_def table_wf_filter
      split: option.split list.split)

lemma offline_connects_wf_fst: "table_wf m \<Longrightarrow> fst (offline_connects env d m s) = without_device d m"
  by (induction m arbitrary: s) (auto simp: table_wf_Cons take_session_distinct Let_def split_beta)

lemma ProcessDeviceOffline_wf:
  "table_wf (distributedConnectAbilityMap s) \<Longrightarrow>
   table_wf (distributedConnectAbilityMap (ProcessDeviceOffline env dev s))"
  by (auto simp: ProcessDeviceOffline_def ProcessCalleeOffline_def Let_def split_beta
      offline_callees_frame offline_callers_frame offline_connects_wf_fst without_device_wf
      split: option.splits)

section \<open>The scheduler\<close>

definition sched_ok :: "sched \<Rightarrow> bool" where
  "sched_ok s = (cs_inv s \<and> call_inv s \<and> table_wf (distributedConnectAbilityMap s))"

named_theorems sched_keeps

lemma sched_ok_log [simp]: "sched_ok (log_ext es s) = sched_ok s"
  by (simp add: sched_ok_def)

lemma sched_ok_tables: "sched_ok s \<Longrightarrow> same_tables s s' \<Longrightarrow> cs_inv s' \<Longrightarrow> sched_ok s'"
  using same_calls_inv [of s s'] by (simp add: sched_ok_def same_tables_def)

lemma sched_ok_both: "sched_ok s \<Longrightarrow> same_tables s s' \<Longrightarrow> same_tasks s s' \<Longrightarrow> sched_ok s'"
  by (rule sched_ok_tables) (simp_all add: sched_ok_def same_tasks_inv)

lemma sched_ok_tasks:
  "sched_ok s \<Longrightarrow> same_tasks s s' \<Longrightarrow> call_inv s' \<Longrightarrow> table_wf (distributedConnectAbilityMap s') \<Longrightarrow> sched_ok s'"
  by (simp add: sched_ok_def same_tasks_inv)

lemma sched_ok_links:
  "sched_ok s \<Longrightarrow> same_tasks s s' \<Longrightarrow> same_links s s' \<Longrightarrow> call_inv s' \<Longrightarrow> sched_ok s'"
  by (auto simp: sched_ok_def same_tasks_inv same_links_def)

lemma sched_okD:
  "sched_ok s \<Longrightarrow> cs_inv s" "sched_ok s \<Longrightarrow> call_inv s"
  "sched_ok s \<Longrightarrow> table_wf (distributedConnectAbilityMap s)"
  by (simp_all add: sched_ok_def)

text \<open>Every operation of the scheduler.\<close>

lemma connect_keeps [sched_keeps]:
  "sched_ok s \<Longrightarrow> sched_ok (snd (ConnectRemoteAbility env want connect u p tok s))"
  "sched_ok s \<Longrightarrow> sched_ok (snd (DisconnectRemoteAbility env connect s))"
  "sched_ok s \<Longrightarrow> sched_ok (ProcessConnectDied env connect s)"
  by (rule sched_ok_tasks, assumption, simp_all add: connect_tasks ProcessConnectDied_tasks sched_okD
      ConnectRemoteAbility_wf DisconnectRemoteAbility_wf ProcessConnectDied_wf
      same_calls_inv [OF ConnectRemoteAbility_calls] same_calls_inv [OF DisconnectRemoteAbility_calls]
      same_calls_inv [OF ProcessConnectDied_calls])+

lemma ConnectAbilityFromRemote_keeps:
  "sched_ok s \<Longrightarrow> ConnectAbilityFromRemote env want connect caller account s = Some x \<Longrightarrow> sched_ok (snd x)"
  by (metis prod.collapse sched_ok_links ConnectAbilityFromRemote_tasks ConnectAbilityFromRemote_links
      ConnectAbilityFromRemote_call_inv sched_okD(2))

lemma call_keeps [sched_keeps]:
  "sched_ok s \<Longrightarrow> sched_ok (snd (DisconnectAbilityFromRemote env connect source s))"
  "sched_ok s \<Longrightarrow> sched_ok (snd (NotifyProcessDiedFromRemote env caller s))"
  "sched_ok s \<Longrightarrow> sched_ok (snd (StartRemoteAbilityByCall env want connect u p tok s))"
  "sched_ok s \<Longrightarrow> sched_ok (snd (ReleaseRemoteAbility env connect element s))"
  "sched_ok s \<Longrightarrow> sched_ok (snd (StartAbilityByCallFromRemote env want connect caller account s))"
  "sched_ok s \<Longrightarrow> sched_ok (snd (ReleaseAbilityFromRemote env connect element caller s))"
  "sched_ok s \<Longrightarrow> sched_ok (ProcessCalleeDied env connect s)"
  "sched_ok s \<Longrightarrow> sched_ok (ProcessCallerDied env connect ty s)"
  "sched_ok s \<Longrightarrow> sched_ok (snd (RegisterDistributedComponentListener callback s))"
  "sched_ok s \<Longrightarrow> sched_ok (run_component_task env s)"
  by (rule sched_ok_links, assumption, simp_all add: connect_tasks NotifyProcessDiedFromRemote_tasks call_tasks
      component_tasks sched_okD DisconnectAbilityFromRemote_links NotifyProcessDiedFromRemote_links
      StartRemoteAbilityByCall_links ReleaseRemoteAbility_links callee_side_links ProcessCallerDied_links
      component_links DisconnectAbilityFromRemote_call_inv NotifyProcessDiedFromRemote_call_inv
      StartRemoteAbilityByCall_call_inv ReleaseRemoteAbility_call_inv callee_side_call_inv
      ProcessCallerDied_call_inv same_calls_inv [OF component_calls(1)] same_calls_inv [OF component_calls(2)])+

lemma start_keeps [sched_keeps]:
  "sched_ok s \<Longrightarrow> sched_ok (snd (StartAbilityFromRemote env want r caller account s))"
  "sched_ok s \<Longrightarrow> sched_ok (snd (SendResultFromRemote env want r caller account code s))"
  "sched_ok s \<Longrightarrow> sched_ok (snd (SendResult env ct want u r tok code s))"
  "sched_ok s \<Longrightarrow> sched_ok (NotifyCompleteContinuation env devId i ok s)"
  "sched_ok s \<Longrightarrow> sched_ok (snd (snd (StartFreeInstallFromRemote env info i s)))"
  "sched_ok s \<Longrightarrow> sched_ok (snd (OnInstallFinished env want r code callback s))"
  by (rule sched_ok_both, assumption, simp_all add: start_tables StartAbilityFromRemote_tables complete_tables
      install_tables OnInstallFinished_tables start_tasks StartAbilityFromRemote_tasks OnInstallFinished_tasks)+

lemma result_inv:
  "cs_inv s \<Longrightarrow> cs_inv (snd (NotifyContinuationResultFromRemote env i ok s))"
  "cs_inv s \<Longrightarrow> cs_inv (continuation_timeout env m s)"
  "cs_inv s \<Longrightarrow> cs_inv (free_install_timed_out env i s)"
  by (simp_all add: NotifyContinuationResultFromRemote_def continuation_timeout_def free_install_timed_out_def
      Let_def Notify_inv InstallResult_inv)

lemma continue_keeps [sched_keeps]:
  "sched_ok s \<Longrightarrow> sched_ok (snd (StartRemoteAbility env want u r tok s))"
  "sched_ok s \<Longrightarrow> sched_ok (snd (ContinueMission env src dst m callback ps s))"
  "sched_ok s \<Longrightarrow> sched_ok (snd (StartContinuation env w m u st tok s))"
  "sched_ok s \<Longrightarrow> sched_ok (snd (NotifyContinuationResultFromRemote env i ok s))"
  "sched_ok s \<Longrightarrow> sched_ok (continuation_timeout env m s)"
  "sched_ok s \<Longrightarrow> sched_ok (snd (StartRemoteFreeInstall env w u r tok callback s))"
  "sched_ok s \<Longrightarrow> sched_ok (snd (NotifyCompleteFreeInstallFromRemote env i code s))"
  "sched_ok s \<Longrightarrow> sched_ok (free_install_timed_out env i s)"
  by (rule sched_ok_tables, assumption, simp_all add: start_tables ContinueMission_tables StartContinuation_tables
      complete_tables StartRemoteFreeInstall_tables InstallResult_tables timeout_tables sched_okD
      StartRemoteAbility_inv ContinueMission_inv StartContinuation_inv StartRemoteFreeInstall_inv
      InstallResult_inv result_inv)+

lemma ProcessDeviceOffline_keeps [sched_keeps]: "sched_ok s \<Longrightarrow> sched_ok (ProcessDeviceOffline env dev s)"
  by (simp add: sched_ok_def ProcessDeviceOffline_cs_inv ProcessDeviceOffline_call_inv ProcessDeviceOffline_wf)

section \<open>Requests\<close>

text \<open>An answer after which \<open>P\<close> holds, unless the process died.\<close>

definition answers :: "('s \<Rightarrow> bool) \<Rightarrow> 's answer \<Rightarrow> bool" where
  "answers P a = (case a of None \<Rightarrow> True | Some (r, reply, s) \<Rightarrow> P s)"

named_theorems answers_intro

lemma answers_simps [simp]:
  "answers P None" "answers P (Some (r, reply, s)) = P s" "answers P (refuse e s) = P s"
  "answers P (reply_result env x) = P (snd x)"
  by (simp_all add: answers_def refuse_def reply_result_def)

lemma answers_values [simp]:
  "answers P (reply_values env vs s) = P s" "answers Q (reply_timed env b x vs) = Q (snd x)"
  by (simp_all add: reply_values_def reply_timed_def split: option.split)

lemma answers_need [answers_intro]:
  "P s \<Longrightarrow> (\<And>x p. answers P (k x p)) \<Longrightarrow> answers P (need env s r k)"
  by (auto simp: need_def split: option.split)

lemma answers_nonnull [answers_intro]:
  "P s \<Longrightarrow> (\<And>x p. answers P (k x p)) \<Longrightarrow> answers P (nonnull e s r k)"
  by (auto simp: nonnull_def split: prod.split option.split)

lemma answers_want_at [answers_intro]:
  "P s \<Longrightarrow> (\<And>x p. answers P (k x p)) \<Longrightarrow> answers P (want_at env s p k)"
  by (simp add: want_at_def answers_nonnull)

lemma answers_account_at [answers_intro]:
  "P s \<Longrightarrow> (\<And>a t p. answers P (k a t p)) \<Longrightarrow> answers P (account_at env s p k)"
  by (auto simp: account_at_def Let_def split_beta intro!: answers_need)

lemma answers_bind [answers_intro]: "(\<And>x. m = Some x \<Longrightarrow> answers P (k x)) \<Longrightarrow> answers P (m \<bind> k)"
  by (cases m) simp_all

lemma answers_if [answers_intro]:
  "(c \<Longrightarrow> answers P a) \<Longrightarrow> (\<not> c \<Longrightarrow> answers P b) \<Longrightarrow> answers P (if c then a else b)"
  by simp

lemma answers_let [answers_intro]: "(\<And>x y. answers P (k x y)) \<Longrightarrow> answers P (case z of (x, y) \<Rightarrow> k x y)"
  by (cases z) simp

text \<open>The requests about abilities, whoever sends them and whatever they hold.\<close>

lemma local_handlers_keep:
  assumes "sched_ok s"
  shows "answers sched_ok (StartRemoteAbilityInner env data s)"
    "answers sched_ok (ContinueMissionInner env data s)"
    "answers sched_ok (StartContinuationInner env data s)"
    "answers sched_ok (NotifyCompleteContinuationInner env data s)"
    "answers sched_ok (ConnectRemoteAbilityInner env data s)"
    "answers sched_ok (DisconnectRemoteAbilityInner env data s)"
    "answers sched_ok (StartRemoteAbilityByCallInner env data s)"
    "answers sched_ok (ReleaseRemoteAbilityInner env data s)"
    "answers sched_ok (RegisterDistributedComponentListenerInner env data s)"
    "answers sched_ok (GetDistributedComponentListInner env data s)"
    "answers sched_ok (StartRemoteFreeInstallInner env data s)"
  unfolding sched_handlers Let_def
  by (intro answers_intro; simp add: sched_keeps assms split_beta)+

lemma remote_handlers_keep:
  assumes "sched_ok s"
  shows "answers sched_ok (StartAbilityFromRemoteInner env data s)"
    "answers sched_ok (SendResultFromRemoteInner env data s)"
    "answers sched_ok (NotifyContinuationResultFromRemoteInner env data s)"
    "answers sched_ok (DisconnectAbilityFromRemoteInner env data s)"
    "answers sched_ok (NotifyProcessDiedFromRemoteInner env data s)"
    "answers sched_ok (StartAbilityByCallFromRemoteInner env data s)"
    "answers sched_ok (ReleaseAbilityFromRemoteInner env data s)"
    "answers sched_ok (StartFreeInstallFromRemoteInner env data s)"
    "answers sched_ok (NotifyCompleteFreeInstallFromRemoteInner env data s)"
  unfolding sched_handlers Let_def split_beta
  by (intro answers_intro; simp add: sched_keeps assms)+

lemma ConnectAbilityFromRemoteInner_keeps:
  assumes "sched_ok s"
  shows "answers sched_ok (ConnectAbilityFromRemoteInner env data s)"
  unfolding sched_handlers Let_def split_beta
  by (intro answers_intro; simp add: assms ConnectAbilityFromRemote_keeps [OF assms])

section \<open>The service\<close>

definition dms_ok :: "dms \<Rightarrow> bool" where
  "dms_ok d = (sched_ok (d_sched d) \<and> mission_inv (d_missions d))"

lemma dms_ok_simps [simp]:
  "dms_ok (d\<lparr>d_sched := s\<rparr>) = (sched_ok s \<and> mission_inv (d_missions d))"
  "dms_ok (d\<lparr>d_missions := m\<rparr>) = (sched_ok (d_sched d) \<and> mission_inv m)"
  "dms_ok (d\<lparr>adapterTasks := ts\<rparr>) = dms_ok d"
  "dms_ok (d\<lparr>dmsAdapterHandler := b\<rparr>) = dms_ok d"
  by (simp_all add: dms_ok_def)

lemma dms_okD: "dms_ok d \<Longrightarrow> sched_ok (d_sched d)" "dms_ok d \<Longrightarrow> mission_inv (d_missions d)"
  by (simp_all add: dms_ok_def)

lemma on_sched_keeps: "dms_ok d \<Longrightarrow> answers sched_ok (f (conv env) data (d_sched d)) \<Longrightarrow> answers dms_ok (on_sched f env data d)"
  by (auto simp: on_sched_def dms_okD answers_def intro!: answers_intro split: option.splits Option.bind_splits)

lemma on_missions_keeps: "dms_ok d \<Longrightarrow> mission_inv (snd (f (d_missions d))) \<Longrightarrow> dms_ok (snd (on_missions f d))"
  by (simp add: on_missions_def split_beta dms_okD)

lemma mission_svc_keeps:
  assumes "dms_ok d"
  shows "dms_ok (snd (svc_RegisterMissionListener env dev x d))"
    "dms_ok (snd (svc_UnRegisterMissionListener env dev x d))"
    "dms_ok (snd (svc_StartSyncRemoteMissions env dst d))"
    "dms_ok (snd (svc_StopSyncRemoteMissions env dst d))"
    "dms_ok (snd (svc_NotifyMissionsChangedFromRemote env infos caller d))"
    "dms_ok (snd (svc_StopSyncMissionsFromRemote env caller d))"
    "dms_ok (snd (snd (svc_StartSyncMissionsFromRemote env caller d)))"
  using assms
  by (simp_all add: svc_RegisterMissionListener_def svc_UnRegisterMissionListener_def
      svc_StartSyncRemoteMissions_def svc_StopSyncRemoteMissions_def svc_NotifyMissionsChangedFromRemote_def
      svc_StopSyncMissionsFromRemote_def svc_StartSyncMissionsFromRemote_def split_beta
      on_missions_keeps dms_okD mission_keeps)

lemma snapshot_svc_keeps:
  "dms_ok d \<Longrightarrow> svc_GetRemoteMissionSnapshotInfo env n i d = Some x \<Longrightarrow> dms_ok (snd (snd x))"
  using GetRemoteMissionSnapshotInfo_inv [of "d_missions d" env n i]
  by (auto simp: svc_GetRemoteMissionSnapshotInfo_def dms_okD)

lemma mission_handlers_keep:
  assumes "dms_ok d"
  shows "answers dms_ok (RegisterMissionListenerInner env data d)"
    "answers dms_ok (UnRegisterMissionListenerInner env data d)"
    "answers dms_ok (GetMissionInfosInner env data d)"
    "answers dms_ok (StartSyncRemoteMissionsInner env data d)"
    "answers dms_ok (StopSyncRemoteMissionsInner env data d)"
  unfolding mission_handlers Let_def split_beta
  by (intro answers_intro; simp add: mission_svc_keeps assms split: option.split)+

lemma peer_mission_handlers_keep:
  assumes "dms_ok d"
  shows "answers dms_ok (StartSyncMissionsFromRemoteInner env data d)"
    "answers dms_ok (StopSyncMissionsFromRemoteInner env data d)"
    "answers dms_ok (NotifyMissionsChangedFromRemoteInner env data d)"
  unfolding mission_handlers Let_def split_beta
  by (intro answers_intro; simp add: mission_svc_keeps assms split_beta split: option.split)+

lemma GetRemoteMissionSnapshotInfoInner_keeps:
  assumes "dms_ok d"
  shows "answers dms_ok (GetRemoteMissionSnapshotInfoInner env data d)"
  unfolding mission_handlers Let_def split_beta
  by (intro answers_intro)
    (auto simp: assms dms_okD mission_keeps dest: snapshot_svc_keeps [OF assms] split: option.split)

lemma localFuncsMap_keeps:
  assumes "localFuncsMap c = Some f" and "dms_ok d"
  shows "answers dms_ok (f env data d)"
  using assms by (cases c)
    (auto simp: dms_okD local_handlers_keep mission_handlers_keep GetRemoteMissionSnapshotInfoInner_keeps
      intro!: on_sched_keeps)

lemma remoteFuncsMap_keeps:
  assumes "remoteFuncsMap c = Some f" and "dms_ok d"
  shows "answers dms_ok (f env data d)"
  using assms by (cases c)
    (auto simp: dms_okD local_handlers_keep remote_handlers_keep ConnectAbilityFromRemoteInner_keeps
      peer_mission_handlers_keep intro!: on_sched_keeps)

lemma OnRemoteRequest_keeps:
  assumes "dms_ok d"
  shows "answers dms_ok (OnRemoteRequest env code data d)"
proof (cases "handler_of env code d")
  case None
  with assms show ?thesis by (simp add: OnRemoteRequest_def split_beta)
next
  case (Some f)
  then have "answers dms_ok (f env p d)" for p
    using assms localFuncsMap_keeps remoteFuncsMap_keeps
    by (auto simp: handler_of_def bind_eq_Some_conv split: if_splits)
  with Some assms show ?thesis by (simp add: OnRemoteRequest_def split_beta)
qed

text \<open>
  What happens to the service. Every event has its own environment: any caller, any answer of the
  other devices, of the ability manager and of the storage. The timers are those of the two
  event handlers, with the number of their event.
\<close>

datatype dms_event =
    DMessage menv nat parcel
  | DOnline menv string
  | DOffline menv bool string
  | DConnectDied bool ptr
  | DCalleeDied bool ptr
  | DCallerDied bool ptr int
  | DRunAdapter env nat
  | DRunReport env
  | DMissionTimer env uint32
  | DInstallTimer env int
  | DResult env nat Want int int nat int
  | DInstallCallback cb_env nat parcel DmsFreeInstallCallback
  | DQueryCallback cb_env nat parcel
  | DWrapper cb_env bool AbilityConnectionWrapper nat parcel
  | DConnectPanel cb_env AppConnection
  | DDisconnectPanel cb_env
  | DDump cb_env int "u16string list"
  | DMissions menv mission_req

fun dms_exec :: "dms_event \<Rightarrow> dms \<Rightarrow> dms option" where
  "dms_exec (DMessage env code data) d = map_option (\<lambda>(r, reply, d'). d') (OnRemoteRequest env code data d)"
| "dms_exec (DOnline env dev) d = Some (dms_DeviceOnlineNotify env dev d)"
| "dms_exec (DOffline env ok dev) d = Some (dms_DeviceOfflineNotify env ok dev d)"
| "dms_exec (DConnectDied ok c) d = Some (adapter_ProcessConnectDied ok c d)"
| "dms_exec (DCalleeDied ok c) d = Some (adapter_ProcessCalleeDied ok c d)"
| "dms_exec (DCallerDied ok c typ) d = Some (adapter_ProcessCallerDied ok c typ d)"
| "dms_exec (DRunAdapter env n) d = Some (run_adapter env n d)"
| "dms_exec (DRunReport env) d = Some (d\<lparr>d_sched := run_component_task env (d_sched d)\<rparr>)"
| "dms_exec (DMissionTimer env i) d =
     Some (case cont_ProcessEvent i of None \<Rightarrow> d | Some m \<Rightarrow> d\<lparr>d_sched := continuation_timeout env m (d_sched d)\<rparr>)"
| "dms_exec (DInstallTimer env i) d =
     Some (case task_ProcessEvent i of None \<Rightarrow> d | Some t \<Rightarrow> d\<lparr>d_sched := free_install_timed_out env t (d_sched d)\<rparr>)"
| "dms_exec (DResult env token want u req tok code) d =
     Some (d\<lparr>d_sched := snd (SendResult env token want u req tok code (d_sched d))\<rparr>)"
| "dms_exec (DInstallCallback e code data c) d =
     Some (d\<lparr>d_sched := snd (snd (install_OnRemoteRequest e code data c (d_sched d)))\<rparr>)"
| "dms_exec (DQueryCallback e code data) d =
     Some (d\<lparr>d_sched := snd (query_OnRemoteRequest e code data (d_sched d))\<rparr>)"
| "dms_exec (DWrapper e ok w code data) d = Some (snd (snd (wrapper_OnRemoteRequest e ok w code data d)))"
| "dms_exec (DConnectPanel e c) d = Some (d\<lparr>d_sched := snd (snd (svc_ConnectAbility e c (d_sched d)))\<rparr>)"
| "dms_exec (DDisconnectPanel e) d = Some (d\<lparr>d_sched := snd (svc_DisconnectAbility e (d_sched d))\<rparr>)"
| "dms_exec (DDump e fd args) d = Some (d\<lparr>d_sched := snd (svc_Dump e fd args (d_sched d))\<rparr>)"
| "dms_exec (DMissions env r) d = Some (d\<lparr>d_missions := mission_step env (d_missions d) r\<rparr>)"

text \<open>\<open>None\<close>: the process has died.\<close>

definition dms_step :: "dms option \<Rightarrow> dms_event \<Rightarrow> dms option" where
  "dms_step st e = Option.bind st (dms_exec e)"

lemma device_notices_keep:
  assumes "dms_ok d"
  shows "dms_ok (dms_DeviceOnlineNotify env dev d)" "dms_ok (dms_DeviceOfflineNotify env ok dev d)"
  using assms
  by (simp_all add: dms_DeviceOnlineNotify_def dms_DeviceOfflineNotify_def adapter_DeviceOnline_def
      adapter_DeviceOffline_def post_adapter_def Let_def dms_okD mission_step_inv [of _ env "MOnline dev", simplified]
      mission_keeps)

lemma run_adapter_keeps:
  assumes "dms_ok d"
  shows "dms_ok (run_adapter env n d)"
proof -
  have "dms_ok (run_adapter_task env t (d\<lparr>adapterTasks := ts\<rparr>))" for t ts
    using assms by (cases t) (simp_all add: adapter_ProcessDeviceOffline_def dms_okD sched_keeps)
  with assms show ?thesis by (simp add: run_adapter_def)
qed

lemma callbacks_keep [sched_keeps]:
  assumes "sched_ok s"
  shows "sched_ok (snd (snd (install_OnRemoteRequest e code data c s)))"
    "sched_ok (snd (query_OnRemoteRequest e code data s))"
proof -
  have "sched_ok (NotifyContinuationCallbackResult env m r s)" for env m r
    using assms by (auto intro: sched_ok_tables simp: Notify_tables Notify_inv sched_okD)
  moreover have "sched_ok (SetContinuationTimeout m t (RemoveContinuationTimeout m s))" for m t
    using assms by (auto intro: sched_ok_tables simp: push_pop_inv sched_okD)
  ultimately show "sched_ok (snd (query_OnRemoteRequest e code data s))"
    using assms by (simp add: query_OnRemoteRequest_def OnQueryInstallationFinishedInner_def
        OnQueryInstallationFinished_def Let_def split_beta call_eq)
  show "sched_ok (snd (snd (install_OnRemoteRequest e code data c s)))"
    using assms by (auto simp: install_OnRemoteRequest_def OnInstallFinishedInner_def Let_def split_beta
        sched_keeps split: option.split)
qed

lemma panel_keeps [sched_keeps]:
  assumes "sched_ok s"
  shows "sched_ok (snd (snd (svc_ConnectAbility e c s)))" "sched_ok (snd (svc_DisconnectAbility e s))"
    "sched_ok (snd (svc_Dump e fd args s))"
proof -
  have panel: "sched_ok (s'\<lparr>panelConnect := x\<rparr>) = sched_ok s'" for s' x
    by (simp add: sched_ok_def cs_inv_def call_inv_def)
  have logs: "sched_ok (snd (adapter_ConnectAbility env w x s')) = sched_ok s'"
    "sched_ok (snd (adapter_DisconnectAbility env x s')) = sched_ok s'" for env w x s'
    by (simp_all add: sched_ok_def cs_inv_def call_inv_def)
  have new: "sched_ok (snd (new_local s))" using assms by (rule sched_ok_both) simp_all
  show "sched_ok (snd (snd (svc_ConnectAbility e c s)))" "sched_ok (snd (svc_DisconnectAbility e s))"
    "sched_ok (snd (svc_Dump e fd args s))"
    using assms new by (auto simp: svc_ConnectAbility_def svc_DisconnectAbility_def svc_Dump_def Let_def split_beta
        panel logs split: option.split)
qed

lemma wrapper_keeps: "dms_ok d \<Longrightarrow> dms_ok (snd (snd (wrapper_OnRemoteRequest e ok w code data d)))"
  by (auto simp: wrapper_OnRemoteRequest_def connection_OnRemoteRequest_def wrapper_OnAbilityConnectDone_def
      wrapper_OnAbilityDisconnectDone_def proxy_OnAbilityConnectDone_def proxy_OnAbilityDisconnectDone_def
      adapter_ProcessCalleeDied_def post_adapter_def Let_def split_beta dms_okD split: option.split prod.split)

lemma dms_exec_keeps: "dms_ok d \<Longrightarrow> dms_exec e d = Some d' \<Longrightarrow> dms_ok d'"
proof (cases e)
  case (DMessage env code data)
  moreover assume "dms_ok d" "dms_exec e d = Some d'"
  ultimately show ?thesis
    using OnRemoteRequest_keeps [of d env code data] by (auto simp: answers_def)
qed (auto simp: device_notices_keep run_adapter_keeps wrapper_keeps adapter_ProcessConnectDied_def adapter_ProcessCalleeDied_def
    adapter_ProcessCallerDied_def post_adapter_def dms_okD sched_keeps mission_step_inv split: option.split)

lemma started_ok: "dms_ok (dms_OnStart env new_dms)"
  using mission_Init_inv mission_step_inv [of started_missions env MInitStorage]
  by (auto simp: dms_ok_def sched_ok_def dms_OnStart_def service_Init_def adapter_Init_def new_dms_def Let_def
      started_missions_def cs_inv_def service_OnStart_def cont_inv_def cont_Init_def new_continuation_def
      task_inv_def task_Init_def new_callback_task_def call_inv_def initial_sched_def)

interpretation dms_m: machine dms_step "\<lambda>st. \<exists>env. st = Some (dms_OnStart env new_dms)" "pred_option dms_ok"
proof unfold_locales
  fix st e
  assume "pred_option dms_ok st"
  then show "pred_option dms_ok (dms_step st e)"
    by (cases st; cases "dms_exec e (the st)") (auto simp: dms_step_def dms_exec_keeps)
qed (auto simp: started_ok)

end
