(* ===== verification/ServiceProps.thy ===== *)
theory ServiceProps
  imports ServiceInv "HOL-Library.Sublist"
begin

text \<open>
  Properties of the whole service, over everything that can happen to it: what holds of its
  tables in every state, and the few messages that can end its process.
\<close>

section \<open>All tables\<close>

text \<open>
  C5: whatever happens to a started service, its tables stay consistent. Messages with any code
  and any contents, from any caller, devices that come and go, deaths, timers, callbacks and the
  tasks the service posts may follow one another in any order. Every object in the two tables of
  sessions then has a session, at most one per device; a mission has a device exactly when it has
  a callback, and a free-install mark only then; every pending install is filed under its positive
  id, and one started for an application has somebody to tell; at most ten snapshots are cached,
  and a device is listened to only while it has a listener.
\<close>

theorem service_consistent:
  assumes "run dms_step (Some (dms_OnStart env new_dms)) es = Some d"
  shows "(\<forall>m \<in> {distributedConnectAbilityMap (d_sched d), callerMap (d_sched d)}.
      \<forall>(c, ss) \<in> set m. ss \<noteq> [] \<and> distinct (devices ss)) \<and>
    (\<exists>c t. dschedContinuation (d_sched d) = Some c \<and> dmsCallbackTask (d_sched d) = Some t \<and>
      map_keys (continuationDevices c) = map_keys (contCallbackMap c) \<and>
      map_keys (freeInstall c) \<subseteq> map_keys (contCallbackMap c) \<and>
      (\<forall>(k, item) \<in> set (taskCallbackMap t). item_taskId item = k \<and> 0 < k \<and>
         (item_launchType item = FREEINSTALL_START \<longrightarrow> item_callback item \<noteq> nullptr))) \<and>
    length (cachedSnapshotInfos (d_missions d)) \<le> MAX_CACHED_ITEM \<and>
    (\<forall>(dev, i) \<in> set (listenDeviceMap (d_missions d)). listenerSet i \<noteq> [])"
proof -
  have "pred_option dms_ok (run dms_step (Some (dms_OnStart env new_dms)) es)"
    by (rule dms_m.reachable_inv) blast
  with assms have ok: "sched_ok (d_sched d)" "mission_inv (d_missions d)" by (simp_all add: dms_okD)
  then obtain c t where "dschedContinuation (d_sched d) = Some c" "dmsCallbackTask (d_sched d) = Some t"
    "cont_inv c" "task_inv t"
    using sched_okD(1) [OF ok(1)] unfolding cs_inv_def by blast
  with ok show ?thesis
    by (auto simp: sched_ok_def call_inv_def table_wf_def cont_inv_def task_inv_def mission_inv_def
        cache_ok_def listeners_ok_def)
qed

text \<open>A listener is registered, a task is run, and an application of another device is refused.\<close>

definition quiet_events :: "dms_event list" where
  "quiet_events = [DMissions sample_menv (MRegister [66] (Some (Proxy 1))), DRunAdapter sample_env 0,
     DMessage app_menv (code_of CONNECT_ABILITY_FROM_REMOTE) [PInt32 1]]"

definition quiet_dms :: dms where
  "quiet_dms = (dms_OnStart sample_menv new_dms)\<lparr>d_missions := mission_step sample_menv
     (d_missions (dms_OnStart sample_menv new_dms)) (MRegister [66] (Some (Proxy 1)))\<rparr>"

lemma quiet_run: "run dms_step (Some (dms_OnStart sample_menv new_dms)) quiet_events = Some quiet_dms"
proof -
  have caller: "\<not> local_calling (conv app_menv) h" "calling_uid (conv app_menv) h = 20010041" for h
    by (simp_all add: app_menv_def sample_menv_def sample_env_def)
  have "OnRemoteRequest app_menv (code_of CONNECT_ABILITY_FROM_REMOTE) [PInt32 1] quiet_dms =
      Some (DMS_PERMISSION_DENIED, [], quiet_dms)"
    using caller by (simp add: OnRemoteRequest_def EnforceInterfaceToken_def read_or_def refuse_def
        SCHED_STUB_INTERFACE_TOKEN_def u16_def)
  then show ?thesis
    by (simp add: quiet_events_def dms_step_def quiet_dms_def run_adapter_def dms_OnStart_def service_Init_def
        adapter_Init_def new_dms_def Let_def)
qed

theorem service_consistent_witness:
  "length (cachedSnapshotInfos (d_missions quiet_dms)) \<le> MAX_CACHED_ITEM \<and>
    (\<exists>c. dschedContinuation (d_sched quiet_dms) = Some c \<and>
      map_keys (continuationDevices c) = map_keys (contCallbackMap c))"
  using service_consistent [OF quiet_run] by blast

section \<open>Messages that end the process\<close>

text \<open>An answer whose absence, the death of the process, implies \<open>Q\<close>.\<close>

definition dies :: "bool \<Rightarrow> 's answer \<Rightarrow> bool" where
  "dies Q a = (a = None \<longrightarrow> Q)"

definition reads :: "(parcel \<Rightarrow> ('a \<times> parcel) option) \<Rightarrow> bool" where
  "reads r = (\<forall>p x q. r p = Some (x, q) \<longrightarrow> suffix q p)"

lemma readers:
  "reads read_int32" "reads read_uint32" "reads read_int64" "reads read_bool" "reads read_string"
  "reads read_strings" "reads read_string16" "reads read_token"
  unfolding reads_def
  by (auto elim!: read_int32.elims read_uint32.elims read_int64.elims read_bool.elims read_string.elims
      read_strings.elims read_string16.elims read_token.elims intro: suffix_ConsI)

lemma suffix_parcelable: "suffix p d \<Longrightarrow> suffix (snd (read_parcelable u p)) d"
  by (cases "(u, p)" rule: read_parcelable.cases) (auto dest: suffix_ConsD)

lemma suffix_remote: "suffix p d \<Longrightarrow> suffix (snd (read_remote p)) d"
  by (cases p rule: read_remote.cases) (auto dest: suffix_ConsD)

lemma suffix_read_or: "reads r \<Longrightarrow> suffix p d \<Longrightarrow> suffix (snd (read_or x r p)) d"
  unfolding read_or_def reads_def by (auto split: option.split intro: suffix_order.trans)

lemma read_or_string: "suffix p d \<Longrightarrow> fst (read_or [] read_string p) = [] \<or> PString (fst (read_or [] read_string p)) \<in> set d"
  by (cases p rule: read_string.cases) (auto simp: read_or_def dest: set_mono_suffix)

lemma dies_simps [simp]:
  "dies Q (Some x)" "dies Q (refuse e s)" "dies Q (reply_result env y)" "dies Q (reply_values env vs s)"
  "dies Q' (reply_timed env b z vs)"
  by (simp_all add: dies_def refuse_def reply_result_def reply_values_def reply_timed_def split: option.split)

lemma dies_need:
  "reads r \<Longrightarrow> suffix p d \<Longrightarrow> (\<And>x q. suffix q d \<Longrightarrow> dies Q (k x q)) \<Longrightarrow> dies Q (need env s (r p) k)"
  unfolding need_def reads_def by (cases "r p") (auto, metis suffix_order.trans)

lemma dies_int64:
  "suffix p d \<Longrightarrow> (\<And>x q. suffix (PInt64 x # q) d \<Longrightarrow> dies Q (k x q)) \<Longrightarrow> dies Q (need env s (read_int64 p) k)"
  by (cases p rule: read_int64.cases) (simp_all add: need_def)

lemma dies_parcelable:
  "suffix p d \<Longrightarrow> (\<And>x q. suffix q d \<Longrightarrow> dies Q (k x q)) \<Longrightarrow>
   dies Q (nonnull e s (read_parcelable u p) k)"
  using suffix_parcelable [of p d u] by (auto simp: nonnull_def split: prod.split option.split)

lemma dies_parcelable_pair:
  "suffix p d \<Longrightarrow> (\<And>x y q. suffix q d \<Longrightarrow> dies Q (k x y q)) \<Longrightarrow>
   dies Q (nonnull e s (read_parcelable u p) (\<lambda>(x, y) q. k x y q))"
  by (rule dies_parcelable) (auto split: prod.split)

lemma dies_remote:
  "suffix p d \<Longrightarrow> (\<And>x q. suffix q d \<Longrightarrow> dies Q (k x q)) \<Longrightarrow> dies Q (nonnull e s (read_remote p) k)"
  using suffix_remote [of p d] by (auto simp: nonnull_def split: prod.split option.split)

lemma dies_want_at:
  "suffix p d \<Longrightarrow> (\<And>x q. suffix q d \<Longrightarrow> dies Q (k x q)) \<Longrightarrow> dies Q (want_at env s p k)"
  by (simp add: want_at_def dies_parcelable)

lemma dies_string:
  "suffix p d \<Longrightarrow> (\<And>x q. suffix q d \<Longrightarrow> x = [] \<or> PString x \<in> set d \<Longrightarrow> dies Q (k x q)) \<Longrightarrow>
   dies Q (case read_or [] read_string p of (x, q) \<Rightarrow> k x q)"
  using suffix_read_or [OF readers(5), of p d "[]"] read_or_string [of p d] by (simp add: split_beta)

lemma dies_read_or:
  "reads r \<Longrightarrow> suffix p d \<Longrightarrow> (\<And>x q. suffix q d \<Longrightarrow> dies Q (k x q)) \<Longrightarrow>
   dies Q (case read_or y r p of (x, q) \<Rightarrow> k x q)"
  using suffix_read_or [of r p d y] by (simp add: split_beta)

lemma dies_read_remote:
  "suffix p d \<Longrightarrow> (\<And>x q. suffix q d \<Longrightarrow> dies Q (k x q)) \<Longrightarrow>
   dies Q (case read_remote p of (x, q) \<Rightarrow> k x q)"
  using suffix_remote [of p d] by (simp add: split_beta)

lemma dies_account_at:
  "suffix p d \<Longrightarrow> (\<And>a t q. suffix q d \<Longrightarrow> dies Q (k a t q)) \<Longrightarrow> dies Q (account_at env s p k)"
  unfolding account_at_def Let_def
  by (intro dies_read_or [where d = d] dies_need [where d = d] dies_string [where d = d] readers; assumption)

lemma dies_bind:
  "(m = None \<Longrightarrow> Q) \<Longrightarrow> (\<And>x. m = Some x \<Longrightarrow> dies Q (k x)) \<Longrightarrow> dies Q (m \<bind> k)"
  by (cases m) (simp_all add: dies_def)

lemma dies_if: "(c \<Longrightarrow> dies Q a) \<Longrightarrow> (\<not> c \<Longrightarrow> dies Q b) \<Longrightarrow> dies Q (if c then a else b)"
  by simp

lemma dies_second_want:
  "suffix (PInt64 t # p) d \<Longrightarrow> (\<And>q. suffix q d \<Longrightarrow> dies Q (k (fst (read_parcelable u p)) q)) \<Longrightarrow>
   dies Q (case read_parcelable u p of (x, q) \<Rightarrow> k x q)"
  using suffix_parcelable [of p d u] suffix_ConsD [of _ p d] by (auto simp: split_beta)

section \<open>Which handlers can die\<close>

text \<open>Handlers that cannot, whatever they read.\<close>

lemma returns_intro:
  "(\<And>x p. dies Q (k x p)) \<Longrightarrow> dies Q (need env s r k)"
  "(\<And>x p. dies Q (k' x p)) \<Longrightarrow> dies Q (nonnull e s r' k')"
  "(\<And>x p. dies Q (k'' x p)) \<Longrightarrow> dies Q (want_at env s p k'')"
  "(\<And>x p. dies Q (k3 x p)) \<Longrightarrow> dies Q (case z of (x, p) \<Rightarrow> k3 x p)"
  "(\<And>a t p. dies Q (k4 a t p)) \<Longrightarrow> dies Q (account_at env s4 p k4)"
  "(c \<Longrightarrow> dies Q a) \<Longrightarrow> (\<not> c \<Longrightarrow> dies Q b) \<Longrightarrow> dies Q (if c then a else b)"
  "dies Q a' \<Longrightarrow> (\<And>x. dies Q (k5 x)) \<Longrightarrow> dies Q (case w of None \<Rightarrow> a' | Some x \<Rightarrow> k5 x)"
  by (auto simp: need_def nonnull_def want_at_def account_at_def Let_def split_beta
      split: option.split prod.split)

lemma local_handlers_return:
  "dies False (StartRemoteAbilityInner env p s)" "dies False (ContinueMissionInner env p s)"
  "dies False (StartContinuationInner env p s)" "dies False (NotifyCompleteContinuationInner env p s)"
  "dies False (ConnectRemoteAbilityInner env p s)" "dies False (DisconnectRemoteAbilityInner env p s)"
  "dies False (StartRemoteAbilityByCallInner env p s)" "dies False (ReleaseRemoteAbilityInner env p s)"
  "dies False (RegisterDistributedComponentListenerInner env p s)"
  "dies False (GetDistributedComponentListInner env p s)" "dies False (StartRemoteFreeInstallInner env p s)"
  unfolding sched_handlers Let_def
  by (intro returns_intro; simp)+

lemma remote_handlers_return:
  "dies False (SendResultFromRemoteInner env p s)" "dies False (NotifyContinuationResultFromRemoteInner env p s)"
  "dies False (DisconnectAbilityFromRemoteInner env p s)" "dies False (NotifyProcessDiedFromRemoteInner env p s)"
  "dies False (ReleaseAbilityFromRemoteInner env p s)" "dies False (NotifyCompleteFreeInstallFromRemoteInner env p s)"
  unfolding sched_handlers Let_def
  by (intro returns_intro; simp)+

lemma mission_handlers_return:
  "dies False (RegisterMissionListenerInner env p s)" "dies False (UnRegisterMissionListenerInner env p s)"
  "dies False (StartSyncRemoteMissionsInner env p s)" "dies False (StopSyncRemoteMissionsInner env p s)"
  "dies False (StartSyncMissionsFromRemoteInner env p s)" "dies False (StopSyncMissionsFromRemoteInner env p s)"
  "dies False (NotifyMissionsChangedFromRemoteInner env p s)"
  unfolding mission_handlers Let_def
  by (intro returns_intro; simp)+

text \<open>The extra information of a message, or none at all, on which a handler throws.\<close>

definition throws_on :: "env \<Rightarrow> request_code \<Rightarrow> parcel \<Rightarrow> bool" where
  "throws_on env c data =
     (\<exists>info. (info = [] \<or> PString info \<in> set data) \<and>
        (extra_token env info = None \<or> c = START_FREE_INSTALL_FROM_REMOTE \<and> extra_request_code env info = None))"

text \<open>A message with a 64-bit number (the task) that no want follows.\<close>

definition lacks_want :: "env \<Rightarrow> parcel \<Rightarrow> bool" where
  "lacks_want env data =
     (\<exists>t p. suffix (PInt64 t # p) data \<and> fst (read_parcelable (unmarshal_want env) p) = None)"

lemma throws_onI: 
  "extra_token env info = None \<Longrightarrow> info = [] \<or> PString info \<in> set data \<Longrightarrow> throws_on env c data"
  "extra_request_code env info = None \<Longrightarrow> info = [] \<or> PString info \<in> set data \<Longrightarrow>
   throws_on env START_FREE_INSTALL_FROM_REMOTE data"
  by (auto simp: throws_on_def)

lemma harmony_defined:
  "callerType k = CALLER_TYPE_HARMONY \<Longrightarrow> ConnectAbilityFromRemote env want c k account s \<noteq> None"
  using connect_from_remote_undefined_iff by blast

lemmas dies_rules = dies_int64 dies_string dies_want_at dies_remote dies_read_remote dies_parcelable_pair dies_parcelable
  dies_account_at dies_need dies_read_or

lemma extra_info_throws:
  assumes "suffix p d"
  shows "dies (throws_on env START_ABILITY_FROM_REMOTE d) (StartAbilityFromRemoteInner env p s)"
    "dies (throws_on env CONNECT_ABILITY_FROM_REMOTE d) (ConnectAbilityFromRemoteInner env p s)"
    "dies (throws_on env START_ABILITY_BY_CALL_FROM_REMOTE d) (StartAbilityByCallFromRemoteInner env p s)"
  unfolding sched_handlers Let_def
  by (intro dies_rules [where d = d] dies_bind dies_if readers;
      simp add: assms throws_onI harmony_defined)+

lemma free_install_throws:
  assumes "suffix p d"
  shows "dies (throws_on env START_FREE_INSTALL_FROM_REMOTE d \<or> lacks_want env d)
    (StartFreeInstallFromRemoteInner env p s)"
  unfolding sched_handlers Let_def
  by (intro dies_second_want [where d = d] dies_rules [where d = d] dies_bind dies_if readers)
    (auto simp: assms throws_onI lacks_want_def split: prod.split)

lemma convert_missions_None: "convert_missions is = None \<Longrightarrow> \<exists>i \<in> set is. dm_baseWant i = None"
  by (induction "is") (auto simp: to_mission_def split: option.splits Option.bind_splits)

text \<open>A list of missions in the cache that has one without a want.\<close>

definition broken_cache :: "missions \<Rightarrow> bool" where
  "broken_cache m = list_ex (\<lambda>(u, is). list_ex (\<lambda>i. dm_baseWant i = None) is) (deviceMissionInfos m)"

lemma GetMissionInfos_None: "GetMissionInfos env dev n m = None \<Longrightarrow> broken_cache m"
proof -
  assume "GetMissionInfos env dev n m = None"
  then obtain u infos k where "map_find u (deviceMissionInfos m) = Some infos"
    and "convert_missions (take k infos) = None \<or> convert_missions infos = None"
    by (auto simp: GetMissionInfos_def FetchCachedRemoteMissions_def ConvertToMissionInfos_def Let_def
        split: if_splits option.splits Option.bind_splits)
  then obtain i where "(u, infos) \<in> set (deviceMissionInfos m)" "i \<in> set infos" "dm_baseWant i = None"
    using convert_missions_None [of infos] convert_missions_None [of "take k infos"] map_find_Some_mem in_set_takeD
    by metis
  then show ?thesis by (auto simp: broken_cache_def list_ex_iff)
qed

lemma GetMissionInfosInner_dies: "dies (broken_cache (d_missions s)) (GetMissionInfosInner env p s)"
  unfolding mission_handlers Let_def svc_GetMissionInfos_def
  by (intro returns_intro dies_bind) (auto simp: GetMissionInfos_None split: option.split)

lemma snapshot_request_returns:
  assumes "mission_inv (d_missions s)"
  shows "dies False (GetRemoteMissionSnapshotInfoInner env p s)"
proof -
  have no: "(svc_GetRemoteMissionSnapshotInfo env n i s = None) = False" for n i
    using GetRemoteMissionSnapshotInfo_inv [OF assms, of env n i]
    by (auto simp: svc_GetRemoteMissionSnapshotInfo_def)
  then show ?thesis
    unfolding mission_handlers Let_def
    by (intro returns_intro dies_bind; simp only: no)+ (auto split: option.split)
qed

section \<open>Death of the process\<close>

lemma on_sched_None: "on_sched f env p d = None \<longleftrightarrow> f (conv env) p (d_sched d) = None"
  by (auto simp: on_sched_def split: Option.bind_splits)

lemma dies_False: "dies False a \<longleftrightarrow> a \<noteq> None"
  by (simp add: dies_def)

lemmas handlers_return = local_handlers_return [unfolded dies_False] remote_handlers_return [unfolded dies_False]
  mission_handlers_return [unfolded dies_False]

definition throwing :: "request_code set" where
  "throwing = {START_ABILITY_FROM_REMOTE, CONNECT_ABILITY_FROM_REMOTE, START_ABILITY_BY_CALL_FROM_REMOTE,
     START_FREE_INSTALL_FROM_REMOTE}"

lemma local_death:
  assumes "localFuncsMap c = Some f" and "f env p d = None" and "mission_inv (d_missions d)"
  shows "c = GET_MISSION_INFOS \<and> broken_cache (d_missions d)"
  using assms GetMissionInfosInner_dies [of d env p, unfolded dies_def]
  by (cases c) (auto simp: on_sched_None handlers_return snapshot_request_returns [OF assms(3), unfolded dies_False]
      simp del: not_None_eq)

lemma remote_death:
  assumes "remoteFuncsMap c = Some f" and "f env p d = None" and "suffix p data"
  shows "c \<in> throwing \<and> (throws_on (conv env) c data \<or> c = START_FREE_INSTALL_FROM_REMOTE \<and> lacks_want (conv env) data)"
proof -
  note may = extra_info_throws [OF assms(3), of "conv env" "d_sched d", unfolded dies_def]
    free_install_throws [OF assms(3), of "conv env" "d_sched d", unfolded dies_def]
  show ?thesis
    using assms(1,2) may by (cases c) (auto simp: throwing_def on_sched_None handlers_return simp del: not_None_eq)
qed

lemma EnforceInterfaceToken_suffix: "suffix (snd (EnforceInterfaceToken data)) data"
  using suffix_read_or [OF readers(8), of data data] by (simp add: EnforceInterfaceToken_def split_beta)

lemma handler_of_known:
  assumes "handler_of env code d = Some f"
  obtains c where "code = code_of c"
    "(if local_calling (conv env) (history (d_sched d)) then localFuncsMap c else remoteFuncsMap c) = Some f"
  using assms by (auto simp: handler_of_def bind_eq_Some_conv find_Some_iff split: if_splits)

lemma request_dies:
  assumes "OnRemoteRequest env code data d = None" and "mission_inv (d_missions d)"
  shows "if local_calling (conv env) (history (d_sched d))
    then code = code_of GET_MISSION_INFOS \<and> dms_foundation env d \<and> broken_cache (d_missions d)
    else dms_system env d \<and> (\<exists>c \<in> throwing. code = code_of c \<and>
      (throws_on (conv env) c data \<or> c = START_FREE_INSTALL_FROM_REMOTE \<and> lacks_want (conv env) data))"
proof -
  let ?p = "snd (EnforceInterfaceToken data)"
  obtain f where f: "handler_of env code d = Some f" "f env ?p d = None"
    using assms(1) by (auto simp: OnRemoteRequest_def refuse_def split: option.splits prod.splits if_splits)
  obtain c where c: "code = code_of c"
    "(if local_calling (conv env) (history (d_sched d)) then localFuncsMap c else remoteFuncsMap c) = Some f"
    by (rule handler_of_known [OF f(1)])
  have known: "\<not> stranger env c d"
    using local_guard [of c f env d ?p] remote_guard [of c f env d ?p] c(2) f(2) by (auto split: if_splits)
  show ?thesis
  proof (cases "local_calling (conv env) (history (d_sched d))")
    case True
    with c local_death [of c f env ?p d] f(2) known assms(2) show ?thesis by (auto simp: stranger_def)
  next
    case False
    with c remote_death [of c f env ?p d data] EnforceInterfaceToken_suffix [of data] f(2) known show ?thesis
      by (auto simp: stranger_def)
  qed
qed


text \<open>A start whose extra information is JSON without an access token.\<close>

definition throwing_menv :: menv where
  "throwing_menv = sample_menv\<lparr>conv := sample_env\<lparr>calling_uid := \<lambda>h. 5523,
     unmarshal_want := \<lambda>p. Some default_Want, unmarshal_ability := \<lambda>p. Some ([], []),
     parse_extra := \<lambda>info. ExtraJson (\<lambda>k. None) (\<lambda>k. False)\<rparr>\<rparr>"

definition throwing_data :: parcel where
  "throwing_data = [PToken SCHED_STUB_INTERFACE_TOKEN, PNested [], PNested [], PInt32 1, PInt32 5,
     PString ''B'', PInt32 0, PStrings [], PString ''app'', PString ''{}'']"

lemma throwing_dies:
  "dms_exec (DMessage throwing_menv (code_of START_ABILITY_FROM_REMOTE) throwing_data) d = None"
proof -
  have "\<not> local_calling (conv throwing_menv) h" "calling_uid (conv throwing_menv) h = 5523"
    "unmarshal_want (conv throwing_menv) p = Some default_Want"
    "unmarshal_ability (conv throwing_menv) p = Some ([], [])"
    "parse_extra (conv throwing_menv) i = ExtraJson (\<lambda>k. None) (\<lambda>k. False)" for h p i
    by (simp_all add: throwing_menv_def sample_menv_def sample_env_def)
  then show ?thesis
    by (simp add: throwing_data_def OnRemoteRequest_code on_sched_def StartAbilityFromRemoteInner_def
        CheckCallingUid_def HID_HAP_def want_at_def nonnull_def need_def account_at_def read_or_def extra_token_def)
qed


end
