(* ===== verification/LocalMessages.thy ===== *)
theory LocalMessages
  imports SchedMessages
begin

text \<open>
  Requests of the applications of this device: the ability manager, the foundation process,
  passes them to the scheduler. Through the proxy, a message and the stub a request is the
  operation it names, when the application may exchange data with other devices.
\<close>

section \<open>Requests of applications\<close>

datatype app_call =
    AppStart Want int int nat
  | AppConnect Want ptr int int nat
  | AppDisconnect ptr int nat
  | AppCall Want ptr int int nat
  | AppRelease ptr ElementName
  | AppInstall Want int int nat ptr
  | AppContinue string string int ptr "(string, want_param) stdmap"
  | AppContinuation Want int int int nat
  | AppListen ptr
  | AppStartSync string bool int
  | AppStopSync string
  | AppListenMissions u16string ptr
  | AppUnlistenMissions u16string ptr

fun send_app :: "env \<Rightarrow> 's transport \<Rightarrow> app_call \<Rightarrow> 's \<Rightarrow> (int \<times> 's) option" where
  "send_app env tr (AppStart want u code token) = proxy_StartRemoteAbility env tr True want u code token"
| "send_app env tr (AppConnect want c u p token) = proxy_ConnectRemoteAbility env tr True want c u p token"
| "send_app env tr (AppDisconnect c u token) = proxy_DisconnectRemoteAbility env tr True c u token"
| "send_app env tr (AppCall want c u p token) = proxy_StartRemoteAbilityByCall env tr True want c u p token"
| "send_app env tr (AppRelease c element) = proxy_ReleaseRemoteAbility env tr True c element"
| "send_app env tr (AppInstall want u code token c) = proxy_StartRemoteFreeInstall env tr True want u code token c"
| "send_app env tr (AppContinue src dst m c params) = proxy_ContinueMission env tr True src dst m c params"
| "send_app env tr (AppContinuation want m u status token) =
     proxy_StartContinuation env tr True want m u status token"
| "send_app env tr (AppListen c) = proxy_RegisterDistributedComponentListener env tr True c"
| "send_app env tr (AppStartSync dev fix tag) = proxy_StartSyncRemoteMissions env tr True dev fix tag"
| "send_app env tr (AppStopSync dev) = proxy_StopSyncRemoteMissions env tr True dev"
| "send_app env tr (AppListenMissions dev x) = proxy_RegisterMissionListener env tr True dev x"
| "send_app env tr (AppUnlistenMissions dev x) = proxy_UnRegisterMissionListener env tr True dev x"

text \<open>
  The operation behind a request. A request about an object needs it, one about the missions of
  a device the name of the device.
\<close>

definition on_d_sched :: "(sched \<Rightarrow> int \<times> sched) \<Rightarrow> dms \<Rightarrow> int \<times> dms" where
  "on_d_sched f d = (let (r, s) = f (d_sched d) in (r, d\<lparr>d_sched := s\<rparr>))"

definition given :: "env \<Rightarrow> ptr \<Rightarrow> (ptr \<Rightarrow> dms \<Rightarrow> int \<times> dms) \<Rightarrow> dms \<Rightarrow> int \<times> dms" where
  "given env x f d = (if x = nullptr then (err_null_object env, d) else f x d)"

definition named :: "env \<Rightarrow> u16string \<Rightarrow> (dms \<Rightarrow> int \<times> dms) \<Rightarrow> dms \<Rightarrow> int \<times> dms" where
  "named env dev f d = (if dev = [] then (err_flatten_object env, d) else f d)"

fun app_operation :: "menv \<Rightarrow> app_call \<Rightarrow> dms \<Rightarrow> int \<times> dms" where
  "app_operation env (AppStart want u code token) = on_d_sched (StartRemoteAbility (conv env) want u code token)"
| "app_operation env (AppConnect want c u p token) =
     given (conv env) c (\<lambda>c. on_d_sched (ConnectRemoteAbility (conv env) want c u p token))"
| "app_operation env (AppDisconnect c u token) =
     given (conv env) c (\<lambda>c. on_d_sched (DisconnectRemoteAbility (conv env) c))"
| "app_operation env (AppCall want c u p token) =
     given (conv env) c (\<lambda>c. on_d_sched (StartRemoteAbilityByCall (conv env) want c u p token))"
| "app_operation env (AppRelease c element) =
     given (conv env) c (\<lambda>c. on_d_sched (ReleaseRemoteAbility (conv env) c element))"
| "app_operation env (AppInstall want u code token c) =
     given (conv env) c (\<lambda>c. on_d_sched (StartRemoteFreeInstall (conv env) want u code token c))"
| "app_operation env (AppContinue src dst m c params) =
     given (conv env) c (\<lambda>c. on_d_sched (ContinueMission (conv env) src dst m c params))"
| "app_operation env (AppContinuation want m u status token) =
     on_d_sched (StartContinuation (conv env) want m u status token)"
| "app_operation env (AppListen c) =
     given (conv env) c (\<lambda>c. on_d_sched (RegisterDistributedComponentListener c))"
| "app_operation env (AppStartSync dev fix tag) =
     named (conv env) (str16 (conv env) dev) (svc_StartSyncRemoteMissions env dev)"
| "app_operation env (AppStopSync dev) =
     named (conv env) (str16 (conv env) dev) (svc_StopSyncRemoteMissions env dev)"
| "app_operation env (AppListenMissions dev x) =
     named (conv env) dev (\<lambda>d. if x = nullptr then (err_flatten_object (conv env), d)
                               else svc_RegisterMissionListener env dev x d)"
| "app_operation env (AppUnlistenMissions dev x) =
     named (conv env) dev (\<lambda>d. if x = nullptr then (err_flatten_object (conv env), d)
                               else svc_UnRegisterMissionListener env dev x d)"

text \<open>The access token of the application, in the requests that carry it, and an object they lack.\<close>

fun token_of :: "app_call \<Rightarrow> nat option" where
  "token_of (AppStart want u code token) = Some token"
| "token_of (AppConnect want c u p token) = (if c = nullptr then None else Some token)"
| "token_of (AppDisconnect c u token) = (if c = nullptr then None else Some token)"
| "token_of (AppCall want c u p token) = (if c = nullptr then None else Some token)"
| "token_of (AppInstall want u code token c) = (if c = nullptr then None else Some token)"
| "token_of (AppContinuation want m u status token) = Some token"
| "token_of call = None"

definition may_exchange :: "menv \<Rightarrow> app_call \<Rightarrow> dms \<Rightarrow> bool" where
  "may_exchange env call d =
     (case token_of call of None \<Rightarrow> True | Some t \<Rightarrow> data_sync (conv env) t (d_sched d))"

text \<open>The caller is the foundation process, a system process of this device.\<close>

definition asked_by_foundation :: "menv \<Rightarrow> dms \<Rightarrow> bool" where
  "asked_by_foundation env d =
     (local_calling (conv env) (history (d_sched d)) \<and> foundation (conv env) (d_sched d) \<and>
      CheckCallingUid (conv env) (d_sched d))"

section \<open>Requests arrive\<close>

lemma read_or_message [simp]:
  "read_or d1 read_string16 (PString16 t # p) = (t, p)" "read_or d2 read_bool (PBool b # p) = (b, p)"
  "read_or d3 read_int64 (PInt64 i # p) = (i, p)"
  by (simp_all add: read_or_def)

lemma received_Some [simp]:
  "received (Some (e, reply, s)) = Some (if e = ERR_NONE then fst (read_or 0 read_int32 reply) else e, s)"
  by (simp add: received_def)

lemma denied_code [simp]: "DMS_PERMISSION_DENIED \<noteq> ERR_NONE"
  by (simp add: err_defs)

lemmas app_simps = message_simps asked_by_foundation_def may_exchange_def on_d_sched_def given_def named_def
  proxy_StartRemoteAbility_def proxy_ConnectRemoteAbility_def proxy_DisconnectRemoteAbility_def
  proxy_StartRemoteAbilityByCall_def proxy_ReleaseRemoteAbility_def proxy_StartRemoteFreeInstall_def
  proxy_ContinueMission_def proxy_StartContinuation_def proxy_RegisterDistributedComponentListener_def
  proxy_StartSyncRemoteMissions_def proxy_StopSyncRemoteMissions_def proxy_RegisterMissionListener_def
  proxy_UnRegisterMissionListener_def dms_foundation_def refuse_def

text \<open>
  C2: what an application asks of its scheduler happens. A request that the foundation process
  passes on through the proxy, and that the stub reads, is refused with the permission error, and
  changes nothing, when it carries the token of an application without the permission to
  exchange data with other devices; otherwise it is the operation it names, on the values sent,
  with its result. A request without the object or the device it needs fails with the error for
  it. Releases, the migration asked for by the system and the requests about missions carry no
  token and are served without that permission.
\<close>

theorem local_requests_arrive:
  assumes "good_parcels (conv env)" and "asked_by_foundation env d"
    and "err_null_object (conv env) \<noteq> ERR_NONE" and "err_flatten_object (conv env) \<noteq> ERR_NONE"
  shows "send_app (conv env) (OnRemoteRequest env) call d =
    Some (if may_exchange env call d then app_operation env call d else (DMS_PERMISSION_DENIED, d))"
proof (cases call)
  case (AppListenMissions dev x)
  then show ?thesis using assms
    by (cases x) (simp_all add: app_simps RegisterMissionListenerInner_def listener_request_def)
next
  case (AppUnlistenMissions dev x)
  then show ?thesis using assms
    by (cases x) (simp_all add: app_simps UnRegisterMissionListenerInner_def listener_request_def)
qed (use assms in \<open>auto simp: app_simps sched_handlers mission_handlers split: option.split prod.split\<close>)

text \<open>Requests that ask for a list get it.\<close>

lemma component_list_arrives:
  assumes "good_parcels (conv env)" and "asked_by_foundation env d"
  shows "proxy_GetDistributedComponentList (conv env) (OnRemoteRequest env) True d =
    Some (ERR_OK, snd (GetDistributedComponentList (conv env) (d_sched d)), d)"
  using assms
  by (simp add: proxy_GetDistributedComponentList_def exchange_good asked_by_foundation_def OnRemoteRequest_code
      on_sched_def GetDistributedComponentListInner_def GetDistributedComponentList_def reply_good)

lemma mission_list_arrives:
  assumes "good_parcels (conv env)" and "asked_by_foundation env d" and "dms_foundation env d"
    and "\<And>m. unmarshal_mission env (marshal_mission env m) = Some m"
    and "svc_GetMissionInfos env dev n d = Some (ERR_NONE, ms)" and "length ms < 2147483648"
  shows "proxy_GetMissionInfos env (OnRemoteRequest env) True dev n d = Some (ERR_NONE, ms, d)"
proof -
  obtain vs where "WriteMissionInfosToParcel (conv env) (marshal_mission env) ms [] = Some vs"
    "ReadMissionInfosFromParcel (conv env) (unmarshal_mission env) vs = Some (ms, [])"
    using missions_message [OF assms(1,6,4), of "[]" "[]"] by auto
  with assms show ?thesis
    by (simp add: proxy_GetMissionInfos_def exchange_good asked_by_foundation_def OnRemoteRequest_code
        GetMissionInfosInner_def Let_def)
qed

definition app_sample :: menv where
  "app_sample = ipc_menv\<lparr>conv := ipc_sample\<lparr>local_calling := \<lambda>h. True, calling_uid := \<lambda>h. 5523,
     native_process := \<lambda>h t. (ERR_OK, FOUNDATION_PROCESS_NAME)\<rparr>\<rparr>"

lemma app_sample_facts:
  "good_parcels (conv app_sample)" "asked_by_foundation app_sample d"
  "err_null_object (conv app_sample) \<noteq> ERR_NONE" "err_flatten_object (conv app_sample) \<noteq> ERR_NONE"
  using ipc_sample_parcels
  by (simp_all add: good_parcels_def asked_by_foundation_def foundation_def IsFoundationCall_def
      CheckCallingUid_def HID_HAP_def app_sample_def ipc_menv_def sample_menv_def ipc_sample_def sample_env_def)

theorem local_requests_arrive_witness:
  "send_app (conv app_sample) (OnRemoteRequest app_sample) (AppListen (Some (Proxy 3))) new_dms =
    Some (ERR_OK, new_dms\<lparr>d_sched := initial_sched\<lparr>distributedComponentListener := Some (Proxy 3)\<rparr>\<rparr>)"
  using local_requests_arrive [OF app_sample_facts, of "AppListen (Some (Proxy 3))" new_dms]
  by (simp add: may_exchange_def given_def on_d_sched_def RegisterDistributedComponentListener_def new_dms_def)

end
