(* ===== verification/EventReports.thy ===== *)
theory EventReports
  imports LocalMessages
begin

text \<open>
  The events the scheduler writes to the system's event log
  (\<^verbatim>\<open>base/src/dfx/dms_hisysevent_report.cpp\<close>): the stub writes a behaviour event for each start,
  connection, call, release and continuation it has served
  (\<^verbatim>\<open>distributed_sched_stub.cpp\<close>), the adapter a fault event when it cannot reach the ability
  manager (\<^verbatim>\<open>distributed_sched_adapter.cpp\<close>). The log itself is the platform's. An event
  does not change the service, so the events are functions of a request beside its handler.
\<close>

section \<open>Events\<close>

definition BehaviorEvent_START_REMOTE_ABILITY :: string where
  "BehaviorEvent_START_REMOTE_ABILITY = ''START_REMOTE_ABILITY''"
definition BehaviorEvent_CONNECT_REMOTE_ABILITY :: string where
  "BehaviorEvent_CONNECT_REMOTE_ABILITY = ''CONNECT_REMOTE_ABILITY''"
definition BehaviorEvent_DISCONNECT_REMOTE_ABILITY :: string where
  "BehaviorEvent_DISCONNECT_REMOTE_ABILITY = ''DISCONNECT_REMOTE_ABILITY''"
definition BehaviorEvent_START_REMOTE_ABILITY_BYCALL :: string where
  "BehaviorEvent_START_REMOTE_ABILITY_BYCALL = ''START_REMOTE_ABILITY_BYCALL''"
definition BehaviorEvent_RELEASE_REMOTE_ABILITY :: string where
  "BehaviorEvent_RELEASE_REMOTE_ABILITY = ''RELEASE_REMOTE_ABILITY''"
definition BehaviorEvent_START_CONTINUATION :: string where
  "BehaviorEvent_START_CONTINUATION = ''START_CONTINUATION''"
definition FaultEvent_CONNECT_REMOTE_ABILITY :: string where
  "FaultEvent_CONNECT_REMOTE_ABILITY = ''CONNECT_ABILITY_FAILED''"
definition FaultEvent_DISCONNECT_REMOTE_ABILITY :: string where
  "FaultEvent_DISCONNECT_REMOTE_ABILITY = ''DISCONNECT_ABILITY_FAILED''"
definition FaultEvent_START_REMOTE_ABILITY_BYCALL :: string where
  "FaultEvent_START_REMOTE_ABILITY_BYCALL = ''START_ABILITY_BYCALL_FAILED''"
definition FaultEvent_RELEASE_REMOTE_ABILITY :: string where
  "FaultEvent_RELEASE_REMOTE_ABILITY = ''RELEASE_ABILITY_FAILED''"
definition GET_ABILITY_MGR_FAILED :: string where
  "GET_ABILITY_MGR_FAILED = ''GET_ABILITY_MGR_FAILED''"
definition EventCallingType_LOCAL :: string where "EventCallingType_LOCAL = ''LOCAL''"
definition EventCallingType_REMOTE :: string where "EventCallingType_REMOTE = ''REMOTE''"

record BehaviorEventParam =
  callingType :: string
  eventName :: string
  eventResult :: int
  ev_bundleName :: string
  ev_abilityName :: string
  callingAppUid :: int

text \<open>A parameter with the defaults of the structure.\<close>

definition new_event :: "string \<Rightarrow> string \<Rightarrow> int \<Rightarrow> BehaviorEventParam" where
  "new_event typ name result = \<lparr>callingType = typ, eventName = name, eventResult = result,
     ev_bundleName = [], ev_abilityName = [], callingAppUid = - 1\<rparr>"

definition about :: "ElementName \<Rightarrow> BehaviorEventParam \<Rightarrow> BehaviorEventParam" where
  "about e p = p\<lparr>ev_bundleName := el_bundleName e, ev_abilityName := el_abilityName e\<rparr>"

text \<open>What is written: a domain, a name, a type and named values.\<close>

datatype event_type = EVENT_FAULT | EVENT_BEHAVIOR

datatype event_value = EvString string | EvInt int

record sys_event =
  ev_domain :: string
  ev_name :: string
  ev_type :: event_type
  ev_values :: "(string \<times> event_value) list"

definition ReportBehaviorEvent :: "string \<Rightarrow> int \<Rightarrow> int \<Rightarrow> BehaviorEventParam \<Rightarrow> sys_event" where
  "ReportBehaviorEvent domain callingUid callingPid param =
     \<lparr>ev_domain = domain, ev_name = eventName param, ev_type = EVENT_BEHAVIOR, ev_values =
        [(''CALLING_TYPE'', EvString (callingType param)), (''CALLING_UID'', EvInt callingUid),
         (''CALLING_PID'', EvInt callingPid), (''CALLING_APP_UID'', EvInt (callingAppUid param)),
         (''TARGET_BUNDLE'', EvString (ev_bundleName param)),
         (''TARGET_ABILITY'', EvString (ev_abilityName param)), (''RESULT'', EvInt (eventResult param))]\<rparr>"

definition ReportFaultEvent :: "string \<Rightarrow> string \<Rightarrow> string \<Rightarrow> sys_event" where
  "ReportFaultEvent domain name errorType =
     \<lparr>ev_domain = domain, ev_name = name, ev_type = EVENT_FAULT,
      ev_values = [(''ERROR_TYPE'', EvString errorType)]\<rparr>"

section \<open>Events of the stub\<close>

text \<open>Reads that end a handler when they find nothing.\<close>

definition needed :: "'a option \<times> parcel \<Rightarrow> ('a \<times> parcel) option" where
  "needed r = (case r of (None, p) \<Rightarrow> None | (Some x, p) \<Rightarrow> Some (x, p))"

definition needed_account :: "parcel \<Rightarrow> ((AccountInfo \<times> string) \<times> parcel) option" where
  "needed_account p =
     (let (typ, p) = read_or 0 read_int32 p
      in do { (groups, p) \<leftarrow> read_strings p;
              let (appId, p) = read_or [] read_string p;
              Some ((\<lparr>accountType = typ, groupIdList = groups\<rparr>, appId), p) })"

type_synonym reporter = "env \<Rightarrow> parcel \<Rightarrow> sched \<Rightarrow> BehaviorEventParam option"

definition StartRemoteAbility_event :: reporter where
  "StartRemoteAbility_event env data s =
     (if \<not> foundation env s then None
      else do { (want, p) \<leftarrow> needed (read_parcelable (unmarshal_want env) data);
                (callerUid, p) \<leftarrow> read_int32 p; (requestCode, p) \<leftarrow> read_int32 p; (accessTok, p) \<leftarrow> read_uint32 p;
                if \<not> data_sync env accessTok s then None
                else Some ((about (want_element want) (new_event EventCallingType_LOCAL
                  BehaviorEvent_START_REMOTE_ABILITY
                  (fst (StartRemoteAbility env want callerUid requestCode accessTok s))))
                  \<lparr>callingAppUid := callerUid\<rparr>) })"

definition StartContinuation_event :: reporter where
  "StartContinuation_event env data s =
     (if \<not> foundation env s then None
      else do { (want, p) \<leftarrow> needed (read_parcelable (unmarshal_want env) data);
                let (missionId, p) = read_or 0 read_int32 p;
                let (callerUid, p) = read_or 0 read_int32 p;
                let (status, p) = read_or 0 read_int32 p;
                (accessTok, p) \<leftarrow> read_uint32 p;
                if \<not> data_sync env accessTok s then None
                else Some ((about (want_element want) (new_event EventCallingType_LOCAL
                  BehaviorEvent_START_CONTINUATION
                  (fst (StartContinuation env want missionId callerUid status accessTok s))))
                  \<lparr>callingAppUid := callerUid\<rparr>) })"

definition ConnectRemoteAbility_event :: reporter where
  "ConnectRemoteAbility_event env data s =
     (if \<not> foundation env s then None
      else do { (want, p) \<leftarrow> needed (read_parcelable (unmarshal_want env) data);
                let (connect, p) = read_remote p;
                (callerUid, p) \<leftarrow> read_int32 p; (callerPid, p) \<leftarrow> read_int32 p; (accessTok, p) \<leftarrow> read_uint32 p;
                if \<not> data_sync env accessTok s then None
                else Some ((about (want_element want) (new_event EventCallingType_LOCAL
                  BehaviorEvent_CONNECT_REMOTE_ABILITY
                  (fst (ConnectRemoteAbility env want connect callerUid callerPid accessTok s))))
                  \<lparr>callingAppUid := callerUid\<rparr>) })"

text \<open>The events of disconnections name no target and no caller.\<close>

definition DisconnectRemoteAbility_event :: reporter where
  "DisconnectRemoteAbility_event env data s =
     (if \<not> foundation env s then None
      else do { let (connect, p) = read_remote data;
                (callerUid, p) \<leftarrow> read_int32 p; (accessTok, p) \<leftarrow> read_uint32 p;
                if \<not> data_sync env accessTok s then None
                else Some (new_event EventCallingType_LOCAL BehaviorEvent_DISCONNECT_REMOTE_ABILITY
                  (fst (DisconnectRemoteAbility env connect s))) })"

definition StartRemoteAbilityByCall_event :: reporter where
  "StartRemoteAbilityByCall_event env data s =
     (if \<not> foundation env s then None
      else do { (want, p) \<leftarrow> needed (read_parcelable (unmarshal_want env) data);
                let (connect, p) = read_remote p;
                (callerUid, p) \<leftarrow> read_int32 p; (callerPid, p) \<leftarrow> read_int32 p; (accessTok, p) \<leftarrow> read_uint32 p;
                if \<not> data_sync env accessTok s then None
                else Some ((about (want_element want) (new_event EventCallingType_LOCAL
                  BehaviorEvent_START_REMOTE_ABILITY_BYCALL
                  (fst (StartRemoteAbilityByCall env want connect callerUid callerPid accessTok s))))
                  \<lparr>callingAppUid := callerUid\<rparr>) })"

definition ReleaseRemoteAbility_event :: reporter where
  "ReleaseRemoteAbility_event env data s =
     (if \<not> foundation env s then None
      else do { let (connect, p) = read_remote data;
                (element, p) \<leftarrow> needed (read_parcelable (unmarshal_element env) p);
                Some (about element (new_event EventCallingType_LOCAL BehaviorEvent_RELEASE_REMOTE_ABILITY
                  (fst (ReleaseRemoteAbility env connect element s)))) })"

definition StartAbilityFromRemote_event :: reporter where
  "StartAbilityFromRemote_event env data s =
     (if \<not> CheckCallingUid env s then None
      else do { (want, p) \<leftarrow> needed (read_parcelable (unmarshal_want env) data);
                ((package, deviceId), p) \<leftarrow> needed (read_parcelable (unmarshal_ability env) p);
                (requestCode, p) \<leftarrow> read_int32 p; (callerUid, p) \<leftarrow> read_int32 p; (source, p) \<leftarrow> read_string p;
                ((account, appId), p) \<leftarrow> needed_account p;
                let (info, p) = read_or [] read_string p;
                token \<leftarrow> extra_token env info;
                Some ((about (want_element want) (new_event EventCallingType_REMOTE
                  BehaviorEvent_START_REMOTE_ABILITY
                  (fst (StartAbilityFromRemote env want requestCode
                     (default_CallerInfo\<lparr>uid := callerUid, sourceDeviceId := source,
                       callerType := CALLER_TYPE_HARMONY, callerAppId := appId, accessToken := token\<rparr>)
                     account s))))\<lparr>callingAppUid := callerUid\<rparr>) })"

definition ConnectAbilityFromRemote_event :: reporter where
  "ConnectAbilityFromRemote_event env data s =
     (if \<not> CheckCallingUid env s then None
      else do { (want, p) \<leftarrow> needed (read_parcelable (unmarshal_want env) data);
                ((package, deviceId), p) \<leftarrow> needed (read_parcelable (unmarshal_ability env) p);
                let (connect, p) = read_remote p;
                (callerUid, p) \<leftarrow> read_int32 p; (callerPid, p) \<leftarrow> read_int32 p; (source, p) \<leftarrow> read_string p;
                ((account, appId), p) \<leftarrow> needed_account p;
                let (info, p) = read_or [] read_string p;
                token \<leftarrow> extra_token env info;
                (result, s') \<leftarrow> ConnectAbilityFromRemote env want connect
                  (default_CallerInfo\<lparr>uid := callerUid, pid := callerPid, sourceDeviceId := source,
                    callerType := CALLER_TYPE_HARMONY, callerAppId := appId, accessToken := token\<rparr>) account s;
                Some ((about (want_element want) (new_event EventCallingType_REMOTE
                  BehaviorEvent_CONNECT_REMOTE_ABILITY result))\<lparr>callingAppUid := callerUid\<rparr>) })"

definition DisconnectAbilityFromRemote_event :: reporter where
  "DisconnectAbilityFromRemote_event env data s =
     (if \<not> CheckCallingUid env s then None
      else do { let (connect, p) = read_remote data;
                (callerUid, p) \<leftarrow> read_int32 p; (source, p) \<leftarrow> read_string p;
                Some (new_event EventCallingType_REMOTE BehaviorEvent_DISCONNECT_REMOTE_ABILITY
                  (fst (DisconnectAbilityFromRemote env connect source s))) })"

definition StartAbilityByCallFromRemote_event :: reporter where
  "StartAbilityByCallFromRemote_event env data s =
     (if \<not> CheckCallingUid env s then None
      else do { let (connect, p) = read_remote data;
                (callerUid, p) \<leftarrow> read_int32 p; (callerPid, p) \<leftarrow> read_int32 p; (source, p) \<leftarrow> read_string p;
                ((account, appId), p) \<leftarrow> needed_account p;
                let (info, p) = read_or [] read_string p;
                if info = [] then None
                else do { token \<leftarrow> extra_token env info;
                  (want, p) \<leftarrow> needed (read_parcelable (unmarshal_want env) p);
                  Some ((about (want_element want) (new_event EventCallingType_REMOTE
                    BehaviorEvent_START_REMOTE_ABILITY_BYCALL
                    (fst (StartAbilityByCallFromRemote env want connect
                       (default_CallerInfo\<lparr>uid := callerUid, pid := callerPid, sourceDeviceId := source,
                         callerAppId := appId, accessToken := token\<rparr>) account s))))
                    \<lparr>callingAppUid := callerUid\<rparr>) } })"

definition ReleaseAbilityFromRemote_event :: reporter where
  "ReleaseAbilityFromRemote_event env data s =
     (if \<not> CheckCallingUid env s then None
      else do { let (connect, p) = read_remote data;
                (element, p) \<leftarrow> needed (read_parcelable (unmarshal_element env) p);
                (source, p) \<leftarrow> read_string p; (info, p) \<leftarrow> read_string p;
                Some (about element (new_event EventCallingType_REMOTE BehaviorEvent_RELEASE_REMOTE_ABILITY
                  (fst (ReleaseAbilityFromRemote env connect element
                     (default_CallerInfo\<lparr>sourceDeviceId := source\<rparr>) s)))) })"

text \<open>The requests that are reported, of this device and of other devices.\<close>

fun local_reporter :: "request_code \<Rightarrow> reporter option" where
  "local_reporter START_REMOTE_ABILITY = Some StartRemoteAbility_event"
| "local_reporter START_CONTINUATION = Some StartContinuation_event"
| "local_reporter CONNECT_REMOTE_ABILITY = Some ConnectRemoteAbility_event"
| "local_reporter DISCONNECT_REMOTE_ABILITY = Some DisconnectRemoteAbility_event"
| "local_reporter START_REMOTE_ABILITY_BY_CALL = Some StartRemoteAbilityByCall_event"
| "local_reporter RELEASE_REMOTE_ABILITY = Some ReleaseRemoteAbility_event"
| "local_reporter c = None"

fun remote_reporter :: "request_code \<Rightarrow> reporter option" where
  "remote_reporter START_ABILITY_FROM_REMOTE = Some StartAbilityFromRemote_event"
| "remote_reporter CONNECT_ABILITY_FROM_REMOTE = Some ConnectAbilityFromRemote_event"
| "remote_reporter DISCONNECT_ABILITY_FROM_REMOTE = Some DisconnectAbilityFromRemote_event"
| "remote_reporter START_ABILITY_BY_CALL_FROM_REMOTE = Some StartAbilityByCallFromRemote_event"
| "remote_reporter RELEASE_ABILITY_FROM_REMOTE = Some ReleaseAbilityFromRemote_event"
| "remote_reporter c = None"

section \<open>What is reported\<close>

text \<open>
  A handler and its reporter agree: the reporter writes nothing when the handler refuses and
  changes nothing, and otherwise an event of the given calling type, whose result the reply begins
  with.
\<close>

definition tells :: "string \<Rightarrow> BehaviorEventParam \<Rightarrow> int \<Rightarrow> parcel \<Rightarrow> bool" where
  "tells t r e reply =
     (e = ERR_NONE \<and> callingType r = t \<and> (\<exists>vs. reply = PInt32 (eventResult r) # vs))"

definition agrees :: "string \<Rightarrow> sched \<Rightarrow> BehaviorEventParam option \<Rightarrow> sched answer \<Rightarrow> bool" where
  "agrees t s ev a =
     (case a of
        None \<Rightarrow> True
      | Some (e, reply, s') \<Rightarrow> (case ev of None \<Rightarrow> reply = [] \<and> s' = s | Some r \<Rightarrow> tells t r e reply))"

lemma agrees_simps [simp]:
  "agrees t s None (refuse e s)" "agrees t s ev None"
  "agrees t s (Some r) (Some (ERR_NONE, PInt32 i # vs, s')) = (callingType r = t \<and> i = eventResult r)"
  by (auto simp: agrees_def tells_def refuse_def)

lemma agrees_need:
  "(\<And>x q. r = Some (x, q) \<Longrightarrow> agrees t s (f x q) (k x q)) \<Longrightarrow> agrees t s (r \<bind> (\<lambda>(x, q). f x q)) (need env s r k)"
  by (cases r) (auto simp: need_def)

lemma agrees_nonnull:
  "(\<And>x q. agrees t s (f x q) (k x q)) \<Longrightarrow> agrees t s (needed r \<bind> (\<lambda>(x, q). f x q)) (nonnull e s r k)"
  by (cases r; cases "fst r") (auto simp: needed_def nonnull_def)

lemma agrees_want_at:
  "(\<And>x q. agrees t s (f x q) (k x q)) \<Longrightarrow>
   agrees t s (needed (read_parcelable (unmarshal_want env) p) \<bind> (\<lambda>(x, q). f x q)) (want_at env s p k)"
  unfolding want_at_def by (rule agrees_nonnull)

lemma agrees_account_at:
  "(\<And>a i q. agrees t s (f a i q) (k a i q)) \<Longrightarrow>
   agrees t s (needed_account p \<bind> (\<lambda>((a, i), q). f a i q)) (account_at env s p k)"
  by (auto simp: needed_account_def account_at_def need_def Let_def split_beta split: option.split)

lemma agrees_let: "(\<And>x q. agrees t s (f x q) (k x q)) \<Longrightarrow>
    agrees t s (case z of (x, q) \<Rightarrow> f x q) (case z of (x, q) \<Rightarrow> k x q)"
  by (cases z) simp

lemma agrees_if:
  "(c \<Longrightarrow> agrees t s a x) \<Longrightarrow> (\<not> c \<Longrightarrow> agrees t s b y) \<Longrightarrow>
   agrees t s (if c then a else b) (if c then x else y)"
  by simp

lemma agrees_bind: "(\<And>x. agrees t s (f x) (k x)) \<Longrightarrow> agrees t s (m \<bind> f) (m \<bind> k)"
  by (cases m) simp_all

lemma agrees_nonnull_pair:
  "(\<And>x y q. agrees t s (f x y q) (k x y q)) \<Longrightarrow>
   agrees t s (needed r \<bind> (\<lambda>((x, y), q). f x y q)) (nonnull e s r (\<lambda>(x, y) q. k x y q))"
  by (cases r; cases "fst r") (auto simp: needed_def nonnull_def)

lemmas agrees_rules = agrees_nonnull_pair agrees_if agrees_want_at agrees_nonnull agrees_need
  agrees_account_at agrees_let agrees_bind

lemmas reporter_defs = StartRemoteAbility_event_def StartContinuation_event_def ConnectRemoteAbility_event_def
  DisconnectRemoteAbility_event_def StartRemoteAbilityByCall_event_def ReleaseRemoteAbility_event_def
  StartAbilityFromRemote_event_def ConnectAbilityFromRemote_event_def DisconnectAbilityFromRemote_event_def
  StartAbilityByCallFromRemote_event_def ReleaseAbilityFromRemote_event_def

lemma event_fields [simp]:
  "eventResult (new_event t n i) = i" "eventResult (about e r) = eventResult r"
  "callingType (new_event t n i) = t" "callingType (about e r) = callingType r"
  by (simp_all add: new_event_def about_def)

lemma local_handlers_agree:
  assumes "good_parcels env"
  shows "agrees EventCallingType_LOCAL s (StartRemoteAbility_event env p s) (StartRemoteAbilityInner env p s)"
    "agrees EventCallingType_LOCAL s (StartContinuation_event env p s) (StartContinuationInner env p s)"
    "agrees EventCallingType_LOCAL s (ConnectRemoteAbility_event env p s) (ConnectRemoteAbilityInner env p s)"
    "agrees EventCallingType_LOCAL s (DisconnectRemoteAbility_event env p s) (DisconnectRemoteAbilityInner env p s)"
    "agrees EventCallingType_LOCAL s (StartRemoteAbilityByCall_event env p s)
       (StartRemoteAbilityByCallInner env p s)"
    "agrees EventCallingType_LOCAL s (ReleaseRemoteAbility_event env p s) (ReleaseRemoteAbilityInner env p s)"
  unfolding sched_handlers reporter_defs Let_def
  by (intro agrees_rules; simp add: reply_good assms)+

lemma remote_handlers_agree:
  assumes "good_parcels env"
  shows "agrees EventCallingType_REMOTE s (StartAbilityFromRemote_event env p s) (StartAbilityFromRemoteInner env p s)"
    "agrees EventCallingType_REMOTE s (DisconnectAbilityFromRemote_event env p s)
       (DisconnectAbilityFromRemoteInner env p s)"
    "agrees EventCallingType_REMOTE s (StartAbilityByCallFromRemote_event env p s)
       (StartAbilityByCallFromRemoteInner env p s)"
    "agrees EventCallingType_REMOTE s (ReleaseAbilityFromRemote_event env p s)
       (ReleaseAbilityFromRemoteInner env p s)"
    "agrees EventCallingType_REMOTE s (ConnectAbilityFromRemote_event env p s)
       (ConnectAbilityFromRemoteInner env p s)"
  unfolding sched_handlers reporter_defs Let_def
  by (intro agrees_rules; simp add: reply_good reply_timed_def assms split: prod.split)+

text \<open>
  The event of a request to the whole service. The caller of a request is the same while it is
  served.
\<close>

definition reporter_of :: "menv \<Rightarrow> request_code \<Rightarrow> dms \<Rightarrow> reporter option" where
  "reporter_of env c d =
     (if local_calling (conv env) (history (d_sched d)) then local_reporter c else remote_reporter c)"

definition stub_event :: "string \<Rightarrow> menv \<Rightarrow> request_code \<Rightarrow> parcel \<Rightarrow> dms \<Rightarrow> sys_event option" where
  "stub_event domain env c p d =
     (let h = history (d_sched d)
      in do { report \<leftarrow> reporter_of env c d;
              r \<leftarrow> report (conv env) p (d_sched d);
              Some (ReportBehaviorEvent domain (calling_uid (conv env) h) (calling_pid (conv env) h) r) })"

lemma agrees_on_sched:
  "agrees t (d_sched d) ev (f (conv env) p (d_sched d)) \<Longrightarrow> on_sched f env p d = Some (e, reply, d') \<Longrightarrow>
   (case ev of None \<Rightarrow> reply = [] \<and> d' = d | Some r \<Rightarrow> tells t r e reply)"
  by (auto simp: on_sched_def agrees_def bind_eq_Some_conv split: option.splits)

lemma local_reported:
  assumes "good_parcels (conv env)" and "local_reporter c = Some rep" and "localFuncsMap c = Some f"
    and "f env p d = Some (e, reply, d')"
  shows "case rep (conv env) p (d_sched d) of None \<Rightarrow> reply = [] \<and> d' = d
    | Some r \<Rightarrow> tells EventCallingType_LOCAL r e reply"
  using assms(2-4)
  by (cases c) (auto intro: agrees_on_sched local_handlers_agree [OF assms(1)])

lemma remote_reported:
  assumes "good_parcels (conv env)" and "remote_reporter c = Some rep" and "remoteFuncsMap c = Some f"
    and "f env p d = Some (e, reply, d')"
  shows "case rep (conv env) p (d_sched d) of None \<Rightarrow> reply = [] \<and> d' = d
    | Some r \<Rightarrow> tells EventCallingType_REMOTE r e reply"
  using assms(2-4)
  by (cases c) (auto intro: agrees_on_sched remote_handlers_agree [OF assms(1)])

lemma request_reported:
  assumes "good_parcels (conv env)" and "reporter_of env c d = Some rep"
    and "OnRemoteRequest env (code_of c) (PToken SCHED_STUB_INTERFACE_TOKEN # p) d = Some (e, reply, d')"
  shows "case rep (conv env) p (d_sched d) of None \<Rightarrow> reply = [] \<and> d' = d
    | Some r \<Rightarrow> tells (if local_calling (conv env) (history (d_sched d)) then EventCallingType_LOCAL
        else EventCallingType_REMOTE) r e reply"
proof (cases "local_calling (conv env) (history (d_sched d))")
  case True
  with assms(2) obtain f where "local_reporter c = Some rep" "localFuncsMap c = Some f"
    by (cases c) (auto simp: reporter_of_def)
  with assms True local_reported [of env c rep f p d] show ?thesis by (simp add: OnRemoteRequest_code)
next
  case False
  with assms(2) obtain f where "remote_reporter c = Some rep" "remoteFuncsMap c = Some f"
    by (cases c) (auto simp: reporter_of_def)
  with assms False remote_reported [of env c rep f p d] show ?thesis by (simp add: OnRemoteRequest_code)
qed


definition release_data :: parcel where
  "release_data = [PObject (Proxy 3), PNested (marshal_element ipc_sample empty_element)]"


section \<open>Events of the adapter\<close>

text \<open>The fault of an operation of the adapter: the ability manager cannot be reached.\<close>

definition ams_fault :: "string \<Rightarrow> string \<Rightarrow> env \<Rightarrow> sched \<Rightarrow> sys_event option" where
  "ams_fault domain name env s =
     (if fst (call_ams env AmsConnect s) \<noteq> ERR_OK
      then Some (ReportFaultEvent domain name GET_ABILITY_MGR_FAILED) else None)"

definition ConnectAbility_fault :: "string \<Rightarrow> env \<Rightarrow> sched \<Rightarrow> sys_event option" where
  "ConnectAbility_fault domain = ams_fault domain FaultEvent_CONNECT_REMOTE_ABILITY"

definition DisconnectAbility_fault :: "string \<Rightarrow> env \<Rightarrow> sched \<Rightarrow> sys_event option" where
  "DisconnectAbility_fault domain = ams_fault domain FaultEvent_DISCONNECT_REMOTE_ABILITY"

definition ReleaseAbility_fault :: "string \<Rightarrow> env \<Rightarrow> sched \<Rightarrow> sys_event option" where
  "ReleaseAbility_fault domain = ams_fault domain FaultEvent_RELEASE_REMOTE_ABILITY"

definition StartAbilityByCall_fault :: "string \<Rightarrow> env \<Rightarrow> sched \<Rightarrow> sys_event option" where
  "StartAbilityByCall_fault domain = ams_fault domain FaultEvent_START_REMOTE_ABILITY_BYCALL"

text \<open>With a fault the operation failed and asked nothing else of the ability manager.\<close>

lemma fault_means_unreached:
  "ConnectAbility_fault domain env s = Some x \<Longrightarrow>
     fst (adapter_ConnectAbility env want c s) \<noteq> ERR_OK \<and> snd (adapter_ConnectAbility env want c s) = log_ext [Ams AmsConnect] s"
  "DisconnectAbility_fault domain env s = Some x \<Longrightarrow>
     fst (adapter_DisconnectAbility env c s) \<noteq> ERR_OK \<and> snd (adapter_DisconnectAbility env c s) = log_ext [Ams AmsConnect] s"
  "ReleaseAbility_fault domain env s = Some x \<Longrightarrow>
     fst (adapter_ReleaseAbility env c el s) \<noteq> ERR_OK \<and> snd (adapter_ReleaseAbility env c el s) = log_ext [Ams AmsConnect] s"
  "StartAbilityByCall_fault domain env s = Some x \<Longrightarrow>
     fst (adapter_StartAbilityByCall env want c s) \<noteq> ERR_OK \<and> snd (adapter_StartAbilityByCall env want c s) = log_ext [Ams AmsConnect] s"
  by (auto simp: ConnectAbility_fault_def DisconnectAbility_fault_def ReleaseAbility_fault_def
      StartAbilityByCall_fault_def ams_fault_def adapter_ConnectAbility_def adapter_DisconnectAbility_def
      adapter_ReleaseAbility_def adapter_StartAbilityByCall_def call_ams_def log_ext_def Let_def split: if_splits)

end
