(* ===== verification/ConnectRaces.thy ===== *)
theory ConnectRaces
  imports SchedProps
begin

text \<open>
  Connect requests that overlap (\<^verbatim>\<open>ConnectRemoteAbility\<close> and \<^verbatim>\<open>TryConnectRemoteAbility\<close> of
  \<^verbatim>\<open>distributed_sched_service.cpp\<close>). The number of connections is checked in one locked section
  and raised in another one, after the calls of the other device; between the two any other
  request can run. The operation is cut at these points into the steps of a thread, and the
  service serves \<open>k\<close> requests at a time.
\<close>

section \<open>The steps of a connect request\<close>

text \<open>
  Where a request can be interrupted: after the check, before each call of the other device (with
  the attempts left and the last result), and with the consent of the other device before the
  lock is taken again.
\<close>

datatype connect_task =
    Checked Want ptr CallerInfo
  | Calling Want robj CallerInfo AccountInfo nat int
  | Answered Want robj CallerInfo

text \<open>A step ends the request with a result or leaves a task.\<close>

definition connect_check ::
  "env \<Rightarrow> Want \<Rightarrow> ptr \<Rightarrow> int \<Rightarrow> int \<Rightarrow> nat \<Rightarrow> sched \<Rightarrow> int + connect_task" where
  "connect_check env want connect callerUid callerPid token s =
     (case GetLocalDeviceId env s of
        None \<Rightarrow> Inl INVALID_PARAMETERS_ERR
      | Some localDeviceId \<Rightarrow>
          if \<not> CheckDeviceId localDeviceId (el_deviceId (want_element want)) then Inl INVALID_PARAMETERS_ERR
          else
            let caller = default_CallerInfo\<lparr>uid := callerUid, pid := callerPid,
                  callerType := CALLER_TYPE_HARMONY, sourceDeviceId := localDeviceId,
                  accessToken := token\<rparr>;
                checkResult = CheckDistributedConnectLocked caller s
            in if checkResult \<noteq> ERR_OK then Inl checkResult else Inr (Checked want connect caller))"

definition connect_prepare :: "env \<Rightarrow> Want \<Rightarrow> ptr \<Rightarrow> CallerInfo \<Rightarrow> sched \<Rightarrow> int + connect_task" where
  "connect_prepare env want connect caller s =
     (case caller_with_bundles env (history s) caller of
        None \<Rightarrow> Inl INVALID_PARAMETERS_ERR
      | Some caller' \<Rightarrow>
          let dev = el_deviceId (want_element want)
          in if \<not> GetRemoteDms env dev s then Inl INVALID_PARAMETERS_ERR
             else (case connect of
                     None \<Rightarrow> Inl INVALID_PARAMETERS_ERR
                   | Some c \<Rightarrow>
                       let (ret, account) = GetAccountInfo env (history s) dev caller'
                       in if ret \<noteq> ERR_OK then Inl ret
                          else Inr (Calling want c caller' account BIND_CONNECT_RETRY_TIMES
                                      REMOTE_DEVICE_BIND_ABILITY_ERR)))"

fun connect_advance :: "env \<Rightarrow> connect_task \<Rightarrow> sched \<Rightarrow> (int + connect_task) \<times> sched" where
  "connect_advance env (Checked want connect caller) s = (connect_prepare env want connect caller s, s)"
| "connect_advance env (Calling want c caller account 0 result) s = (Inl result, s)"
| "connect_advance env (Calling want c caller account (Suc n) result) s =
     (let (result', s1) = call_rpc env (el_deviceId (want_element want))
                            (RpcConnectAbility want c caller account) s
      in if result' = ERR_OK then (Inr (Answered want c caller), s1)
         else if result' = INVALID_REMOTE_PARAMETERS_ERR \<or> result' = REMOTE_DEVICE_BIND_ABILITY_ERR
         then (Inl result', s1)
         else if BIND_CONNECT_TIMEOUT < rpc_elapsed env (history s1) then (Inl result', s1)
         else (Inr (Calling want c caller account n result'), s1))"
| "connect_advance env (Answered want c caller) s =
     (Inl ERR_OK, RemoteConnectAbilityMappingLocked env (Some c) (sourceDeviceId caller)
        (el_deviceId (want_element want)) (want_element want) caller HARMONY_COMPONENT s)"

text \<open>The steps of one request that nothing interrupts, at most \<open>n\<close> of them.\<close>

fun connect_alone :: "env \<Rightarrow> nat \<Rightarrow> connect_task \<Rightarrow> sched \<Rightarrow> (int \<times> sched) option" where
  "connect_alone env 0 t s = None"
| "connect_alone env (Suc n) t s =
     (case connect_advance env t s of
        (Inl r, s') \<Rightarrow> Some (r, s')
      | (Inr t', s') \<Rightarrow> connect_alone env n t' s')"

lemma connect_alone_loop:
  "connect_alone env (Suc (Suc n)) (Calling want c caller account n r) s =
   Some (connect_loop env n r want c caller account (el_deviceId (want_element want)) s)"
proof (induction n arbitrary: r s)
  case (Suc n)
  show ?case
    using Suc.IH by (auto simp del: connect_alone.simps simp: connect_alone.simps(2) [of _ "Suc (Suc n)"]
        connect_alone.simps(2) [of _ "Suc n" "Answered want c caller"] call_eq Let_def split_beta)
qed simp


section \<open>Requests that overlap\<close>

text \<open>The service and the tasks of its \<open>k\<close> threads.\<close>

record race =
  race_sched :: sched
  race_threads :: "connect_task option list"

definition new_race :: "nat \<Rightarrow> race" where
  "new_race k = \<lparr>race_sched = initial_sched, race_threads = replicate k None\<rparr>"

text \<open>
  A thread takes a connect request or goes one step on; every other request of the service runs
  in one step, as it changes the tables in one locked section.
\<close>

datatype race_event =
    Begin nat Want ptr int int nat
  | Advance nat
  | Other sched_req

definition task_at :: "race \<Rightarrow> nat \<Rightarrow> connect_task option" where
  "task_at st i = (if i < length (race_threads st) then race_threads st ! i else None)"

definition idle_at :: "race \<Rightarrow> nat \<Rightarrow> bool" where
  "idle_at st i = (i < length (race_threads st) \<and> race_threads st ! i = None)"

definition set_task :: "nat \<Rightarrow> connect_task option \<Rightarrow> race \<Rightarrow> race" where
  "set_task i t st = st\<lparr>race_threads := (race_threads st)[i := t]\<rparr>"

fun race_exec :: "env \<Rightarrow> race_event \<Rightarrow> race \<Rightarrow> race option" where
  "race_exec env (Begin i want connect u p tok) st =
     Some (if idle_at st i then
             (case connect_check env want connect u p tok (race_sched st) of
                Inl r \<Rightarrow> st
              | Inr t \<Rightarrow> set_task i (Some t) st)
           else st)"
| "race_exec env (Advance i) st =
     Some (case task_at st i of
             None \<Rightarrow> st
           | Some t \<Rightarrow>
               (let (out, s) = connect_advance env t (race_sched st)
                in set_task i (case out of Inl r \<Rightarrow> None | Inr t' \<Rightarrow> Some t') (st\<lparr>race_sched := s\<rparr>)))"
| "race_exec env (Other r) st = map_option (\<lambda>s. st\<lparr>race_sched := s\<rparr>) (sched_exec env r (race_sched st))"

definition race_step :: "env \<Rightarrow> race option \<Rightarrow> race_event \<Rightarrow> race option" where
  "race_step env st e = (case st of None \<Rightarrow> None | Some x \<Rightarrow> race_exec env e x)"

lemma race_step_simps [simp]:
  "race_step env (Some st) e = race_exec env e st" "race_step env None e = None"
  by (simp_all add: race_step_def)

text \<open>Every connect request is taken by a thread, and presents an object of its user.\<close>

fun race_presented :: "(robj \<Rightarrow> int) \<Rightarrow> race_event \<Rightarrow> bool" where
  "race_presented owner (Begin i want (Some c) u p tok) = (u = owner c)"
| "race_presented owner (Other (ReqConnect w c u p t)) = False"
| "race_presented owner e = True"

section \<open>The limit on connections\<close>

fun task_caller :: "connect_task \<Rightarrow> CallerInfo" where
  "task_caller (Checked want connect caller) = caller"
| "task_caller (Calling want c caller account n r) = caller"
| "task_caller (Answered want c caller) = caller"

fun task_object :: "connect_task \<Rightarrow> ptr" where
  "task_object (Checked want connect caller) = connect"
| "task_object (Calling want c caller account n r) = Some c"
| "task_object (Answered want c caller) = Some c"

definition task_ok :: "(robj \<Rightarrow> int) \<Rightarrow> connect_task \<Rightarrow> bool" where
  "task_ok owner t = (0 \<le> uid (task_caller t) \<and>
     (case task_object t of None \<Rightarrow> True | Some c \<Rightarrow> uid (task_caller t) = owner c))"

definition weight :: "int \<Rightarrow> connect_task option \<Rightarrow> nat" where
  "weight u x = (case x of None \<Rightarrow> 0 | Some t \<Rightarrow> if uid (task_caller t) = u then 1 else 0)"

lemma weight_simps [simp]:
  "weight u None = 0" "weight u (Some t) = (if uid (task_caller t) = u then 1 else 0)"
  by (simp_all add: weight_def)

text \<open>How many threads serve a request of the user.\<close>

definition flights :: "int \<Rightarrow> connect_task option list \<Rightarrow> nat" where
  "flights u ts = sum_list (map (weight u) ts)"

lemma flights_update:
  "i < length ts \<Longrightarrow> flights u (ts[i := t]) = flights u ts + weight u t - weight u (ts ! i)"
  by (simp add: flights_def map_update sum_list_update)

lemma weight_in_flights: "i < length ts \<Longrightarrow> weight u (ts ! i) \<le> flights u ts"
  by (auto simp: flights_def intro: member_le_sum_list)

lemma flights_le: "flights u ts \<le> length ts"
proof (induction ts)
  case (Cons t ts)
  have "weight u t \<le> 1" by (auto simp: weight_def split: option.split)
  with Cons show ?case by (simp add: flights_def)
qed (simp add: flights_def)

lemma flights_idle [simp]: "flights u (replicate k None) = 0"
  by (simp add: flights_def map_replicate_const sum_list_replicate)

lemma flights_lt: "i < length ts \<Longrightarrow> ts ! i = None \<Longrightarrow> flights u ts < length ts"
proof (induction ts arbitrary: i)
  case (Cons t ts)
  have w: "weight u t \<le> 1" by (auto simp: weight_def split: option.split)
  show ?case
  proof (cases i)
    case 0
    with Cons.prems flights_le [of u ts] show ?thesis by (simp add: flights_def)
  next
    case (Suc j)
    with Cons w show ?thesis by (fastforce simp: flights_def)
  qed
qed simp

text \<open>
  The invariant: the connections of a user and its requests in flight are together at most 599
  more than there are threads.
\<close>

definition race_inv :: "nat \<Rightarrow> (robj \<Rightarrow> int) \<Rightarrow> race \<Rightarrow> bool" where
  "race_inv k owner st =
     (length (race_threads st) = k \<and> conn_bound (599 + k) owner (race_sched st) \<and>
      (\<forall>u. links owner (distributedConnectAbilityMap (race_sched st)) u + flights u (race_threads st) \<le> 599 + k) \<and>
      (\<forall>t. Some t \<in> set (race_threads st) \<longrightarrow> task_ok owner t))"

text \<open>Requests that connect nothing make no user's connections more.\<close>

lemma links_filter: "links owner (filter P m) u \<le> links owner m u"
  by (induction m) auto

lemma links_without_device: "links owner (without_device d m) u \<le> links owner m u"
  by (induction m) (auto simp: Let_def)

lemma fewer_links:
  assumes "conn_bound L owner s"
  shows "links owner (distributedConnectAbilityMap (ProcessDeviceOffline env dev s)) u
      \<le> links owner (distributedConnectAbilityMap s) u"
    "links owner (distributedConnectAbilityMap (ProcessConnectDied env connect s)) u
      \<le> links owner (distributedConnectAbilityMap s) u"
    "links owner (distributedConnectAbilityMap (snd (DisconnectRemoteAbility env connect s))) u
      \<le> links owner (distributedConnectAbilityMap s) u"
proof -
  have ok: "table_ok owner (distributedConnectAbilityMap s)" using assms by (simp add: conn_bound_def)
  show "links owner (distributedConnectAbilityMap (ProcessDeviceOffline env dev s)) u
      \<le> links owner (distributedConnectAbilityMap s) u"
    using links_without_device
    by (cases "offline_applies env dev s") (simp_all add: ProcessDeviceOffline_tables [OF _ ok] ProcessDeviceOffline_skip)
  show "links owner (distributedConnectAbilityMap (ProcessConnectDied env connect s)) u
      \<le> links owner (distributedConnectAbilityMap s) u"
  proof (cases "\<exists>c x xs. connect = Some c \<and> map_find c (distributedConnectAbilityMap s) = Some (x # xs)")
    case True
    then show ?thesis using links_filter by (auto simp: ProcessConnectDied_tables other_callers_def)
  next
    case False
    then have "ProcessConnectDied env connect s = s"
      by (auto simp: ProcessConnectDied_def split: option.split list.split)
    then show ?thesis by simp
  qed
  have "links owner (map_erase c (distributedConnectAbilityMap s)) u \<le> links owner (distributedConnectAbilityMap s) u" for c
    using links_filter by (simp add: map_erase_def)
  then show "links owner (distributedConnectAbilityMap (snd (DisconnectRemoteAbility env connect s))) u
      \<le> links owner (distributedConnectAbilityMap s) u"
    by (auto simp: DisconnectRemoteAbility_def Let_def DecreaseConnectLocked_dec split: option.split)
qed

lemma other_requests:
  assumes "conn_bound L owner s" and "race_presented owner (Other r)" and "sched_exec env r s = Some s'"
  shows "conn_bound L owner s' \<and>
    links owner (distributedConnectAbilityMap s') u \<le> links owner (distributedConnectAbilityMap s) u"
proof -
  have same: "conn_bound L owner t \<and>
      links owner (distributedConnectAbilityMap t) u \<le> links owner (distributedConnectAbilityMap s) u"
    if "same_links s t" for t
    using that same_links_inv [OF that assms(1)] by (simp add: same_links_def)
  note sames = DisconnectAbilityFromRemote_links NotifyProcessDiedFromRemote_links StartRemoteAbilityByCall_links
    ReleaseRemoteAbility_links callee_side_links ProcessCallerDied_links component_links
  show ?thesis
  proof (cases r)
    case (ReqConnectFromRemote w c caller account)
    with assms(3) obtain q where "ConnectAbilityFromRemote env w c caller account s = Some (q, s')" by auto
    then show ?thesis by (rule same [OF ConnectAbilityFromRemote_links])
  qed (use assms in \<open>auto simp: DisconnectRemoteAbility_inv ProcessDeviceOffline_inv ProcessConnectDied_inv
      fewer_links same [OF sames(1)] same [OF sames(2)] same [OF sames(3)] same [OF sames(4)] same [OF sames(5)]
      same [OF sames(6)] same [OF sames(7)] same [OF sames(8)] same [OF sames(9)] same [OF sames(10)]\<close>)
qed

text \<open>The steps of a connect request.\<close>

lemma connect_check_task:
  assumes "connect_check env want connect u p tok s = Inr t"
  shows "uid (task_caller t) = u" "task_object t = connect"
    "CheckDistributedConnectLocked (task_caller t) s = ERR_OK"
  using assms by (auto simp: connect_check_def Let_def split: option.splits if_splits)

lemma connect_prepare_task:
  assumes "connect_prepare env want connect caller s = Inr t"
  shows "uid (task_caller t) = uid caller" "task_object t = connect"
  using assms
  by (auto simp: connect_prepare_def Let_def dest: caller_with_bundles_uid split: option.splits prod.splits if_splits)

lemma connect_advance_task:
  assumes "connect_advance env t s = (Inr t', s')"
  shows "uid (task_caller t') = uid (task_caller t)" "task_object t' = task_object t" "only_logs s s'"
  using assms
  by (auto elim!: connect_advance.elims simp: connect_prepare_task Let_def call_eq split: if_splits)

lemma connect_advance_end:
  assumes "connect_advance env t s = (Inl r, s')"
  shows "only_logs s s' \<or> (\<exists>want c caller. t = Answered want c caller \<and>
      s' = RemoteConnectAbilityMappingLocked env (Some c) (sourceDeviceId caller)
        (el_deviceId (want_element want)) (want_element want) caller HARMONY_COMPONENT s)"
  using assms by (auto elim!: connect_advance.elims simp: Let_def call_eq split: if_splits)

lemma Mapping_links:
  "links owner (distributedConnectAbilityMap (RemoteConnectAbilityMappingLocked env (Some c) src dst e caller tc s)) u
   \<le> links owner (distributedConnectAbilityMap s) u + (if owner c = u then 1 else 0)"
  if "conn_bound L owner s"
proof -
  have m: "map_ok (distributedConnectAbilityMap s)" using that by (simp add: conn_bound_def table_ok_def)
  show ?thesis
    by (cases "c \<in> map_keys (distributedConnectAbilityMap s)")
      (simp_all add: Mapping_tables links_put_old [OF m] links_put_new)
qed

lemma race_invD:
  assumes "race_inv k owner st"
  shows "length (race_threads st) = k" "conn_bound (599 + k) owner (race_sched st)"
    "links owner (distributedConnectAbilityMap (race_sched st)) u + flights u (race_threads st) \<le> 599 + k"
    "task_at st i = Some t \<Longrightarrow> task_ok owner t"
  using assms by (auto simp: race_inv_def task_at_def split: if_splits) (metis nth_mem)

lemma race_inv_set:
  assumes "race_inv k owner st" "conn_bound (599 + k) owner s"
    and "\<And>t. x = Some t \<Longrightarrow> task_ok owner t"
    and "\<And>u. links owner (distributedConnectAbilityMap s) u + flights u ((race_threads st)[i := x]) \<le> 599 + k"
  shows "race_inv k owner (set_task i x (st\<lparr>race_sched := s\<rparr>))"
proof -
  have "task_ok owner t" if "Some t \<in> set ((race_threads st)[i := x])" for t
    using that assms(1,3) set_update_subset_insert [of "race_threads st" i x] by (auto simp: race_inv_def)
  with assms show ?thesis by (simp add: race_inv_def set_task_def)
qed

lemma race_inv_begin:
  assumes "race_inv k owner st" "race_presented owner (Begin i want connect u p tok)"
    and "connect_check env want connect u p tok (race_sched st) = Inr t" "idle_at st i"
  shows "race_inv k owner (set_task i (Some t) st)"
proof -
  note inv = race_invD [OF assms(1)]
  note new = connect_check_task [OF assms(3)]
  have i: "i < length (race_threads st)" "race_threads st ! i = None" using assms(4) by (auto simp: idle_at_def)
  note below = check_below_limit [OF inv(2) new(3)]
  have "task_ok owner t"
    using below(1) new assms(2) by (cases connect) (auto simp: task_ok_def)
  moreover have "links owner (distributedConnectAbilityMap (race_sched st)) v +
      flights v ((race_threads st)[i := Some t]) \<le> 599 + k" for v
    using inv(3) [of v] below(2) new(1) flights_lt [OF i, of u] i inv(1) by (auto simp: flights_update)
  ultimately have "race_inv k owner (set_task i (Some t) (st\<lparr>race_sched := race_sched st\<rparr>))"
    by (intro race_inv_set assms(1) inv(2)) auto
  then show ?thesis by simp
qed

lemma race_inv_advance:
  assumes "race_inv k owner st" "task_at st i = Some t"
    and "connect_advance env t (race_sched st) = (out, s)"
  shows "race_inv k owner (set_task i (case out of Inl r \<Rightarrow> None | Inr t' \<Rightarrow> Some t') (st\<lparr>race_sched := s\<rparr>))"
proof -
  note inv = race_invD [OF assms(1)]
  have i: "i < length (race_threads st)" "race_threads st ! i = Some t"
    using assms(2) by (auto simp: task_at_def split: if_splits)
  have ok: "task_ok owner t" by (rule inv(4) [OF assms(2)])
  have logs: "conn_bound (599 + k) owner s"
    "distributedConnectAbilityMap s = distributedConnectAbilityMap (race_sched st)" if "only_logs (race_sched st) s"
    using that inv(2) by (auto simp: only_logs_def)
  have w: "weight u (Some t) \<le> flights u (race_threads st)" for u
    using weight_in_flights [OF i(1), of u] i(2) by simp
  show ?thesis
  proof (cases out)
    case (Inr t')
    note step = connect_advance_task [OF assms(3) [unfolded Inr]]
    have "flights u ((race_threads st)[i := Some t']) = flights u (race_threads st)" for u
      using w [of u] i step(1) by (auto simp: flights_update)
    then show ?thesis
      using ok inv(3) step by (intro race_inv_set assms(1) logs(1)) (auto simp: Inr logs(2) task_ok_def split: option.splits)
  next
    case (Inl r)
    have down: "flights u ((race_threads st)[i := None]) = flights u (race_threads st) - weight u (Some t)" for u
      using i by (simp add: flights_update)
    from connect_advance_end [OF assms(3) [unfolded Inl]]
    consider "only_logs (race_sched st) s" | (commit) want c caller where "t = Answered want c caller"
      "s = RemoteConnectAbilityMappingLocked env (Some c) (sourceDeviceId caller)
        (el_deviceId (want_element want)) (want_element want) caller HARMONY_COMPONENT (race_sched st)"
      by blast
    then show ?thesis
    proof cases
      case 1
      have "links owner (distributedConnectAbilityMap s) u + flights u ((race_threads st)[i := None]) \<le> 599 + k" for u
        using inv(3) [of u] by (simp add: logs(2) [OF 1] down)
      then show ?thesis by (intro race_inv_set assms(1) logs(1) 1) (auto simp: Inl)
    next
      case commit
      have u: "uid caller = owner c" "0 \<le> owner c" using ok by (auto simp: commit(1) task_ok_def)
      have "0 < flights (owner c) (race_threads st)" using w [of "owner c"] by (simp add: commit(1) u)
      then have "links owner (distributedConnectAbilityMap (race_sched st)) (owner c) < 599 + k"
        using inv(3) [of "owner c"] by simp
      then have "conn_bound (599 + k) owner s"
        unfolding commit(2) by (intro Mapping_inv inv(2) u)
      moreover have "links owner (distributedConnectAbilityMap s) v + flights v ((race_threads st)[i := None])
          \<le> 599 + k" for v
        using Mapping_links [OF inv(2), of env c "sourceDeviceId caller" "el_deviceId (want_element want)"
            "want_element want" caller HARMONY_COMPONENT v] inv(3) [of v] w [of v]
        by (simp add: commit u down split: if_splits)
      ultimately show ?thesis by (intro race_inv_set assms(1)) (auto simp: Inl)
    qed
  qed
qed

definition opt_race_inv :: "nat \<Rightarrow> (robj \<Rightarrow> int) \<Rightarrow> race option \<Rightarrow> bool" where
  "opt_race_inv k owner st = (case st of None \<Rightarrow> True | Some x \<Rightarrow> race_inv k owner x)"

lemma opt_race_inv_simps [simp]: "opt_race_inv k owner None" "opt_race_inv k owner (Some x) = race_inv k owner x"
  by (simp_all add: opt_race_inv_def)

lemma race_exec_inv:
  assumes "race_inv k owner st" "race_presented owner e"
  shows "opt_race_inv k owner (race_exec env e st)"
proof (cases e)
  case (Begin i want connect u p tok)
  then show ?thesis using assms race_inv_begin [OF assms(1)] by (auto split: sum.split)
next
  case (Advance i)
  then show ?thesis using assms(1) race_inv_advance [OF assms(1)] by (auto split: option.split prod.split)
next
  case (Other r)
  note inv = race_invD [OF assms(1)]
  show ?thesis
  proof (cases "sched_exec env r (race_sched st)")
    case (Some s)
    note kept = other_requests [OF inv(2) assms(2) [unfolded Other] Some]
    have "links owner (distributedConnectAbilityMap s) u + flights u (race_threads st) \<le> 599 + k" for u
      using kept [of u] inv(3) [of u] by linarith
    with kept assms(1) show ?thesis by (simp add: Other Some race_inv_def)
  qed (simp add: Other)
qed

interpretation race_m: guarded_machine "race_step env" "opt_race_inv k owner" "race_presented owner" for env k owner
proof unfold_locales
  fix st e
  assume "opt_race_inv k owner st" "race_presented owner e"
  then show "opt_race_inv k owner (race_step env st e)" by (cases st) (simp_all add: race_exec_inv)
qed

lemma new_race_inv: "599 + k < 4294967296 \<Longrightarrow> race_inv k owner (new_race k)"
  by (auto simp: race_inv_def new_race_def conn_bound_def tracks_def initial_sched_def)

lemma reached_race_inv:
  assumes "list_all (race_presented owner) es" "599 + k < 4294967296"
    and "run (race_step env) (Some (new_race k)) es = Some st"
  shows "race_inv k owner st"
  using race_m.run_allowed_inv [of k owner "Some (new_race k)" es env] new_race_inv [OF assms(2)] assms by simp

text \<open>
  C9: how far the limit on connections can be passed. With \<open>k\<close> threads, whatever the
  order in which the steps of connect requests and the other requests run, a user never has more
  than \<open>599 + k\<close> connections (600 if there is one thread), and its counter is exact.
\<close>

theorem racing_connects_bounded:
  assumes "list_all (race_presented owner) es" and "599 + k < 4294967296"
    and "run (race_step env) (Some (new_race k)) es = Some st"
  shows "let n = links owner (distributedConnectAbilityMap (race_sched st)) u
    in n \<le> 599 + k \<and>
       map_find u (trackingUidMap (race_sched st)) = (if n = 0 then None else Some (of_nat n))"
  using race_invD(2,3) [OF reached_race_inv [OF assms]]
  by (auto simp: Let_def conn_bound_def tracks_def)

section \<open>The bound is reached\<close>

text \<open>One user connects objects to a device whose scheduler agrees to everything.\<close>

definition racer :: CallerInfo where
  "racer = default_CallerInfo\<lparr>uid := 5, pid := 7, callerType := CALLER_TYPE_HARMONY, sourceDeviceId := ''A'',
     callerAppId := ''app'', bundleNames := [''b'']\<rparr>"

definition agreed :: "nat \<Rightarrow> connect_task" where
  "agreed n = Answered (sample_want ''B'') (Proxy n) racer"

definition ask :: "nat \<Rightarrow> nat \<Rightarrow> race_event list" where
  "ask i n = [Begin i (sample_want ''B'') (Some (Proxy n)) 5 7 0, Advance i, Advance i]"

abbreviation race_table :: "race \<Rightarrow> connect_map" where
  "race_table st \<equiv> distributedConnectAbilityMap (race_sched st)"

lemma check_passes:
  assumes "conn_bound L owner s" "links owner (distributedConnectAbilityMap s) (uid caller) < 600" "0 \<le> uid caller"
  shows "CheckDistributedConnectLocked caller s = ERR_OK"
proof -
  let ?n = "links owner (distributedConnectAbilityMap s) (uid caller)"
  have "map_find (uid caller) (trackingUidMap s) = (if ?n = 0 then None else Some (of_nat ?n))"
    using assms(1) by (auto simp: conn_bound_def tracks_def)
  moreover have "unat (of_nat ?n :: uint32) = ?n" using assms(2) by (intro small_word(2)) simp
  ultimately show ?thesis
    using assms(2,3) by (simp add: CheckDistributedConnectLocked_def MAX_DISTRIBUTED_CONNECT_NUM_def word_le_nat_alt err_defs)
qed

lemma task_at_set [simp]: "idle_at st i \<Longrightarrow> task_at (set_task i t st) i = t"
  by (simp add: task_at_def set_task_def idle_at_def)

lemma ask_run:
  assumes "conn_bound L owner (race_sched st)" "links owner (race_table st) 5 < 600" "idle_at st i"
  shows "\<exists>es. run (race_step sample_env) (Some st) (ask i n) =
    Some (set_task i (Some (agreed n)) (st\<lparr>race_sched := log_ext es (race_sched st)\<rparr>))"
proof -
  let ?w = "sample_want ''B''" and ?s = "race_sched st"
  let ?c = "default_CallerInfo\<lparr>uid := 5, pid := 7, callerType := CALLER_TYPE_HARMONY, sourceDeviceId := ''A''\<rparr>"
  have check: "CheckDistributedConnectLocked ?c ?s = ERR_OK"
    using assms by (intro check_passes) (auto simp: default_CallerInfo_def)
  have 1: "connect_check sample_env ?w (Some (Proxy n)) 5 7 0 ?s = Inr (Checked ?w (Some (Proxy n)) ?c)"
    using check by (simp add: connect_check_def GetLocalDeviceId_def CheckDeviceId_def sample_env_def
        sample_want_def Let_def default_CallerInfo_def)
  have bundles: "caller_with_bundles sample_env (history ?s) ?c = Some racer"
    by (simp add: caller_with_bundles_def account_defs sample_env_def racer_def)
  have "fst (GetAccountInfo sample_env (history ?s) ''B'' racer) = ERR_OK"
    by (simp add: account_defs sample_env_def racer_def Let_def err_defs)
  then obtain account where account: "GetAccountInfo sample_env (history ?s) ''B'' racer = (ERR_OK, account)"
    by (metis prod.collapse)
  have 2: "connect_prepare sample_env ?w (Some (Proxy n)) ?c ?s =
      Inr (Calling ?w (Proxy n) racer account BIND_CONNECT_RETRY_TIMES REMOTE_DEVICE_BIND_ABILITY_ERR)"
    using bundles account by (simp add: connect_prepare_def GetRemoteDms_def sample_want_def sample_env_def)
  obtain es where 3: "connect_advance sample_env
      (Calling ?w (Proxy n) racer account BIND_CONNECT_RETRY_TIMES REMOTE_DEVICE_BIND_ABILITY_ERR) ?s =
      (Inr (agreed n), log_ext es ?s)"
    by (simp add: BIND_CONNECT_RETRY_TIMES_def eval_nat_numeral call_eq agreed_def sample_env_def err_defs)
  have "run (race_step sample_env) (Some st) (ask i n) =
      Some (set_task i (Some (agreed n)) (st\<lparr>race_sched := log_ext es ?s\<rparr>))"
    using assms(3) 1 2 3 by (simp add: ask_def idle_at_def task_at_def set_task_def)
  then show ?thesis by blast
qed

lemma commit_run:
  assumes "conn_bound L owner (race_sched st)" "task_at st i = Some (agreed n)"
  shows "\<exists>s. run (race_step sample_env) (Some st) [Advance i] = Some (set_task i None (st\<lparr>race_sched := s\<rparr>)) \<and>
    map_keys (distributedConnectAbilityMap s) = insert (Proxy n) (map_keys (race_table st)) \<and>
    (Proxy n \<notin> map_keys (race_table st) \<longrightarrow>
      links (\<lambda>c. 5) (distributedConnectAbilityMap s) 5 = Suc (links (\<lambda>c. 5) (race_table st) 5))"
proof -
  have m: "map_ok (race_table st)" using assms(1) by (simp add: conn_bound_def table_ok_def)
  show ?thesis
    using assms(2) by (auto simp: agreed_def Mapping_tables links_put_new split: if_splits)
qed

text \<open>
  A run with \<open>a\<close> connections, in which the threads from \<open>d\<close> to before \<open>j\<close> have the consent
  of the other device and wait for the lock.
\<close>

definition racing :: "nat \<Rightarrow> nat \<Rightarrow> nat \<Rightarrow> nat \<Rightarrow> race \<Rightarrow> bool" where
  "racing k a d j st =
     (race_inv k (\<lambda>c. 5) st \<and> map_keys (race_table st) = Proxy ` {0..<a} \<and> links (\<lambda>c. 5) (race_table st) 5 = a \<and>
      (\<forall>i < k. race_threads st ! i = (if d \<le> i \<and> i < j then Some (agreed (599 + i)) else None)))"

definition racing_run :: "nat \<Rightarrow> nat \<Rightarrow> nat \<Rightarrow> nat \<Rightarrow> bool" where
  "racing_run k a d j = (\<exists>es st. list_all (race_presented (\<lambda>c. 5)) es \<and>
     run (race_step sample_env) (Some (new_race k)) es = Some st \<and> racing k a d j st)"

lemma racing_runI:
  assumes "racing_run k a d j"
    and "\<And>st. racing k a d j st \<Longrightarrow>
      \<exists>st'. run (race_step sample_env) (Some st) es = Some st' \<and> (race_inv k (\<lambda>c. 5) st' \<longrightarrow> racing k a' d' j' st')"
    and "list_all (race_presented (\<lambda>c. 5)) es"
  shows "racing_run k a' d' j'"
proof -
  from assms(1) obtain fs st where fs: "list_all (race_presented (\<lambda>c. 5)) fs"
    "run (race_step sample_env) (Some (new_race k)) fs = Some st" "racing k a d j st"
    by (auto simp: racing_run_def)
  from assms(2) [OF fs(3)] obtain st' where st': "run (race_step sample_env) (Some st) es = Some st'"
    "race_inv k (\<lambda>c. 5) st' \<longrightarrow> racing k a' d' j' st'" by blast
  have "race_inv k (\<lambda>c. 5) st'"
    using race_m.run_allowed_inv [of k "\<lambda>c. 5" "Some st" es sample_env] fs(3) assms(3) st'(1) by (simp add: racing_def)
  with fs st' assms(3) show ?thesis unfolding racing_run_def by (intro exI [of _ "fs @ es"] exI [of _ st']) simp
qed

lemma ask_presented: "list_all (race_presented (\<lambda>c. 5)) (ask i n)"
  by (simp add: ask_def)

lemma set_task_simps [simp]:
  "race_sched (set_task i t st) = race_sched st" "race_threads (set_task i t st) = (race_threads st)[i := t]"
  by (simp_all add: set_task_def)

lemma racing_ask:
  assumes "racing k a d j st" "a < 600" "j < k" "d \<le> j"
  shows "\<exists>es. run (race_step sample_env) (Some st) (ask j n) =
      Some (set_task j (Some (agreed n)) (st\<lparr>race_sched := log_ext es (race_sched st)\<rparr>))"
    "i < k \<Longrightarrow> (race_threads st)[j := Some (agreed (599 + j))] ! i =
      (if d \<le> i \<and> i < Suc j then Some (agreed (599 + i)) else None)"
proof -
  have st: "race_inv k (\<lambda>c. 5) st" "links (\<lambda>c. 5) (race_table st) 5 = a" using assms(1) by (auto simp: racing_def)
  have "idle_at st j" using assms(1,3) race_invD(1) [OF st(1)] by (simp add: racing_def idle_at_def)
  with st assms(2) show "\<exists>es. run (race_step sample_env) (Some st) (ask j n) =
      Some (set_task j (Some (agreed n)) (st\<lparr>race_sched := log_ext es (race_sched st)\<rparr>))"
    by (intro ask_run [OF race_invD(2) [OF st(1)]]) simp_all
  show "i < k \<Longrightarrow> (race_threads st)[j := Some (agreed (599 + j))] ! i =
      (if d \<le> i \<and> i < Suc j then Some (agreed (599 + i)) else None)"
    using assms race_invD(1) [OF st(1)] by (auto simp: racing_def nth_list_update less_Suc_eq)
qed

lemma racing_asks: "racing_run k 599 0 j \<Longrightarrow> j < k \<Longrightarrow> racing_run k 599 0 (Suc j)"
proof (erule racing_runI [OF _ _ ask_presented])
  fix st assume st: "racing k 599 0 j st" and j: "j < k"
  note ask = racing_ask [OF st _ j]
  from ask(1) obtain es where es: "run (race_step sample_env) (Some st) (ask j (599 + j)) =
      Some (set_task j (Some (agreed (599 + j))) (st\<lparr>race_sched := log_ext es (race_sched st)\<rparr>))"
    by fastforce
  have "racing k 599 0 (Suc j) st'" if "race_inv k (\<lambda>c. 5) st'"
    "st' = set_task j (Some (agreed (599 + j))) (st\<lparr>race_sched := log_ext es (race_sched st)\<rparr>)" for st'
    using that(1) st ask(2) unfolding that(2) racing_def by simp
  with es show "\<exists>st'. run (race_step sample_env) (Some st) (ask j (599 + j)) = Some st' \<and>
      (race_inv k (\<lambda>c. 5) st' \<longrightarrow> racing k 599 0 (Suc j) st')" by blast
qed

lemma commit_next:
  assumes "racing k (599 + d) d k st" "d < k"
  shows "\<exists>st'. run (race_step sample_env) (Some st) [Advance d] = Some st' \<and>
    (race_inv k (\<lambda>c. 5) st' \<longrightarrow> racing k (Suc (599 + d)) (Suc d) k st')"
proof -
  have st: "race_inv k (\<lambda>c. 5) st" "map_keys (race_table st) = Proxy ` {0..<599 + d}"
    "links (\<lambda>c. 5) (race_table st) 5 = 599 + d"
    "\<And>i. i < k \<Longrightarrow> race_threads st ! i = (if d \<le> i then Some (agreed (599 + i)) else None)"
    using assms by (auto simp: racing_def)
  have "task_at st d = Some (agreed (599 + d))"
    using st(4) [OF assms(2)] race_invD(1) [OF st(1)] assms(2) by (simp add: task_at_def)
  from commit_run [OF race_invD(2) [OF st(1)] this]
  obtain s where s: "run (race_step sample_env) (Some st) [Advance d] = Some (set_task d None (st\<lparr>race_sched := s\<rparr>))"
    "map_keys (distributedConnectAbilityMap s) = insert (Proxy (599 + d)) (map_keys (race_table st))"
    "Proxy (599 + d) \<notin> map_keys (race_table st) \<longrightarrow>
      links (\<lambda>c. 5) (distributedConnectAbilityMap s) 5 = Suc (links (\<lambda>c. 5) (race_table st) 5)"
    by blast
  have keys: "map_keys (distributedConnectAbilityMap s) = Proxy ` {0..<Suc (599 + d)}"
    by (simp only: s(2) st(2) atLeast0_lessThan_Suc image_insert)
  have count: "links (\<lambda>c. 5) (distributedConnectAbilityMap s) 5 = Suc (599 + d)"
    using s(3) st(2,3) by auto
  have "(race_threads st)[d := None] ! i = (if Suc d \<le> i \<and> i < k then Some (agreed (599 + i)) else None)"
    if "i < k" for i
    using that st(4) [OF that] race_invD(1) [OF st(1)] assms(2) by (auto simp: nth_list_update)
  then have "racing k (Suc (599 + d)) (Suc d) k (set_task d None (st\<lparr>race_sched := s\<rparr>))"
    if "race_inv k (\<lambda>c. 5) (set_task d None (st\<lparr>race_sched := s\<rparr>))"
    using that keys count by (simp only: racing_def set_task_simps race.simps) simp
  with s(1) show ?thesis by blast
qed

lemma racing_commits: "racing_run k (599 + d) d k \<Longrightarrow> d < k \<Longrightarrow> racing_run k (Suc (599 + d)) (Suc d) k"
  by (erule racing_runI) (erule (1) commit_next, simp)

lemma racing_first:
  assumes "racing_run k a 0 0" "a < 600" "0 < k"
  shows "racing_run k (Suc a) 0 0"
proof (rule racing_runI [OF assms(1)])
  show "list_all (race_presented (\<lambda>c. 5)) (ask 0 a @ [Advance 0])" by (simp add: ask_presented)
next
  fix st assume st: "racing k a 0 0 st"
  then have inv: "race_inv k (\<lambda>c. 5) st" and idle: "\<forall>i<k. race_threads st ! i = None"
    and keys: "map_keys (race_table st) = Proxy ` {0..<a}" "links (\<lambda>c. 5) (race_table st) 5 = a"
    by (simp_all add: racing_def)
  from racing_ask(1) [OF st assms(2,3)] obtain es where es: "run (race_step sample_env) (Some st) (ask 0 a) =
      Some (set_task 0 (Some (agreed a)) (st\<lparr>race_sched := log_ext es (race_sched st)\<rparr>))" (is "_ = Some ?st1")
    by blast
  have "conn_bound (599 + k) (\<lambda>c. 5) (race_sched ?st1)" using race_invD(2) [OF inv] by simp
  moreover have "task_at ?st1 0 = Some (agreed a)"
    using race_invD(1) [OF inv] assms(3) by (simp add: task_at_def)
  ultimately obtain s where s: "run (race_step sample_env) (Some ?st1) [Advance 0] =
      Some (set_task 0 None (?st1\<lparr>race_sched := s\<rparr>))"
    "map_keys (distributedConnectAbilityMap s) = insert (Proxy a) (map_keys (race_table ?st1))"
    "Proxy a \<notin> map_keys (race_table ?st1) \<longrightarrow>
      links (\<lambda>c. 5) (distributedConnectAbilityMap s) 5 = Suc (links (\<lambda>c. 5) (race_table ?st1) 5)"
    using commit_run [of "599 + k" "\<lambda>c. 5" ?st1 0 a] by blast
  have "racing k (Suc a) 0 0 (set_task 0 None (?st1\<lparr>race_sched := s\<rparr>))"
    if "race_inv k (\<lambda>c. 5) (set_task 0 None (?st1\<lparr>race_sched := s\<rparr>))"
    using that idle keys s(2,3) race_invD(1) [OF inv]
    by (auto simp: racing_def atLeast0_lessThan_Suc nth_list_update)
  with es s(1) show "\<exists>st'. run (race_step sample_env) (Some st) (ask 0 a @ [Advance 0]) = Some st' \<and>
      (race_inv k (\<lambda>c. 5) st' \<longrightarrow> racing k (Suc a) 0 0 st')"
    unfolding run_append es by blast
qed

lemma limit_passed:
  assumes "0 < k" "599 + k < 4294967296"
  shows "racing_run k (599 + k) k k"
proof -
  have "racing k 0 0 0 (new_race k)"
    using new_race_inv [OF assms(2)] by (simp add: racing_def new_race_def initial_sched_def)
  then have start: "racing_run k 0 0 0" unfolding racing_run_def by (intro exI [of _ "[]"]) auto
  have "a \<le> 599 \<Longrightarrow> racing_run k a 0 0" for a
    by (induction a) (auto intro: start racing_first assms(1))
  then have "racing_run k 599 0 0" by simp
  then have "j \<le> k \<Longrightarrow> racing_run k 599 0 j" for j
    by (induction j) (auto intro: racing_asks)
  then have waiting: "racing_run k 599 0 k" by simp
  have "d \<le> k \<Longrightarrow> racing_run k (599 + d) d k" for d
  proof (induction d)
    case (Suc d)
    then show ?case using racing_commits [of k d] by simp
  qed (simp add: waiting)
  then show ?thesis by simp
qed

text \<open>With two threads 601 connections are reached, one more than the code means to allow.\<close>

theorem racing_connects_bounded_witness:
  "\<exists>es st. list_all (race_presented (\<lambda>c. 5)) es \<and>
     run (race_step sample_env) (Some (new_race 2)) es = Some st \<and>
     links (\<lambda>c. 5) (race_table st) 5 = 601 \<and> map_find 5 (trackingUidMap (race_sched st)) = Some 601"
proof -
  obtain es st where r: "list_all (race_presented (\<lambda>c. 5)) es"
    "run (race_step sample_env) (Some (new_race 2)) es = Some st" "links (\<lambda>c. 5) (race_table st) 5 = 601"
    using limit_passed [of 2] by (auto simp: racing_run_def racing_def)
  with racing_connects_bounded [OF r(1) _ r(2), of 5] show ?thesis by (auto simp: Let_def)
qed

text \<open>
  A device that leaves between its consent and the locked section stays in the table: the session
  is made after the tables lost the device.
\<close>

lemma departed_device_connected:
  "\<exists>st ss. run (race_step sample_env) (Some (new_race 1)) (ask 0 1 @ [Other (ReqDeviceOffline ''B''), Advance 0]) = Some st \<and>
     race_table st = [(Proxy 1, ss)] \<and> devices ss = [''B'']"
proof -
  let ?st = "new_race 1"
  have b: "conn_bound 600 (\<lambda>c. 5) (race_sched ?st)" "links (\<lambda>c. 5) (race_table ?st) 5 < 600" "idle_at ?st 0"
    using race_invD(2) [OF new_race_inv [of 1 "\<lambda>c. 5"]] by (simp_all add: new_race_def initial_sched_def idle_at_def)
  from ask_run [OF b] obtain es where es: "run (race_step sample_env) (Some ?st) (ask 0 1) =
      Some (set_task 0 (Some (agreed 1)) (?st\<lparr>race_sched := log_ext es (race_sched ?st)\<rparr>))" by blast
  let ?s = "ProcessDeviceOffline sample_env ''B'' (log_ext es (race_sched ?st))"
  have empty: "distributedConnectAbilityMap ?s = []"
    using fewer_links(1) [of 600 "\<lambda>c. 5" "log_ext es (race_sched ?st)" sample_env "''B''" 5] b(1)
    by (cases "distributedConnectAbilityMap ?s") (auto simp: new_race_def initial_sched_def)
  show ?thesis
    unfolding run_append es
    by (simp add: task_at_def new_race_def agreed_def Mapping_tables empty [unfolded new_race_def, simplified]
        sample_want_def racer_def)
qed

end
