(* ===== verification/MissionAnswers.thy ===== *)
theory MissionAnswers
  imports LocalMessages ServiceInv MigrationProps "HOL-Library.Multiset"
begin

text \<open>
  What becomes of a mission that is to be continued, over every run of the whole service: its
  callback is told exactly once or is still registered, and while it is registered a timer
  is running for it. A continuation can end in five ways (the answer of the other device, a failed
  start, an install that cannot be made or fails, and the timeout), and every other operation
  neither tells a callback nor touches its timer.
\<close>

section \<open>What the history says of missions\<close>

text \<open>The events that matter: results sent to mission callbacks and timers of missions.\<close>

fun noted :: "ext \<Rightarrow> bool" where
  "noted (SendObject x c p) = (p \<noteq> [] \<and> hd p = PToken NAPI_MISSION_CENTER_INTERFACE_TOKEN)"
| "noted (SendEvent t i d) = (t = ContinuationTimer)"
| "noted (RemoveEvent t i) = (t = ContinuationTimer)"
| "noted e = False"

definition view :: "hist \<Rightarrow> hist" where
  "view h = filter noted h"

lemma view_simps [simp]:
  "view [] = []" "view (e # h) = (if noted e then e # view h else view h)" "view (h @ h') = view h @ view h'"
  by (simp_all add: view_def)

fun told_by :: "ext \<Rightarrow> robj option" where
  "told_by (SendObject x c p) = Some x"
| "told_by e = None"

text \<open>The callbacks that were told a result, as often as they were.\<close>

definition told :: "hist \<Rightarrow> robj multiset" where
  "told h = mset (List.map_filter told_by (view h))"

lemma told_simps [simp]: "told [] = {#}" "told (h @ h') = told h + told h'"
  by (simp_all add: told_def map_filter_def)

lemma told_view: "view h = view h' \<Longrightarrow> told h = told h'"
  by (simp add: told_def)

text \<open>Whether the last word on the timer of mission \<open>m\<close> is that it runs.\<close>

fun timer_of :: "int \<Rightarrow> ext \<Rightarrow> bool option" where
  "timer_of m (SendEvent t i d) = (if t = ContinuationTimer \<and> i = m then Some True else None)"
| "timer_of m (RemoveEvent t i) = (if t = ContinuationTimer \<and> i = m then Some False else None)"
| "timer_of m e = None"

definition armed :: "int \<Rightarrow> hist \<Rightarrow> bool" where
  "armed m h = (let ts = List.map_filter (timer_of m) h in ts \<noteq> [] \<and> last ts)"

lemma timer_of_noted: "timer_of m e \<noteq> None \<Longrightarrow> noted e"
  by (cases e) (auto split: if_splits)

lemma armed_view: "view h = view h' \<Longrightarrow> armed m h = armed m h'"
proof -
  have "List.map_filter (timer_of m) h = List.map_filter (timer_of m) (view h)" for h
    using timer_of_noted [of m] by (induction h) (auto simp: map_filter_def)
  then show "view h = view h' \<Longrightarrow> armed m h = armed m h'" by (metis armed_def)
qed

lemma armed_append:
  "armed m (h @ es) = (if List.map_filter (timer_of m) es = [] then armed m h
     else last (List.map_filter (timer_of m) es))"
  by (auto simp: armed_def Let_def map_filter_def)

lemma timer_simps [simp]:
  "List.map_filter (timer_of m) [] = []"
  "List.map_filter (timer_of m) (e # es) =
     (case timer_of m e of None \<Rightarrow> List.map_filter (timer_of m) es | Some b \<Rightarrow> b # List.map_filter (timer_of m) es)"
  by (simp_all add: map_filter_def split: option.split)

section \<open>Operations that leave missions alone\<close>

definition quiet :: "sched \<Rightarrow> sched \<Rightarrow> bool" where
  "quiet s s' =
     (dschedContinuation s' = dschedContinuation s \<and> view (history s') = view (history s))"

lemma quiet_simps [simp]:
  "quiet s s"
  "view es = [] \<Longrightarrow> quiet s (log_ext es s') = quiet s s'"
  "view h = view (history s') \<Longrightarrow> quiet s (s'\<lparr>history := h\<rparr>) = quiet s s'"
  "quiet s (s'\<lparr>distributedConnectAbilityMap := m\<rparr>) = quiet s s'"
  "quiet s (s'\<lparr>connectAbilityMap := m'\<rparr>) = quiet s s'"
  "quiet s (s'\<lparr>trackingUidMap := n\<rparr>) = quiet s s'"
  "quiet s (s'\<lparr>calleeMap := m'\<rparr>) = quiet s s'"
  "quiet s (s'\<lparr>callerMap := m\<rparr>) = quiet s s'"
  "quiet s (s'\<lparr>distributedComponentListener := l\<rparr>) = quiet s s'"
  "quiet s (s'\<lparr>componentTasks := ts\<rparr>) = quiet s s'"
  "quiet s (s'\<lparr>panelConnect := l\<rparr>) = quiet s s'"
  "quiet s (s'\<lparr>dmsCallbackTask := t\<rparr>) = quiet s s'"
  "quiet s (snd (new_local s')) = quiet s s'"
  by (simp_all add: quiet_def new_local_def)

lemma quiet_trans: "quiet s t \<Longrightarrow> quiet t u \<Longrightarrow> quiet s u"
  by (simp add: quiet_def)

lemma tokens_differ:
  "CONNECTION_CALLBACK_INTERFACE_TOKEN \<noteq> NAPI_MISSION_CENTER_INTERFACE_TOKEN"
  "ATOMIC_SERVICE_STATUS_CALLBACK_TOKEN \<noteq> NAPI_MISSION_CENTER_INTERFACE_TOKEN"
  "COMPONENT_CHANGE_INTERFACE_TOKEN \<noteq> NAPI_MISSION_CENTER_INTERFACE_TOKEN"
  by (simp_all add: CONNECTION_CALLBACK_INTERFACE_TOKEN_def NAPI_MISSION_CENTER_INTERFACE_TOKEN_def
      ATOMIC_SERVICE_STATUS_CALLBACK_TOKEN_def COMPONENT_CHANGE_INTERFACE_TOKEN_def u16_def)

lemma quiet_reports [simp]:
  "quiet s (ReportCaller env c ch co de s') = quiet s s'"
  "quiet s (ReportCallee env i ch co de s') = quiet s s'"
  by (simp_all add: ReportCaller_def ReportCallee_def HandleDistributedComponentChange_def Let_def)

lemma quiet_adapter [simp]:
  "quiet s (snd (adapter_ConnectAbility env want c s')) = quiet s s'"
  "quiet s (snd (adapter_DisconnectAbility env c s')) = quiet s s'"
  "quiet s (snd (adapter_ReleaseAbility env c el s')) = quiet s s'"
  "quiet s (snd (adapter_StartAbilityByCall env want c s')) = quiet s s'"
  by (simp_all add: adapter_ConnectAbility_def adapter_DisconnectAbility_def adapter_ReleaseAbility_def
      adapter_StartAbilityByCall_def call_eq Let_def split: option.split)

lemma quiet_NotifyApp [simp]: "quiet s (snd (NotifyApp env c e code s')) = quiet s s'"
  by (auto simp: NotifyApp_def tokens_differ dest!: write_all_Some split: option.split)

lemma quiet_offline_notice [simp]: "quiet s (NotifyDeviceOfflineToAppLocked env c es s') = quiet s s'"
  by (induction es arbitrary: s') simp_all

lemma quiet_disconnects [simp]: "quiet s (disconnect_sessions env c ss s') = quiet s s'"
  by (induction ss arbitrary: s') (simp_all add: DisconnectEachRemoteAbilityLocked_def call_eq)

lemma quiet_NotifyProcessDiedAll [simp]: "quiet s (NotifyProcessDiedAll env is s') = quiet s s'"
proof (induction "is" arbitrary: s')
  case (Cons i "is")
  have "quiet s (NotifyProcessDied env i s') = quiet s s'"
    by (cases i) (simp add: NotifyProcessDied_def call_eq)
  with Cons show ?case by (simp add: NotifyProcessDiedAll_def)
qed (simp add: NotifyProcessDiedAll_def)

lemma quiet_Decrease [simp]: "quiet s (DecreaseConnectLocked u s') = quiet s s'"
  by (simp add: DecreaseConnectLocked_dec)

lemma quiet_Mapping [simp]: "quiet s (RemoteConnectAbilityMappingLocked env c src dst e caller tc s') = quiet s s'"
  by (simp add: RemoteConnectAbilityMappingLocked_def Let_def split: option.split)

lemma quiet_connect_loop [simp]: "quiet s (snd (connect_loop env n r want c caller account dev s')) = quiet s s'"
  by (induction n arbitrary: r s') (simp_all add: call_eq Let_def)

named_theorems quietly

lemma quiet_connects [quietly]:
  "quiet s (snd (ConnectRemoteAbility env want connect u p tok s))"
  "quiet s (snd (DisconnectRemoteAbility env connect s))"
  "quiet s (snd (DisconnectAbilityFromRemote env connect source s))"
  by (auto simp: ConnectRemoteAbility_def TryConnectRemoteAbility_def DisconnectRemoteAbility_def
      DisconnectAbilityFromRemote_def Let_def split: option.split prod.split)

lemma quiet_ConnectAbilityFromRemote:
  "ConnectAbilityFromRemote env want connect caller account s = Some x \<Longrightarrow> quiet s (snd x)"
proof -
  have step: "adapter_ConnectAbility env want w s1 = (e, s2) \<Longrightarrow> quiet s s2 = quiet s s1" for w s1 e s2
    using quiet_adapter(1) [of s env want w s1] by simp
  assume "ConnectAbilityFromRemote env want connect caller account s = Some x"
  then show ?thesis
    by (auto simp: ConnectAbilityFromRemote_def Let_def split_beta dest: step split: option.splits if_splits prod.splits)
qed

lemma quiet_died_loop [simp]: "quiet s (snd (snd (died_loop env caller m e s'))) = quiet s s'"
  by (induction env caller m e s' rule: died_loop.induct) (auto simp: Let_def split_beta)

lemma quiet_died_connects [simp]: "quiet s (snd (snd (died_connects env caller m acc s'))) = quiet s s'"
  by (induction env caller m acc s' rule: died_connects.induct) (auto simp: Let_def split_beta)

lemma quiet_deaths [quietly]:
  "quiet s (snd (NotifyProcessDiedFromRemote env caller s))"
  "quiet s (ProcessConnectDied env connect s)"
  by (auto simp: NotifyProcessDiedFromRemote_def ProcessConnectDied_def split_beta split: option.split list.split)

lemma quiet_caller_component [simp]:
  "quiet s (SaveCallerComponent env want c caller s') = quiet s s'"
  "quiet s (RemoveCallerComponent env c s') = quiet s s'"
  "quiet s (HandleLocalCallerDied env c s') = quiet s s'"
  by (auto simp: SaveCallerComponent_def RemoveCallerComponent_def HandleLocalCallerDied_def Let_def
      split: option.split)

lemma quiet_calls [quietly]:
  "quiet s (snd (StartRemoteAbilityByCall env want connect u p tok s))"
  "quiet s (snd (ReleaseRemoteAbility env connect element s))"
  "quiet s (snd (StartAbilityByCallFromRemote env want connect caller account s))"
  "quiet s (snd (ReleaseAbilityFromRemote env connect element caller s))"
  "quiet s (ProcessCalleeDied env connect s)"
  "quiet s (ProcessCallerDied env connect ty s)"
  by (auto simp: StartRemoteAbilityByCall_def TryStartRemoteAbilityByCall_def ReleaseRemoteAbility_def
      StartAbilityByCallFromRemote_def ReleaseAbilityFromRemote_def ProcessCalleeDied_def
      ProcessCallerDied_def Let_def call_eq split_beta split: option.split)

lemma quiet_components [quietly]:
  "quiet s (snd (RegisterDistributedComponentListener callback s))"
  "quiet s (run_component_task env s)"
  by (auto simp: RegisterDistributedComponentListener_def run_component_task_def Let_def tokens_differ
      dest!: write_all_Some split: list.splits option.splits)

lemma quiet_starts [quietly]:
  "quiet s (snd (StartRemoteAbility env want u r tok s))"
  "quiet s (snd (StartAbilityFromRemote env want r caller account s))"
  "quiet s (snd (SendResultFromRemote env want r caller account code s))"
  "quiet s (snd (SendResult env ct want u r tok code s))"
  "quiet s (NotifyCompleteContinuation env devId i ok s)"
  by (auto simp: StartRemoteAbility_def StartAbilityFromRemote_def StartAbility_def SendResultFromRemote_def
      SendResult_def NotifyCompleteContinuation_def Let_def call_eq split_beta split: option.split)

lemma view_task_ops [simp]:
  "view (fst (snd (task_PushCallback env i callback d l w h t))) = view h"
  "view (fst (snd (task_PopCallback i h t))) = view h"
  "view (snd (NotifyFreeInstallResult env item code h)) = view h"
  by (auto simp: task_PushCallback_def task_PopCallback_def NotifyFreeInstallResult_def free_install_message_def
      tokens_differ Let_def dest!: write_all_Some split: option.split)

lemma view_offline_loop [simp]: "view (fst (offline_loop env handler d m h)) = view h"
  by (induction env handler d m h rule: offline_loop.induct) (auto simp: Let_def split_beta)

lemma quiet_StartRemoteFreeInstall [quietly]: "quiet s (snd (StartRemoteFreeInstall env w u r tok callback s))"
  by (auto simp: StartRemoteFreeInstall_def Let_def split_beta call_eq split: option.split)

lemma quiet_HandleRemoteNotify [simp]: "quiet s (snd (HandleRemoteNotify env info i code s')) = quiet s s'"
  by (simp add: HandleRemoteNotify_def Let_def call_eq)

lemma quiet_StartLocalAbility [simp]: "quiet s (snd (StartLocalAbility env info s')) = quiet s s'"
  by (simp add: StartLocalAbility_def StartAbility_def Let_def call_eq split_beta split: option.split)

lemma quiet_installs [quietly]:
  "quiet s (snd (snd (StartFreeInstallFromRemote env info i s)))"
  "quiet s (snd (OnInstallFinished env want r code callback s))"
  by (auto simp: StartFreeInstallFromRemote_def OnInstallFinished_def NotifyCompleteFreeInstall_def Let_def
      split_beta call_eq split: option.split)

lemma quiet_session_notice [simp]:
  "quiet s (case q of None \<Rightarrow> s' | Some x \<Rightarrow> NotifyDeviceOfflineToAppLocked env c (f x) s') = quiet s s'"
  by (simp split: option.split)

lemma quiet_offline_connects [simp]: "quiet s (snd (offline_connects env d m s')) = quiet s s'"
proof (induction m arbitrary: s')
  case (Cons e m)
  obtain c ss where e: "e = (c, ss)" by (cases e)
  show ?case by (simp add: e Cons.IH Let_def split_beta)
qed simp

lemma quiet_offline_callees [simp]: "quiet s (snd (offline_callees env d m s')) = quiet s s'"
proof (induction m arbitrary: s')
  case (Cons e m)
  obtain c i where e: "e = (c, i)" by (cases e)
  let ?s2 = "ReportCallee env i DISTRIBUTED_COMPONENT_REMOVE CONNECT CALLEE
    (snd (adapter_DisconnectAbility env (ci_callbackWrapper i) s'))"
  have "quiet s (snd (offline_callees env d m ?s2)) = quiet s s'"
    "quiet s (snd (offline_callees env d m s')) = quiet s s'" by (simp_all add: Cons.IH)
  then show ?case by (cases "d = sourceDeviceId (ci_callerInfo i)") (simp_all add: e Let_def split_beta)
qed simp

lemma quiet_offline_callers [simp]: "quiet s (snd (offline_callers env d m s')) = quiet s s'"
proof (induction m arbitrary: s')
  case (Cons e m)
  obtain c ss where e: "e = (c, ss)" by (cases e)
  show ?case by (simp add: e Cons.IH Let_def split_beta)
qed simp

lemma quiet_ProcessDeviceOffline [quietly]: "quiet s (ProcessDeviceOffline env dev s)"
  by (auto simp: ProcessDeviceOffline_def ProcessCalleeOffline_def ProcessFreeInstallOffline_def
      task_NotifyDeviceOffline_def Let_def split_beta split: option.split)

lemma quiet_panel [quietly]:
  "quiet s (snd (snd (svc_ConnectAbility e c s)))" "quiet s (snd (svc_DisconnectAbility e s))"
  "quiet s (snd (svc_Dump e fd args s))"
  by (auto simp: svc_ConnectAbility_def svc_DisconnectAbility_def svc_Dump_def Let_def split_beta
      split: option.split)

section \<open>The books\<close>

definition pending :: "sched \<Rightarrow> robj multiset" where
  "pending s = (case dschedContinuation s of None \<Rightarrow> {#} | Some c \<Rightarrow> mset (map snd (contCallbackMap c)))"

definition in_progress :: "int \<Rightarrow> sched \<Rightarrow> bool" where
  "in_progress m s = (case dschedContinuation s of None \<Rightarrow> False | Some c \<Rightarrow> IsInContinuationProgress m c)"

text \<open>Every mission in progress has a timer that runs.\<close>

definition timed :: "sched \<Rightarrow> bool" where
  "timed s =
     ((\<forall>m. in_progress m s \<longrightarrow> armed m (history s)) \<and>
      (case dschedContinuation s of None \<Rightarrow> True | Some c \<Rightarrow> contHandler c \<and> map_ok (contCallbackMap c)))"

text \<open>An operation settles: what it takes from the table it tells. Or it registers one callback.\<close>

definition settles :: "sched \<Rightarrow> sched \<Rightarrow> bool" where
  "settles s s' =
     (timed s \<longrightarrow> timed s' \<and> told (history s') + pending s' = told (history s) + pending s \<and>
        pending s' \<subseteq># pending s)"

definition registers :: "sched \<Rightarrow> sched \<Rightarrow> bool" where
  "registers s s' =
     (timed s \<longrightarrow> timed s' \<and> told (history s') = told (history s) \<and>
        (\<exists>callback. pending s' = add_mset callback (pending s)))"

definition books :: "sched \<Rightarrow> sched \<Rightarrow> bool" where
  "books s s' = (settles s s' \<or> registers s s')"

lemma settles_refl [simp]: "settles s s"
  by (simp add: settles_def)

lemma settles_trans: "settles s t \<Longrightarrow> settles t u \<Longrightarrow> settles s u"
  by (auto simp: settles_def)

lemma quiet_parts:
  assumes "quiet s s'"
  shows "pending s' = pending s" "in_progress m s' = in_progress m s" "told (history s') = told (history s)"
    "timed s' = timed s"
  using assms told_view [of "history s'" "history s"] armed_view [of "history s'" "history s"]
  by (simp_all add: quiet_def pending_def in_progress_def timed_def)

lemma quiet_settles: "quiet s s' \<Longrightarrow> settles s s'"
  by (simp add: settles_def quiet_parts)

lemma settles_quiet: "settles s t \<Longrightarrow> quiet t u \<Longrightarrow> settles s u"
  using settles_trans quiet_settles by blast

lemma registers_quiet: "registers s t \<Longrightarrow> quiet t u \<Longrightarrow> registers s u"
  by (simp add: registers_def quiet_parts)

lemma mset_erase:
  "map_ok m \<Longrightarrow> map_find k m = Some v \<Longrightarrow> mset (map snd m) = add_mset v (mset (map snd (map_erase k m)))"
proof (induction m)
  case (Cons e m)
  obtain k' v' where e: "e = (k', v')" by (cases e)
  show ?case
  proof (cases "k' = k")
    case True
    then have "map_erase k m = m" using Cons.prems(1) by (simp add: e map_ok_Cons_absent)
    with True Cons.prems(2) show ?thesis by (simp add: e)
  next
    case False
    with Cons show ?thesis by (auto simp: e map_ok_Cons)
  qed
qed simp

lemma mset_put: "map_find k m = None \<Longrightarrow> mset (map snd (map_put k v m)) = add_mset v (mset (map snd m))"
  by (induction m) (auto split: if_splits)

section \<open>Operations on missions\<close>

lemma told_one: "told [SendObject x c (PToken NAPI_MISSION_CENTER_INTERFACE_TOKEN # vs)] = {#x#}"
  by (simp add: told_def map_filter_def)

lemma told_timer [simp]:
  "told (SetTimeOut m t h c) = told h" "told (RemoveTimeOut m h c) = told h"
  by (simp_all add: SetTimeOut_def RemoveTimeOut_def) (simp_all add: told_def map_filter_def)

lemma told_ams [simp]: "told [Ams a] = {#}" "told [BmsCheckInstall w i j] = {#}"
  by (simp_all add: told_def map_filter_def)

lemma armed_timer:
  "armed m (SetTimeOut k t h c) = ((contHandler c \<and> k = m) \<or> armed m h)"
  "armed m (RemoveTimeOut k h c) = (armed m h \<and> \<not> (contHandler c \<and> k = m))"
  by (auto simp: SetTimeOut_def RemoveTimeOut_def armed_append split: if_splits)

lemma armed_quiet_events [simp]:
  "armed m (h @ [Ams a]) = armed m h" "armed m (h @ [SendObject x c p]) = armed m h"
  "armed m (h @ [Rpc d r]) = armed m h" "armed m (h @ [BmsCheckInstall w i j]) = armed m h"
  by (simp_all add: armed_append)

text \<open>Taking a mission out of the table, and putting one in.\<close>

lemma pop_books:
  assumes "map_ok (contCallbackMap c)" "map_find m (contCallbackMap c) = Some callback"
  shows "mset (map snd (contCallbackMap c)) =
      add_mset callback (mset (map snd (contCallbackMap (snd (cont_PopCallback m c)))))"
    "IsInContinuationProgress k (snd (cont_PopCallback m c)) = (k \<noteq> m \<and> IsInContinuationProgress k c)"
    "contHandler (snd (cont_PopCallback m c)) = contHandler c"
    "map_ok (contCallbackMap (snd (cont_PopCallback m c)))"
  using assms mset_erase [OF assms]
  by (simp_all add: cont_PopCallback_def IsInContinuationProgress_def del: not_None_eq)

lemma push_books:
  assumes "contHandler c" "\<not> IsInContinuationProgress m c" "map_ok (contCallbackMap c)"
  shows "mset (map snd (contCallbackMap (snd (cont_PushCallback m (Some callback) d f c)))) =
      add_mset callback (mset (map snd (contCallbackMap c)))"
    "IsInContinuationProgress k (snd (cont_PushCallback m (Some callback) d f c)) = (k = m \<or> IsInContinuationProgress k c)"
    "contHandler (snd (cont_PushCallback m (Some callback) d f c))"
    "map_ok (contCallbackMap (snd (cont_PushCallback m (Some callback) d f c)))"
    "map_find m (contCallbackMap (snd (cont_PushCallback m (Some callback) d f c))) = Some callback"
  using assms mset_put [of m "contCallbackMap c" callback]
  by (simp_all add: cont_PushCallback_def IsInContinuationProgress_def Let_def map_emplace_def del: not_None_eq)

lemma NotifyContinuationCallbackResult_settles:
  assumes "\<And>p v. writable env p v"
  shows "settles s (NotifyContinuationCallbackResult env m code s)"
proof (cases "dschedContinuation s")
  case None
  then show ?thesis by (simp add: NotifyContinuationCallbackResult_def)
next
  case (Some c)
  show ?thesis unfolding settles_def
  proof (rule impI)
    assume "timed s"
    then have c: "contHandler c" "map_ok (contCallbackMap c)"
      "\<And>k. IsInContinuationProgress k c \<Longrightarrow> armed k (history s)"
      by (auto simp: timed_def in_progress_def Some)
    show "timed (NotifyContinuationCallbackResult env m code s) \<and>
        told (history (NotifyContinuationCallbackResult env m code s)) +
          pending (NotifyContinuationCallbackResult env m code s) = told (history s) + pending s \<and>
        pending (NotifyContinuationCallbackResult env m code s) \<subseteq># pending s"
    proof (cases "map_find m (contCallbackMap c)")
      case None
      then have "\<not> IsInContinuationProgress m c" by (simp add: IsInContinuationProgress_def)
      then show ?thesis using c
        by (auto simp: NotifyContinuationCallbackResult_def Some call_eq timed_def in_progress_def pending_def
            armed_timer log_ext_def Let_def)
    next
      case found: (Some callback)
      then have "IsInContinuationProgress m c" by (simp add: IsInContinuationProgress_def)
      then show ?thesis using c pop_books [OF c(2) found] assms
        by (auto simp: NotifyContinuationCallbackResult_def NotifyMissionCenterResult_def Some call_eq timed_def
            in_progress_def pending_def armed_timer log_ext_def Let_def told_one split_beta
            cont_PopCallback_def found)
    qed
  qed
qed

lemma SetTimeOut_settles:
  "dschedContinuation s = Some c \<Longrightarrow> settles s (s\<lparr>history := SetTimeOut m t (history s) c\<rparr>)"
  by (auto simp: settles_def timed_def in_progress_def pending_def armed_timer)

text \<open>The continuation table is renewed with the same missions.\<close>

lemma rearm_settles: "settles s (SetContinuationTimeout m t (RemoveContinuationTimeout m s))"
  by (cases "dschedContinuation s")
    (auto simp: settles_def timed_def in_progress_def pending_def armed_timer SetContinuationTimeout_def
      RemoveContinuationTimeout_def)

lemma result_settles:
  assumes "\<And>p v. writable env p v"
  shows "settles s (snd (NotifyContinuationResultFromRemote env i ok s))"
    "settles s (continuation_timeout env m s)"
  by (simp_all add: NotifyContinuationResultFromRemote_def continuation_timeout_def Let_def
      NotifyContinuationCallbackResult_settles [OF assms])

lemma InstallResult_settles:
  assumes "\<And>p v. writable env p v"
  shows "settles s (snd (NotifyCompleteFreeInstallFromRemote env i code s))"
    "settles s (free_install_timed_out env i s)"
proof -
  have "settles s ((NotifyContinuationCallbackResult env m r (s\<lparr>history := h, dmsCallbackTask := t\<rparr>))\<lparr>dmsCallbackTask := t'\<rparr>)"
    if "view h = view (history s)" for m r h t t'
  proof (rule settles_quiet [OF settles_trans [OF quiet_settles NotifyContinuationCallbackResult_settles [OF assms, where m = m and code = r]]])
    show "quiet s (s\<lparr>history := h, dmsCallbackTask := t\<rparr>)" using that by simp
  qed simp
  then show "settles s (snd (NotifyCompleteFreeInstallFromRemote env i code s))" for i code
    by (auto simp: NotifyCompleteFreeInstallFromRemote_def Let_def split_beta
        intro: quiet_settles split: option.split)
  then show "settles s (free_install_timed_out env i s)" by (simp add: free_install_timed_out_def)
qed

lemma StartContinuation_settles:
  assumes "\<And>p v. writable env p v"
  shows "settles s (snd (StartContinuation env w m u st tok s))"
proof (cases "dschedContinuation s")
  case None
  then show ?thesis
    by (simp add: StartContinuation_def NotifyContinuationCallbackResult_settles [OF assms])
next
  case (Some c)
  let ?s1 = "if IsInContinuationProgress m c then s
    else s\<lparr>history := SetTimeOut m CONTINUATION_TIMEOUT (history s) c\<rparr>"
  have s1: "settles s ?s1" using SetTimeOut_settles [OF Some] by simp
  have "settles s (snd (StartRemoteFreeInstall env w' u r tok x ?s1))"
    "settles s (snd (StartRemoteAbility env w' u r tok ?s1))" for w' r x
    by (rule settles_quiet [OF s1], rule quietly)+
  with s1 show ?thesis
    by (auto simp: StartContinuation_def Some Let_def NotifyContinuationCallbackResult_settles [OF assms]
        split: sum.split)
qed

text \<open>What is registered, and what is registered and taken back.\<close>

lemma push_registers:
  assumes "dschedContinuation s = Some c" "\<not> IsInContinuationProgress m c"
  shows "registers s (SetContinuationTimeout m t (push_continuation m (Some callback) d f s))"
  unfolding registers_def
proof (rule impI)
  assume "timed s"
  then have c: "contHandler c" "map_ok (contCallbackMap c)"
    "\<And>k. IsInContinuationProgress k c \<Longrightarrow> armed k (history s)"
    by (auto simp: timed_def in_progress_def assms(1))
  note push = push_books [OF c(1) assms(2) c(2)]
  show "timed (SetContinuationTimeout m t (push_continuation m (Some callback) d f s)) \<and>
      told (history (SetContinuationTimeout m t (push_continuation m (Some callback) d f s))) = told (history s) \<and>
      (\<exists>x. pending (SetContinuationTimeout m t (push_continuation m (Some callback) d f s)) = add_mset x (pending s))"
    using push c
    by (auto simp: timed_def in_progress_def pending_def armed_timer SetContinuationTimeout_def push_continuation_def
        assms(1))
qed

lemma push_pop_settles:
  assumes "dschedContinuation s = Some c" "\<not> IsInContinuationProgress m c"
    and "quiet (SetContinuationTimeout m t (push_continuation m (Some callback) d f s)) s3"
  shows "settles s (pop_continuation m (RemoveContinuationTimeout m s3))"
  unfolding settles_def
proof (rule impI)
  assume timed: "timed s"
  then have c: "contHandler c" "map_ok (contCallbackMap c)"
    "\<And>k. IsInContinuationProgress k c \<Longrightarrow> armed k (history s)"
    by (auto simp: timed_def in_progress_def assms(1))
  let ?c = "snd (cont_PushCallback m (Some callback) d f c)"
  note push = push_books [OF c(1) assms(2) c(2), where callback = callback and d = d and f = f]
  note pop = pop_books [OF push(4) push(5)]
  have s3: "dschedContinuation s3 = Some ?c" "told (history s3) = told (history s)"
    "\<And>k. armed k (history s3) = (k = m \<or> armed k (history s))"
    using assms(3) told_view [of "history s3"] armed_view [of "history s3"] push(3) c(1)
    by (auto simp: quiet_def SetContinuationTimeout_def push_continuation_def assms(1) armed_timer)
  show "timed (pop_continuation m (RemoveContinuationTimeout m s3)) \<and>
      told (history (pop_continuation m (RemoveContinuationTimeout m s3))) +
        pending (pop_continuation m (RemoveContinuationTimeout m s3)) = told (history s) + pending s \<and>
      pending (pop_continuation m (RemoveContinuationTimeout m s3)) \<subseteq># pending s"
    using push pop c s3 assms(2)
    by (auto simp: timed_def in_progress_def pending_def armed_timer pop_continuation_def
        RemoveContinuationTimeout_def assms(1))
qed

lemma ContinueMission_books: "books s (snd (ContinueMission env src dst m callback ps s))"
proof (cases "\<exists>x c. callback = Some x \<and> dschedContinuation s = Some c \<and> \<not> IsInContinuationProgress m c")
  case False
  then have "snd (ContinueLocalMission env dst m callback ps s) = s" if "callback \<noteq> nullptr"
    using that by (auto simp: ContinueLocalMission_def split: option.split)
  then have "settles s (snd (ContinueMission env src dst m callback ps s))"
    by (auto simp: ContinueMission_def ContinueRemoteMission_def call_eq quiet_settles split: option.split)
  then show ?thesis by (simp add: books_def)
next
  case True
  then obtain x c where x: "callback = Some x" "dschedContinuation s = Some c" "\<not> IsInContinuationProgress m c"
    by blast
  let ?push = "\<lambda>t f. SetContinuationTimeout m t (push_continuation m (Some x) dst f s)"
  have view_check: "view (snd (CheckIfRemoteCanInstall env h w i)) = view h" for h w i
    by (simp add: CheckIfRemoteCanInstall_def Let_def split: option.split)
  have reg: "registers s u" if "quiet (?push t f) u" for t f u
    by (rule registers_quiet [OF push_registers [OF x(2,3)] that])
  have asked: "books s (log_ext [Ams a] (?push t f))" for a t f
    unfolding books_def by (rule disjI2, rule reg [of t f]) simp
  have stays: "books s ((?push t f)\<lparr>history := h\<rparr>)" if "view h = view (history (?push t f))" for t f h
    unfolding books_def by (rule disjI2, rule reg [of t f]) (simp add: that)
  have undone: "books s (pop_continuation m (RemoveContinuationTimeout m ((?push t f)\<lparr>history := h\<rparr>)))"
    if "view h = view (history (?push t f))" for t f h
    unfolding books_def
    by (rule disjI1, rule push_pop_settles [OF x(2,3), where t = t and callback = x and d = dst and f = f])
      (simp add: that)
  have same: "books s s" by (simp add: books_def)
  have "books s (snd (ContinueLocalMission env dst m callback ps s))"
    unfolding ContinueLocalMission_def x option.case if_not_P [OF x(3)]
    by (auto simp: Let_def split_beta call_eq view_check asked same stays undone split: option.split sum.split)
  then show ?thesis
    by (auto simp: ContinueMission_def ContinueRemoteMission_def call_eq same books_def quiet_settles split: option.split)
qed

lemma query_settles:
  assumes "\<And>p v. writable (cb e) p v"
  shows "settles s (snd (query_OnRemoteRequest e code data s))"
proof -
  have "settles s (snd (call_ams env a (SetContinuationTimeout m t (RemoveContinuationTimeout m s))))" for env a m t
    by (rule settles_quiet [OF rearm_settles [of s m t]]) (simp add: call_eq)
  then show ?thesis
    by (simp add: query_OnRemoteRequest_def OnQueryInstallationFinishedInner_def OnQueryInstallationFinished_def
        Let_def split_beta NotifyContinuationCallbackResult_settles [OF assms])
qed

section \<open>Requests\<close>

named_theorems bookings

lemma quiet_books: "quiet s s' \<Longrightarrow> books s s'"
  by (simp add: books_def quiet_settles)

lemma settles_books: "settles s s' \<Longrightarrow> books s s'"
  by (simp add: books_def)

lemma books_refl [simp]: "books s s"
  by (simp add: settles_books)

lemmas quiet_bookings [bookings] = quietly [THEN quiet_books] ContinueMission_books

lemma settled_bookings [bookings]:
  assumes "\<And>p v. writable env p v"
  shows "books s (snd (NotifyContinuationResultFromRemote env i ok s))"
    "books s (continuation_timeout env m s)"
    "books s (snd (NotifyCompleteFreeInstallFromRemote env i code s))"
    "books s (free_install_timed_out env i s)"
    "books s (snd (StartContinuation env w m u st tok s))"
  by (rule settles_books, rule result_settles InstallResult_settles StartContinuation_settles, rule assms)+

lemma local_handlers_book:
  assumes "\<And>p v. writable env p v"
  shows "answers (books s) (StartRemoteAbilityInner env data s)"
    "answers (books s) (ContinueMissionInner env data s)"
    "answers (books s) (StartContinuationInner env data s)"
    "answers (books s) (NotifyCompleteContinuationInner env data s)"
    "answers (books s) (ConnectRemoteAbilityInner env data s)"
    "answers (books s) (DisconnectRemoteAbilityInner env data s)"
    "answers (books s) (StartRemoteAbilityByCallInner env data s)"
    "answers (books s) (ReleaseRemoteAbilityInner env data s)"
    "answers (books s) (RegisterDistributedComponentListenerInner env data s)"
    "answers (books s) (GetDistributedComponentListInner env data s)"
    "answers (books s) (StartRemoteFreeInstallInner env data s)"
  unfolding sched_handlers Let_def
  by (intro answers_intro; simp add: bookings assms split_beta)+

lemma remote_handlers_book:
  assumes "\<And>p v. writable env p v"
  shows "answers (books s) (StartAbilityFromRemoteInner env data s)"
    "answers (books s) (SendResultFromRemoteInner env data s)"
    "answers (books s) (NotifyContinuationResultFromRemoteInner env data s)"
    "answers (books s) (DisconnectAbilityFromRemoteInner env data s)"
    "answers (books s) (NotifyProcessDiedFromRemoteInner env data s)"
    "answers (books s) (StartAbilityByCallFromRemoteInner env data s)"
    "answers (books s) (ReleaseAbilityFromRemoteInner env data s)"
    "answers (books s) (StartFreeInstallFromRemoteInner env data s)"
    "answers (books s) (NotifyCompleteFreeInstallFromRemoteInner env data s)"
  unfolding sched_handlers Let_def split_beta
  by (intro answers_intro; simp add: bookings assms)+

lemma ConnectAbilityFromRemoteInner_books: "answers (books s) (ConnectAbilityFromRemoteInner env data s)"
  unfolding sched_handlers Let_def split_beta
  by (intro answers_intro; simp add: quiet_ConnectAbilityFromRemote quiet_books)

section \<open>The service\<close>

abbreviation dms_books :: "dms \<Rightarrow> dms \<Rightarrow> bool" where
  "dms_books d d' \<equiv> books (d_sched d) (d_sched d')"

lemma on_sched_books:
  "answers (books (d_sched d)) (f (conv env) data (d_sched d)) \<Longrightarrow> answers (dms_books d) (on_sched f env data d)"
  by (auto simp: on_sched_def answers_def intro!: answers_intro split: option.splits Option.bind_splits)

lemma on_missions_sched [simp]: "d_sched (snd (on_missions f d)) = d_sched d"
  by (simp add: on_missions_def split_beta)

lemma mission_svc_sched [simp]:
  "d_sched (snd (svc_RegisterMissionListener env dev x d)) = d_sched d"
  "d_sched (snd (svc_UnRegisterMissionListener env dev x d)) = d_sched d"
  "d_sched (snd (svc_StartSyncRemoteMissions env dst d)) = d_sched d"
  "d_sched (snd (svc_StopSyncRemoteMissions env dst d)) = d_sched d"
  "d_sched (snd (svc_NotifyMissionsChangedFromRemote env infos caller d)) = d_sched d"
  "d_sched (snd (svc_StopSyncMissionsFromRemote env caller d)) = d_sched d"
  "d_sched (snd (snd (svc_StartSyncMissionsFromRemote env caller d))) = d_sched d"
  by (simp_all add: svc_RegisterMissionListener_def svc_UnRegisterMissionListener_def
      svc_StartSyncRemoteMissions_def svc_StopSyncRemoteMissions_def svc_NotifyMissionsChangedFromRemote_def
      svc_StopSyncMissionsFromRemote_def svc_StartSyncMissionsFromRemote_def split_beta)

lemma snapshot_svc_sched: "svc_GetRemoteMissionSnapshotInfo env n i d = Some x \<Longrightarrow> d_sched (snd (snd x)) = d_sched d"
  by (auto simp: svc_GetRemoteMissionSnapshotInfo_def)

lemma mission_handlers_book:
  "answers (dms_books d) (RegisterMissionListenerInner env data d)"
  "answers (dms_books d) (UnRegisterMissionListenerInner env data d)"
  "answers (dms_books d) (GetMissionInfosInner env data d)"
  "answers (dms_books d) (StartSyncRemoteMissionsInner env data d)"
  "answers (dms_books d) (StopSyncRemoteMissionsInner env data d)"
  unfolding mission_handlers Let_def split_beta
  by (intro answers_intro; simp split: option.split)+

lemma peer_mission_handlers_book:
  "answers (dms_books d) (StartSyncMissionsFromRemoteInner env data d)"
  "answers (dms_books d) (StopSyncMissionsFromRemoteInner env data d)"
  "answers (dms_books d) (NotifyMissionsChangedFromRemoteInner env data d)"
  unfolding mission_handlers Let_def split_beta
  by (intro answers_intro; simp add: split_beta split: option.split)+

lemma GetRemoteMissionSnapshotInfoInner_books:
  "answers (dms_books d) (GetRemoteMissionSnapshotInfoInner env data d)"
  unfolding mission_handlers Let_def split_beta
  by (intro answers_intro) (auto dest: snapshot_svc_sched split: option.split)

lemma OnRemoteRequest_books:
  assumes "\<And>p v. writable (conv env) p v"
  shows "answers (dms_books d) (OnRemoteRequest env code data d)"
proof (cases "handler_of env code d")
  case None
  then show ?thesis by (simp add: OnRemoteRequest_def split_beta)
next
  case (Some f)
  have "answers (dms_books d) (f env p d)" if "localFuncsMap c = Some f" for c p
    using that by (cases c) (auto simp: local_handlers_book [OF assms] mission_handlers_book
        GetRemoteMissionSnapshotInfoInner_books intro!: on_sched_books)
  moreover have "answers (dms_books d) (f env p d)" if "remoteFuncsMap c = Some f" for c p
    using that by (cases c) (auto simp: local_handlers_book [OF assms] remote_handlers_book [OF assms]
        ConnectAbilityFromRemoteInner_books peer_mission_handlers_book intro!: on_sched_books)
  ultimately have "answers (dms_books d) (f env p d)" for p
    using Some by (auto simp: handler_of_def bind_eq_Some_conv split: if_splits)
  with Some show ?thesis by (simp add: OnRemoteRequest_def split_beta)
qed

section \<open>Every run\<close>

text \<open>Memory suffices for the messages of an event.\<close>

definition writes :: "env \<Rightarrow> bool" where
  "writes env = (\<forall>p v. writable env p v)"

fun event_writes :: "dms_event \<Rightarrow> bool" where
  "event_writes (DMessage env code data) = writes (conv env)"
| "event_writes (DMissionTimer env i) = writes env"
| "event_writes (DInstallTimer env i) = writes env"
| "event_writes (DInstallCallback e code data c) = writes (cb e)"
| "event_writes (DQueryCallback e code data) = writes (cb e)"
| "event_writes e = True"

lemma writesD: "writes env \<Longrightarrow> writable env p v"
  by (simp add: writes_def)

lemma run_adapter_books: "dms_books d (run_adapter env n d)"
proof -
  have "dms_books d (run_adapter_task env t (d\<lparr>adapterTasks := ts\<rparr>))" for t ts
    by (cases t) (simp_all add: adapter_ProcessDeviceOffline_def bookings)
  then show ?thesis by (simp add: run_adapter_def)
qed

lemma wrapper_books: "dms_books d (snd (snd (wrapper_OnRemoteRequest e ok w code data d)))"
  by (auto simp: wrapper_OnRemoteRequest_def connection_OnRemoteRequest_def wrapper_OnAbilityConnectDone_def
      wrapper_OnAbilityDisconnectDone_def proxy_OnAbilityConnectDone_def proxy_OnAbilityDisconnectDone_def
      adapter_ProcessCalleeDied_def post_adapter_def Let_def split_beta tokens_differ quiet_books
      dest!: write_all_Some split: option.split prod.split)

lemma install_callback_books: "books s (snd (snd (install_OnRemoteRequest e code data c s)))"
  by (auto simp: install_OnRemoteRequest_def OnInstallFinishedInner_def Let_def split_beta bookings
      split: option.split)

lemma query_callback_books:
  "writes (cb e) \<Longrightarrow> books s (snd (query_OnRemoteRequest e code data s))"
  by (simp add: settles_books query_settles writesD)

lemma dms_exec_books:
  assumes "event_writes e" and "dms_exec e d = Some d'"
  shows "dms_books d d'"
proof (cases e)
  case (DMessage env code data)
  with assms(1) have "\<And>p v. writable (conv env) p v" by (simp add: writes_def)
  from OnRemoteRequest_books [OF this, of d code data] DMessage assms(2) show ?thesis by (auto simp: answers_def)
next
  case (DMissionTimer env i)
  with assms(1) have "\<And>p v. writable env p v" by (simp add: writes_def)
  note settled_bookings [OF this]
  with DMissionTimer assms(2) show ?thesis by (auto split: option.splits)
next
  case (DInstallTimer env i)
  with assms(1) have "\<And>p v. writable env p v" by (simp add: writes_def)
  note settled_bookings [OF this]
  with DInstallTimer assms(2) show ?thesis by (auto split: option.splits)
qed (use assms in \<open>auto simp: run_adapter_books wrapper_books install_callback_books query_callback_books bookings
    dms_DeviceOnlineNotify_def dms_DeviceOfflineNotify_def adapter_DeviceOnline_def adapter_DeviceOffline_def
    adapter_ProcessConnectDied_def adapter_ProcessCalleeDied_def adapter_ProcessCallerDied_def post_adapter_def
    Let_def split: option.splits\<close>)

text \<open>The callbacks that entered the table during a run, counted as often as they did.\<close>

fun entries :: "dms_event list \<Rightarrow> dms \<Rightarrow> robj multiset" where
  "entries [] d = {#}"
| "entries (e # es) d =
     (case dms_exec e d of
        None \<Rightarrow> {#}
      | Some d' \<Rightarrow> (pending (d_sched d') - pending (d_sched d)) + entries es d')"

lemma books_step:
  assumes "books s s'" and "timed s"
  shows "timed s'"
    "told (history s') + pending s' = told (history s) + pending s + (pending s' - pending s)"
  using assms by (auto simp: books_def settles_def registers_def Diff_eq_empty_iff_mset)

lemma run_books:
  assumes "timed (d_sched d)" and "list_all event_writes es" and "run dms_step (Some d) es = Some d'"
  shows "timed (d_sched d') \<and> told (history (d_sched d')) + pending (d_sched d') =
    told (history (d_sched d)) + pending (d_sched d) + entries es d"
  using assms
proof (induction es arbitrary: d)
  case (Cons e es)
  show ?case
  proof (cases "dms_exec e d")
    case None
    have "run dms_step None fs = None" for fs by (induction fs) (simp_all add: dms_step_def)
    moreover have "dms_step (Some d) e = None" using None by (simp add: dms_step_def)
    ultimately show ?thesis using Cons.prems(3) by simp
  next
    case (Some d1)
    have b: "books (d_sched d) (d_sched d1)" using Cons.prems(2) dms_exec_books [OF _ Some] by simp
    note step = books_step [OF b Cons.prems(1)]
    have "dms_step (Some d) e = Some d1" using Some by (simp add: dms_step_def)
    then have "run dms_step (Some d1) es = Some d'" using Cons.prems(3) by simp
    with Cons.IH [OF step(1)] Cons.prems(2) step(2) show ?thesis by (simp add: Some add.assoc)
  qed
qed simp

lemma started_books:
  "timed (d_sched (dms_OnStart env new_dms))" "told (history (d_sched (dms_OnStart env new_dms))) = {#}"
  "pending (d_sched (dms_OnStart env new_dms)) = {#}"
  by (simp_all add: dms_OnStart_def service_Init_def adapter_Init_def new_dms_def Let_def timed_def in_progress_def
      pending_def service_OnStart_def cont_Init_def new_continuation_def initial_sched_def IsInContinuationProgress_def
      map_ok_def)

lemma timer_ends:
  assumes "dms_exec (DMissionTimer env i) d = Some d'" and "0 < sint i"
  shows "\<not> in_progress (sint i) (d_sched d')"
proof -
  have "\<not> in_progress m (NotifyContinuationCallbackResult env m code s)" for m code s
    by (auto simp: NotifyContinuationCallbackResult_def NotifyMissionCenterResult_def in_progress_def Let_def
        split_beta cont_PopCallback_def IsInContinuationProgress_def call_eq split: option.split)
  with assms show ?thesis by (auto simp: cont_ProcessEvent_def Let_def continuation_timeout_def)
qed


text \<open>A mission whose device never answers: its timer tells the callback.\<close>

definition migrating_menv :: menv where
  "migrating_menv = app_sample\<lparr>conv := (conv app_sample)
     \<lparr>mission_want := \<lambda>h m. Some (SchedProps.sample_want ''A'')\<rparr>\<rparr>"

definition continue_data :: parcel where
  "continue_data = [PString ''A'', PString ''B'', PInt32 5, PObject (Proxy 3),
     PNested (marshal_params (conv migrating_menv) [])]"

definition migration :: "dms_event list" where
  "migration = [DMessage migrating_menv (code_of CONTINUE_MISSION) (PToken SCHED_STUB_INTERFACE_TOKEN # continue_data),
     DMissionTimer (conv migrating_menv) 5]"


end
