(* ===== verification/Spec2Isabelle.thy ===== *)
theory Spec2Isabelle
  imports AbilityManagerIpc InstallProps MissionProps DeviceStorage SchedMessages
    SchedCallbacks TwoDevices JsProps NetworkChanges ServiceProps EventReports ConnectRaces MissionAnswers
begin

text \<open>
  A verification of the distributed scheduler framework (DMS) of OpenHarmony, the system
  ability that starts, connects, calls, installs and migrates abilities on other devices.

  \<^bold>\<open>The program.\<close> One process holds two services. The scheduler
  (\<^verbatim>\<open>services/dtbschedmgr\<close>) takes requests of local applications and of the schedulers of other
  devices; its stub decodes them, its tables remember who is connected with, calls, installs or
  migrates what, and it calls the ability manager, the bundle manager and other schedulers. The
  continuation manager (\<^verbatim>\<open>services/dtbabilitymgr\<close>) gives applications tokens and tells them
  which devices the user chose in the device panel, which it connects to through the scheduler.
  Both stand on \<^verbatim>\<open>services/base\<close>, which follows the devices in the network. The mission manager
  (\<^verbatim>\<open>dtbschedmgr/src/mission\<close>) follows the missions of other devices and keeps their snapshots
  in a distributed data base.

  \<^bold>\<open>Conventions.\<close>
  \<^item> A class with state is a record; an operation is a function from the state, with its
    arguments, to its result and the new state. A \<^verbatim>\<open>std::map\<close> or \<^verbatim>\<open>std::set\<close> is a sorted list
    (\<open>StdMap\<close>). Locked sections are steps, work posted to an event handler is in a queue of the
    state and runs as a step of its own (\<open>run_next\<close>, \<open>run_dn_next\<close>, \<open>run_adapter\<close>). Requests
    to connect are also cut into their steps, which overlap with one another and with all other
    requests (\<open>ConnectRaces\<close>); other races between locked sections are outside the model, except as
    findings note them.
  \<^item> A call that leaves the process is an event appended to a history (\<open>history\<close>, \<open>dams_trace\<close>,
    \<open>ds_history\<close>, \<open>dn_history\<close> and the histories of the missions). What the other side answers is
    a function of the history, a field of an environment record (\<open>env\<close>, \<open>dams_env\<close>, \<open>ds_env\<close>,
    \<open>dn_env\<close>, \<open>cb_env\<close> and that of \<open>MissionEnv\<close>); nothing is assumed of it but what a theorem
    states.
  \<^item> A message is the list of typed values written to it (\<open>Parcel\<close>); wants, elements and
    other types of the platform are marshalled by functions of the environment. \<open>good_parcels\<close> and
    \<open>good_ipc\<close> say that these read back what they wrote, as documented; \<open>IpcSample\<close> shows an
    environment where they do.
  \<^item> Where the code can dereference null, or throws what nobody catches, the process dies and the
    result is \<open>None\<close>. Error codes are those of \<^verbatim>\<open>dtbschedmgr_log.h\<close> (\<open>ErrorCodes\<close>).
  \<^item> Counters keep their width: tokens and session ids are 32-bit, task ids 64-bit words, the
    length fields of a snapshot 32-bit words.

  \<^bold>\<open>The theories.\<close>
  \<^item> Foundations: \<open>DmsPrelude\<close> (collections, objects, the locales \<open>guarded_machine\<close> and
    \<open>machine\<close>, from which components take reachability and invariants), \<open>StdMap\<close> (the locale
    \<open>keyed_store\<close> and its model), \<open>StdString\<close>, \<open>Parcel\<close>, \<open>RetryLoop\<close> (the locale \<open>retry\<close>: loops that
    wait end and sleep at most so often), \<open>ErrorCodes\<close>, \<open>DmsTypes\<close> (wants, callers, accounts, the
    environment of the scheduler).
  \<^item> Continuation manager: \<open>ContinuationData\<close> (results, extra parameters and their
    marshalling), \<open>AbilityManager\<close> (state \<open>dams\<close>: tokens, notifiers, the panel's proxy),
    \<open>AbilityManagerOps\<close> (\<^verbatim>\<open>distributed_ability_manager_service.cpp\<close>), \<open>AbilityManagerRun\<close> (its
    tasks), \<open>AbilityManagerInv\<close> and \<open>AbilityManagerProps\<close> (the tables agree in every reachable
    state, tokens, the only ways to die), \<open>AbilityManagerIpc\<close> (stub, proxy, notifier, panel
    callback; a call through them is the operation), \<open>ContinuationClient\<close>
    (\<^verbatim>\<open>distributed_ability_manager_client.cpp\<close>).
  \<^item> Its JavaScript interface (\<^verbatim>\<open>interfaces/kits/napi/continuation_manager\<close>): \<open>JsBindings\<close> (state
    \<open>js_state\<close>: the registered functions, the listeners, the tasks of the engine, which is the
    parameter \<open>js_engine\<close>), \<open>JsProps\<close> (well typed calls are the operations of the service, a
    selection of devices reaches the function registered for it).
  \<^item> Tables of the scheduler: \<open>Permission\<close> (\<^verbatim>\<open>distributed_sched_permission.cpp\<close>,
    \<^verbatim>\<open>bundle_manager_internal.cpp\<close>), \<open>Continuation\<close> (\<^verbatim>\<open>distributed_sched_continuation.cpp\<close>),
    \<open>CallbackTask\<close> (\<^verbatim>\<open>dms_callback_task.cpp\<close>).
  \<^item> The scheduler, \<^verbatim>\<open>distributed_sched_service.cpp\<close> and \<^verbatim>\<open>distributed_sched_adapter.cpp\<close>:
    \<open>SchedState\<close> (state \<open>sched\<close>), \<open>SchedConnect\<close> and \<open>SchedCall\<close> (connections and calls in both
    directions, devices that leave, processes that die), \<open>SchedContinue\<close> (starts, free installs,
    migration). \<open>SchedInv\<close>, \<open>SchedMachine\<close>, \<open>SchedTables\<close>, \<open>SchedProps\<close> show that the tables agree
    and the number of connections is counted, and what refines the abstract links; \<open>SchedEffects\<close>
    which messages an operation sends; \<open>ConnectRaces\<close> how far requests that overlap pass the limit on
    connections; \<open>SchedRemote\<close> the requests of other devices; \<open>TwoDevices\<close>
    links two schedulers: what one counts as connected, the other has;
    \<open>ContinueProps\<close>, \<open>MigrationProps\<close> and \<open>InstallProps\<close> the migration of missions and free
    installs; \<open>MissionAnswers\<close> follows the callback of every mission through the runs of the
    whole service (it is told once, and never waits without a timer).
  \<^item> Missions: \<open>MissionData\<close> (\<^verbatim>\<open>distributed_mission_info.cpp\<close>, \<^verbatim>\<open>mission_info_converter.cpp\<close>),
    \<open>SnapshotData\<close> (\<^verbatim>\<open>snapshot.cpp\<close>, \<^verbatim>\<open>snapshot_converter.cpp\<close>), \<open>MissionEnv\<close>, \<open>DataStorage\<close>
    (\<^verbatim>\<open>distributed_data_storage.cpp\<close> and its listeners), \<open>MissionState\<close> and \<open>MissionSync\<close>
    (\<^verbatim>\<open>distributed_sched_mission_manager.cpp\<close>), \<open>MissionInv\<close> and \<open>MissionProps\<close> (the tables agree,
    the cache is bounded, missions arrive, what is lost after a restart).
  \<^item> The whole service and its messages: \<open>DmsService\<close> (state \<open>dms\<close>: scheduler, missions and
    the handler of the adapter), \<open>SchedStub\<close> and \<open>SchedStubMap\<close> (\<^verbatim>\<open>distributed_sched_stub.cpp\<close>;
    strangers are refused), \<open>SchedProxy\<close> (\<^verbatim>\<open>distributed_sched_proxy.cpp\<close>), \<open>SchedMessages\<close> (through
    proxy and stub a request is the operation on the other device), \<open>LocalMessages\<close> (the same for the
    requests of local applications), \<open>SchedCallbacks\<close> (connection
    objects, the panel, install callbacks, the answer of the bundle manager, the dump), \<open>ServiceInv\<close>
    (the machine \<open>dms_step\<close> over everything that can happen to the service; each operation keeps the
    invariants of all parts) and \<open>ServiceProps\<close> (the tables stay consistent, and the only messages
    that can end the process), \<open>EventReports\<close> (\<^verbatim>\<open>dms_hisysevent_report.cpp\<close>; the event log tells of
    exactly the requests that were served).
  \<^item> Devices: \<open>DeviceStorage\<close> (\<^verbatim>\<open>dtbschedmgr_device_info_storage.cpp\<close>; the table refines the set of
    devices in the network), \<open>SoftBus\<close> (\<^verbatim>\<open>dnetwork_adapter.cpp\<close>), \<open>NetworkChanges\<close> (from the
    notice of the soft bus through the three queues to the tables of the scheduler).

  \<^bold>\<open>Bounds.\<close> Every loop of the model is structural or counts down, so no result depends on a
  fuel: waiting loops make at most the attempts the code allows (\<open>RetryLoop\<close>), the registration
  with the soft bus five. A caller has at most \<open>MAX_REGISTER_NUM\<close> tokens, a user at most 600
  connections, or \<open>599 + k\<close> when \<open>k\<close> requests to connect overlap, the snapshot cache ten entries; connecting sends at most three requests.

  \<^bold>\<open>Not modelled.\<close> The runtime of the JavaScript engine makes the promise a call returns at
  once, frees the native object and loads the module (\<^verbatim>\<open>continuation_manager_module.cpp\<close>). Trace
  chains (\<^verbatim>\<open>dms_hitrace_chain.cpp\<close>) and logging do not change what the service does.
  \<open>OnDeviceInfoChanged\<close>, \<open>OnNodeBasicInfoChanged\<close> and other empty handlers have no effect. The
  text of JSON messages, the byte encoding of messages, the image library, the data base, the
  JavaScript engine and the soft bus are parameters.
\<close>

end
